(* ===== verification/Prelude.thy ===== *)
theory Prelude
  imports Main "HOL-Library.Word" "HOL-Library.Sublist" "HOL-Library.List_Lexorder"
begin

text \<open>
  Shared by every theory of the development: the collections of simplification rules that the
  component theories fill, and the generic facts on lists, prefixes and concatenations of
  codewords that more than one of them uses.

  \<^item> \<open>js_eval\<close>: equations that evaluate the string functions of the JavaScript library
    on literals;
  \<^item> \<open>box_simps\<close>: field-by-field behaviour of the search box handlers;
  \<^item> \<open>dom_simps\<close>: navigation and update in the document trees.
\<close>

named_theorems js_eval
named_theorems box_simps
named_theorems dom_simps

subsection \<open>Lists\<close>

lemma prefix_take_iff: "prefix xs ys \<longleftrightarrow> length xs \<le> length ys \<and> take (length xs) ys = xs"
  by (metis append_eq_conv_conj append_take_drop_id prefix_def prefix_length_le)

lemma dropWhile_id: "(\<And>x. x \<in> set xs \<Longrightarrow> \<not> P x) \<Longrightarrow> dropWhile P xs = xs"
  by (cases xs) auto

lemma takeWhile_append_stop:
  "(\<And>x. x \<in> set xs \<Longrightarrow> P x) \<Longrightarrow> \<not> P y \<Longrightarrow> takeWhile P (xs @ y # ys) = xs"
  by (induction xs) auto

lemma dropWhile_append_stop:
  "(\<And>x. x \<in> set xs \<Longrightarrow> P x) \<Longrightarrow> \<not> P y \<Longrightarrow> dropWhile P (xs @ y # ys) = y # ys"
  by (induction xs) auto

lemma find_SomeD: "List.find P xs = Some x \<Longrightarrow> x \<in> set xs \<and> P x"
  by (induction xs) (auto split: if_splits)

subsection \<open>Codes whose codewords are not prefixes of each other\<close>

text \<open>
  A code gives every symbol a nonempty word such that no word is a proper prefix of another.
  Encoding a list symbol by symbol then reflects the prefix order, which is what makes a
  prefix search over encoded names a prefix search over the names themselves.
\<close>

locale prefix_code =
  fixes code :: "'a \<Rightarrow> 'b list"
  assumes code_nonempty: "code x \<noteq> []"
    and code_prefix_free: "prefix (code x) (code y) \<Longrightarrow> x = y"
begin

lemma code_append_prefix:
  "prefix (code x @ us) (code y @ vs) \<longleftrightarrow> x = y \<and> prefix us vs"
proof
  assume p: "prefix (code x @ us) (code y @ vs)"
  then have "prefix (code x) (code y @ vs)" by (rule append_prefixD)
  then have "prefix (code x) (code y) \<or> prefix (code y) (code x)"
    by (meson prefixI prefix_same_cases)
  then have "x = y" using code_prefix_free by metis
  with p show "x = y \<and> prefix us vs" by simp
qed simp

lemma encode_prefix_iff:
  "prefix (concat (map code xs)) (concat (map code ys)) \<longleftrightarrow> prefix xs ys"
proof (induction xs arbitrary: ys)
  case Nil
  then show ?case by simp
next
  case (Cons x xs)
  show ?case
  proof (cases ys)
    case Nil
    then show ?thesis using code_nonempty [of x] by simp
  next
    case (Cons y zs)
    then show ?thesis by (simp add: code_append_prefix Cons.IH)
  qed
qed

lemma encode_inj: "concat (map code xs) = concat (map code ys) \<longleftrightarrow> xs = ys"
  by (metis encode_prefix_iff prefix_order.antisym prefix_order.refl)

end

end
