(* ===== verification/JsString.thy ===== *)
theory JsString
  imports Prelude
begin

text \<open>
  The part of the JavaScript string library that \<open>docs/docs/search/search.js\<close> uses. A
  JavaScript string is a list of UTF-16 code units, so a unit is a 16-bit word and the length
  of a string counts units, not characters. Everything here is the documented behaviour of the
  ECMAScript library; the only parameter is the Unicode lower-case mapping of strings that are
  not pure ASCII, which every function that lower-cases takes as the argument \<open>U\<close>.
\<close>

type_synonym jschar = "16 word"
type_synonym jsstring = "jschar list"

text \<open>What a failed property access or call raises.\<close>

datatype js_error = TypeError

text \<open>A literal of the source, given as an Isabelle string.\<close>

definition js :: "string \<Rightarrow> jsstring" where
  "js s = map of_char s"

lemma js_Nil [simp]: "js [] = []"
  by (simp add: js_def)

lemma js_Cons: "js (c # s) = of_char c # js s"
  by (simp add: js_def)

lemma js_append: "js (s @ t) = js s @ js t"
  by (simp add: js_def)

lemma length_js [simp]: "length (js s) = length s"
  by (simp add: js_def)

lemma js_eq_Nil [simp]: "js s = [] \<longleftrightarrow> s = []" "[] = js s \<longleftrightarrow> s = []"
  by (simp_all add: js_def)

lemma of_char_unit_nat: "unat (of_char c :: jschar) = of_char c"
proof -
  have "(of_char c :: nat) < 65536" by (rule less_trans [OF nat_of_char_less_256]) simp
  then have "unat (of_nat (of_char c) :: jschar) = of_char c"
    by (simp add: unat_of_nat del: of_nat_of_char)
  then show ?thesis by (simp only: of_nat_of_char)
qed

lemma inj_js [simp]: "js s = js t \<longleftrightarrow> s = t"
proof -
  have "inj (of_char :: char \<Rightarrow> jschar)"
    by (rule injI) (metis of_char_unit_nat of_char_eq_iff)
  then show ?thesis by (simp add: js_def inj_map_eq_map)
qed

subsection \<open>Lower case\<close>

text \<open>\<open>String.prototype.toLowerCase\<close>: exact on ASCII strings, the parameter elsewhere.\<close>

type_synonym unicode_lower = "jsstring \<Rightarrow> jsstring"

definition ascii_lower :: "jschar \<Rightarrow> jschar" where
  "ascii_lower c = (if 65 \<le> c \<and> c \<le> 90 then c + 32 else c)"

definition ascii :: "jsstring \<Rightarrow> bool" where
  "ascii s \<longleftrightarrow> list_all (\<lambda>c. c < 128) s"

definition toLowerCase :: "unicode_lower \<Rightarrow> jsstring \<Rightarrow> jsstring" where
  "toLowerCase U s = (if ascii s then map ascii_lower s else U s)"

lemma ascii_simps [simp]:
  "ascii []" "ascii (c # s) \<longleftrightarrow> c < 128 \<and> ascii s" "ascii (s @ t) \<longleftrightarrow> ascii s \<and> ascii t"
  by (simp_all add: ascii_def)

lemma ascii_lower_unat: "unat (ascii_lower c) = (if 65 \<le> unat c \<and> unat c \<le> 90 then unat c + 32 else unat c)"
proof (cases "65 \<le> c \<and> c \<le> 90")
  case True
  then have "65 \<le> unat c" "unat c \<le> 90" by (simp_all add: word_le_nat_alt)
  then show ?thesis using True by (simp add: ascii_lower_def unat_word_ariths)
next
  case False
  then have "ascii_lower c = c" by (auto simp: ascii_lower_def)
  with False show ?thesis by (auto simp: word_le_nat_alt)
qed

lemma ascii_lower_idem [simp]: "ascii_lower (ascii_lower c) = ascii_lower c"
  by (auto simp: word_unat_eq_iff ascii_lower_unat)

lemma ascii_lower_ascii [simp]: "ascii_lower c < 128 \<longleftrightarrow> c < 128"
  by (auto simp: word_less_nat_alt ascii_lower_unat)

lemma ascii_lower_space [simp]: "ascii_lower c = 32 \<longleftrightarrow> c = 32"
  by (auto simp: word_unat_eq_iff ascii_lower_unat)

lemma ascii_map_lower [simp]: "ascii (map ascii_lower s) = ascii s"
  by (induction s) auto

lemma toLowerCase_ascii: "ascii s \<Longrightarrow> toLowerCase U s = map ascii_lower s"
  by (simp add: toLowerCase_def)

lemma toLowerCase_Nil [simp]: "toLowerCase U [] = []"
  by (simp add: toLowerCase_def)

subsection \<open>The regular expressions of the search code\<close>

text \<open>\<open>replace(/^ +/, "")\<close>, \<open>replace(/ +$/, "")\<close> and \<open>replace(/ +/g, "")\<close>.\<close>

definition strip_leading :: "jsstring \<Rightarrow> jsstring" where
  "strip_leading s = dropWhile (\<lambda>c. c = 32) s"

definition strip_trailing :: "jsstring \<Rightarrow> jsstring" where
  "strip_trailing s = rev (dropWhile (\<lambda>c. c = 32) (rev s))"

definition strip_spaces :: "jsstring \<Rightarrow> jsstring" where
  "strip_spaces s = filter (\<lambda>c. c \<noteq> 32) s"

lemma strip_leading_idem [simp]: "strip_leading (strip_leading s) = strip_leading s"
  by (simp add: strip_leading_def)

lemma strip_leading_eq_Nil: "strip_leading s = [] \<longleftrightarrow> strip_spaces s = []"
  by (simp add: strip_leading_def strip_spaces_def filter_empty_conv)

lemma ascii_strip_leading [simp]: "ascii s \<Longrightarrow> ascii (strip_leading s)"
  by (auto simp: ascii_def list_all_iff strip_leading_def dest: set_dropWhileD)

lemma ascii_strip_trailing [simp]: "ascii s \<Longrightarrow> ascii (strip_trailing s)"
  by (auto simp: ascii_def list_all_iff strip_trailing_def dest!: set_dropWhileD)

subsection \<open>Numbers as text\<close>

text \<open>
  \<open>Number.prototype.toString(16)\<close> on a nonnegative integer, and the decimal text that
  \<open>'Item' + index\<close> concatenates (a minus sign for a negative index).
\<close>

definition digit_unit :: "nat \<Rightarrow> jschar" where
  "digit_unit d = (if d < 10 then of_nat (48 + d) else of_nat (87 + d))"

fun toString_base :: "nat \<Rightarrow> nat \<Rightarrow> jsstring" where
  "toString_base b n =
     (if b < 2 \<or> n < b then [digit_unit n] else toString_base b (n div b) @ [digit_unit (n mod b)])"

declare toString_base.simps [simp del]

definition toString16 :: "nat \<Rightarrow> jsstring" where
  "toString16 n = toString_base 16 n"

definition js_int :: "int \<Rightarrow> jsstring" where
  "js_int i = (if i < 0 then 45 # toString_base 10 (nat (- i)) else toString_base 10 (nat i))"

lemma unat_digit_unit: "d < 36 \<Longrightarrow> unat (digit_unit d) = (if d < 10 then 48 + d else 87 + d)"
  by (simp add: digit_unit_def unat_of_nat del: of_nat_add)

lemma digit_unit_inj: "d < 36 \<Longrightarrow> e < 36 \<Longrightarrow> digit_unit d = digit_unit e \<longleftrightarrow> d = e"
  by (auto simp: word_unat_eq_iff unat_digit_unit split: if_splits)

lemma toString_base_small: "n < b \<Longrightarrow> toString_base b n = [digit_unit n]"
  by (subst toString_base.simps) simp

lemma toString_base_step:
  "2 \<le> b \<Longrightarrow> \<not> n < b \<Longrightarrow>
     toString_base b n = toString_base b (n div b) @ [digit_unit (n mod b)]"
  by (subst toString_base.simps) simp

lemma toString_base_nonempty [simp]: "toString_base b n \<noteq> []" "[] \<noteq> toString_base b n"
  by (subst toString_base.simps; simp)+

lemma toString_base_digits:
  "2 \<le> b \<Longrightarrow> u \<in> set (toString_base b n) \<Longrightarrow> \<exists>d<b. u = digit_unit d"
proof (induction b n rule: toString_base.induct)
  case (1 b n)
  show ?case
  proof (cases "n < b")
    case True
    with 1(3) show ?thesis by (auto simp: toString_base_small)
  next
    case False
    with 1(2,3) have "u \<in> set (toString_base b (n div b)) \<or> u = digit_unit (n mod b)"
      by (auto simp: toString_base_step)
    moreover have "\<exists>d<b. u = digit_unit d" if "u \<in> set (toString_base b (n div b))"
      using 1(1) [OF _ 1(2) that] 1(2) False by simp
    moreover have "n mod b < b" using 1(2) by simp
    ultimately show ?thesis by blast
  qed
qed

lemma toString_base_inj:
  "2 \<le> b \<Longrightarrow> b \<le> 36 \<Longrightarrow> toString_base b m = toString_base b n \<Longrightarrow> m = n"
proof (induction b m arbitrary: n rule: toString_base.induct)
  case (1 b m)
  note b = 1(2,3) and eq = 1(4)
  show ?case
  proof (cases "m < b \<or> n < b")
    case True
    with eq b have "m < b" "n < b"
      by (cases "m < b"; cases "n < b"; simp add: toString_base_small toString_base_step)+
    with eq b show ?thesis using digit_unit_inj [of m n] by (simp add: toString_base_small)
  next
    case False
    have lt: "m mod b < 36" "n mod b < 36"
      using b by (auto intro: less_le_trans [OF mod_less_divisor])
    from False eq b have "toString_base b (m div b) = toString_base b (n div b)"
      and "digit_unit (m mod b) = digit_unit (n mod b)" by (simp_all add: toString_base_step)
    then have "m div b = n div b" "m mod b = n mod b"
      using 1(1) [OF _ b] False b digit_unit_inj [OF lt] by auto
    then show ?thesis by (metis div_mult_mod_eq)
  qed
qed

lemma decimal_no_minus: "45 # toString_base 10 m \<noteq> toString_base 10 n"
proof
  assume "45 # toString_base 10 m = toString_base 10 n"
  then have "45 \<in> set (toString_base 10 n)" by (metis list.set_intros(1))
  then obtain d where "d < 10" and "45 = digit_unit d"
    using toString_base_digits [of 10] by fastforce
  then show False by (simp add: word_unat_eq_iff unat_digit_unit)
qed

lemma js_int_inj [simp]: "js_int i = js_int j \<longleftrightarrow> i = j"
proof
  assume eq: "js_int i = js_int j"
  have inj: "m = n" if "toString_base 10 m = toString_base 10 n" for m n
    using toString_base_inj [OF _ _ that] by simp
  show "i = j"
  proof (cases "i < 0"; cases "j < 0")
    assume "i < 0" "j < 0"
    with eq have "nat (- i) = nat (- j)" by (simp add: js_int_def inj)
    with \<open>i < 0\<close> \<open>j < 0\<close> show ?thesis by simp
  next
    assume "\<not> i < 0" "\<not> j < 0"
    with eq have "nat i = nat j" by (simp add: js_int_def inj)
    with \<open>\<not> i < 0\<close> \<open>\<not> j < 0\<close> show ?thesis by simp
  qed (use eq decimal_no_minus in \<open>auto simp: js_int_def dest: sym\<close>)
qed simp

text \<open>Numbers as text hold no underscore, so a number ends where an underscore starts.\<close>

lemma js_int_no_underscore: "95 \<notin> set (js_int i)"
proof -
  have "95 \<notin> set (toString_base 10 n)" for n
  proof
    assume "95 \<in> set (toString_base 10 n)"
    then obtain d where "d < 10" and "95 = digit_unit d"
      using toString_base_digits [of 10] by fastforce
    then show False by (simp add: word_unat_eq_iff unat_digit_unit)
  qed
  then show ?thesis by (simp add: js_int_def)
qed

lemma js_int_underscore_split:
  "js_int i @ 95 # s = js_int j @ 95 # t \<longleftrightarrow> i = j \<and> s = t"
proof
  assume eq: "js_int i @ 95 # s = js_int j @ 95 # t"
  have tw: "takeWhile (\<lambda>c. c \<noteq> 95) (js_int k @ 95 # r) = js_int k" for k r
    using js_int_no_underscore [of k] by (intro takeWhile_append_stop) auto
  have "js_int i = js_int j" using eq tw by metis
  then show "i = j \<and> s = t" using eq by simp
qed simp

subsection \<open>Searching inside a string\<close>

text \<open>\<open>String.prototype.indexOf\<close>: the first position where the pattern occurs.\<close>

fun indexOf :: "jsstring \<Rightarrow> jsstring \<Rightarrow> nat option" where
  "indexOf [] t = (if t = [] then Some 0 else None)"
| "indexOf (c # s) t = (if prefix t (c # s) then Some 0 else map_option Suc (indexOf s t))"

lemma indexOf_Some_drop: "indexOf s t = Some i \<Longrightarrow> i \<le> length s \<and> prefix t (drop i s)"
  by (induction s arbitrary: i) (auto split: if_splits)

lemma indexOf_single: "indexOf s [c] = Some i \<Longrightarrow> i < length s \<and> s ! i = c"
  by (induction s arbitrary: i) (auto split: if_splits)

lemma indexOf_single_in: "c \<in> set s \<Longrightarrow> \<exists>i. indexOf s [c] = Some i"
  by (induction s) auto

lemma indexOf_nth: "distinct s \<Longrightarrow> i < length s \<Longrightarrow> indexOf s [s ! i] = Some i"
proof (induction s arbitrary: i)
  case (Cons c s)
  then show ?case by (cases i) auto
qed simp

subsection \<open>\<open>escape\<close> and \<open>unescape\<close>\<close>

text \<open>
  The two functions of ECMAScript Annex B. \<open>escape\<close> keeps the letters, the digits and
  \<open>@*_+-./\<close>, writes a unit below 256 as \<open>%XX\<close> and any other as \<open>%uXXXX\<close>;
  \<open>unescape\<close> undoes both forms and leaves every other \<open>%\<close> alone.
\<close>

definition unreserved :: "jschar \<Rightarrow> bool" where
  "unreserved c \<longleftrightarrow> (65 \<le> c \<and> c \<le> 90) \<or> (97 \<le> c \<and> c \<le> 122) \<or> (48 \<le> c \<and> c \<le> 57) \<or>
     c \<in> set (js ''@*_+-./'')"

definition hex_upper :: "nat \<Rightarrow> jschar" where
  "hex_upper d = (if d < 10 then of_nat (48 + d) else of_nat (55 + d))"

definition hex_value :: "jschar \<Rightarrow> nat option" where
  "hex_value c =
     (let n = unat c in
      if 48 \<le> n \<and> n \<le> 57 then Some (n - 48)
      else if 65 \<le> n \<and> n \<le> 70 then Some (n - 55)
      else if 97 \<le> n \<and> n \<le> 102 then Some (n - 87)
      else None)"

definition escape_unit :: "jschar \<Rightarrow> jsstring" where
  "escape_unit c =
     (let n = unat c in
      if unreserved c then [c]
      else if n < 256 then [37, hex_upper (n div 16), hex_upper (n mod 16)]
      else [37, 117, hex_upper (n div 4096), hex_upper (n div 256 mod 16),
            hex_upper (n div 16 mod 16), hex_upper (n mod 16)])"

definition escape :: "jsstring \<Rightarrow> jsstring" where
  "escape s = concat (map escape_unit s)"

fun hex_digits_value :: "nat \<Rightarrow> jsstring \<Rightarrow> nat option" where
  "hex_digits_value acc [] = Some acc"
| "hex_digits_value acc (c # s) =
     (case hex_value c of None \<Rightarrow> None | Some d \<Rightarrow> hex_digits_value (16 * acc + d) s)"

text \<open>What follows a percent sign: the unit it stands for and how many units it takes.\<close>

definition unescape_at :: "jsstring \<Rightarrow> (jschar \<times> nat) option" where
  "unescape_at r =
     (if 5 \<le> length r \<and> hd r = 117 then
        map_option (\<lambda>v. (of_nat v, 5)) (hex_digits_value 0 (take 4 (tl r)))
      else if 2 \<le> length r then
        map_option (\<lambda>v. (of_nat v, 2)) (hex_digits_value 0 (take 2 r))
      else None)"

function unescape :: "jsstring \<Rightarrow> jsstring" where
  "unescape [] = []"
| "unescape (c # r) =
     (case (if c = 37 then unescape_at r else None) of
        Some (v, n) \<Rightarrow> v # unescape (drop n r)
      | None \<Rightarrow> c # unescape r)"
  by pat_completeness auto
termination
  by (relation "measure length") auto

lemma unat_hex_upper: "d < 16 \<Longrightarrow> unat (hex_upper d) = (if d < 10 then 48 + d else 55 + d)"
  by (simp add: hex_upper_def unat_of_nat del: of_nat_add)

lemma hex_value_upper [simp]: "d < 16 \<Longrightarrow> hex_value (hex_upper d) = Some d"
  by (auto simp: hex_value_def unat_hex_upper Let_def)

lemma hex_upper_not_u: "d < 16 \<Longrightarrow> hex_upper d \<noteq> 117"
  by (auto simp: word_unat_eq_iff unat_hex_upper)

lemma percent_reserved: "unreserved c \<Longrightarrow> c \<noteq> 37"
  by (auto simp: unreserved_def js_def)

lemma four_hex_digits:
  "4096 * (n div 4096) + 256 * (n div 256 mod 16) + 16 * (n div 16 mod 16) + n mod 16 = (n::nat)"
proof -
  have "n div 4096 = n div 256 div 16" "n div 256 = n div 16 div 16"
    by (simp_all add: div_mult2_eq [symmetric])
  then have "16 * (16 * (16 * (n div 4096) + n div 256 mod 16) + n div 16 mod 16) + n mod 16 = n"
    by (simp only: mult_div_mod_eq)
  then show ?thesis by simp
qed

lemma unescape_escape_unit: "unescape (escape_unit c @ r) = c # unescape r"
proof -
  have lt: "unat c < 65536" using unsigned_less [of c] by simp
  show ?thesis
  proof (cases "unreserved c")
    case True
    then show ?thesis using percent_reserved [OF True] by (simp add: escape_unit_def)
  next
    case reserved: False
    show ?thesis
    proof (cases "unat c < 256")
      case True
      then have "unat c div 16 < 16" "unat c mod 16 < 16" by auto
      with True reserved show ?thesis
        by (simp add: escape_unit_def Let_def unescape_at_def hex_upper_not_u)
    next
      case False
      with lt reserved show ?thesis
        by (simp add: escape_unit_def Let_def unescape_at_def four_hex_digits
            less_mult_imp_div_less del: of_nat_add of_nat_mult)
    qed
  qed
qed

lemma unescape_escape [simp]: "unescape (escape s) = s"
proof -
  have "unescape (concat (map escape_unit s) @ []) = s"
    by (induction s) (simp_all add: unescape_escape_unit)
  then show ?thesis by (simp add: escape_def)
qed

subsection \<open>The query of a location\<close>

text \<open>
  \<open>Location.search\<close>: the part of an address from its first question mark up to a hash sign,
  and the empty string when nothing follows the question mark. The address parser rewrites
  some units of a query (a space, a quote, \<open><\<close>, \<open>>\<close>, a control or a non-ASCII unit);
  \<open>query_safe\<close> names the units it keeps, and \<open>escape\<close> writes no other.
\<close>

definition location_search :: "jsstring \<Rightarrow> jsstring" where
  "location_search a =
     (let q = dropWhile (\<lambda>c. c \<noteq> 63) (takeWhile (\<lambda>c. c \<noteq> 35) a)
      in if length q \<le> 1 then [] else q)"

definition query_safe :: "jschar \<Rightarrow> bool" where
  "query_safe c \<longleftrightarrow> unreserved c \<or> c = 37"

lemma unreserved_unat: "unreserved c \<longleftrightarrow> (65 \<le> unat c \<and> unat c \<le> 90) \<or> (97 \<le> unat c \<and> unat c \<le> 122) \<or>
    (48 \<le> unat c \<and> unat c \<le> 57) \<or> unat c \<in> {64, 42, 95, 43, 45, 46, 47}"
  by (simp add: unreserved_def js_def word_le_nat_alt word_unat_eq_iff)

lemma hex_upper_safe [simp]: "d < 16 \<Longrightarrow> query_safe (hex_upper d)"
  by (simp add: query_safe_def unreserved_unat unat_hex_upper)

lemma escape_unit_safe: "list_all query_safe (escape_unit c)"
proof -
  have "unat c < 65536" using unsigned_less [of c] by simp
  moreover have "query_safe 117" "query_safe 37"
    by (simp_all add: query_safe_def unreserved_unat)
  moreover have "unreserved c \<Longrightarrow> query_safe c" by (simp add: query_safe_def)
  ultimately show ?thesis by (simp add: escape_unit_def Let_def less_mult_imp_div_less)
qed

lemma escape_safe: "list_all query_safe (escape s)"
  by (induction s) (simp_all add: escape_def escape_unit_safe)

lemma query_safe_not_delim: "query_safe c \<Longrightarrow> c \<noteq> 63 \<and> c \<noteq> 35"
  by (auto simp: query_safe_def unreserved_unat)

lemma escape_eq_Nil [simp]: "escape s = [] \<longleftrightarrow> s = []"
  by (metis escape_def concat.simps(1) list.map_disc_iff list.simps(8) unescape_escape)

text \<open>The query of \<open>page?escape(s)\<close> is the escaped text, whatever the page and the text are.\<close>

lemma location_search_escape:
  assumes "63 \<notin> set page" "35 \<notin> set page"
  shows "location_search (page @ 63 # escape s) = (if s = [] then [] else 63 # escape s)"
proof -
  have q: "c \<noteq> 63 \<and> c \<noteq> 35" if "c \<in> set (escape s)" for c
    using that escape_safe [of s] query_safe_not_delim by (auto simp: list_all_iff)
  then have t: "takeWhile (\<lambda>c. c \<noteq> 35) (page @ 63 # escape s) = page @ 63 # escape s"
    using assms by (subst takeWhile_eq_all_conv) auto
  have d: "dropWhile (\<lambda>c. c \<noteq> 63) (page @ 63 # escape s) = 63 # escape s"
    using assms by (intro dropWhile_append_stop) auto
  have "location_search (page @ 63 # escape s) =
      (if length (63 # escape s) \<le> 1 then [] else 63 # escape s)"
    by (simp only: location_search_def Let_def t d)
  then show ?thesis by (cases "s = []") auto
qed

subsection \<open>The numeric comparison \<open>s > 1\<close> of a string\<close>

text \<open>
  Comparing a string with a number converts the string: white space at both ends is dropped,
  an empty rest is 0, and the rest must be a whole numeric literal or the result is NaN, which
  is greater than nothing. The value of a literal is kept exactly, as \<open>m * 10 ^ e\<close>; the
  nearest double of it is greater than 1 exactly when it exceeds \<open>1 + 2 ^ -53\<close>.
\<close>

datatype js_number = NaN | Infinite bool | Exact int int

definition str_white :: "jschar \<Rightarrow> bool" where
  "str_white c \<longleftrightarrow> (let n = unat c in
     n \<in> set [9, 10, 11, 12, 13, 32, 160, 5760, 8232, 8233, 8239, 8287, 12288, 65279] \<or>
     (8192 \<le> n \<and> n \<le> 8202))"

definition trim_white :: "jsstring \<Rightarrow> jsstring" where
  "trim_white s = rev (dropWhile str_white (rev (dropWhile str_white s)))"

fun digits_value :: "nat \<Rightarrow> (jschar \<Rightarrow> nat option) \<Rightarrow> nat \<Rightarrow> jsstring \<Rightarrow> nat option" where
  "digits_value b val acc [] = Some acc"
| "digits_value b val acc (c # s) =
     (case val c of None \<Rightarrow> None
      | Some d \<Rightarrow> if d < b then digits_value b val (b * acc + d) s else None)"

definition is_digit :: "jschar \<Rightarrow> bool" where
  "is_digit c \<longleftrightarrow> 48 \<le> c \<and> c \<le> 57"

definition digits_nat :: "jsstring \<Rightarrow> nat" where
  "digits_nat s = (case digits_value 10 hex_value 0 s of Some n \<Rightarrow> n | None \<Rightarrow> 0)"

text \<open>An exponent part: nothing, or \<open>e\<close> with a signed nonempty run of digits to the end.\<close>

definition exponent_part :: "jsstring \<Rightarrow> int option" where
  "exponent_part s =
     (if s = [] then Some 0
      else if hd s \<in> {101, 69} then
        (let t = tl s; neg = (t \<noteq> [] \<and> hd t = 45);
             ds = (if t \<noteq> [] \<and> hd t \<in> {43, 45} then tl t else t)
         in if ds \<noteq> [] \<and> list_all is_digit ds
            then Some (if neg then - int (digits_nat ds) else int (digits_nat ds)) else None)
      else None)"

definition unsigned_decimal :: "jsstring \<Rightarrow> js_number" where
  "unsigned_decimal s =
     (if s = js ''Infinity'' then Infinite True else
      let ip = takeWhile is_digit s; r = dropWhile is_digit s;
          fp = (if r \<noteq> [] \<and> hd r = 46 then takeWhile is_digit (tl r) else []);
          r' = (if r \<noteq> [] \<and> hd r = 46 then dropWhile is_digit (tl r) else r)
      in if ip = [] \<and> fp = [] then NaN
         else case exponent_part r' of None \<Rightarrow> NaN
              | Some e \<Rightarrow> Exact (int (digits_nat (ip @ fp))) (e - int (length fp)))"

definition radix_literal :: "jsstring \<Rightarrow> js_number option" where
  "radix_literal s =
     (let b = (if length s \<ge> 2 \<and> hd s = 48 then
                 (let x = s ! 1 in if x \<in> {120, 88} then 16 else if x \<in> {111, 79} then 8
                    else if x \<in> {98, 66} then 2 else 0) else 0) :: nat
      in if b = 0 then None
         else Some (if length s = 2 then NaN
                    else case digits_value b hex_value 0 (drop 2 s) of
                        Some n \<Rightarrow> Exact (int n) 0 | None \<Rightarrow> NaN))"

definition string_to_number :: "jsstring \<Rightarrow> js_number" where
  "string_to_number s =
     (let t = trim_white s in
      if t = [] then Exact 0 0
      else case radix_literal t of Some v \<Rightarrow> v
      | None \<Rightarrow>
          if hd t = 45 then
            (case unsigned_decimal (tl t) of Exact m e \<Rightarrow> Exact (- m) e
             | Infinite _ \<Rightarrow> Infinite False | NaN \<Rightarrow> NaN)
          else if hd t = 43 then unsigned_decimal (tl t)
          else unsigned_decimal t)"

fun number_greater_one :: "js_number \<Rightarrow> bool" where
  "number_greater_one NaN = False"
| "number_greater_one (Infinite pos) = pos"
| "number_greater_one (Exact m e) =
     (if 0 \<le> e then 1 < m * 10 ^ nat e
      else (2 ^ 53 + 1) * 10 ^ nat (- e) < m * 2 ^ 53)"

definition string_greater_one :: "jsstring \<Rightarrow> bool" where
  "string_greater_one s = number_greater_one (string_to_number s)"

declare js_def [js_eval] string_greater_one_def [js_eval] string_to_number_def [js_eval]
  trim_white_def [js_eval] str_white_def [js_eval] radix_literal_def [js_eval]
  unsigned_decimal_def [js_eval] exponent_part_def [js_eval] digits_nat_def [js_eval]
  hex_value_def [js_eval] is_digit_def [js_eval]

lemma string_greater_one_examples:
  "string_greater_one (js ''12'')" "\<not> string_greater_one (js ''1.0'')"
  "string_greater_one (js '' 0x2 '')" "\<not> string_greater_one (js ''hf'')"
  "string_greater_one (js ''.11e1'')" "\<not> string_greater_one (js ''-Infinity'')"
  by (simp_all add: js_eval)

text \<open>
  A string that starts with a unit which is neither white space nor the start of a numeric
  literal is not a number.
\<close>

definition starts_number :: "jschar \<Rightarrow> bool" where
  "starts_number c \<longleftrightarrow> is_digit c \<or> c \<in> {43, 45, 46, 73}"

lemma trim_white_Cons: "\<not> str_white c \<Longrightarrow> \<exists>t. trim_white (c # s) = c # t"
proof -
  assume "\<not> str_white c"
  then have "trim_white (c # s) = c # rev (dropWhile str_white (rev s))"
    by (simp add: trim_white_def dropWhile_append)
  then show ?thesis by blast
qed

lemma string_greater_one_starts:
  assumes "\<not> str_white c" "\<not> starts_number c"
  shows "\<not> string_greater_one (c # s)"
proof -
  obtain t where t: "trim_white (c # s) = c # t" using trim_white_Cons [OF assms(1)] by blast
  have "c \<noteq> 48" "c \<noteq> 45" "c \<noteq> 43" "c \<noteq> 46" "\<not> is_digit c"
    using assms(2) by (auto simp: starts_number_def is_digit_def)
  moreover have "c # t \<noteq> js ''Infinity''"
    using assms(2) by (auto simp: js_def starts_number_def)
  ultimately have "string_to_number (c # s) = NaN"
    using t by (simp add: string_to_number_def radix_literal_def unsigned_decimal_def)
  then show ?thesis by (simp add: string_greater_one_def)
qed

end
