(* ===== verification/SearchId.thy ===== *)
theory SearchId
  imports JsString
begin

text \<open>
  \<open>convertToId\<close> of \<open>docs/docs/search/search.js\<close>: the name of a documented symbol, and the
  text typed into the search field, written as the identifier of a result row. A lower-case
  letter, a digit and a unit from 128 up stand for themselves; every other unit becomes an
  underscore and two hexadecimal digits. The words of the units form a prefix code, so the
  identifiers of two strings are in prefix order exactly when the strings are.
\<close>

text \<open>\<open>c.match(/[a-z0-9\u0080-\uFFFF]/)\<close> on the one-unit string \<open>c\<close>.\<close>

definition id_unit :: "jschar \<Rightarrow> bool" where
  "id_unit c \<longleftrightarrow> (97 \<le> c \<and> c \<le> 122) \<or> (48 \<le> c \<and> c \<le> 57) \<or> 128 \<le> c"

definition convert_unit :: "jschar \<Rightarrow> jsstring" where
  "convert_unit c =
     (let cn = unat c in
      if id_unit c then [c]
      else if cn < 16 then js ''_0'' @ toString16 cn
      else js ''_'' @ toString16 cn)"

text \<open>The loop of the source: the result grows by one word for each unit.\<close>

fun convert_loop :: "jsstring \<Rightarrow> jsstring \<Rightarrow> jsstring" where
  "convert_loop result [] = result"
| "convert_loop result (c # rest) = convert_loop (result @ convert_unit c) rest"

definition convertToId :: "jsstring \<Rightarrow> jsstring" where
  "convertToId search = convert_loop [] search"

lemma convert_loop_concat: "convert_loop r s = r @ concat (map convert_unit s)"
  by (induction s arbitrary: r) auto

lemma convertToId_concat: "convertToId s = concat (map convert_unit s)"
  by (simp add: convertToId_def convert_loop_concat)

lemma convertToId_simps [js_eval]:
  "convertToId [] = []" "convertToId (c # s) = convert_unit c @ convertToId s"
  by (simp_all add: convertToId_concat)

lemma convertToId_append: "convertToId (s @ t) = convertToId s @ convertToId t"
  by (simp add: convertToId_concat)

lemma id_unit_unat:
  "id_unit c \<longleftrightarrow> (97 \<le> unat c \<and> unat c \<le> 122) \<or> (48 \<le> unat c \<and> unat c \<le> 57) \<or> 128 \<le> unat c"
  by (simp add: id_unit_def word_le_nat_alt)

subsection \<open>The shape of a codeword\<close>

text \<open>An escaped unit is below 128, so its codeword always has exactly two hexadecimal digits.\<close>

lemma toString16_two: "16 \<le> n \<Longrightarrow> n < 256 \<Longrightarrow> toString16 n = [digit_unit (n div 16), digit_unit (n mod 16)]"
  by (simp add: toString16_def toString_base_step toString_base_small less_mult_imp_div_less)

lemma convert_unit_escaped:
  assumes "\<not> id_unit c"
  shows "convert_unit c = [95, digit_unit (unat c div 16), digit_unit (unat c mod 16)]"
proof (cases "unat c < 16")
  case True
  then show ?thesis using assms
    by (simp add: convert_unit_def js_def toString16_def toString_base_small digit_unit_def Let_def)
next
  case False
  moreover have "unat c < 256" using assms by (simp add: id_unit_unat)
  ultimately show ?thesis using assms
    by (simp add: convert_unit_def js_def toString16_two Let_def)
qed

lemma convert_unit_plain: "id_unit c \<Longrightarrow> convert_unit c = [c]"
  by (simp add: convert_unit_def)

lemma underscore_escaped: "\<not> id_unit 95"
  by (simp add: id_unit_def)

lemma convert_unit_prefix_free: "prefix (convert_unit c) (convert_unit d) \<Longrightarrow> c = d"
proof -
  assume p: "prefix (convert_unit c) (convert_unit d)"
  show "c = d"
  proof (cases "id_unit c"; cases "id_unit d")
    assume "\<not> id_unit c" "\<not> id_unit d"
    moreover from this have "unat c < 128" "unat d < 128" by (simp_all add: id_unit_unat)
    then have lt: "unat c div 16 < 36" "unat d div 16 < 36" "unat c mod 16 < 36" "unat d mod 16 < 36"
      by (simp_all add: order.strict_trans2 [OF mod_less_divisor] less_mult_imp_div_less)
    ultimately have "unat c div 16 = unat d div 16" "unat c mod 16 = unat d mod 16"
      using p by (simp_all add: convert_unit_escaped digit_unit_inj)
    then have "unat c = unat d" by (metis div_mult_mod_eq)
    then show ?thesis by (simp add: word_unat_eq_iff)
  qed (use p underscore_escaped in \<open>auto simp: convert_unit_plain convert_unit_escaped\<close>)
qed

interpretation id_code: prefix_code convert_unit
  by unfold_locales
    (auto simp: convert_unit_def toString16_def Let_def intro: convert_unit_prefix_free)

lemma id_prefix: "prefix (convertToId s) (convertToId t) \<longleftrightarrow> prefix s t"
  unfolding convertToId_concat by (rule id_code.encode_prefix_iff)

lemma id_eq: "convertToId s = convertToId t \<longleftrightarrow> s = t"
  unfolding convertToId_concat by (rule id_code.encode_inj)

text \<open>
  C4. The identifier of a search text is a prefix of the identifier of a name exactly when the
  text is a prefix of the name: comparing escaped identifiers, as the results page does, is
  comparing the strings themselves, with no false hit and no missed hit.
\<close>

theorem convertToId_prefix_iff:
  "prefix (convertToId s) (convertToId t) \<longleftrightarrow> prefix s t"
  by (rule id_prefix)

text \<open>
  C25. Different strings have different identifiers, so no two names share a result row.
\<close>

theorem convertToId_inj: "convertToId s = convertToId t \<longleftrightarrow> s = t"
  by (rule id_eq)

subsection \<open>The alphabet of identifiers\<close>

definition id_alphabet :: "jschar \<Rightarrow> bool" where
  "id_alphabet c \<longleftrightarrow> id_unit c \<or> c = 95"

lemma digit_unit_id: "d < 16 \<Longrightarrow> id_unit (digit_unit d)"
  by (auto simp: id_unit_unat unat_digit_unit)

lemma convert_unit_alphabet: "u \<in> set (convert_unit c) \<Longrightarrow> id_alphabet u"
proof (cases "id_unit c")
  case False
  moreover from False have "unat c < 128" by (simp add: id_unit_unat)
  ultimately show "u \<in> set (convert_unit c) \<Longrightarrow> id_alphabet u"
    by (auto simp: convert_unit_escaped id_alphabet_def digit_unit_id)
qed (simp add: convert_unit_plain id_alphabet_def)

lemma convertToId_alphabet: "u \<in> set (convertToId s) \<Longrightarrow> id_alphabet u"
  by (auto simp: convertToId_concat dest: convert_unit_alphabet)

lemma id_alphabet_lower: "id_alphabet u \<Longrightarrow> ascii_lower u = u"
  by (auto simp: id_alphabet_def id_unit_unat word_unat_eq_iff ascii_lower_unat)

lemma map_lower_convertToId [simp]: "map ascii_lower (convertToId s) = convertToId s"
  by (rule map_idI) (blast intro: id_alphabet_lower convertToId_alphabet)

lemma ascii_convert_unit: "ascii (convert_unit c) \<longleftrightarrow> c < 128"
proof (cases "id_unit c")
  case False
  moreover from False have c: "unat c < 128" by (simp add: id_unit_unat)
  moreover have "digit_unit d < 128" if "d < 16" for d
    using that by (simp add: word_less_nat_alt unat_digit_unit)
  ultimately show ?thesis by (simp add: convert_unit_escaped word_less_nat_alt)
qed (simp add: convert_unit_plain)

lemma ascii_convertToId [simp]: "ascii (convertToId s) = ascii s"
  by (induction s) (simp_all add: convertToId_simps ascii_convert_unit)

end
