(* ===== verification/Dom.thy ===== *)
theory Dom
  imports JsString
begin

text \<open>
  The document trees that the search results page walks. A node carries the data the scripts
  read and write (node name, id, class, inline display, other attributes, text); a text node
  is a node named \<open>#text\<close>. An element reference is the path of child indices from the root,
  so parent, first child and next sibling are operations on paths, and a reference to a node
  that is not there is \<open>None\<close>, as null is. Updates through a reference return the new tree.
\<close>

record node_data =
  nodeName :: string
  node_id :: jsstring
  className :: string
  display :: string
  attributes :: "(string \<times> jsstring) list"
  node_text :: jsstring

datatype dom = Node (ndata: node_data) (childNodes: "dom list")

type_synonym path = "nat list"

definition new_node :: "string \<Rightarrow> node_data" where
  "new_node name = \<lparr>nodeName = name, node_id = [], className = [], display = [],
     attributes = [], node_text = []\<rparr>"

text \<open>\<open>document.createElement\<close>, with the upper-case node name an HTML document gives.\<close>

definition createElement :: "string \<Rightarrow> dom" where
  "createElement name = Node (new_node name) []"

definition createText :: "jsstring \<Rightarrow> dom" where
  "createText t = Node ((new_node ''#text'')\<lparr>node_text := t\<rparr>) []"

definition appendChild :: "dom \<Rightarrow> dom \<Rightarrow> dom" where
  "appendChild parent child = Node (ndata parent) (childNodes parent @ [child])"

definition setAttribute :: "string \<Rightarrow> jsstring \<Rightarrow> dom \<Rightarrow> dom" where
  "setAttribute name v n =
     (if name = ''id'' then Node ((ndata n)\<lparr>node_id := v\<rparr>) (childNodes n)
      else Node ((ndata n)\<lparr>attributes := (name, v) # filter (\<lambda>a. fst a \<noteq> name) (attributes (ndata n))\<rparr>)
             (childNodes n))"

definition set_innerHTML :: "jsstring \<Rightarrow> dom \<Rightarrow> dom" where
  "set_innerHTML t n = Node (ndata n) [createText t]"

text \<open>The fields of a keyboard event that the handlers read.\<close>

record key_event =
  event_type :: string
  keyCode :: nat
  shiftKey :: bool

subsection \<open>Paths\<close>

fun dom_at :: "dom \<Rightarrow> path \<Rightarrow> dom option" where
  "dom_at n [] = Some n"
| "dom_at n (i # p) = (if i < length (childNodes n) then dom_at (childNodes n ! i) p else None)"

fun dom_upd :: "dom \<Rightarrow> path \<Rightarrow> (node_data \<Rightarrow> node_data) \<Rightarrow> dom" where
  "dom_upd (Node d ks) [] f = Node (f d) ks"
| "dom_upd (Node d ks) (i # p) f =
     Node d (if i < length ks then ks[i := dom_upd (ks ! i) p f] else ks)"

definition set_display :: "dom \<Rightarrow> path \<Rightarrow> string \<Rightarrow> dom" where
  "set_display doc p v = dom_upd doc p (\<lambda>d. d\<lparr>display := v\<rparr>)"

definition display_at :: "dom \<Rightarrow> path \<Rightarrow> string" where
  "display_at doc p = (case dom_at doc p of Some n \<Rightarrow> display (ndata n) | None \<Rightarrow> [])"

definition nextSibling :: "path \<Rightarrow> path" where
  "nextSibling p = butlast p @ [Suc (last p)]"

definition has_next :: "dom \<Rightarrow> path \<Rightarrow> bool" where
  "has_next doc p \<longleftrightarrow> p \<noteq> [] \<and> dom_at doc (nextSibling p) \<noteq> None"

text \<open>\<open>document.getElementById\<close>: the first element in document order with the id.\<close>

fun getElementById :: "dom \<Rightarrow> jsstring \<Rightarrow> path option"
  and by_id_list :: "nat \<Rightarrow> dom list \<Rightarrow> jsstring \<Rightarrow> path option" where
  "getElementById (Node d ks) x = (if node_id d = x then Some [] else by_id_list 0 ks x)"
| "by_id_list i [] x = None"
| "by_id_list i (k # ks) x =
     (case getElementById k x of Some p \<Rightarrow> Some (i # p) | None \<Rightarrow> by_id_list (Suc i) ks x)"

text \<open>Every position of a tree, in document order.\<close>

fun paths :: "dom \<Rightarrow> path list"
  and paths_list :: "nat \<Rightarrow> dom list \<Rightarrow> path list" where
  "paths (Node d ks) = [] # paths_list 0 ks"
| "paths_list i [] = []"
| "paths_list i (k # ks) = map ((#) i) (paths k) @ paths_list (Suc i) ks"

subsection \<open>Facts about paths\<close>

lemma dom_at_append: "dom_at n (p @ q) = (case dom_at n p of Some m \<Rightarrow> dom_at m q | None \<Rightarrow> None)"
  by (induction n p rule: dom_at.induct) auto

lemma dom_at_snoc [dom_simps]:
  "dom_at n p = Some m \<Longrightarrow>
     dom_at n (p @ [i]) = (if i < length (childNodes m) then Some (childNodes m ! i) else None)"
  by (simp add: dom_at_append)

lemma dom_at_butlast: "p \<noteq> [] \<Longrightarrow> dom_at n p = Some m \<Longrightarrow>
   \<exists>k. dom_at n (butlast p) = Some k \<and> last p < length (childNodes k) \<and> m = childNodes k ! last p"
proof -
  assume "p \<noteq> []" "dom_at n p = Some m"
  then have "dom_at n (butlast p @ [last p]) = Some m" by simp
  then show ?thesis
    by (auto simp: dom_at_append split: option.splits if_splits)
qed

lemma paths_list_set:
  "p \<in> set (paths_list i ks) \<longleftrightarrow>
     (\<exists>j q. j < length ks \<and> p = (i + j) # q \<and> q \<in> set (paths (ks ! j)))"
proof (induction ks arbitrary: i)
  case (Cons k ks)
  show ?case
    by (auto simp: Cons.IH less_Suc_eq_0_disj image_iff)
qed simp

lemma paths_iff: "p \<in> set (paths n) \<longleftrightarrow> dom_at n p \<noteq> None"
proof (induction n p rule: dom_at.induct)
  case (1 n)
  then show ?case by (cases n) simp
next
  case (2 n i p)
  then show ?case by (cases n) (auto simp: paths_list_set)
qed

lemma by_id_list_Some:
  assumes "\<And>k p. k \<in> set ks \<Longrightarrow> getElementById k x = Some p \<Longrightarrow>
      \<exists>n. dom_at k p = Some n \<and> node_id (ndata n) = x"
    and "by_id_list i ks x = Some p"
  shows "\<exists>j q n. j < length ks \<and> p = (i + j) # q \<and> dom_at (ks ! j) q = Some n \<and> node_id (ndata n) = x"
  using assms
proof (induction ks arbitrary: i)
  case (Cons k ks)
  show ?case
  proof (cases "getElementById k x")
    case None
    with Cons.prems have "by_id_list (Suc i) ks x = Some p" by simp
    then obtain j q n where "j < length ks" "p = (Suc i + j) # q" "dom_at (ks ! j) q = Some n"
        "node_id (ndata n) = x"
      using Cons.IH [of "Suc i"] Cons.prems(1) by (metis list.set_intros(2))
    then show ?thesis by (intro exI [of _ "Suc j"]) auto
  next
    case (Some r)
    with Cons.prems have "p = i # r" by simp
    with Cons.prems(1) [OF _ Some] show ?thesis by (intro exI [of _ 0]) auto
  qed
qed simp

lemma getElementById_Some:
  "getElementById n x = Some p \<Longrightarrow> \<exists>m. dom_at n p = Some m \<and> node_id (ndata m) = x"
proof (induction n arbitrary: p)
  case (Node d ks)
  show ?case
  proof (cases "node_id d = x")
    case False
    with Node.prems have "by_id_list 0 ks x = Some p" by simp
    with Node.IH show ?thesis
      using by_id_list_Some [of ks x 0 p] by fastforce
  qed (use Node.prems in auto)
qed

lemma getElementById_valid: "getElementById n x = Some p \<Longrightarrow> p \<in> set (paths n)"
  using getElementById_Some paths_iff by fastforce

subsection \<open>Facts about updates\<close>

lemma dom_upd_Some:
  "dom_at n p = Some m \<Longrightarrow> dom_at (dom_upd n p f) p = Some (Node (f (ndata m)) (childNodes m))"
  by (induction n p f rule: dom_upd.induct) (auto split: if_splits)

lemma dom_upd_data:
  "map_option ndata (dom_at (dom_upd n p f) q) =
     map_option (\<lambda>m. if p = q then f (ndata m) else ndata m) (dom_at n q)"
proof (induction n p f arbitrary: q rule: dom_upd.induct)
  case (1 d ks f)
  then show ?case by (cases q) auto
next
  case (2 d ks i p f)
  then show ?case
  proof (cases q)
    case (Cons j r)
    with 2 show ?thesis by (cases "i = j") auto
  qed simp
qed

lemma dom_upd_paths: "dom_at (dom_upd n p f) q \<noteq> None \<longleftrightarrow> dom_at n q \<noteq> None"
  using dom_upd_data [of n p f q] by (metis map_option_is_None)

lemma set_display_at:
  "display_at (set_display doc p v) q = (if p = q \<and> dom_at doc q \<noteq> None then v else display_at doc q)"
proof -
  have "map_option ndata (dom_at (set_display doc p v) q) =
      map_option (\<lambda>m. if p = q then (ndata m)\<lparr>display := v\<rparr> else ndata m) (dom_at doc q)"
    unfolding set_display_def by (rule dom_upd_data)
  then show ?thesis
    by (auto simp: display_at_def split: option.splits)
qed

lemma set_display_valid [dom_simps]: "dom_at (set_display doc p v) q = None \<longleftrightarrow> dom_at doc q = None"
  unfolding set_display_def using dom_upd_paths by blast

text \<open>An update that keeps every id does not change what an id names.\<close>

lemma by_id_list_cong:
  assumes "length ks = length ks'" "\<And>j. j < length ks \<Longrightarrow> getElementById (ks ! j) x = getElementById (ks' ! j) x"
  shows "by_id_list i ks x = by_id_list i ks' x"
  using assms
proof (induction ks ks' arbitrary: i rule: list_induct2)
  case (Cons k ks k' ks')
  from Cons.prems [of 0] have "getElementById k x = getElementById k' x" by simp
  moreover have "by_id_list (Suc i) ks x = by_id_list (Suc i) ks' x"
    using Cons.IH Cons.prems [of "Suc _"] by simp
  ultimately show ?case by (simp split: option.split)
qed simp

lemma getElementById_upd:
  assumes "\<And>d. node_id (f d) = node_id d"
  shows "getElementById (dom_upd n p f) x = getElementById n x"
  using assms
proof (induction n p f rule: dom_upd.induct)
  case (2 d ks i p f)
  have "by_id_list 0 (if i < length ks then ks[i := dom_upd (ks ! i) p f] else ks) x = by_id_list 0 ks x"
    by (rule by_id_list_cong) (auto simp: nth_list_update "2.IH" [OF _ "2.prems"])
  then show ?case by simp
qed simp

lemma getElementById_set_display [simp, dom_simps]:
  "getElementById (set_display doc p v) x = getElementById doc x"
  by (simp add: set_display_def getElementById_upd)

text \<open>\<open>appendChild\<close> on the element behind a reference.\<close>

fun append_at :: "dom \<Rightarrow> path \<Rightarrow> dom \<Rightarrow> dom" where
  "append_at (Node d ks) [] c = Node d (ks @ [c])"
| "append_at (Node d ks) (i # p) c =
     Node d (if i < length ks then ks[i := append_at (ks ! i) p c] else ks)"

subsection \<open>Families of ids\<close>

text \<open>
  The scripts number their elements, and several loops try one number after another until an
  id is missing. How many elements carry an id of the numbers still to be tried is what such a
  loop uses up.
\<close>

definition id_at :: "dom \<Rightarrow> path \<Rightarrow> jsstring option" where
  "id_at doc p = map_option (\<lambda>n. node_id (ndata n)) (dom_at doc p)"

definition named_by :: "dom \<Rightarrow> ('i \<Rightarrow> jsstring) \<Rightarrow> 'i set \<Rightarrow> nat" where
  "named_by doc f M = card {q \<in> set (paths doc). \<exists>m\<in>M. id_at doc q = Some (f m)}"

lemma getElementById_id_at: "getElementById doc x = Some p \<Longrightarrow> id_at doc p = Some x"
  using getElementById_Some by (fastforce simp: id_at_def)

lemma named_by_less:
  assumes "inj f" "getElementById doc (f m) = Some p" "m \<in> M" "M' \<subseteq> M" "m \<notin> M'"
  shows "named_by doc f M' < named_by doc f M"
  unfolding named_by_def
proof (rule psubset_card_mono)
  have "p \<in> set (paths doc)" "id_at doc p = Some (f m)"
    using assms(2) getElementById_valid getElementById_id_at by blast+
  moreover from this have "\<not> (\<exists>n\<in>M'. id_at doc p = Some (f n))"
    using assms(1,5) by (auto dest: injD)
  ultimately show "{q \<in> set (paths doc). \<exists>m\<in>M'. id_at doc q = Some (f m)}
      \<subset> {q \<in> set (paths doc). \<exists>m\<in>M. id_at doc q = Some (f m)}"
    using assms(3,4) by blast
qed simp

lemma getElementById_None_list:
  assumes "\<And>k. k \<in> set ks \<Longrightarrow> getElementById k x = None \<longleftrightarrow> (\<forall>p. id_at k p \<noteq> Some x)"
  shows "by_id_list i ks x = None \<longleftrightarrow> (\<forall>k\<in>set ks. \<forall>p. id_at k p \<noteq> Some x)"
  using assms by (induction ks arbitrary: i) (fastforce split: option.splits)+

lemma getElementById_None: "getElementById n x = None \<longleftrightarrow> (\<forall>p. id_at n p \<noteq> Some x)"
proof (induction n)
  case (Node d ks)
  have "(\<forall>p. id_at (Node d ks) p \<noteq> Some x) \<longleftrightarrow>
      node_id d \<noteq> x \<and> (\<forall>k\<in>set ks. \<forall>p. id_at k p \<noteq> Some x)"
  proof (intro iffI conjI ballI allI)
    assume all: "\<forall>p. id_at (Node d ks) p \<noteq> Some x"
    show "node_id d \<noteq> x" using all [rule_format, of "[]"] by (simp add: id_at_def)
    fix k p assume "k \<in> set ks"
    then obtain i where "i < length ks" "ks ! i = k" by (metis in_set_conv_nth)
    then show "id_at k p \<noteq> Some x" using all [rule_format, of "i # p"] by (simp add: id_at_def)
  next
    fix p assume "node_id d \<noteq> x \<and> (\<forall>k\<in>set ks. \<forall>p. id_at k p \<noteq> Some x)"
    then show "id_at (Node d ks) p \<noteq> Some x"
      by (cases p) (auto simp: id_at_def dest: nth_mem)
  qed
  then show ?case using getElementById_None_list [OF Node.IH] by simp
qed

lemma getElementById_defined: "id_at n p = Some x \<Longrightarrow> \<exists>q. getElementById n x = Some q"
  using getElementById_None by blast

subsection \<open>Trees up to their inline display\<close>

text \<open>
  The scripts of the results page only ever change the \<open>display\<close> of elements that exist.
  \<open>erase\<close> forgets it; two trees with the same erasure have the same elements, ids and classes.
\<close>

definition erase_data :: "node_data \<Rightarrow> node_data" where
  "erase_data d = d\<lparr>display := []\<rparr>"

fun erase :: "dom \<Rightarrow> dom" where
  "erase (Node d ks) = Node (erase_data d) (map erase ks)"

lemma erase_data_simps [simp]:
  "node_id (erase_data d) = node_id d" "nodeName (erase_data d) = nodeName d"
  "className (erase_data d) = className d" "erase_data (d\<lparr>display := v\<rparr>) = erase_data d"
  by (simp_all add: erase_data_def)

lemma ndata_erase [simp]: "ndata (erase n) = erase_data (ndata n)"
  by (cases n) simp

lemma childNodes_erase [simp]: "childNodes (erase n) = map erase (childNodes n)"
  by (cases n) simp

lemma dom_at_erase: "dom_at (erase n) p = map_option erase (dom_at n p)"
  by (induction n p rule: dom_at.induct) auto

lemma id_at_erase [simp]: "id_at (erase n) p = id_at n p"
  by (simp add: id_at_def dom_at_erase option.map_comp comp_def)

lemma by_id_list_erase:
  "(\<And>k. k \<in> set ks \<Longrightarrow> getElementById (erase k) x = getElementById k x) \<Longrightarrow>
     by_id_list i (map erase ks) x = by_id_list i ks x"
  by (induction ks arbitrary: i) (auto split: option.split)

lemma getElementById_erase [simp]: "getElementById (erase n) x = getElementById n x"
  by (induction n) (simp add: by_id_list_erase)

lemma erase_dom_upd:
  "(\<And>d. erase_data (f d) = erase_data d) \<Longrightarrow> erase (dom_upd n p f) = erase n"
proof (induction n p f rule: dom_upd.induct)
  case (2 d ks i p f)
  then show ?case
    by (auto simp: map_update) (metis list_update_id map_update nth_map)
qed simp

lemma erase_set_display [simp, dom_simps]: "erase (set_display n p v) = erase n"
  by (simp add: set_display_def erase_dom_upd)

lemma same_erase_getElementById: "erase m = erase n \<Longrightarrow> getElementById m x = getElementById n x"
  by (metis getElementById_erase)

lemma same_erase_id_at: "erase m = erase n \<Longrightarrow> id_at m p = id_at n p"
  by (metis id_at_erase)

lemma same_erase_dom_at:
  "erase m = erase n \<Longrightarrow> map_option erase (dom_at m p) = map_option erase (dom_at n p)"
  by (metis dom_at_erase)

lemma same_erase_valid: "erase m = erase n \<Longrightarrow> dom_at m p = None \<longleftrightarrow> dom_at n p = None"
  by (metis dom_at_erase map_option_is_None)

end
