(* ===== verification/FindChild.thy ===== *)
theory FindChild
  imports Dom
begin

text \<open>
  \<open>SearchResults.FindChildElement\<close> of \<open>docs/docs/search/search.js\<close>: a walk over the
  elements below a parent by first child, next sibling and parent references, without
  recursion. The walk is modelled as the loop the code has, on references relative to the
  parent element (whose own reference is the empty path), with the proof that it terminates;
  its result is proved equal to a structural search (\<open>first_child_list\<close>).
\<close>

subsection \<open>The loop\<close>

definition is_div :: "dom \<Rightarrow> bool" where
  "is_div n \<longleftrightarrow> nodeName (ndata n) = ''DIV''"

definition is_children_div :: "dom \<Rightarrow> bool" where
  "is_children_div n \<longleftrightarrow> is_div n \<and> className (ndata n) = ''SRChildren''"

text \<open>
  The inner \<open>do ... while\<close>: move to the parent until it is the start element or has a next
  sibling.
\<close>

function climb :: "dom \<Rightarrow> path \<Rightarrow> path" where
  "climb root p =
     (let q = butlast p in if q \<noteq> [] \<and> \<not> has_next root q then climb root q else q)"
  by pat_completeness auto
termination
proof (relation "measure (\<lambda>(root, p). length p)", goal_cases)
  case (2 root p q)
  then show ?case by (cases p rule: rev_cases) auto
qed simp

declare climb.simps [simp del]

lemma next_greater: "p \<noteq> [] \<Longrightarrow> p < nextSibling p"
proof -
  have "q @ [i] < q @ [Suc i]" for q :: "nat list" and i
    by (induction q) auto
  then show "p \<noteq> [] \<Longrightarrow> p < nextSibling p"
    by (metis append_butlast_last_id nextSibling_def)
qed

lemma next_greater_ext: "p \<noteq> [] \<Longrightarrow> p @ r < nextSibling p"
proof -
  have "q @ i # r < q @ [Suc i]" for q :: "nat list" and i
    by (induction q) auto
  then show "p \<noteq> [] \<Longrightarrow> p @ r < nextSibling p"
    by (metis append.assoc append_Cons append_Nil append_butlast_last_id nextSibling_def)
qed

lemma child_greater: "p < p @ [i :: nat]"
  by (induction p) auto

lemma climb_ancestor: "\<exists>r. p = climb root p @ r"
proof (induction root p rule: climb.induct)
  case (1 root p)
  obtain s where s: "p = butlast p @ s"
    by (metis append_butlast_last_id append_Nil2 butlast.simps(1))
  show ?case
  proof (cases "butlast p \<noteq> [] \<and> \<not> has_next root (butlast p)")
    case True
    then have "climb root p = climb root (butlast p)" by (subst climb.simps) (simp add: Let_def)
    moreover obtain r where "butlast p = climb root (butlast p) @ r" using 1 [OF refl] True by blast
    ultimately show ?thesis using s by (metis append.assoc)
  next
    case False
    then have "climb root p = butlast p" by (subst climb.simps) (auto simp add: Let_def)
    with s show ?thesis by metis
  qed
qed

lemma climb_has_next: "climb root p \<noteq> [] \<Longrightarrow> has_next root (climb root p)"
proof (induction root p rule: climb.induct)
  case (1 root p)
  then show ?case by (subst climb.simps, subst (asm) (2) climb.simps) (auto simp: Let_def)
qed

text \<open>How many elements the document holds after a reference: what the loop uses up.\<close>

definition elements_after :: "dom \<Rightarrow> path \<Rightarrow> nat" where
  "elements_after root p = card {q \<in> set (paths root). p < q}"

lemma elements_after_less: "p < q \<Longrightarrow> q \<in> set (paths root) \<Longrightarrow> elements_after root q < elements_after root p"
  unfolding elements_after_def
  by (rule psubset_card_mono) (auto intro: less_trans)

text \<open>
  \<open>while (element && element!=parentElement)\<close>; the result \<open>None\<close> is \<open>undefined\<close>, and a
  reference with no node behind it is null.
\<close>

function find_loop :: "dom \<Rightarrow> path \<Rightarrow> path option" where
  "find_loop root p =
     (if p = [] then None
      else case dom_at root p of
        None \<Rightarrow> None
      | Some n \<Rightarrow>
          if is_children_div n then Some p
          else if is_div n \<and> childNodes n \<noteq> [] then find_loop root (p @ [0])
          else if has_next root p then find_loop root (nextSibling p)
          else let q = climb root p in
               if q \<noteq> [] then find_loop root (nextSibling q) else None)"
  by pat_completeness auto
termination
proof (relation "measure (\<lambda>(root, p). elements_after root p)", goal_cases)
  case (2 root p n)
  then have "p @ [0] \<in> set (paths root)" by (simp add: paths_iff dom_at_snoc)
  then show ?case using elements_after_less [OF child_greater] by simp
next
  case (3 root p n)
  then have "nextSibling p \<in> set (paths root)" by (simp add: paths_iff has_next_def)
  then show ?case using elements_after_less [OF next_greater] 3(1) by simp
next
  case (4 root p n q)
  then have "has_next root q" using climb_has_next by simp
  then have "nextSibling q \<in> set (paths root)" by (simp add: paths_iff has_next_def)
  moreover obtain r where "p = q @ r" using climb_ancestor [of p root] 4 by auto
  then have "p < nextSibling q" using next_greater_ext [of q r] 4 by metis
  ultimately show ?case using elements_after_less by simp
qed simp

declare find_loop.simps [simp del]

text \<open>
  The handler: an element that is not in the document makes the first property access fail;
  the result is the reference of the element found.
\<close>

definition FindChildElement :: "dom \<Rightarrow> jsstring \<Rightarrow> js_error + path option" where
  "FindChildElement doc eid =
     (case getElementById doc eid of
        None \<Rightarrow> Inl TypeError
      | Some pp \<Rightarrow>
          (case dom_at doc pp of
             None \<Rightarrow> Inl TypeError
           | Some parent \<Rightarrow> Inr (map_option ((@) pp) (find_loop parent [0]))))"

subsection \<open>The structural search\<close>

text \<open>
  The first \<open>SRChildren\<close> element in document order, entering only \<open>DIV\<close> elements.
\<close>

fun first_child_node :: "dom \<Rightarrow> path option"
  and first_child_list :: "nat \<Rightarrow> dom list \<Rightarrow> path option" where
  "first_child_node (Node d ks) =
     (if is_children_div (Node d ks) then Some []
      else if is_div (Node d ks) then first_child_list 0 ks else None)"
| "first_child_list i [] = None"
| "first_child_list i (k # ks) =
     (case first_child_node k of Some p \<Rightarrow> Some (i # p) | None \<Rightarrow> first_child_list (Suc i) ks)"

text \<open>What the loop does once the subtree at \<open>p\<close> has nothing to offer.\<close>

function resume :: "dom \<Rightarrow> path \<Rightarrow> path option" where
  "resume root p =
     (if p = [] then None
      else if has_next root p then find_loop root (nextSibling p)
      else resume root (butlast p))"
  by pat_completeness auto
termination
  by (relation "measure (\<lambda>(root, p). length p)") auto

declare resume.simps [simp del]

lemma resume_climb:
  "p \<noteq> [] \<Longrightarrow> resume root (butlast p) =
     (let q = climb root p in if q \<noteq> [] then find_loop root (nextSibling q) else None)"
proof (induction root p rule: climb.induct)
  case (1 root p)
  show ?case
  proof (cases "butlast p \<noteq> [] \<and> \<not> has_next root (butlast p)")
    case True
    then have "climb root p = climb root (butlast p)" by (subst climb.simps) (simp add: Let_def)
    moreover have "resume root (butlast p) = resume root (butlast (butlast p))"
      using True by (subst resume.simps) simp
    ultimately show ?thesis using 1(1) [OF refl True] True by simp
  next
    case False
    then have "climb root p = butlast p" by (subst climb.simps) (auto simp: Let_def)
    with False show ?thesis by (subst resume.simps) (auto simp: Let_def)
  qed
qed

lemma find_loop_unfold:
  assumes "p \<noteq> []" "dom_at root p = Some n"
  shows "find_loop root p =
     (if is_children_div n then Some p
      else if is_div n \<and> childNodes n \<noteq> [] then find_loop root (p @ [0])
      else resume root p)"
proof -
  have "resume root p = (if has_next root p then find_loop root (nextSibling p)
      else let q = climb root p in if q \<noteq> [] then find_loop root (nextSibling q) else None)"
    using assms(1) resume_climb [OF assms(1)] by (subst resume.simps) simp
  then show ?thesis using assms by (subst find_loop.simps) simp
qed

lemma resume_sibling:
  assumes "dom_at root p = Some n" "i < length (childNodes n)"
  shows "resume root (p @ [i]) =
     (if Suc i < length (childNodes n) then find_loop root (p @ [Suc i]) else resume root p)"
  using assms by (subst resume.simps) (simp add: has_next_def nextSibling_def dom_at_snoc)

lemma find_loop_node:
  "p \<noteq> [] \<Longrightarrow> dom_at root p = Some n \<Longrightarrow>
     find_loop root p = (case first_child_node n of Some q \<Rightarrow> Some (p @ q) | None \<Rightarrow> resume root p)"
  and find_loop_list:
  "dom_at root p = Some n \<Longrightarrow> drop i (childNodes n) = ks \<Longrightarrow> ks \<noteq> [] \<Longrightarrow>
     find_loop root (p @ [i]) =
       (case first_child_list i ks of Some q \<Rightarrow> Some (p @ q) | None \<Rightarrow> resume root p)"
proof (induction n and i ks arbitrary: p and p n rule: first_child_node_first_child_list.induct)
  case (1 d ks)
  note IH = "1.IH"
  show ?case
  proof (cases "\<not> is_children_div (Node d ks) \<and> is_div (Node d ks) \<and> ks \<noteq> []")
    case True
    then have "find_loop root p = find_loop root (p @ [0])"
      using find_loop_unfold [OF "1.prems"] by simp
    also have "\<dots> = (case first_child_list 0 ks of Some q \<Rightarrow> Some (p @ q) | None \<Rightarrow> resume root p)"
      using IH [OF _ _ "1.prems"(2)] True by simp
    finally show ?thesis using True by simp
  next
    case False
    then show ?thesis using find_loop_unfold [OF "1.prems"] by auto
  qed
next
  case (3 i k ks)
  have i: "i < length (childNodes n)" using "3.prems"(2) drop_all by (metis leI list.distinct(1))
  have k: "childNodes n ! i = k" using "3.prems"(2) by (rule nth_via_drop)
  have "drop (Suc i) (childNodes n) = tl (drop i (childNodes n))" by (simp add: drop_Suc tl_drop)
  then have rest: "drop (Suc i) (childNodes n) = ks" using "3.prems"(2) by simp
  have at: "dom_at root (p @ [i]) = Some k"
    using "3.prems"(1) i k by (simp add: dom_at_snoc)
  have step: "find_loop root (p @ [i]) =
      (case first_child_node k of Some q \<Rightarrow> Some ((p @ [i]) @ q) | None \<Rightarrow> resume root (p @ [i]))"
    using "3.IH"(1) [OF _ at] by simp
  show ?case
  proof (cases "first_child_node k")
    case None
    show ?thesis
    proof (cases "ks = []")
      case True
      then have "\<not> Suc i < length (childNodes n)" using rest by simp
      with True None step show ?thesis using resume_sibling [OF "3.prems"(1) i] by simp
    next
      case False
      then have "Suc i < length (childNodes n)" using rest by (metis drop_all leI)
      with False None step show ?thesis
        using resume_sibling [OF "3.prems"(1) i] "3.IH"(2) [OF None "3.prems"(1) rest False] by simp
    qed
  next
    case (Some q)
    with step show ?thesis by simp
  qed
qed simp

lemma find_loop_first_child:
  "find_loop root [0] = first_child_list 0 (childNodes root)"
proof (cases "childNodes root = []")
  case True
  then show ?thesis by (subst find_loop.simps) simp
next
  case False
  have "find_loop root ([] @ [0]) =
      (case first_child_list 0 (childNodes root) of Some q \<Rightarrow> Some ([] @ q) | None \<Rightarrow> resume root [])"
    by (rule find_loop_list) (use False in auto)
  then show ?thesis by (simp add: resume.simps split: option.splits)
qed

text \<open>
  C15. The pointer-chasing loop of \<open>FindChildElement\<close> is the structural search: for every
  document it returns the first \<open>SRChildren\<close> element below the named element in document
  order, looking only into \<open>DIV\<close> elements, or \<open>undefined\<close>; it raises exactly when no element
  has the name. In particular it always stops.
\<close>

theorem FindChildElement_structural:
  "FindChildElement doc eid =
     (case getElementById doc eid of
        None \<Rightarrow> Inl TypeError
      | Some p \<Rightarrow>
          Inr (map_option ((@) p) (first_child_list 0 (childNodes (the (dom_at doc p))))))"
proof (cases "getElementById doc eid")
  case (Some p)
  then obtain n where "dom_at doc p = Some n" using getElementById_Some by blast
  with Some show ?thesis by (simp add: FindChildElement_def find_loop_first_child)
qed (simp add: FindChildElement_def)

end
