(* ===== verification/SearchResults.thy ===== *)
theory SearchResults
  imports SearchId FindChild
begin

text \<open>
  The search results page: \<open>createResults\<close>, which turns the entries of an index file into
  rows, and the class \<open>SearchResults\<close> of \<open>docs/docs/search/search.js\<close>, which shows the rows
  that match a search and moves the focus between them. The page is a document tree; the
  state adds the fields of the object. A handler returns the value it returns to the browser,
  the new state and the effects outside the page in order, or the error it raises.
\<close>

subsection \<open>Index entries and the rows made of them\<close>

text \<open>An entry \<open>[id, [name, [url, flag, scope], ...]]\<close> of an index file.\<close>

record search_entry =
  entry_id :: jsstring
  entry_name :: jsstring
  entry_links :: "(jsstring \<times> bool \<times> jsstring) list"

definition item_id :: "int \<Rightarrow> jsstring" where
  "item_id e = js ''Item'' @ js_int e"

definition child_id :: "int \<Rightarrow> nat \<Rightarrow> jsstring" where
  "child_id e c = js ''Item'' @ js_int e @ js ''_c'' @ js_int (int c)"

definition setKeyActions :: "dom \<Rightarrow> jsstring \<Rightarrow> dom" where
  "setKeyActions elem action =
     setAttribute ''onkeyup'' action (setAttribute ''onkeypress'' action
       (setAttribute ''onkeydown'' action elem))"

text \<open>Setting the \<open>class\<close> attribute is what gives the element its class name.\<close>

definition setClassAttr :: "dom \<Rightarrow> string \<Rightarrow> dom" where
  "setClassAttr elem attr =
     (let n = setAttribute ''className'' (js attr) (setAttribute ''class'' (js attr) elem)
      in Node ((ndata n)\<lparr>className := attr\<rparr>) (childNodes n))"

definition set_target :: "bool \<Rightarrow> dom \<Rightarrow> dom" where
  "set_target flag n = (if flag then setAttribute ''target'' (js ''_parent'') n else n)"

definition create_child :: "nat \<Rightarrow> nat \<Rightarrow> jsstring \<times> bool \<times> jsstring \<Rightarrow> dom" where
  "create_child e c link =
     (case link of (url, flag, scope) \<Rightarrow>
        set_innerHTML scope
          (set_target flag
            (setAttribute ''href'' url
              (setClassAttr
                (setKeyActions
                  (setAttribute ''id'' (child_id (int e) c) (createElement ''A''))
                  (js ''return searchResults.NavChild(event,'' @ js_int (int e) @ js '','' @
                   js_int (int c) @ js '')''))
                ''SRScope''))))"

fun create_children :: "nat \<Rightarrow> nat \<Rightarrow> (jsstring \<times> bool \<times> jsstring) list \<Rightarrow> dom list" where
  "create_children e c [] = []"
| "create_children e c (l # ls) = create_child e c l # create_children e (Suc c) ls"

definition create_row :: "nat \<Rightarrow> search_entry \<Rightarrow> dom" where
  "create_row e entry =
     (let srResult = setClassAttr
            (setAttribute ''id'' (js ''SR_'' @ entry_id entry) (createElement ''DIV'')) ''SRResult'';
          srEntry = setClassAttr (createElement ''DIV'') ''SREntry'';
          srLink = set_innerHTML (entry_name entry)
            (setClassAttr
              (setKeyActions (setAttribute ''id'' (item_id (int e)) (createElement ''A''))
                (js ''return searchResults.Nav(event,'' @ js_int (int e) @ js '')''))
              ''SRSymbol'')
      in case entry_links entry of
        [(url, flag, scope)] \<Rightarrow>
          (let srLink = set_target flag (setAttribute ''href'' url srLink);
               srScope = set_innerHTML scope (setClassAttr (createElement ''SPAN'') ''SRScope'')
           in appendChild srResult (appendChild (appendChild srEntry srLink) srScope))
      | links \<Rightarrow>
          (let srLink = setAttribute ''href''
                 (js ''javascript:searchResults.Toggle(\"SR_'' @ entry_id entry @ js ''\")'') srLink;
               srChildren = foldl appendChild (setClassAttr (createElement ''DIV'') ''SRChildren'')
                 (create_children e 0 links)
           in appendChild srResult (appendChild (appendChild srEntry srLink) srChildren)))"

text \<open>The loop over the entries; without a results element the first append fails.\<close>

fun create_rows :: "nat \<Rightarrow> search_entry list \<Rightarrow> path option \<Rightarrow> dom \<Rightarrow> js_error + dom" where
  "create_rows e [] results doc = Inr doc"
| "create_rows e (x # xs) results doc =
     (case results of
        None \<Rightarrow> Inl TypeError
      | Some p \<Rightarrow> create_rows (Suc e) xs results (append_at doc p (create_row e x)))"

definition createResults :: "search_entry list \<Rightarrow> dom \<Rightarrow> js_error + dom" where
  "createResults searchData doc =
     create_rows 0 searchData (getElementById doc (js ''SRResults'')) doc"

subsection \<open>The page around the rows\<close>

text \<open>The elements of a results page before its scripts run (\<open>search/all_0.html\<close>).\<close>

definition status_div :: "string \<Rightarrow> dom" where
  "status_div name = Node ((new_node ''DIV'')\<lparr>node_id := js name, className := ''SRStatus''\<rparr>) []"

definition page_skeleton :: dom where
  "page_skeleton =
     Node (new_node ''BODY'')
       [Node ((new_node ''DIV'')\<lparr>node_id := js ''SRIndex''\<rparr>)
         [status_div ''Loading'',
          Node ((new_node ''DIV'')\<lparr>node_id := js ''SRResults''\<rparr>) [],
          status_div ''Searching'', status_div ''NoMatches'']]"

subsection \<open>The object and its search\<close>

record results_state =
  doc :: dom
  lastMatchCount :: nat
  lastKey :: nat
  repeatOn :: bool

definition new_results :: "dom \<Rightarrow> results_state" where
  "new_results d = \<lparr>doc = d, lastMatchCount = 0, lastKey = 0, repeatOn = False\<rparr>"

text \<open>\<open>rowMatchName.replace(/^sr\d*_/, '')\<close>.\<close>

definition strip_sr :: "jsstring \<Rightarrow> jsstring" where
  "strip_sr s =
     (if prefix (js ''sr'') s then
        (let r = dropWhile is_digit (drop 2 s) in if r \<noteq> [] \<and> hd r = 95 then tl r else s)
      else s)"

definition row_matches :: "unicode_lower \<Rightarrow> jsstring \<Rightarrow> jsstring \<Rightarrow> bool" where
  "row_matches U search rid =
     (let rowMatchName = strip_sr (toLowerCase U rid) in
      length search \<le> length rowMatchName \<and> take (length search) rowMatchName = search)"

text \<open>The loop over \<open>document.getElementsByTagName("div")\<close>: the new tree and \<open>matches\<close>.\<close>

fun filter_rows :: "(jsstring \<Rightarrow> bool) \<Rightarrow> dom \<Rightarrow> dom \<times> nat"
  and filter_rows_list :: "(jsstring \<Rightarrow> bool) \<Rightarrow> dom list \<Rightarrow> dom list \<times> nat" where
  "filter_rows f (Node d ks) =
     (let (ks', n) = filter_rows_list f ks in
      if nodeName d = ''DIV'' \<and> className d = ''SRResult'' then
        (if f (node_id d) then (Node (d\<lparr>display := ''block''\<rparr>) ks', Suc n)
         else (Node (d\<lparr>display := ''none''\<rparr>) ks', n))
      else (Node d ks', n))"
| "filter_rows_list f [] = ([], 0)"
| "filter_rows_list f (k # ks) =
     (let (k', m) = filter_rows f k; (ks', n) = filter_rows_list f ks in (k' # ks', m + n))"

definition set_display_id :: "dom \<Rightarrow> jsstring \<Rightarrow> string \<Rightarrow> js_error + dom" where
  "set_display_id d x v =
     (case getElementById d x of None \<Rightarrow> Inl TypeError | Some p \<Rightarrow> Inr (set_display d p v))"

text \<open>
  The search text, taken from the address when no argument is given (or an empty one),
  stripped and lower-cased; \<open>search_key\<close> is its identifier.
\<close>

definition search_text :: "unicode_lower \<Rightarrow> jsstring \<Rightarrow> jsstring option \<Rightarrow> jsstring" where
  "search_text U loc search =
     (let s = (case search of
                 Some a \<Rightarrow> if a = [] then unescape (drop 1 (location_search loc)) else a
               | None \<Rightarrow> unescape (drop 1 (location_search loc)))
      in toLowerCase U (strip_trailing (strip_leading s)))"

definition search_key :: "unicode_lower \<Rightarrow> jsstring \<Rightarrow> jsstring option \<Rightarrow> jsstring" where
  "search_key U loc search = convertToId (search_text U loc search)"

definition Search :: "unicode_lower \<Rightarrow> jsstring \<Rightarrow> jsstring option \<Rightarrow> results_state \<Rightarrow>
    js_error + bool \<times> results_state" where
  "Search U loc search st =
     (let (d, matches) = filter_rows (row_matches U (search_key U loc search)) (doc st) in
      case set_display_id d (js ''Searching'') ''none'' of
        Inl e \<Rightarrow> Inl e
      | Inr d1 \<Rightarrow>
          (case set_display_id d1 (js ''NoMatches'') (if matches = 0 then ''block'' else ''none'') of
             Inl e \<Rightarrow> Inl e
           | Inr d2 \<Rightarrow> Inr (True, st\<lparr>doc := d2, lastMatchCount := matches\<rparr>)))"

text \<open>Loading a results page: the rows, the two status lines, and the search of its address.\<close>

definition load_results :: "unicode_lower \<Rightarrow> search_entry list \<Rightarrow> jsstring \<Rightarrow> js_error + results_state" where
  "load_results U searchData loc =
     (case createResults searchData page_skeleton of
        Inl e \<Rightarrow> Inl e
      | Inr d \<Rightarrow>
          (case set_display_id d (js ''Loading'') ''none'' of
             Inl e \<Rightarrow> Inl e
           | Inr d1 \<Rightarrow>
               (case set_display_id d1 (js ''NoMatches'') ''none'' of
                  Inl e \<Rightarrow> Inl e
                | Inr d2 \<Rightarrow> map_sum id snd (Search U loc None (new_results d2)))))"

end
