(* ===== verification/ResultsNav.thy ===== *)
theory ResultsNav
  imports SearchResults
begin

text \<open>
  Keyboard navigation on the results page (\<open>NavNext\<close>, \<open>NavPrev\<close>, \<open>ProcessKeys\<close>,
  \<open>Nav\<close>, \<open>NavChild\<close> and \<open>Toggle\<close> of the class \<open>SearchResults\<close>). The two scans are
  \<open>while (1)\<close> loops in the source; they are proved to stop, because every round uses up one
  of the finitely many elements that carry an item id.
\<close>

lemma inj_item_id: "inj item_id"
  by (rule injI) (simp add: item_id_def)

lemma inj_child_id: "inj (child_id e)"
  by (rule injI) (simp add: child_id_def)

subsection \<open>Visible items\<close>

text \<open>\<open>focusItem.parentNode.parentNode.style.display=='block'\<close>.\<close>

definition row_of :: "path \<Rightarrow> path" where
  "row_of p = butlast (butlast p)"

definition row_visible :: "dom \<Rightarrow> path \<Rightarrow> bool" where
  "row_visible d p \<longleftrightarrow> 2 \<le> length p \<and> display_at d (row_of p) = ''block''"

function NavNext :: "dom \<Rightarrow> int \<Rightarrow> path option" where
  "NavNext d index =
     (case getElementById d (item_id index) of
        Some focusItem \<Rightarrow> if row_visible d focusItem then Some focusItem else NavNext d (index + 1)
      | None \<Rightarrow> None)"
  by pat_completeness auto
termination
proof (relation "measure (\<lambda>(d, i). named_by d item_id {i..})", goal_cases)
  case (2 d i p)
  then show ?case using named_by_less [OF inj_item_id, of d i p "{i..}" "{i + 1..}"] by auto
qed simp

function NavPrev :: "dom \<Rightarrow> int \<Rightarrow> path option" where
  "NavPrev d index =
     (case getElementById d (item_id index) of
        Some focusItem \<Rightarrow> if row_visible d focusItem then Some focusItem else NavPrev d (index - 1)
      | None \<Rightarrow> None)"
  by pat_completeness auto
termination
proof (relation "measure (\<lambda>(d, i). named_by d item_id {..i})", goal_cases)
  case (2 d i p)
  then show ?case using named_by_less [OF inj_item_id, of d i p "{..i}" "{..i - 1}"] by auto
qed simp

declare NavNext.simps [simp del] NavPrev.simps [simp del]

subsection \<open>The key state\<close>

definition ProcessKeys :: "key_event \<Rightarrow> results_state \<Rightarrow> bool \<times> results_state" where
  "ProcessKeys e st =
     (if event_type e = ''keydown'' then
        (let st' = st\<lparr>repeatOn := False, lastKey := keyCode e\<rparr> in (lastKey st' \<noteq> 0, st'))
      else if event_type e = ''keypress'' then
        (if \<not> repeatOn st
         then (False, if lastKey st \<noteq> 0 then st\<lparr>repeatOn := True\<rparr> else st)
         else (lastKey st \<noteq> 0, st))
      else if event_type e = ''keyup'' then
        (let st' = st\<lparr>lastKey := 0, repeatOn := False\<rparr> in (lastKey st' \<noteq> 0, st'))
      else (lastKey st \<noteq> 0, st))"

subsection \<open>Moving the focus\<close>

text \<open>Effects outside the page state: which element is focused, and calls into the parent page.\<close>

datatype effect = FocusElement path | FocusSearchField | CloseResults

type_synonym handler_result = "js_error + bool \<times> results_state \<times> effect list"

text \<open>\<open>this.FindChildElement(item.parentNode.parentNode.id)\<close>.\<close>

definition row_children :: "dom \<Rightarrow> path \<Rightarrow> js_error + path option" where
  "row_children d p =
     (case id_at d (row_of p) of None \<Rightarrow> Inl TypeError | Some x \<Rightarrow> FindChildElement d x)"

text \<open>\<open>while (1)\<close> over \<open>Item<i>_c<n>\<close>: the last child of the row, or the item itself.\<close>

function last_child :: "dom \<Rightarrow> int \<Rightarrow> nat \<Rightarrow> path \<Rightarrow> path" where
  "last_child d i n focusItem =
     (case getElementById d (child_id i n) of
        Some tmpElem \<Rightarrow> last_child d i (Suc n) tmpElem
      | None \<Rightarrow> focusItem)"
  by pat_completeness auto
termination
proof (relation "measure (\<lambda>(d, i, n, _). named_by d (child_id i) {n..})", goal_cases)
  case (2 d i n p q)
  then show ?case using named_by_less [OF inj_child_id, of d i n _ "{n..}" "{Suc n..}"] by auto
qed simp

declare last_child.simps [simp del]

definition nav_up :: "int \<Rightarrow> results_state \<Rightarrow> handler_result" where
  "nav_up itemIndex st =
     (let d = doc st; newIndex = itemIndex - 1 in
      case NavPrev d newIndex of
        None \<Rightarrow> Inr (False, st, [FocusSearchField])
      | Some focusItem \<Rightarrow>
          (case row_children d focusItem of
             Inl e \<Rightarrow> Inl e
           | Inr child \<Rightarrow>
               (let target = (case child of
                      Some c \<Rightarrow> if display_at d c = ''block'' then last_child d newIndex 0 focusItem
                                else focusItem
                    | None \<Rightarrow> focusItem)
                in Inr (False, st, [FocusElement target]))))"

definition focus_option :: "path option \<Rightarrow> effect list" where
  "focus_option p = (case p of Some q \<Rightarrow> [FocusElement q] | None \<Rightarrow> [])"

definition nav_down :: "int \<Rightarrow> results_state \<Rightarrow> handler_result" where
  "nav_down itemIndex st =
     (let d = doc st in
      case getElementById d (item_id itemIndex) of
        None \<Rightarrow> Inl TypeError
      | Some item \<Rightarrow>
          (case row_children d item of
             Inl e \<Rightarrow> Inl e
           | Inr elem \<Rightarrow>
               (let first = (case elem of
                      Some c \<Rightarrow> if display_at d c = ''block'' then getElementById d (child_id itemIndex 0)
                                else None
                    | None \<Rightarrow> None);
                    focusItem = (case first of Some q \<Rightarrow> Some q | None \<Rightarrow> NavNext d (itemIndex + 1))
                in Inr (False, st, focus_option focusItem))))"

text \<open>The right and the left arrow show and hide the children of the row.\<close>

definition nav_show :: "int \<Rightarrow> string \<Rightarrow> results_state \<Rightarrow> handler_result" where
  "nav_show itemIndex v st =
     (case getElementById (doc st) (item_id itemIndex) of
        None \<Rightarrow> Inl TypeError
      | Some item \<Rightarrow>
          (case row_children (doc st) item of
             Inl e \<Rightarrow> Inl e
           | Inr None \<Rightarrow> Inr (False, st, [])
           | Inr (Some elem) \<Rightarrow> Inr (False, st\<lparr>doc := set_display (doc st) elem v\<rparr>, [])))"

definition Nav :: "key_event \<Rightarrow> int \<Rightarrow> results_state \<Rightarrow> handler_result" where
  "Nav e itemIndex st =
     (if keyCode e = 13 then Inr (True, st, [])
      else let (handle, st1) = ProcessKeys e st in
        if \<not> handle then Inr (False, st1, [])
        else if lastKey st1 = 38 then nav_up itemIndex st1
        else if lastKey st1 = 40 then nav_down itemIndex st1
        else if lastKey st1 = 39 then nav_show itemIndex ''block'' st1
        else if lastKey st1 = 37 then nav_show itemIndex ''none'' st1
        else if lastKey st1 = 27 then Inr (False, st1, [CloseResults, FocusSearchField])
        else if lastKey st1 = 13 then Inr (True, st1, [])
        else Inr (False, st1, []))"

definition NavChild :: "key_event \<Rightarrow> int \<Rightarrow> nat \<Rightarrow> results_state \<Rightarrow> handler_result" where
  "NavChild e itemIndex childIndex st =
     (if keyCode e = 13 then Inr (True, st, [])
      else let (handle, st1) = ProcessKeys e st; d = doc st1 in
        if \<not> handle then Inr (False, st1, [])
        else if lastKey st1 = 38 then
          (case (if childIndex > 0 then getElementById d (child_id itemIndex (childIndex - 1))
                 else getElementById d (item_id itemIndex)) of
             None \<Rightarrow> Inl TypeError
           | Some q \<Rightarrow> Inr (False, st1, [FocusElement q]))
        else if lastKey st1 = 40 then
          (let elem = (case getElementById d (child_id itemIndex (Suc childIndex)) of
                 Some q \<Rightarrow> Some q | None \<Rightarrow> NavNext d (itemIndex + 1))
           in Inr (False, st1, focus_option elem))
        else if lastKey st1 = 27 then Inr (False, st1, [CloseResults, FocusSearchField])
        else if lastKey st1 = 13 then Inr (True, st1, [])
        else Inr (False, st1, []))"

definition Toggle :: "jsstring \<Rightarrow> results_state \<Rightarrow> js_error + results_state" where
  "Toggle x st =
     (case FindChildElement (doc st) x of
        Inl e \<Rightarrow> Inl e
      | Inr None \<Rightarrow> Inr st
      | Inr (Some elem) \<Rightarrow>
          Inr (st\<lparr>doc := set_display (doc st) elem
            (if display_at (doc st) elem = ''block'' then ''none'' else ''block'')\<rparr>))"

end
