(* ===== verification/SearchPage.thy ===== *)
theory SearchPage
  imports ResultsNav
begin

text \<open>
  What the results page shows. The page that \<open>createResults\<close> builds is described row by row;
  \<open>results_page data d\<close> says that \<open>d\<close> is that page up to the inline display of its
  elements, which is the invariant of every handler. On such a page a search shows exactly the
  rows whose name starts with the search text.
\<close>

subsection \<open>The page built from an index\<close>

definition results_doc :: "dom list \<Rightarrow> dom" where
  "results_doc rs =
     Node (new_node ''BODY'')
       [Node ((new_node ''DIV'')\<lparr>node_id := js ''SRIndex''\<rparr>)
         [status_div ''Loading'',
          Node ((new_node ''DIV'')\<lparr>node_id := js ''SRResults''\<rparr>) rs,
          status_div ''Searching'', status_div ''NoMatches'']]"

fun rows_from :: "nat \<Rightarrow> search_entry list \<Rightarrow> dom list" where
  "rows_from e [] = []"
| "rows_from e (x # xs) = create_row e x # rows_from (Suc e) xs"

lemma length_rows_from [simp]: "length (rows_from e xs) = length xs"
  by (induction xs arbitrary: e) auto

lemma nth_rows_from: "i < length xs \<Longrightarrow> rows_from e xs ! i = create_row (e + i) (xs ! i)"
proof (induction xs arbitrary: e i)
  case (Cons x xs)
  then show ?case by (cases i) auto
qed simp

lemma append_results_doc: "append_at (results_doc rs) [0, 1] r = results_doc (rs @ [r])"
  by (simp add: results_doc_def)

lemma create_rows_doc:
  "create_rows e xs (Some [0, 1]) (results_doc rs) = Inr (results_doc (rs @ rows_from e xs))"
  by (induction xs arbitrary: e rs) (simp_all only: create_rows.simps option.simps
      append_results_doc rows_from.simps append_Nil2 append_assoc append_Cons append_Nil)

lemma page_skeleton_doc: "page_skeleton = results_doc []"
  by (simp add: page_skeleton_def results_doc_def)

lemma status_div_id: "getElementById (status_div name) x = (if js name = x then Some [] else None)"
  by (simp add: status_div_def)

lemma results_element: "getElementById page_skeleton (js ''SRResults'') = Some [0, 1]"
  by (simp add: page_skeleton_def new_node_def status_div_id)

lemma createResults_doc: "createResults data page_skeleton = Inr (results_doc (rows_from 0 data))"
  unfolding createResults_def results_element
  unfolding page_skeleton_doc create_rows_doc by simp

definition results_page :: "search_entry list \<Rightarrow> dom \<Rightarrow> bool" where
  "results_page data d \<longleftrightarrow> erase d = erase (results_doc (rows_from 0 data))"

lemma results_page_created: "results_page data (results_doc (rows_from 0 data))"
  by (simp add: results_page_def)

lemma results_page_set_display [simp]: "results_page data (set_display d p v) = results_page data d"
  by (simp add: results_page_def)

subsection \<open>One row\<close>

lemma foldl_appendChild: "foldl appendChild n cs = Node (ndata n) (childNodes n @ cs)"
  by (induction cs arbitrary: n) (simp_all add: appendChild_def)

text \<open>The part of a row behind its link: a scope, or the block of children.\<close>

definition row_extra :: "nat \<Rightarrow> search_entry \<Rightarrow> dom" where
  "row_extra e entry =
     (case entry_links entry of
        [(url, flag, scope)] \<Rightarrow> set_innerHTML scope (setClassAttr (createElement ''SPAN'') ''SRScope'')
      | links \<Rightarrow> foldl appendChild (setClassAttr (createElement ''DIV'') ''SRChildren'')
                 (create_children e 0 links))"

lemma row_extra_single:
  "length (entry_links x) = 1 \<Longrightarrow>
     \<exists>d t. row_extra e x = Node d [Node t []] \<and> nodeName d = ''SPAN'' \<and> node_id d = [] \<and>
       className d = ''SRScope'' \<and> nodeName t = ''#text'' \<and> node_id t = [] \<and> className t = []"
  by (auto simp: row_extra_def length_Suc_conv set_innerHTML_def setClassAttr_def setAttribute_def
      createElement_def new_node_def createText_def split: list.splits)

lemma row_extra_many:
  assumes "length (entry_links x) \<noteq> 1"
  shows "\<exists>d. row_extra e x = Node d (create_children e 0 (entry_links x)) \<and> nodeName d = ''DIV'' \<and>
       node_id d = [] \<and> className d = ''SRChildren'' \<and> display d = []"
proof -
  have "row_extra e x = foldl appendChild (setClassAttr (createElement ''DIV'') ''SRChildren'')
      (create_children e 0 (entry_links x))"
    using assms
    by (auto simp: row_extra_def simp del: foldl.simps create_children.simps split: list.splits)
  then show ?thesis
    unfolding foldl_appendChild
    by (simp add: setClassAttr_def setAttribute_def createElement_def new_node_def Let_def)
qed

lemma create_row_shape:
  "\<exists>rd ed ld t. create_row e x = Node rd [Node ed [Node ld [Node t []], row_extra e x]] \<and>
     nodeName rd = ''DIV'' \<and> node_id rd = js ''SR_'' @ entry_id x \<and> className rd = ''SRResult'' \<and>
     display rd = [] \<and>
     nodeName ed = ''DIV'' \<and> node_id ed = [] \<and> className ed = ''SREntry'' \<and>
     nodeName ld = ''A'' \<and> node_id ld = item_id (int e) \<and> className ld = ''SRSymbol'' \<and>
     nodeName t = ''#text'' \<and> node_id t = [] \<and> className t = []"
  unfolding create_row_def row_extra_def
  by (auto simp: Let_def appendChild_def set_innerHTML_def setClassAttr_def setAttribute_def
      setKeyActions_def set_target_def createElement_def createText_def new_node_def
      split: list.splits)

lemma create_child_shape:
  "\<exists>d t. create_child e c l = Node d [Node t []] \<and> nodeName d = ''A'' \<and> node_id d = child_id (int e) c \<and>
     className d = ''SRScope'' \<and> nodeName t = ''#text'' \<and> node_id t = [] \<and> className t = []"
  by (auto simp: create_child_def set_innerHTML_def setClassAttr_def setAttribute_def
      setKeyActions_def set_target_def createElement_def createText_def new_node_def Let_def
      split: prod.splits)

subsection \<open>The rows of the page\<close>

definition is_row :: "node_data \<Rightarrow> bool" where
  "is_row d \<longleftrightarrow> nodeName d = ''DIV'' \<and> className d = ''SRResult''"

lemma is_row_erase [simp]: "is_row (erase_data d) = is_row d"
  by (simp add: is_row_def)

text \<open>What the loop over the \<open>div\<close> elements does, element by element.\<close>

lemma filter_rows_list_Cons:
  "filter_rows_list f (k # ks) =
     (fst (filter_rows f k) # fst (filter_rows_list f ks),
      snd (filter_rows f k) + snd (filter_rows_list f ks))"
  by (simp add: Let_def split_def)

declare filter_rows_list.simps(2) [simp del] filter_rows_list_Cons [simp]

lemma filter_rows_list_length [simp]: "length (fst (filter_rows_list f ks)) = length ks"
  by (induction ks) auto

lemma filter_rows_list_nth: "i < length ks \<Longrightarrow> fst (filter_rows_list f ks) ! i = fst (filter_rows f (ks ! i))"
proof (induction ks arbitrary: i)
  case (Cons k ks)
  then show ?case by (cases i) auto
qed simp

definition filtered :: "(jsstring \<Rightarrow> bool) \<Rightarrow> node_data \<Rightarrow> node_data" where
  "filtered f d =
     (if is_row d then d\<lparr>display := (if f (node_id d) then ''block'' else ''none'')\<rparr> else d)"

lemma filter_rows_Node:
  "filter_rows f (Node d ks) =
     (Node (filtered f d) (fst (filter_rows_list f ks)),
      snd (filter_rows_list f ks) + (if is_row d \<and> f (node_id d) then 1 else 0))"
  by (simp add: filtered_def is_row_def split_def Let_def)

declare filter_rows.simps [simp del]

lemma filter_rows_at:
  "map_option ndata (dom_at (fst (filter_rows f n)) p) =
     map_option (\<lambda>m. filtered f (ndata m)) (dom_at n p)"
proof (induction p arbitrary: n)
  case Nil
  show ?case by (cases n) (simp add: filter_rows_Node)
next
  case (Cons i p)
  show ?case by (cases n) (auto simp: filter_rows_Node filter_rows_list_nth Cons.IH)
qed

lemma erase_filtered [simp]: "erase_data (filtered f d) = erase_data d"
  by (simp add: filtered_def)

lemma erase_filter_list:
  "(\<And>k. k \<in> set ks \<Longrightarrow> erase (fst (filter_rows f k)) = erase k) \<Longrightarrow>
     map erase (fst (filter_rows_list f ks)) = map erase ks"
  by (induction ks) auto

lemma erase_filter_rows [simp]: "erase (fst (filter_rows f n)) = erase n"
  by (induction n) (simp add: filter_rows_Node erase_filter_list)

text \<open>How many rows of a page match.\<close>

lemma no_rows_count: "(\<And>k. k \<in> set ks \<Longrightarrow> snd (filter_rows f k) = 0) \<Longrightarrow> snd (filter_rows_list f ks) = 0"
  by (induction ks) auto

lemma child_count: "snd (filter_rows f (create_child e c l)) = 0"
  using create_child_shape [of e c l] by (auto simp: filter_rows_Node is_row_def)

lemma children_count: "snd (filter_rows_list f (create_children e c ls)) = 0"
  by (induction ls arbitrary: c) (simp_all add: child_count)

lemma row_count:
  "snd (filter_rows f (create_row e x)) = (if f (js ''SR_'' @ entry_id x) then 1 else 0)"
proof -
  have "snd (filter_rows f (row_extra e x)) = 0"
    using row_extra_single [of x e] row_extra_many [of x e]
    by (cases "length (entry_links x) = 1") (auto simp: filter_rows_Node is_row_def children_count)
  then show ?thesis
    using create_row_shape [of e x] by (auto simp: filter_rows_Node is_row_def)
qed

lemma rows_count:
  "snd (filter_rows_list f (rows_from e xs)) = length (filter (\<lambda>x. f (js ''SR_'' @ entry_id x)) xs)"
  by (induction xs arbitrary: e) (auto simp: row_count)

lemma same_erase_count:
  "erase m = erase n \<Longrightarrow> snd (filter_rows f m) = snd (filter_rows f n)"
proof (induction m arbitrary: n)
  case (Node d ks)
  obtain d' ks' where n: "n = Node d' ks'" by (cases n)
  have eq: "map erase ks = map erase ks'" and d: "erase_data d = erase_data d'"
    using Node.prems n by auto
  have "snd (filter_rows_list f ks) = snd (filter_rows_list f ks')"
    using eq Node.IH
  proof (induction ks arbitrary: ks')
    case (Cons k ks)
    then obtain k' ks'' where "ks' = k' # ks''" by (cases ks') auto
    with Cons show ?case by auto
  qed simp
  moreover have "is_row d = is_row d'" "node_id d = node_id d'"
    using d by (metis is_row_erase, metis erase_data_simps(1))
  ultimately show ?case by (simp add: n filter_rows_Node)
qed

lemma results_page_count:
  assumes "results_page data d"
  shows "snd (filter_rows f d) = length (filter (\<lambda>x. f (js ''SR_'' @ entry_id x)) data)"
proof -
  have "snd (filter_rows f d) = snd (filter_rows f (results_doc (rows_from 0 data)))"
    using assms by (intro same_erase_count) (simp add: results_page_def)
  also have "\<dots> = length (filter (\<lambda>x. f (js ''SR_'' @ entry_id x)) data)"
    by (simp add: results_doc_def filter_rows_Node status_div_def is_row_def new_node_def
        rows_count)
  finally show ?thesis .
qed

subsection \<open>What the ids of the page name\<close>

lemma item_not_child: "item_id i \<noteq> child_id j c"
proof
  assume "item_id i = child_id j c"
  then have "js_int i = js_int j @ 95 # js ''c'' @ js_int (int c)"
    by (simp add: item_id_def child_id_def js_Cons)
  then show False using js_int_no_underscore [of i] by simp
qed

lemma child_id_eq: "child_id i c = child_id j d \<longleftrightarrow> i = j \<and> c = d"
  using js_int_underscore_split [of i "js ''c'' @ js_int (int c)" j "js ''c'' @ js_int (int d)"]
  by (simp add: child_id_def js_Cons)

lemma item_id_eq: "item_id i = item_id j \<longleftrightarrow> i = j"
  by (simp add: item_id_def)

lemma item_ids_not [simp]:
  "item_id i \<noteq> []" "[] \<noteq> item_id i" "child_id i c \<noteq> []" "[] \<noteq> child_id i c"
  "js ''SRIndex'' \<noteq> child_id i c" "js ''SRResults'' \<noteq> child_id i c"
  "js ''Loading'' \<noteq> child_id i c" "js ''Searching'' \<noteq> child_id i c" "js ''NoMatches'' \<noteq> child_id i c"
  "js ''SRIndex'' \<noteq> item_id i" "js ''SRResults'' \<noteq> item_id i" "js ''Loading'' \<noteq> item_id i"
  "js ''Searching'' \<noteq> item_id i" "js ''NoMatches'' \<noteq> item_id i"
  "js ''SR_'' @ s \<noteq> item_id i" "js ''SR_'' @ s \<noteq> child_id i c"
  by (simp_all add: item_id_def child_id_def js_def)

lemmas id_facts = item_not_child item_not_child [symmetric] child_id_eq item_id_eq

lemma child_lookup: "y \<noteq> [] \<Longrightarrow>
    getElementById (create_child e c l) y = (if y = child_id (int e) c then Some [] else None)"
  using create_child_shape [of e c l] by auto

lemma children_lookup: "y \<noteq> [] \<Longrightarrow> (\<And>k. y \<noteq> child_id (int e) k) \<Longrightarrow>
    by_id_list i (create_children e c ls) y = None"
  by (induction ls arbitrary: i c) (auto simp: child_lookup)

lemma children_lookup_child:
  "by_id_list i (create_children e c ls) (child_id j n) =
     (if j = int e \<and> c \<le> n \<and> n < c + length ls then Some [i + (n - c)] else None)"
proof (induction ls arbitrary: i c)
  case (Cons l ls)
  show ?case
  proof (cases "j = int e \<and> n = c")
    case True
    then show ?thesis by (simp add: child_lookup)
  next
    case False
    then have "getElementById (create_child e c l) (child_id j n) = None"
      by (auto simp: child_lookup child_id_eq)
    then have "by_id_list i (create_children e c (l # ls)) (child_id j n) =
        by_id_list (Suc i) (create_children e (Suc c) ls) (child_id j n)" by simp
    also have "\<dots> = (if j = int e \<and> Suc c \<le> n \<and> n < Suc c + length ls then Some [Suc i + (n - Suc c)] else None)"
      by (rule Cons.IH)
    finally show ?thesis using False by auto
  qed
qed simp

lemma extra_lookup: "y \<noteq> [] \<Longrightarrow> (\<And>k. y \<noteq> child_id (int e) k) \<Longrightarrow> getElementById (row_extra e x) y = None"
  using row_extra_single [of x e] row_extra_many [of x e]
  by (cases "length (entry_links x) = 1") (auto simp: children_lookup)

lemma extra_lookup_child:
  "getElementById (row_extra e x) (child_id j n) =
     (if j = int e \<and> length (entry_links x) \<noteq> 1 \<and> n < length (entry_links x) then Some [n] else None)"
  using row_extra_single [of x e] row_extra_many [of x e]
  by (cases "length (entry_links x) = 1") (auto simp: children_lookup_child)

lemma row_lookup_item:
  "getElementById (create_row e x) (item_id j) = (if j = int e then Some [0, 0] else None)"
  using create_row_shape [of e x] extra_lookup [of "item_id j" e x] by (auto simp: id_facts)

lemma row_lookup_child:
  "getElementById (create_row e x) (child_id j n) =
     (if j = int e \<and> length (entry_links x) \<noteq> 1 \<and> n < length (entry_links x)
      then Some [0, 1, n] else None)"
  using create_row_shape [of e x] extra_lookup_child [of e x j n] by (auto simp: id_facts)

lemma row_lookup_other:
  assumes "y \<noteq> []" "\<not> prefix (js ''SR_'') y" "\<not> prefix (js ''Item'') y"
  shows "getElementById (create_row e x) y = None"
proof -
  have "y \<noteq> item_id k" "y \<noteq> child_id k c" for k c
    using assms(3) by (auto simp: item_id_def child_id_def)
  moreover have "y \<noteq> js ''SR_'' @ s" for s using assms(2) by auto
  ultimately have "getElementById (row_extra e x) y = None" "item_id (int e) \<noteq> y"
    "js ''SR_'' @ entry_id x \<noteq> y"
    using extra_lookup [of y e x] assms(1) by blast+
  then show ?thesis using create_row_shape [of e x] assms(1) by auto
qed

lemma rows_lookup_item:
  "by_id_list i (rows_from e xs) (item_id j) =
     (if int e \<le> j \<and> j < int (e + length xs) then Some [i + nat (j - int e), 0, 0] else None)"
proof (induction xs arbitrary: i e)
  case (Cons x xs)
  show ?case
  proof (cases "j = int e")
    case True
    then show ?thesis by (simp add: row_lookup_item)
  next
    case False
    then have "by_id_list i (rows_from e (x # xs)) (item_id j) =
        by_id_list (Suc i) (rows_from (Suc e) xs) (item_id j)" by (simp add: row_lookup_item)
    also have "\<dots> = (if int (Suc e) \<le> j \<and> j < int (Suc e + length xs)
        then Some [Suc i + nat (j - int (Suc e)), 0, 0] else None)" by (rule Cons.IH)
    also have "\<dots> = (if int e \<le> j \<and> j < int (e + length (x # xs))
        then Some [i + nat (j - int e), 0, 0] else None)" using False by auto
    finally show ?thesis .
  qed
qed simp

lemma rows_lookup_other:
  "y \<noteq> [] \<Longrightarrow> \<not> prefix (js ''SR_'') y \<Longrightarrow> \<not> prefix (js ''Item'') y \<Longrightarrow>
     by_id_list i (rows_from e xs) y = None"
  by (induction xs arbitrary: i e) (simp_all add: row_lookup_other)

lemma doc_lookup_item:
  "results_page data d \<Longrightarrow> getElementById d (item_id j) =
     (if 0 \<le> j \<and> j < int (length data) then Some [0, 1, nat j, 0, 0] else None)"
  unfolding results_page_def
  by (drule same_erase_getElementById [where x = "item_id j"])
    (auto simp: results_doc_def new_node_def status_div_id rows_lookup_item)

lemma doc_lookup_status:
  assumes "results_page data d"
  shows "getElementById d (js ''Loading'') = Some [0, 0]"
    "getElementById d (js ''Searching'') = Some [0, 2]"
    "getElementById d (js ''NoMatches'') = Some [0, 3]"
  unfolding same_erase_getElementById [OF assms [unfolded results_page_def]]
  by (simp_all add: results_doc_def new_node_def status_div_id rows_lookup_other js_def)

lemma rows_lookup_child:
  "by_id_list i (rows_from e xs) (child_id j n) =
     (if int e \<le> j \<and> j < int (e + length xs) \<and> length (entry_links (xs ! nat (j - int e))) \<noteq> 1 \<and>
         n < length (entry_links (xs ! nat (j - int e)))
      then Some [i + nat (j - int e), 0, 1, n] else None)"
proof (induction xs arbitrary: i e)
  case (Cons x xs)
  show ?case
  proof (cases "j = int e")
    case True
    moreover have "by_id_list k (rows_from (Suc e) xs) (child_id (int e) n) = None" for k
      using Cons.IH [of k "Suc e"] True by simp
    ultimately show ?thesis by (simp add: row_lookup_child)
  next
    case False
    then have "by_id_list i (rows_from e (x # xs)) (child_id j n) =
        by_id_list (Suc i) (rows_from (Suc e) xs) (child_id j n)" by (simp add: row_lookup_child)
    moreover have "int (Suc e) \<le> j \<Longrightarrow> nat (j - int e) = Suc (nat (j - int (Suc e)))" by simp
    ultimately show ?thesis using Cons.IH [of "Suc i" "Suc e"] False
      by (auto simp: nth_Cons')
  qed
qed simp

lemma doc_lookup_child:
  "results_page data d \<Longrightarrow> getElementById d (child_id j n) =
     (if 0 \<le> j \<and> j < int (length data) \<and> length (entry_links (data ! nat j)) \<noteq> 1 \<and>
         n < length (entry_links (data ! nat j))
      then Some [0, 1, nat j, 0, 1, n] else None)"
  unfolding results_page_def
  by (drule same_erase_getElementById [where x = "child_id j n"])
    (simp add: results_doc_def new_node_def status_div_id rows_lookup_child)

end
