(* ===== verification/SearchCorrect.thy ===== *)
theory SearchCorrect
  imports SearchPage
begin

text \<open>
  The contract of the search on a results page, and of the keyboard scans over its rows. The
  page is the one built from an index whose entries are well formed (\<open>index_ok\<close>): every
  name is ASCII and every id is the identifier of the lower-cased name, which is how the index
  files of the repository are made.
\<close>

definition index_ok :: "search_entry list \<Rightarrow> bool" where
  "index_ok data \<longleftrightarrow>
     list_all (\<lambda>x. ascii (entry_name x) \<and> entry_id x = convertToId (map ascii_lower (entry_name x))) data"

lemma index_okD: "index_ok data \<Longrightarrow> x \<in> set data \<Longrightarrow>
    ascii (entry_name x) \<and> entry_id x = convertToId (map ascii_lower (entry_name x))"
  by (simp add: index_ok_def list_all_iff)

subsection \<open>Which rows match\<close>

lemma strip_sr_row:
  assumes "ascii nm"
  shows "strip_sr (toLowerCase U (js ''SR_'' @ convertToId nm)) = convertToId nm"
proof -
  have "ascii (js ''SR_'' @ convertToId nm)" using assms by (simp add: js_def)
  then have "toLowerCase U (js ''SR_'' @ convertToId nm) = js ''sr_'' @ convertToId nm"
    by (simp add: toLowerCase_ascii) (simp add: js_def ascii_lower_def)
  then show ?thesis by (simp add: strip_sr_def js_def is_digit_def)
qed

lemma row_matches_prefix:
  assumes "index_ok data" "x \<in> set data"
  shows "row_matches U (search_key U loc arg) (js ''SR_'' @ entry_id x) \<longleftrightarrow>
     prefix (search_text U loc arg) (map ascii_lower (entry_name x))"
  using index_okD [OF assms]
  by (simp add: row_matches_def search_key_def strip_sr_row prefix_take_iff [symmetric]
      id_prefix)

text \<open>The entries a search text selects.\<close>

definition selected :: "jsstring \<Rightarrow> search_entry \<Rightarrow> bool" where
  "selected t x \<longleftrightarrow> prefix t (map ascii_lower (entry_name x))"

definition row_path :: "nat \<Rightarrow> path" where
  "row_path e = [0, 1, e]"

lemma row_data:
  assumes "results_page data d" "e < length data"
  shows "\<exists>n. dom_at d (row_path e) = Some n \<and> is_row (ndata n) \<and>
     node_id (ndata n) = js ''SR_'' @ entry_id (data ! e)"
proof -
  let ?p = "results_doc (rows_from 0 data)"
  have p: "dom_at ?p (row_path e) = Some (create_row e (data ! e))"
    using assms(2) by (simp add: results_doc_def row_path_def nth_rows_from)
  obtain n where n: "dom_at d (row_path e) = Some n"
    and "erase n = erase (create_row e (data ! e))"
    using same_erase_dom_at [OF assms(1) [unfolded results_page_def], of "row_path e"] p
    by (cases "dom_at d (row_path e)") auto
  then have "erase_data (ndata n) = erase_data (ndata (create_row e (data ! e)))"
    by (metis ndata_erase)
  moreover have "is_row (ndata (create_row e (data ! e)))"
    "node_id (ndata (create_row e (data ! e))) = js ''SR_'' @ entry_id (data ! e)"
    using create_row_shape [of e "data ! e"] by (auto simp: is_row_def)
  ultimately show ?thesis using n by (metis is_row_erase erase_data_simps(1))
qed

lemma filtered_row_display:
  assumes "results_page data d" "e < length data"
  shows "display_at (fst (filter_rows f d)) (row_path e) =
     (if f (js ''SR_'' @ entry_id (data ! e)) then ''block'' else ''none'')"
proof -
  obtain n where "dom_at d (row_path e) = Some n" "is_row (ndata n)"
    "node_id (ndata n) = js ''SR_'' @ entry_id (data ! e)" using row_data [OF assms] by blast
  then show ?thesis
    using filter_rows_at [of f d "row_path e"]
    by (auto simp: display_at_def filtered_def split: option.splits)
qed

lemma results_page_filter [simp]: "results_page data (fst (filter_rows f d)) = results_page data d"
  by (simp add: results_page_def)

lemma results_page_valid:
  assumes "results_page data d"
  shows "dom_at d [0, 2] \<noteq> None" "dom_at d [0, 3] \<noteq> None" "dom_at d [0, 0] \<noteq> None"
  by (simp_all only: same_erase_valid [OF assms [unfolded results_page_def]])
    (simp_all add: results_doc_def)

lemma search_rows:
  assumes page: "results_page data (doc st)" and ok: "index_ok data"
    and t: "t = search_text U loc arg"
  shows "\<exists>st'. Search U loc arg st = Inr (True, st') \<and> results_page data (doc st') \<and>
    (\<forall>e < length data. display_at (doc st') (row_path e) =
        (if selected t (data ! e) then ''block'' else ''none'')) \<and>
    lastMatchCount st' = length (filter (selected t) data) \<and>
    display_at (doc st') [0, 3] = (if list_ex (selected t) data then ''none'' else ''block'')"
proof -
  let ?f = "row_matches U (search_key U loc arg)"
  have f: "?f (js ''SR_'' @ entry_id x) = selected t x" if "x \<in> set data" for x
    using row_matches_prefix [OF ok that] by (simp add: selected_def t)
  define m where "m = length (filter (selected t) data)"
  define d where "d = fst (filter_rows ?f (doc st))"
  define v where "v = (if m = 0 then ''block'' else ''none'')"
  have count: "snd (filter_rows ?f (doc st)) = m"
    using results_page_count [OF page] f by (simp add: m_def cong: filter_cong)
  have d: "results_page data d" using page by (simp add: d_def)
  have search: "Search U loc arg st = Inr (True,
      st\<lparr>doc := set_display (set_display d [0, 2] ''none'') [0, 3] v, lastMatchCount := m\<rparr>)"
    using count doc_lookup_status [OF d]
    by (simp add: Search_def split_def Let_def set_display_id_def d_def [symmetric] v_def)
  have rows: "display_at d (row_path e) = (if selected t (data ! e) then ''block'' else ''none'')"
    if "e < length data" for e
    using filtered_row_display [OF page that, of ?f] f that by (simp add: d_def)
  have "m = 0 \<longleftrightarrow> \<not> list_ex (selected t) data"
    by (simp add: m_def list_ex_iff filter_empty_conv)
  then have "display_at (set_display (set_display d [0, 2] ''none'') [0, 3] v) [0, 3] =
      (if list_ex (selected t) data then ''none'' else ''block'')"
    using results_page_valid [OF d] by (simp only: set_display_at set_display_valid v_def) simp
  moreover have "display_at (set_display (set_display d [0, 2] ''none'') [0, 3] v) (row_path e) =
      (if selected t (data ! e) then ''block'' else ''none'')" if "e < length data" for e
    using rows [OF that] by (simp add: set_display_at row_path_def)
  ultimately show ?thesis using search d by (simp add: m_def)
qed

text \<open>
  C3. A search on a results page always succeeds and returns true, keeps the page's elements,
  and shows exactly the rows whose lower-cased name starts with the search text: each such row
  has display \<open>block\<close>, every other row \<open>none\<close>; the match count is the number of rows shown
  and the line "No Matches" is shown exactly when there is none.
\<close>

theorem Search_shows_matches:
  assumes page: "results_page data (doc st)" and ok: "index_ok data"
    and t: "t = search_text U loc arg"
  shows "\<exists>st'. Search U loc arg st = Inr (True, st') \<and> results_page data (doc st') \<and>
    (\<forall>e < length data. display_at (doc st') (row_path e) =
        (if selected t (data ! e) then ''block'' else ''none'')) \<and>
    lastMatchCount st' = length (filter (selected t) data) \<and>
    display_at (doc st') [0, 3] = (if list_ex (selected t) data then ''none'' else ''block'')"
  using assms by (rule search_rows)

text \<open>
  C24. Opening a results page at an address \<open>page?escape(text)\<close> is searching for \<open>text\<close>: the
  escaped query survives the address and \<open>unescape\<close> gives the text back unit by unit, for
  any UTF-16 text and any lower-casing.
\<close>

theorem query_roundtrip:
  assumes "63 \<notin> set page" "35 \<notin> set page" "s \<noteq> []"
  shows "search_text U (page @ js ''?'' @ escape s) None = search_text U loc (Some s)"
  using assms(3) location_search_escape [OF assms(1,2), of s]
  by (simp add: search_text_def js_Cons)

end
