(* ===== verification/IndexFormat.thy ===== *)
theory IndexFormat
  imports SearchCorrect
begin

text \<open>
  The entries of the index files \<open>docs/docs/search/*_*.js\<close> as literals, and a check that an
  index is well formed which reads an entry's id and name character by character.
\<close>

definition link :: "string \<Rightarrow> bool \<Rightarrow> string \<Rightarrow> jsstring \<times> bool \<times> jsstring" where
  "link url flag scope = (js url, flag, js scope)"

definition entry :: "string \<Rightarrow> string \<Rightarrow> (jsstring \<times> bool \<times> jsstring) list \<Rightarrow> search_entry" where
  "entry i nm links = \<lparr>entry_id = js i, entry_name = js nm, entry_links = links\<rparr>"

text \<open>The id of an entry is the identifier of its lower-cased name.\<close>

definition id_check :: "string \<Rightarrow> string \<Rightarrow> bool" where
  "id_check i nm \<longleftrightarrow> ascii (js nm) \<and> js i = convertToId (map ascii_lower (js nm))"

text \<open>Every name of the page is found under the page's character.\<close>

definition under_char :: "jschar \<Rightarrow> search_entry list \<Rightarrow> bool" where
  "under_char c data \<longleftrightarrow> list_all (\<lambda>x. entry_name x \<noteq> [] \<and> ascii_lower (hd (entry_name x)) = c) data"

definition page_ok :: "jschar \<Rightarrow> search_entry list \<Rightarrow> bool" where
  "page_ok c data \<longleftrightarrow> index_ok data \<and> under_char c data"

lemma page_ok_simps:
  "page_ok c []"
  "page_ok c (entry i (a # nm) links # data) \<longleftrightarrow>
     ascii_lower (of_char a) = c \<and> id_check i (a # nm) \<and> page_ok c data"
  by (auto simp: page_ok_def index_ok_def under_char_def entry_def id_check_def js_Cons)

lemma id_check_plain:
  assumes "id_unit (ascii_lower (of_char c))" "(of_char c :: jschar) < 128"
    "(of_char d :: jschar) = ascii_lower (of_char c)"
  shows "id_check (d # i) (c # s) = id_check i s"
  using assms by (simp add: id_check_def js_Cons convertToId_concat convert_unit_plain)

lemma id_check_escaped:
  assumes "\<not> id_unit (ascii_lower (of_char c))" "(of_char c :: jschar) < 128"
    "js [d1, d2, d3] = convert_unit (ascii_lower (of_char c))"
  shows "id_check (d1 # d2 # d3 # i) (c # s) = id_check i s"
proof -
  have "convert_unit (ascii_lower (of_char c)) = [of_char d1, of_char d2, of_char d3]"
    using assms(3) by (simp add: js_Cons)
  then show ?thesis using assms(2) by (simp add: id_check_def js_Cons convertToId_concat)
qed

lemma id_check_end: "id_check [] []"
  by (simp add: id_check_def convertToId_concat)

lemma id_check_rules:
  "id_check (CHR ''_'' # CHR ''2'' # CHR ''0'' # i) (CHR '' '' # s) = id_check i s"
  "id_check (CHR ''_'' # CHR ''2'' # CHR ''8'' # i) (CHR ''('' # s) = id_check i s"
  "id_check (CHR ''_'' # CHR ''2'' # CHR ''9'' # i) (CHR '')'' # s) = id_check i s"
  "id_check (CHR ''_'' # CHR ''2'' # CHR ''d'' # i) (CHR ''-'' # s) = id_check i s"
  "id_check (CHR ''_'' # CHR ''2'' # CHR ''e'' # i) (CHR ''.'' # s) = id_check i s"
  "id_check (CHR ''_'' # CHR ''3'' # CHR ''a'' # i) (CHR '':'' # s) = id_check i s"
  "id_check (CHR ''a'' # i) (CHR ''A'' # s) = id_check i s"
  "id_check (CHR ''b'' # i) (CHR ''B'' # s) = id_check i s"
  "id_check (CHR ''c'' # i) (CHR ''C'' # s) = id_check i s"
  "id_check (CHR ''d'' # i) (CHR ''D'' # s) = id_check i s"
  "id_check (CHR ''e'' # i) (CHR ''E'' # s) = id_check i s"
  "id_check (CHR ''f'' # i) (CHR ''F'' # s) = id_check i s"
  "id_check (CHR ''g'' # i) (CHR ''G'' # s) = id_check i s"
  "id_check (CHR ''h'' # i) (CHR ''H'' # s) = id_check i s"
  "id_check (CHR ''i'' # i) (CHR ''I'' # s) = id_check i s"
  "id_check (CHR ''k'' # i) (CHR ''K'' # s) = id_check i s"
  "id_check (CHR ''l'' # i) (CHR ''L'' # s) = id_check i s"
  "id_check (CHR ''m'' # i) (CHR ''M'' # s) = id_check i s"
  "id_check (CHR ''n'' # i) (CHR ''N'' # s) = id_check i s"
  "id_check (CHR ''o'' # i) (CHR ''O'' # s) = id_check i s"
  "id_check (CHR ''p'' # i) (CHR ''P'' # s) = id_check i s"
  "id_check (CHR ''r'' # i) (CHR ''R'' # s) = id_check i s"
  "id_check (CHR ''s'' # i) (CHR ''S'' # s) = id_check i s"
  "id_check (CHR ''t'' # i) (CHR ''T'' # s) = id_check i s"
  "id_check (CHR ''u'' # i) (CHR ''U'' # s) = id_check i s"
  "id_check (CHR ''v'' # i) (CHR ''V'' # s) = id_check i s"
  "id_check (CHR ''w'' # i) (CHR ''W'' # s) = id_check i s"
  "id_check (CHR ''x'' # i) (CHR ''X'' # s) = id_check i s"
  "id_check (CHR ''z'' # i) (CHR ''Z'' # s) = id_check i s"
  "id_check (CHR ''_'' # CHR ''5'' # CHR ''f'' # i) (CHR ''_'' # s) = id_check i s"
  "id_check (CHR ''a'' # i) (CHR ''a'' # s) = id_check i s"
  "id_check (CHR ''b'' # i) (CHR ''b'' # s) = id_check i s"
  "id_check (CHR ''c'' # i) (CHR ''c'' # s) = id_check i s"
  "id_check (CHR ''d'' # i) (CHR ''d'' # s) = id_check i s"
  "id_check (CHR ''e'' # i) (CHR ''e'' # s) = id_check i s"
  "id_check (CHR ''f'' # i) (CHR ''f'' # s) = id_check i s"
  "id_check (CHR ''g'' # i) (CHR ''g'' # s) = id_check i s"
  "id_check (CHR ''h'' # i) (CHR ''h'' # s) = id_check i s"
  "id_check (CHR ''i'' # i) (CHR ''i'' # s) = id_check i s"
  "id_check (CHR ''k'' # i) (CHR ''k'' # s) = id_check i s"
  "id_check (CHR ''l'' # i) (CHR ''l'' # s) = id_check i s"
  "id_check (CHR ''m'' # i) (CHR ''m'' # s) = id_check i s"
  "id_check (CHR ''n'' # i) (CHR ''n'' # s) = id_check i s"
  "id_check (CHR ''o'' # i) (CHR ''o'' # s) = id_check i s"
  "id_check (CHR ''p'' # i) (CHR ''p'' # s) = id_check i s"
  "id_check (CHR ''q'' # i) (CHR ''q'' # s) = id_check i s"
  "id_check (CHR ''r'' # i) (CHR ''r'' # s) = id_check i s"
  "id_check (CHR ''s'' # i) (CHR ''s'' # s) = id_check i s"
  "id_check (CHR ''t'' # i) (CHR ''t'' # s) = id_check i s"
  "id_check (CHR ''u'' # i) (CHR ''u'' # s) = id_check i s"
  "id_check (CHR ''v'' # i) (CHR ''v'' # s) = id_check i s"
  "id_check (CHR ''w'' # i) (CHR ''w'' # s) = id_check i s"
  "id_check (CHR ''x'' # i) (CHR ''x'' # s) = id_check i s"
  "id_check (CHR ''y'' # i) (CHR ''y'' # s) = id_check i s"
  "id_check (CHR ''z'' # i) (CHR ''z'' # s) = id_check i s"
  by (simp_all add: id_check_plain id_check_escaped id_unit_def ascii_lower_def convert_unit_escaped
      digit_unit_def js_Cons)

lemma entry_ids: "entry_id (entry i nm links) = js i"
  by (simp add: entry_def)

lemmas page_check = page_ok_simps id_check_rules id_check_end

end
