(* ===== verification/IndexMembers.thy ===== *)
theory IndexMembers
  imports IndexFormat
begin

text \<open>
  The index pages of the sections functions, variables and properties (\<open>docs/docs/search/functions_*.js\<close> and so on): the entries of each
  file, in its order, and the check that the page is well formed.
\<close>

definition index_functions_0 :: "search_entry list" where
  "index_functions_0 = [
     entry ''addattribute_3arange_3a'' ''addAttribute:range:'' [link ''../interface_h_f_byte_range_attribute_array.html#a2b66b8985f579eb9e926e847a80262b0'' True ''HFByteRangeAttributeArray''],
     entry ''addindexesinrange_3a'' ''addIndexesInRange:'' [link ''../interface_h_f_mutable_index_set.html#ad998934060aa345871d5d9b6dc26dcf1'' True ''HFMutableIndexSet''],
     entry ''addrange_3a'' ''addRange:'' [link ''../interface_h_f_range_set.html#a653a286582d255e32e46817a0bc65df7'' True ''HFRangeSet''],
     entry ''addrangeset_3a'' ''addRangeSet:'' [link ''../interface_h_f_range_set.html#a636758df1794511d60df742651181535'' True ''HFRangeSet''],
     entry ''addrepresenter_3a'' ''addRepresenter:'' [link ''../interface_h_f_controller.html#ad73e4ffe460788bcd9eb92ce787e1bb3'' True ''HFController::addRepresenter:()'', link ''../interface_h_f_layout_representer.html#aca136d6a74a923a097b4db784e9af1d5'' True ''HFLayoutRepresenter::addRepresenter:()''],
     entry ''applytobytearray_3a'' ''applyToByteArray:'' [link ''../interface_h_f_byte_array_edit_script.html#aed4c72ace131149a1a411422425d3bec'' True ''HFByteArrayEditScript''],
     entry ''assertintegrity'' ''assertIntegrity'' [link ''../interface_h_f_range_set.html#acbe0f601394a711908d17a142bd61227'' True ''HFRangeSet''],
     entry ''attributeenumerator'' ''attributeEnumerator'' [link ''../interface_h_f_byte_range_attribute_array.html#ae6599c45b61225a38f68e0dac6dbbf0a'' True ''HFByteRangeAttributeArray''],
     entry ''attributesatindex_3alength_3a'' ''attributesAtIndex:length:'' [link ''../interface_h_f_byte_range_attribute_array.html#a8216048811d6fd851c8f33e1dcc89a17'' True ''HFByteRangeAttributeArray''],
     entry ''attributesforbytesinrange_3a'' ''attributesForBytesInRange:'' [link ''../category_h_f_byte_array_07_h_f_attributes_08.html#aac315a01effd4c2c4862294b4f1d6891'' True ''HFByteArray(HFAttributes)::attributesForBytesInRange:()'', link ''../category_h_f_byte_slice_07_h_f_attributes_08.html#a5c49476fd844bb0f18621471f41981a3'' True ''HFByteSlice(HFAttributes)::attributesForBytesInRange:()'', link ''../interface_h_f_controller.html#aee334d276545d87999f50068d92fdbc9'' True ''HFController::attributesForBytesInRange:()'', link ''../interface_h_f_byte_array.html#aac315a01effd4c2c4862294b4f1d6891'' True ''HFByteArray::attributesForBytesInRange:()'', link ''../interface_h_f_byte_slice.html#a5c49476fd844bb0f18621471f41981a3'' True ''HFByteSlice::attributesForBytesInRange:()''],
     entry ''attributesinrange_3a'' ''attributesInRange:'' [link ''../interface_h_f_byte_range_attribute_array.html#adb2542400be59ee59e4a305190b82cdd'' True ''HFByteRangeAttributeArray'']]"

lemma index_functions_0_ok: "page_ok 97 index_functions_0"
  unfolding index_functions_0_def by (simp add: page_check ascii_lower_def)

lemma index_functions_0_ids: "distinct (map entry_id index_functions_0)"
  unfolding index_functions_0_def by (simp add: entry_ids)

definition index_functions_1 :: "search_entry list" where
  "index_functions_1 = [
     entry ''beginpropertychangetransaction'' ''beginPropertyChangeTransaction'' [link ''../interface_h_f_controller.html#ae06e532a971d22fdbee319e6d945dfc0'' True ''HFController''],
     entry ''beginselectionwithevent_3aforbyteindex_3a'' ''beginSelectionWithEvent:forByteIndex:'' [link ''../interface_h_f_controller.html#ace15457e82be596d88508f57450743e4'' True ''HFController''],
     entry ''begintrackingprogress'' ''beginTrackingProgress'' [link ''../interface_h_f_progress_tracker.html#a5ade4a43db3775d7d3c956b35963fc76'' True ''HFProgressTracker''],
     entry ''bookmarksinrange_3a'' ''bookmarksInRange:'' [link ''../interface_h_f_controller.html#a2d070cf8360a9a5caf0ecabcb68e826e'' True ''HFController''],
     entry ''bytearrayforselectedcontentsranges'' ''byteArrayForSelectedContentsRanges'' [link ''../interface_h_f_controller.html#a7fbfe5277deb412a9cf30e4d23768d6a'' True ''HFController''],
     entry ''bytegranularity'' ''byteGranularity'' [link ''../interface_h_f_representer.html#a5393437fbe020d3079a979a7383eb67b'' True ''HFRepresenter''],
     entry ''byterange_3awasreplacedbybytesoflength_3a'' ''byteRange:wasReplacedByBytesOfLength:'' [link ''../interface_h_f_byte_range_attribute_array.html#a9db89350dd7344ea736dbca3e7571ff4'' True ''HFByteRangeAttributeArray''],
     entry ''byterangeattributearray'' ''byteRangeAttributeArray'' [link ''../category_h_f_byte_array_07_h_f_attributes_08.html#a9e7df21b4d7418dcfbb5e08dd08a3d13'' True ''HFByteArray(HFAttributes)::byteRangeAttributeArray()'', link ''../interface_h_f_controller.html#ae6f97f85a07846c175eec9d120b7ab0c'' True ''HFController::byteRangeAttributeArray()'', link ''../interface_h_f_byte_array.html#a9e7df21b4d7418dcfbb5e08dd08a3d13'' True ''HFByteArray::byteRangeAttributeArray()''],
     entry ''byteslicebyappendingslice_3a'' ''byteSliceByAppendingSlice:'' [link ''../interface_h_f_byte_slice.html#a07d6bdb1e6133abd396792a6d4f7a174'' True ''HFByteSlice''],
     entry ''bytesliceenumerator'' ''byteSliceEnumerator'' [link ''../interface_h_f_byte_array.html#a97980272d1583849b2ba0db9c3d28448'' True ''HFByteArray''],
     entry ''byteslices'' ''byteSlices'' [link ''../interface_h_f_byte_array.html#ad5bc7decb596b958f03659fecc8ab2cf'' True ''HFByteArray''],
     entry ''bytespercolumn'' ''bytesPerColumn'' [link ''../interface_h_f_representer.html#ae4f756afd4c3b7c44f710fa7374c582d'' True ''HFRepresenter''],
     entry ''bytesperline'' ''bytesPerLine'' [link ''../interface_h_f_controller.html#aed984819ab1e75a22e77b6635fcd4fac'' True ''HFController::bytesPerLine()'', link ''../interface_h_f_representer.html#a821a42b782b48dd2dda877807f0eff54'' True ''HFRepresenter::bytesPerLine()'']]"

lemma index_functions_1_ok: "page_ok 98 index_functions_1"
  unfolding index_functions_1_def by (simp add: page_check ascii_lower_def)

lemma index_functions_1_ids: "distinct (map entry_id index_functions_1)"
  unfolding index_functions_1_def by (simp add: entry_ids)

definition index_functions_2 :: "search_entry list" where
  "index_functions_2 = [
     entry ''centercontentsrange_3a'' ''centerContentsRange:'' [link ''../interface_h_f_controller.html#a1f6f628d0e41ad0f9d08fcb6e4859ff6'' True ''HFController''],
     entry ''changegenerationcount'' ''changeGenerationCount'' [link ''../interface_h_f_byte_array.html#afd62e6b3be8b05596494c5fbb7d7ea0f'' True ''HFByteArray''],
     entry ''changesarelocked'' ''changesAreLocked'' [link ''../interface_h_f_byte_array.html#a7b940818a34e5fc956cc05aacdd6e200'' True ''HFByteArray''],
     entry ''cleardependenciesonranges_3ainfile_3ahint_3a'' ''clearDependenciesOnRanges:inFile:hint:'' [link ''../category_h_f_byte_array_07_h_f_file_writing_08.html#a7ea74a3d609086f0ece0998ff96947e9'' True ''HFByteArray(HFFileWriting)::clearDependenciesOnRanges:inFile:hint:()'', link ''../interface_h_f_byte_array.html#a7ea74a3d609086f0ece0998ff96947e9'' True ''HFByteArray::clearDependenciesOnRanges:inFile:hint:()''],
     entry ''clearundomanagerdependenciesonranges_3ainfile_3ahint_3a'' ''clearUndoManagerDependenciesOnRanges:inFile:hint:'' [link ''../interface_h_f_controller.html#a7a967d099a9a9dbed8c64cb1e0057c3b'' True ''HFController''],
     entry ''cliptorange_3a'' ''clipToRange:'' [link ''../interface_h_f_range_set.html#aa3a90c8ac76528d1f5663f7433c40286'' True ''HFRangeSet''],
     entry ''cliptorangeset_3a'' ''clipToRangeSet:'' [link ''../interface_h_f_range_set.html#a97c927d730e20dc44094c83282d14e78'' True ''HFRangeSet''],
     entry ''close'' ''close'' [link ''../interface_h_f_file_reference.html#a3ed63c568c05f301fcd4b56056eaa779'' True ''HFFileReference''],
     entry ''complementofrangeset_3ainrange_3a'' ''complementOfRangeSet:inRange:'' [link ''../interface_h_f_range_set.html#a0a652b7e64280be25b9190fcc96a6a07'' True ''HFRangeSet''],
     entry ''containsallrange_3a'' ''containsAllRange:'' [link ''../interface_h_f_range_set.html#aabb11a917ccf4a5116d807576acd185f'' True ''HFRangeSet''],
     entry ''containsallrangeset_3a'' ''containsAllRangeSet:'' [link ''../interface_h_f_range_set.html#a0a1d77b47914c8a02cf7d9d6a7ba65c5'' True ''HFRangeSet''],
     entry ''contentslength'' ''contentsLength'' [link ''../interface_h_f_controller.html#a63873f2b9439048b9ba1c406ec033b44'' True ''HFController''],
     entry ''continueselectionwithevent_3aforbyteindex_3a'' ''continueSelectionWithEvent:forByteIndex:'' [link ''../interface_h_f_controller.html#a8cca61e51681851e7214c6e83e5ea4a3'' True ''HFController''],
     entry ''controller'' ''controller'' [link ''../interface_h_f_representer.html#ac2c63f016e14f6de4bcb9312ceca4998'' True ''HFRepresenter''],
     entry ''controllerdidchange_3a'' ''controllerDidChange:'' [link ''../interface_h_f_representer.html#a23c079ab89921b0b54b3072a1c494107'' True ''HFRepresenter''],
     entry ''copybytes_3arange_3a'' ''copyBytes:range:'' [link ''../interface_h_f_byte_array.html#aac0168b2f3cedf0bd2fdf110e761ae1e'' True ''HFByteArray::copyBytes:range:()'', link ''../interface_h_f_byte_slice.html#a3c95912198358d73730de8aa53b56c01'' True ''HFByteSlice::copyBytes:range:()'', link ''../interface_h_f_controller.html#a192bb66065016f462de21621a1a9627d'' True ''HFController::copyBytes:range:()''],
     entry ''countofvalues'' ''countOfValues'' [link ''../interface_h_f_index_set.html#a097b231e179acb15ab02f6d38b7aa7a0'' True ''HFIndexSet''],
     entry ''countofvaluesinrange_3a'' ''countOfValuesInRange:'' [link ''../interface_h_f_index_set.html#a93bce4849051ec3c44ea2ae9445cccfa'' True ''HFIndexSet''],
     entry ''cyclelinenumberformat'' ''cycleLineNumberFormat'' [link ''../interface_h_f_line_counting_representer.html#aa303df41e6d3259a0125bf387a80ae3c'' True ''HFLineCountingRepresenter'']]"

lemma index_functions_2_ok: "page_ok 99 index_functions_2"
  unfolding index_functions_2_def by (simp add: page_check ascii_lower_def)

lemma index_functions_2_ids: "distinct (map entry_id index_functions_2)"
  unfolding index_functions_2_def by (simp add: entry_ids)

definition index_functions_3 :: "search_entry list" where
  "index_functions_3 = [
     entry ''dataforrange_3a'' ''dataForRange:'' [link ''../interface_h_f_controller.html#a1cde2c2c601a6093183bf5d46744e41c'' True ''HFController''],
     entry ''decrementchangelockcounter'' ''decrementChangeLockCounter'' [link ''../interface_h_f_byte_array.html#a48d930eebf0df5ec921678feadc84388'' True ''HFByteArray''],
     entry ''defaultlayoutposition'' ''defaultLayoutPosition'' [link ''../interface_h_f_representer.html#a242a7e6f74430c85bcaf9b3fe01e8fbf'' True ''HFRepresenter''],
     entry ''deletebytesinrange_3a'' ''deleteBytesInRange:'' [link ''../interface_h_f_byte_array.html#a2d706967a198c9ce83927aac0b1a8e53'' True ''HFByteArray''],
     entry ''deletedirection_3a'' ''deleteDirection:'' [link ''../interface_h_f_controller.html#a3ab4cca9b78f0d7654a7a47a8f5d3348'' True ''HFController''],
     entry ''deleteselection'' ''deleteSelection'' [link ''../interface_h_f_controller.html#af00b1ffb077f9a69e4e81271e2326a65'' True ''HFController''],
     entry ''digitsrequiredtodisplaylinenumber_3ainformat_3a'' ''digitsRequiredToDisplayLineNumber:inFormat:'' [link ''../interface_h_f_line_counting_view.html#acee065f7ee03863795c88b85fc0214f9'' True ''HFLineCountingView'']]"

lemma index_functions_3_ok: "page_ok 100 index_functions_3"
  unfolding index_functions_3_def by (simp add: page_check ascii_lower_def)

lemma index_functions_3_ids: "distinct (map entry_id index_functions_3)"
  unfolding index_functions_3_def by (simp add: entry_ids)

definition index_functions_4 :: "search_entry list" where
  "index_functions_4 = [
     entry ''endpropertychangetransaction_3a'' ''endPropertyChangeTransaction:'' [link ''../interface_h_f_controller.html#abd125ad02e37fdfe9717009802299521'' True ''HFController''],
     entry ''endselectionwithevent_3aforbyteindex_3a'' ''endSelectionWithEvent:forByteIndex:'' [link ''../interface_h_f_controller.html#a6056a241ed5578f3158f2057a6e0c154'' True ''HFController''],
     entry ''endtrackingprogress'' ''endTrackingProgress'' [link ''../interface_h_f_progress_tracker.html#ae94239c895ee93b2bf4e680def6d3eb4'' True ''HFProgressTracker'']]"

lemma index_functions_4_ok: "page_ok 101 index_functions_4"
  unfolding index_functions_4_def by (simp add: page_check ascii_lower_def)

lemma index_functions_4_ids: "distinct (map entry_id index_functions_4)"
  unfolding index_functions_4_def by (simp add: entry_ids)

definition index_functions_5 :: "search_entry list" where
  "index_functions_5 = [
     entry ''furthestrectonedge_3aforbyterange_3a'' ''furthestRectOnEdge:forByteRange:'' [link ''../interface_h_f_text_representer.html#a3f12926813c569493d899818bda41842'' True ''HFTextRepresenter'']]"

lemma index_functions_5_ok: "page_ok 102 index_functions_5"
  unfolding index_functions_5_def by (simp add: page_check ascii_lower_def)

lemma index_functions_5_ids: "distinct (map entry_id index_functions_5)"
  unfolding index_functions_5_def by (simp add: entry_ids)

definition index_functions_6 :: "search_entry list" where
  "index_functions_6 = [
     entry ''getranges_3afromarray_3a'' ''getRanges:fromArray:'' [link ''../interface_h_f_range_wrapper.html#ab9bbc5804b1340096cd4e74eddc19e2e'' True ''HFRangeWrapper'']]"

lemma index_functions_6_ok: "page_ok 103 index_functions_6"
  unfolding index_functions_6_def by (simp add: page_check ascii_lower_def)

lemma index_functions_6_ids: "distinct (map entry_id index_functions_6)"
  unfolding index_functions_6_def by (simp add: entry_ids)

definition index_functions_7 :: "search_entry list" where
  "index_functions_7 = [
     entry ''hextextview_3adidchangeproperties_3a'' ''hexTextView:didChangeProperties:'' [link ''../protocol_h_f_text_view_delegate_01-p.html#a4e5b12ec232d718dc91b703623732cb5'' True ''HFTextViewDelegate -p''],
     entry ''hfbookmarkattributefrombookmark'' ''HFBookmarkAttributeFromBookmark'' [link ''../_h_f_byte_range_attribute_8h.html#a79f7140206660d88dcdcb64939b5362a'' True ''HFByteRangeAttribute.h''],
     entry ''hfbookmarkfrombookmarkattribute'' ''HFBookmarkFromBookmarkAttribute'' [link ''../_h_f_byte_range_attribute_8h.html#ad6571422e49054f418be984eb2eee1b4'' True ''HFByteRangeAttribute.h''],
     entry ''hfdescribebytecount'' ''HFDescribeByteCount'' [link ''../_h_f_functions_8h.html#a559dddb38ff414cfacf5021529f3c18c'' True ''HFFunctions.h''],
     entry ''hfdrawshadow'' ''HFDrawShadow'' [link ''../_h_f_functions_8h.html#aa1e2340e72af073b5120505b4b0a291b'' True ''HFFunctions.h''],
     entry ''hfrange'' ''HFRange'' [link ''../interface_h_f_range_wrapper.html#a2c0169bf7e032062da362aa382a29c77'' True ''HFRangeWrapper''],
     entry ''hfregisterviewforwindowappearancechanges'' ''HFRegisterViewForWindowAppearanceChanges'' [link ''../_h_f_functions_8h.html#aab18db79475cdbd6490f33a970a64d71'' True ''HFFunctions.h''],
     entry ''hfstarttiming'' ''HFStartTiming'' [link ''../_h_f_functions_8h.html#a3bc1e8785697a055602a93858f081758'' True ''HFFunctions.h''],
     entry ''hfstoptiming'' ''HFStopTiming'' [link ''../_h_f_functions_8h.html#a92ef6ce654b87c024d9818c3eb32b310'' True ''HFFunctions.h''],
     entry ''hfstringencodingcharacterlength'' ''HFStringEncodingCharacterLength'' [link ''../_h_f_functions_8h.html#af701c91f3cf2fe151c68e239a40a79a5'' True ''HFFunctions.h''],
     entry ''hfstringencodingissupersetofascii'' ''HFStringEncodingIsSupersetOfASCII'' [link ''../_h_f_functions_8h.html#a925eaf1edd5e195cc196cc300c13276c'' True ''HFFunctions.h''],
     entry ''hfunregisterviewforwindowappearancechanges'' ''HFUnregisterViewForWindowAppearanceChanges'' [link ''../_h_f_functions_8h.html#ac1a3bb72a6760c6488bd9223be25d789'' True ''HFFunctions.h'']]"

lemma index_functions_7_ok: "page_ok 104 index_functions_7"
  unfolding index_functions_7_def by (simp add: page_check ascii_lower_def)

lemma index_functions_7_ids: "distinct (map entry_id index_functions_7)"
  unfolding index_functions_7_def by (simp add: entry_ids)

definition index_functions_8 :: "search_entry list" where
  "index_functions_8 = [
     entry ''incrementchangelockcounter'' ''incrementChangeLockCounter'' [link ''../interface_h_f_byte_array.html#a521cf2a05fdafc70b3b78c4f2bfa05ad'' True ''HFByteArray''],
     entry ''incrementgenerationorraiseiflockedforselector_3a'' ''incrementGenerationOrRaiseIfLockedForSelector:'' [link ''../interface_h_f_byte_array.html#ac3b8df15c725a674b382b8869f0311d6'' True ''HFByteArray''],
     entry ''indexofbytesequaltobytes_3ainrange_3asearchingforwards_3atrackingprogress_3a'' ''indexOfBytesEqualToBytes:inRange:searchingForwards:trackingProgress:'' [link ''../interface_h_f_byte_array.html#a494961e16def63c7e4bcf75a342d4f68'' True ''HFByteArray''],
     entry ''init'' ''init'' [link ''../interface_h_f_b_tree_byte_array.html#a34b1bf89e13fd3e8f075c80bfd9a17fc'' True ''HFBTreeByteArray::init()'', link ''../interface_h_f_index_set.html#afce3690b48d74aa8bf00129fdf789a8f'' True ''HFIndexSet::init()''],
     entry ''initializeview'' ''initializeView'' [link ''../interface_h_f_representer.html#a786eb3e2db08cd99bd04aa737bf6073d'' True ''HFRepresenter''],
     entry ''initwithbytearray_3a'' ''initWithByteArray:'' [link ''../interface_h_f_byte_array.html#a2043a0207389099acef65b2e18ba44f7'' True ''HFByteArray''],
     entry ''initwithbyteslice_3a'' ''initWithByteSlice:'' [link ''../interface_h_f_byte_array.html#a0dbc26a7da687a778e0ae00d44592771'' True ''HFByteArray''],
     entry ''initwithdata_3a'' ''initWithData:'' [link ''../interface_h_f_full_memory_byte_slice.html#a1c95c554b3a9020f961ec762259a6871'' True ''HFFullMemoryByteSlice::initWithData:()'', link ''../interface_h_f_shared_memory_byte_slice.html#af6788da79e8bad29a31b3759976ab9e8'' True ''HFSharedMemoryByteSlice::initWithData:()''],
     entry ''initwithdata_3aoffset_3alength_3a'' ''initWithData:offset:length:'' [link ''../interface_h_f_shared_memory_byte_slice.html#acc98c8b2a75dfe954c0935f3fd99d58c'' True ''HFSharedMemoryByteSlice''],
     entry ''initwithdifferencefromsource_3atodestination_3atrackingprogress_3a'' ''initWithDifferenceFromSource:toDestination:trackingProgress:'' [link ''../interface_h_f_byte_array_edit_script.html#a60b351d63cd609532425e551b5b9fd25'' True ''HFByteArrayEditScript''],
     entry ''initwithfile_3a'' ''initWithFile:'' [link ''../interface_h_f_file_byte_slice.html#a8458262ff44367042240dafaa5e2a58d'' True ''HFFileByteSlice''],
     entry ''initwithfile_3aoffset_3alength_3a'' ''initWithFile:offset:length:'' [link ''../interface_h_f_file_byte_slice.html#a060762f77982e3b8fab9900553151963'' True ''HFFileByteSlice''],
     entry ''initwithindexset_3a'' ''initWithIndexSet:'' [link ''../interface_h_f_index_set.html#ad8a08ee91637bde603aaa6f37b21920f'' True ''HFIndexSet''],
     entry ''initwithpath_3aerror_3a'' ''initWithPath:error:'' [link ''../interface_h_f_file_reference.html#a125eec19204e5fb457f312450978a233'' True ''HFFileReference''],
     entry ''initwithunshareddata_3a'' ''initWithUnsharedData:'' [link ''../interface_h_f_shared_memory_byte_slice.html#ad73924d8277aaf3d6f94af047483663e'' True ''HFSharedMemoryByteSlice''],
     entry ''initwithvalue_3a'' ''initWithValue:'' [link ''../interface_h_f_index_set.html#acbc4a763cd57d062ca66d21adc068ed6'' True ''HFIndexSet''],
     entry ''initwithvaluesinrange_3a'' ''initWithValuesInRange:'' [link ''../interface_h_f_index_set.html#af5ba8ea31724964ef28f9ba633810ee1'' True ''HFIndexSet''],
     entry ''initwritablewithpath_3aerror_3a'' ''initWritableWithPath:error:'' [link ''../interface_h_f_file_reference.html#a18fc517a2d1db86f69504b3d2b13ebe1'' True ''HFFileReference''],
     entry ''insertbytearray_3ainrange_3a'' ''insertByteArray:inRange:'' [link ''../interface_h_f_byte_array.html#a220e5b35b8ce20dfe8e2590e1e9c6f54'' True ''HFByteArray''],
     entry ''insertbytearray_3areplacingpreviousbytes_3aallowundocoalescing_3a'' ''insertByteArray:replacingPreviousBytes:allowUndoCoalescing:'' [link ''../interface_h_f_controller.html#aec28ad7b6be7d049532067ffd9ad4228'' True ''HFController''],
     entry ''insertbyteslice_3ainrange_3a'' ''insertByteSlice:inRange:'' [link ''../interface_h_f_byte_array.html#ac1b928d1536174f41a65c54caf754011'' True ''HFByteArray''],
     entry ''insertdata_3areplacingpreviousbytes_3aallowundocoalescing_3a'' ''insertData:replacingPreviousBytes:allowUndoCoalescing:'' [link ''../interface_h_f_controller.html#afd9ca8b71c745f26ffc9501a710fddd3'' True ''HFController''],
     entry ''instructionatindex_3a'' ''instructionAtIndex:'' [link ''../interface_h_f_byte_array_edit_script.html#ac30391d1eb2ebaf5f8f12db0375d06c1'' True ''HFByteArrayEditScript''],
     entry ''isempty'' ''isEmpty'' [link ''../interface_h_f_byte_range_attribute_array.html#a839ff6c9a57c1e463e8010b53707d9db'' True ''HFByteRangeAttributeArray::isEmpty()'', link ''../interface_h_f_range_set.html#a24d83f497c1f5b387c9277b127892019'' True ''HFRangeSet::isEmpty()''],
     entry ''isequal_3a'' ''isEqual:'' [link ''../interface_h_f_file_reference.html#a2e13d8bd4cdf513b16b3667c2d21ba8a'' True ''HFFileReference''],
     entry ''isequaltonsindexset_3a'' ''isEqualToNSIndexSet:'' [link ''../interface_h_f_index_set.html#a59ab3727ba1001f15d9b9caea620f826'' True ''HFIndexSet''],
     entry ''isequaltorangeset_3a'' ''isEqualToRangeSet:'' [link ''../interface_h_f_range_set.html#a1de2147d6b7b6836c4086a5b83174c4c'' True ''HFRangeSet''],
     entry ''issourcedfromfile'' ''isSourcedFromFile'' [link ''../interface_h_f_byte_slice.html#ae09995093b464c0016dc1337dc5124df'' True ''HFByteSlice''],
     entry ''isviewloaded'' ''isViewLoaded'' [link ''../interface_h_f_representer.html#a04bfc131d81d7123c4fcdcc5327f94dd'' True ''HFRepresenter'']]"

lemma index_functions_8_ok: "page_ok 105 index_functions_8"
  unfolding index_functions_8_def by (simp add: page_check ascii_lower_def)

lemma index_functions_8_ids: "distinct (map entry_id index_functions_8)"
  unfolding index_functions_8_def by (simp add: entry_ids)

definition index_functions_9 :: "search_entry list" where
  "index_functions_9 = [
     entry ''length'' ''length'' [link ''../interface_h_f_byte_array.html#ada079f9ec02547a52439f03d03c22491'' True ''HFByteArray::length()'', link ''../interface_h_f_byte_slice.html#a145b439ab365eba8387f6f39c9558ad6'' True ''HFByteSlice::length()'', link ''../interface_h_f_file_reference.html#ad3e560b662a0fa7437d6d4c3e3f58c86'' True ''HFFileReference::length()''],
     entry ''lineheight'' ''lineHeight'' [link ''../interface_h_f_controller.html#a75054d2f63731ef1a7929a2ea3b085d9'' True ''HFController''],
     entry ''locationofcharacteratbyteindex_3a'' ''locationOfCharacterAtByteIndex:'' [link ''../interface_h_f_text_representer.html#ac3d4e16d294fb3757583c25272062991'' True ''HFTextRepresenter'']]"

lemma index_functions_9_ok: "page_ok 108 index_functions_9"
  unfolding index_functions_9_def by (simp add: page_check ascii_lower_def)

lemma index_functions_9_ids: "distinct (map entry_id index_functions_9)"
  unfolding index_functions_9_def by (simp add: entry_ids)

definition index_functions_a :: "search_entry list" where
  "index_functions_a = [
     entry ''maximizevisibilityofcontentsrange_3a'' ''maximizeVisibilityOfContentsRange:'' [link ''../interface_h_f_controller.html#a56a018dd37edf85c0827b1ddb8033c1e'' True ''HFController''],
     entry ''maximumavailablelinesforviewheight_3a'' ''maximumAvailableLinesForViewHeight:'' [link ''../interface_h_f_representer.html#a2b6f9c8eda1d96dcc31bb850fb9048fd'' True ''HFRepresenter''],
     entry ''maximumbytesperlineforlayoutinproposedwidth_3a'' ''maximumBytesPerLineForLayoutInProposedWidth:'' [link ''../interface_h_f_layout_representer.html#a7a73dfcea5490b43e0939d53f283328f'' True ''HFLayoutRepresenter''],
     entry ''maximumbytesperlineforviewwidth_3a'' ''maximumBytesPerLineForViewWidth:'' [link ''../interface_h_f_representer.html#a7b93407c240a3f821f810d1f33faf0ac'' True ''HFRepresenter''],
     entry ''maximumselectionlocation'' ''maximumSelectionLocation'' [link ''../interface_h_f_controller.html#a49bbc9b470ded0129647c4f8e43f3238'' True ''HFController''],
     entry ''minimumselectionlocation'' ''minimumSelectionLocation'' [link ''../interface_h_f_controller.html#a93786a0f5d77922ebd0ff33ec86cf619'' True ''HFController''],
     entry ''minimumviewwidthforbytesperline_3a'' ''minimumViewWidthForBytesPerLine:'' [link ''../interface_h_f_layout_representer.html#ab3434437784555fdbe449665334e5f2b'' True ''HFLayoutRepresenter::minimumViewWidthForBytesPerLine:()'', link ''../interface_h_f_representer.html#acf56b3dfdb9c607c6871d2ef9abe5a91'' True ''HFRepresenter::minimumViewWidthForBytesPerLine:()''],
     entry ''minimumviewwidthforlayoutinproposedwidth_3a'' ''minimumViewWidthForLayoutInProposedWidth:'' [link ''../interface_h_f_layout_representer.html#abe8b9fb073e8431e28d803ad74497253'' True ''HFLayoutRepresenter''],
     entry ''moveindirection_3abybytecount_3awithselectiontransformation_3ausinganchor_3a'' ''moveInDirection:byByteCount:withSelectionTransformation:usingAnchor:'' [link ''../interface_h_f_controller.html#a748da633f56f9862fe4d3a5d5a667364'' True ''HFController''],
     entry ''moveindirection_3awithgranularity_3aandmodifyselection_3a'' ''moveInDirection:withGranularity:andModifySelection:'' [link ''../interface_h_f_controller.html#af33f09cabf1b0bd4862186fcc97fc4e8'' True ''HFController''],
     entry ''movetolineboundaryindirection_3aandmodifyselection_3a'' ''moveToLineBoundaryInDirection:andModifySelection:'' [link ''../interface_h_f_controller.html#a0b9b93cb1a643e75206bcb6d9197fe55'' True ''HFController'']]"

lemma index_functions_a_ok: "page_ok 109 index_functions_a"
  unfolding index_functions_a_def by (simp add: page_check ascii_lower_def)

lemma index_functions_a_ids: "distinct (map entry_id index_functions_a)"
  unfolding index_functions_a_def by (simp add: entry_ids)

definition index_functions_b :: "search_entry list" where
  "index_functions_b = [
     entry ''notefinished_3a'' ''noteFinished:'' [link ''../interface_h_f_progress_tracker.html#aba06fdb74247bc38d96224e3de70911f'' True ''HFProgressTracker''],
     entry ''ns_5freturns_5fretained'' ''NS_RETURNS_RETAINED'' [link ''../interface_h_f_representer.html#a39e5e22b482218a8c38c384502ee1709'' True ''HFRepresenter''],
     entry ''numberofinstructions'' ''numberOfInstructions'' [link ''../interface_h_f_byte_array_edit_script.html#a17eba690f00007c17438213fe3fb7e8d'' True ''HFByteArrayEditScript''],
     entry ''numberofranges'' ''numberOfRanges'' [link ''../interface_h_f_index_set.html#aaa98eadcc8c05ad9a1c9ca56ddf98f82'' True ''HFIndexSet'']]"

lemma index_functions_b_ok: "page_ok 110 index_functions_b"
  unfolding index_functions_b_def by (simp add: page_check ascii_lower_def)

lemma index_functions_b_ids: "distinct (map entry_id index_functions_b)"
  unfolding index_functions_b_def by (simp add: entry_ids)

definition index_functions_c :: "search_entry list" where
  "index_functions_c = [
     entry ''organizeandmergeranges_3a'' ''organizeAndMergeRanges:'' [link ''../interface_h_f_range_wrapper.html#a76755f6e5a387cd1e534170373b46ca2'' True ''HFRangeWrapper''],
     entry ''overlapsanyrange_3a'' ''overlapsAnyRange:'' [link ''../interface_h_f_range_set.html#acb8f98edfda88bfa024dfcd5a86c3e44'' True ''HFRangeSet''],
     entry ''overlapsanyrangeset_3a'' ''overlapsAnyRangeSet:'' [link ''../interface_h_f_range_set.html#a395968acee921fe349e17836c314bdea'' True ''HFRangeSet'']]"

lemma index_functions_c_ok: "page_ok 111 index_functions_c"
  unfolding index_functions_c_def by (simp add: page_check ascii_lower_def)

lemma index_functions_c_ids: "distinct (map entry_id index_functions_c)"
  unfolding index_functions_c_def by (simp add: entry_ids)

definition index_functions_d :: "search_entry list" where
  "index_functions_d = [
     entry ''performlayout'' ''performLayout'' [link ''../interface_h_f_layout_representer.html#a4d2e3123689bdc1f6907fa75de4e4ab3'' True ''HFLayoutRepresenter''],
     entry ''prepareforchangeinfile_3afromwritingbytearray_3a'' ''prepareForChangeInFile:fromWritingByteArray:'' [link ''../interface_h_f_controller.html#a95d775e24dfb80cc0ca81e590d39ec62'' True ''HFController''],
     entry ''progresstracker_3adidchangeprogressto_3a'' ''progressTracker:didChangeProgressTo:'' [link ''../protocol_h_f_progress_tracker_delegate_01-p.html#aa7b73fc866dd37d63f7496c1df9e5153'' True ''HFProgressTrackerDelegate -p''],
     entry ''progresstrackerdidfinish_3a'' ''progressTrackerDidFinish:'' [link ''../protocol_h_f_progress_tracker_delegate_01-p.html#ae82fd08914986284af542d1abe96e466'' True ''HFProgressTrackerDelegate -p''],
     entry ''pulseselection'' ''pulseSelection'' [link ''../interface_h_f_controller.html#abf7e8cacb521993742fd88db9a9ef77e'' True ''HFController'']]"

lemma index_functions_d_ok: "page_ok 112 index_functions_d"
  unfolding index_functions_d_def by (simp add: page_check ascii_lower_def)

lemma index_functions_d_ids: "distinct (map entry_id index_functions_d)"
  unfolding index_functions_d_def by (simp add: entry_ids)

definition index_functions_e :: "search_entry list" where
  "index_functions_e = [
     entry ''rangeatindex_3a'' ''rangeAtIndex:'' [link ''../interface_h_f_index_set.html#aac922c7b39c6690629f1da3c36afa6d2'' True ''HFIndexSet''],
     entry ''rangecontainingvalue_3a'' ''rangeContainingValue:'' [link ''../interface_h_f_index_set.html#a0e10a9ccc7222f41ceb3a36f7003c9b3'' True ''HFIndexSet''],
     entry ''rangeforbookmark_3a'' ''rangeForBookmark:'' [link ''../interface_h_f_controller.html#af9c1dd8642e2699e3905607af4baebda'' True ''HFController''],
     entry ''rangeofattribute_3a'' ''rangeOfAttribute:'' [link ''../interface_h_f_byte_range_attribute_array.html#aae10f3160458ce71b4c4918702c7fedc'' True ''HFByteRangeAttributeArray''],
     entry ''rangesoffilemodifiedifsavedtofile_3a'' ''rangesOfFileModifiedIfSavedToFile:'' [link ''../category_h_f_byte_array_07_h_f_file_writing_08.html#a44e1ab1943523b12bfd2e423ec87274a'' True ''HFByteArray(HFFileWriting)::rangesOfFileModifiedIfSavedToFile:()'', link ''../interface_h_f_byte_array.html#a44e1ab1943523b12bfd2e423ec87274a'' True ''HFByteArray::rangesOfFileModifiedIfSavedToFile:()''],
     entry ''readbytes_3alength_3afrom_3a'' ''readBytes:length:from:'' [link ''../interface_h_f_file_reference.html#a99d57d3f3eaa0fef37952db64219b989'' True ''HFFileReference''],
     entry ''removeattribute_3a'' ''removeAttribute:'' [link ''../interface_h_f_byte_range_attribute_array.html#a0c4530040ea53b75ef33f63fff664e2c'' True ''HFByteRangeAttributeArray''],
     entry ''removeattribute_3arange_3a'' ''removeAttribute:range:'' [link ''../interface_h_f_byte_range_attribute_array.html#aa564cdabfeac39cba79a148c7fee3028'' True ''HFByteRangeAttributeArray''],
     entry ''removeattributes_3a'' ''removeAttributes:'' [link ''../interface_h_f_byte_range_attribute_array.html#a8f27bf5aa3cd4f15a7a0a9545735f821'' True ''HFByteRangeAttributeArray''],
     entry ''removeindexesinrange_3a'' ''removeIndexesInRange:'' [link ''../interface_h_f_mutable_index_set.html#ac0fa7ca76b185a877e73c5610d7c2874'' True ''HFMutableIndexSet''],
     entry ''removerange_3a'' ''removeRange:'' [link ''../interface_h_f_range_set.html#ab28c45efa4ac0ce0400e9cc59ea73364'' True ''HFRangeSet''],
     entry ''removerangeset_3a'' ''removeRangeSet:'' [link ''../interface_h_f_range_set.html#a9b0ca24f59bbc43cd4dd70eb354cb129'' True ''HFRangeSet''],
     entry ''removerepresenter_3a'' ''removeRepresenter:'' [link ''../interface_h_f_controller.html#a86c8210e506241fd9ffcf1178ccda638'' True ''HFController::removeRepresenter:()'', link ''../interface_h_f_layout_representer.html#af54fc4c854ced0f713066d330e962ee4'' True ''HFLayoutRepresenter::removeRepresenter:()''],
     entry ''replacebytearray_3a'' ''replaceByteArray:'' [link ''../interface_h_f_controller.html#ace0be446660da37a3cdb792147eb4450'' True ''HFController''],
     entry ''representer_3achangedproperties_3a'' ''representer:changedProperties:'' [link ''../interface_h_f_controller.html#af4ad4d24f57132e3d27a054ab8bfd89b'' True ''HFController''],
     entry ''representerchangedproperties_3a'' ''representerChangedProperties:'' [link ''../interface_h_f_representer.html#a009d8e81dc63b3484e502e99a5b2874a'' True ''HFRepresenter''],
     entry ''requestcancel_3a'' ''requestCancel:'' [link ''../interface_h_f_progress_tracker.html#a299c54a607ad4be3be15ab40bd612265'' True ''HFProgressTracker'']]"

lemma index_functions_e_ok: "page_ok 114 index_functions_e"
  unfolding index_functions_e_def by (simp add: page_check ascii_lower_def)

lemma index_functions_e_ids: "distinct (map entry_id index_functions_e)"
  unfolding index_functions_e_def by (simp add: entry_ids)

definition index_functions_f :: "search_entry list" where
  "index_functions_f = [
     entry ''scrollbylines_3a'' ''scrollByLines:'' [link ''../interface_h_f_controller.html#a101555ad8fbdad75022ba0ad59c43cc3'' True ''HFController''],
     entry ''scrollwithscrollevent_3a'' ''scrollWithScrollEvent:'' [link ''../interface_h_f_controller.html#ad360138919e9089c6edd7868a318bb93'' True ''HFController''],
     entry ''selectall_3a'' ''selectAll:'' [link ''../interface_h_f_controller.html#aaba68329641a7b726a5ce15a6497b5c5'' True ''HFController''],
     entry ''selectionpulseamount'' ''selectionPulseAmount'' [link ''../interface_h_f_controller.html#a880de2a78166ed64f22643e7f71428ea'' True ''HFController''],
     entry ''setlength_3aerror_3a'' ''setLength:error:'' [link ''../interface_h_f_file_reference.html#ab8e6713bf53af17ba1f53202b1287978'' True ''HFFileReference''],
     entry ''setrange_3aforbookmark_3a'' ''setRange:forBookmark:'' [link ''../interface_h_f_controller.html#ab4ad47abb8b332730ee6f70a41ebcb6d'' True ''HFController''],
     entry ''shiftvaluesleftbyamount_3aendingatvalue_3a'' ''shiftValuesLeftByAmount:endingAtValue:'' [link ''../interface_h_f_mutable_index_set.html#afcac87e3da4258d4323c497f24105354'' True ''HFMutableIndexSet''],
     entry ''shiftvaluesleftbyamount_3astartingatvalue_3a'' ''shiftValuesLeftByAmount:startingAtValue:'' [link ''../interface_h_f_mutable_index_set.html#a3338a670815bd455c4f6b01fa1433063'' True ''HFMutableIndexSet''],
     entry ''shiftvaluesrightbyamount_3astartingatvalue_3a'' ''shiftValuesRightByAmount:startingAtValue:'' [link ''../interface_h_f_mutable_index_set.html#a27d6d5fdf2967cd73526fa4ce0985dad'' True ''HFMutableIndexSet''],
     entry ''slicecontainingbyteatindex_3abeginningoffset_3a'' ''sliceContainingByteAtIndex:beginningOffset:'' [link ''../interface_h_f_byte_array.html#a5b680933f4afc7d8b7456e9e2c025025'' True ''HFByteArray''],
     entry ''sourcerangeforfile_3a'' ''sourceRangeForFile:'' [link ''../interface_h_f_byte_slice.html#a0bb3be9593aed4f2ddaa24b50ac818da'' True ''HFByteSlice''],
     entry ''spanningrange'' ''spanningRange'' [link ''../interface_h_f_range_set.html#adc2eeb205db20c94427fcfd35bdd4240'' True ''HFRangeSet''],
     entry ''subarraywithrange_3a'' ''subarrayWithRange:'' [link ''../interface_h_f_byte_array.html#a6b8cac4d751fbc61456630ee141beb64'' True ''HFByteArray''],
     entry ''subslicewithrange_3a'' ''subsliceWithRange:'' [link ''../interface_h_f_byte_slice.html#a955b9f5a9ca54031c6d2b185c3adbef1'' True ''HFByteSlice'']]"

lemma index_functions_f_ok: "page_ok 115 index_functions_f"
  unfolding index_functions_f_def by (simp add: page_check ascii_lower_def)

lemma index_functions_f_ids: "distinct (map entry_id index_functions_f)"
  unfolding index_functions_f_def by (simp add: entry_ids)

definition index_functions_10 :: "search_entry list" where
  "index_functions_10 = [
     entry ''togglerange_3a'' ''toggleRange:'' [link ''../interface_h_f_range_set.html#a97684c36f232035b98cfac401ec1b352'' True ''HFRangeSet''],
     entry ''togglerangeset_3a'' ''toggleRangeSet:'' [link ''../interface_h_f_range_set.html#af917bfd25d03a43fc8ccae33e50e7004'' True ''HFRangeSet''],
     entry ''totallinecount'' ''totalLineCount'' [link ''../interface_h_f_controller.html#a0d622d3c4081ac3d02c31ea10b7e36e0'' True ''HFController''],
     entry ''transferattributesfromattributearray_3arange_3abaseoffset_3avalidator_3a'' ''transferAttributesFromAttributeArray:range:baseOffset:validator:'' [link ''../interface_h_f_byte_range_attribute_array.html#aaa526c83b2f3c278b5f77d957f6f340b'' True ''HFByteRangeAttributeArray'']]"

lemma index_functions_10_ok: "page_ok 116 index_functions_10"
  unfolding index_functions_10_def by (simp add: page_check ascii_lower_def)

lemma index_functions_10_ids: "distinct (map entry_id index_functions_10)"
  unfolding index_functions_10_def by (simp add: entry_ids)

definition index_functions_11 :: "search_entry list" where
  "index_functions_11 = [
     entry ''verifyintegrity'' ''verifyIntegrity'' [link ''../interface_h_f_index_set.html#a60b3c2ff6ccbdbd53aa3474b0a2fa6c0'' True ''HFIndexSet''],
     entry ''view'' ''view'' [link ''../interface_h_f_representer.html#a9738e9e916b36b17e37b178234ee79fe'' True ''HFRepresenter'']]"

lemma index_functions_11_ok: "page_ok 118 index_functions_11"
  unfolding index_functions_11_def by (simp add: page_check ascii_lower_def)

lemma index_functions_11_ids: "distinct (map entry_id index_functions_11)"
  unfolding index_functions_11_def by (simp add: entry_ids)

definition index_functions_12 :: "search_entry list" where
  "index_functions_12 = [
     entry ''withrange_3a'' ''withRange:'' [link ''../interface_h_f_range_wrapper.html#a3d11996b3274aeda30b89386123bf58e'' True ''HFRangeWrapper::withRange:()'', link ''../interface_h_f_range_set.html#a36589887afbbd25a3a162cadb4ade23a'' True ''HFRangeSet::withRange:()''],
     entry ''withranges_3acount_3a'' ''withRanges:count:'' [link ''../interface_h_f_range_wrapper.html#a4c0de04b0544c969939664d00960a5e9'' True ''HFRangeWrapper::withRanges:count:()'', link ''../interface_h_f_range_set.html#af6f071120fe00346c0bd1c7c3a987ea5'' True ''HFRangeSet::withRanges:count:()''],
     entry ''withrangeset_3a'' ''withRangeSet:'' [link ''../interface_h_f_range_set.html#a0956124f9f9fa87cb58a8f25daea33db'' True ''HFRangeSet''],
     entry ''withrangewrappers_3a'' ''withRangeWrappers:'' [link ''../interface_h_f_range_set.html#ac03e56aa0ced91a4d85ff1eabcbf40c5'' True ''HFRangeSet''],
     entry ''writebytes_3alength_3ato_3a'' ''writeBytes:length:to:'' [link ''../interface_h_f_file_reference.html#ab337821f71ce9780c61d38593ecec358'' True ''HFFileReference''],
     entry ''writetofile_3atrackingprogress_3aerror_3a'' ''writeToFile:trackingProgress:error:'' [link ''../category_h_f_byte_array_07_h_f_file_writing_08.html#a9be82f7cd32f941cc94d1843ad9ad5e8'' True ''HFByteArray(HFFileWriting)::writeToFile:trackingProgress:error:()'', link ''../interface_h_f_byte_array.html#a9be82f7cd32f941cc94d1843ad9ad5e8'' True ''HFByteArray::writeToFile:trackingProgress:error:()'']]"

lemma index_functions_12_ok: "page_ok 119 index_functions_12"
  unfolding index_functions_12_def by (simp add: page_check ascii_lower_def)

lemma index_functions_12_ids: "distinct (map entry_id index_functions_12)"
  unfolding index_functions_12_def by (simp add: entry_ids)

definition index_variables_0 :: "search_entry list" where
  "index_variables_0 = [
     entry ''_5fhfflags'' ''_hfflags'' [link ''../interface_h_f_controller.html#a1875b07981f69ff10d2a9d0f80a8692b'' True ''HFController'']]"

lemma index_variables_0_ok: "page_ok 95 index_variables_0"
  unfolding index_variables_0_def by (simp add: page_check ascii_lower_def)

lemma index_variables_0_ids: "distinct (map entry_id index_variables_0)"
  unfolding index_variables_0_def by (simp add: entry_ids)

definition index_variables_1 :: "search_entry list" where
  "index_variables_1 = [
     entry ''dst'' ''dst'' [link ''../struct_h_f_edit_instruction__t.html#a09a85582cb7b56c837d84b7ef8a7fbec'' True ''HFEditInstruction_t'']]"

lemma index_variables_1_ok: "page_ok 100 index_variables_1"
  unfolding index_variables_1_def by (simp add: page_check ascii_lower_def)

lemma index_variables_1_ids: "distinct (map entry_id index_variables_1)"
  unfolding index_variables_1_def by (simp add: entry_ids)

definition index_variables_2 :: "search_entry list" where
  "index_variables_2 = [
     entry ''hfchangeinfilebytearraykey'' ''HFChangeInFileByteArrayKey'' [link ''../_h_f_controller_8h.html#adb81445227b9084594a08a8e05f27504'' True ''HFController.h''],
     entry ''hfchangeinfilehintkey'' ''HFChangeInFileHintKey'' [link ''../_h_f_controller_8h.html#a07dd60fa4f880542cffba01cce405f3e'' True ''HFController.h''],
     entry ''hfchangeinfilemodifiedrangeskey'' ''HFChangeInFileModifiedRangesKey'' [link ''../_h_f_controller_8h.html#a6dcb2a4fd18fa9f5a22fedfde43787a8'' True ''HFController.h''],
     entry ''hfchangeinfileshouldcancelkey'' ''HFChangeInFileShouldCancelKey'' [link ''../_h_f_controller_8h.html#ab5507b93db185e2608ddc1a06f359d30'' True ''HFController.h''],
     entry ''hfcontrollerchangedpropertieskey'' ''HFControllerChangedPropertiesKey'' [link ''../_h_f_controller_8h.html#a8cd50e8b1391a840afaddd61bd8ccc3a'' True ''HFController.h''],
     entry ''hfcontrollerdidchangepropertiesnotification'' ''HFControllerDidChangePropertiesNotification'' [link ''../_h_f_controller_8h.html#ab8e0fdcc4ac0756fc6afbf90051b0693'' True ''HFController.h''],
     entry ''hflinecountingrepresenterminimumviewwidthchanged'' ''HFLineCountingRepresenterMinimumViewWidthChanged'' [link ''../_h_f_line_counting_representer_8h.html#af93e2e1eedb73ea1f923b3db0cb7f193'' True ''HFLineCountingRepresenter.h''],
     entry ''hfprepareforchangeinfilenotification'' ''HFPrepareForChangeInFileNotification'' [link ''../_h_f_controller_8h.html#ad9e43b0e840921ce3faae4eba1de5168'' True ''HFController.h'']]"

lemma index_variables_2_ok: "page_ok 104 index_variables_2"
  unfolding index_variables_2_def by (simp add: page_check ascii_lower_def)

lemma index_variables_2_ids: "distinct (map entry_id index_variables_2)"
  unfolding index_variables_2_def by (simp add: entry_ids)

definition index_variables_3 :: "search_entry list" where
  "index_variables_3 = [
     entry ''khfattributediffinsertion'' ''kHFAttributeDiffInsertion'' [link ''../_h_f_byte_range_attribute_8h.html#a6962444359db83ace628924a87f815de'' True ''HFByteRangeAttribute.h''],
     entry ''khfattributeexecutable'' ''kHFAttributeExecutable'' [link ''../_h_f_byte_range_attribute_8h.html#a3127f7a788f8095f07798161ddf21b40'' True ''HFByteRangeAttribute.h''],
     entry ''khfattributefocused'' ''kHFAttributeFocused'' [link ''../_h_f_byte_range_attribute_8h.html#ab392a565d9068ec7b3154fe7fc3fc8cc'' True ''HFByteRangeAttribute.h''],
     entry ''khfattributemagic'' ''kHFAttributeMagic'' [link ''../_h_f_byte_range_attribute_8h.html#a667b00e8924e3ce4dd3adb95e4c9defc'' True ''HFByteRangeAttribute.h''],
     entry ''khfattributeshared'' ''kHFAttributeShared'' [link ''../_h_f_byte_range_attribute_8h.html#a71a922aef702b8b01029b8e083fc5113'' True ''HFByteRangeAttribute.h''],
     entry ''khfattributeunmapped'' ''kHFAttributeUnmapped'' [link ''../_h_f_byte_range_attribute_8h.html#afc12bdcc4360a21dabe75f98fcfdeb9b'' True ''HFByteRangeAttribute.h''],
     entry ''khfattributeunreadable'' ''kHFAttributeUnreadable'' [link ''../_h_f_byte_range_attribute_8h.html#a8b4d475e0e112a70d206bad0bae64d53'' True ''HFByteRangeAttribute.h''],
     entry ''khfattributewritable'' ''kHFAttributeWritable'' [link ''../_h_f_byte_range_attribute_8h.html#a5e2d0f27304f3371c0736561a5ef6192'' True ''HFByteRangeAttribute.h'']]"

lemma index_variables_3_ok: "page_ok 107 index_variables_3"
  unfolding index_variables_3_def by (simp add: page_check ascii_lower_def)

lemma index_variables_3_ids: "distinct (map entry_id index_variables_3)"
  unfolding index_variables_3_def by (simp add: entry_ids)

definition index_variables_4 :: "search_entry list" where
  "index_variables_4 = [
     entry ''length'' ''length'' [link ''../struct_h_f_range.html#a1dfb683d8744159ea0bec126c63e7834'' True ''HFRange::length()'', link ''../struct_h_f_f_p_range.html#a9a6d0fb5a10dc4c7a1ebf23edbd319ca'' True ''HFFPRange::length()''],
     entry ''location'' ''location'' [link ''../struct_h_f_range.html#a25e5310bf57bd4d2017a9053f56a80a9'' True ''HFRange::location()'', link ''../struct_h_f_f_p_range.html#a360b1d98fefa0e171e8e29604466fd78'' True ''HFFPRange::location()'']]"

lemma index_variables_4_ok: "page_ok 108 index_variables_4"
  unfolding index_variables_4_def by (simp add: page_check ascii_lower_def)

lemma index_variables_4_ids: "distinct (map entry_id index_variables_4)"
  unfolding index_variables_4_def by (simp add: entry_ids)

definition index_variables_5 :: "search_entry list" where
  "index_variables_5 = [
     entry ''src'' ''src'' [link ''../struct_h_f_edit_instruction__t.html#ae743ce1e89e17c0c44bbac29b4d7a5f2'' True ''HFEditInstruction_t'']]"

lemma index_variables_5_ok: "page_ok 115 index_variables_5"
  unfolding index_variables_5_def by (simp add: page_check ascii_lower_def)

lemma index_variables_5_ids: "distinct (map entry_id index_variables_5)"
  unfolding index_variables_5_def by (simp add: entry_ids)

definition index_properties_0 :: "search_entry list" where
  "index_properties_0 = [
     entry ''backgroundcolor'' ''backgroundColor'' [link ''../interface_h_f_line_counting_representer.html#a0ab44d5d715a26e07b14801ff7776022'' True ''HFLineCountingRepresenter''],
     entry ''backgroundcolors'' ''backgroundColors'' [link ''../interface_h_f_text_view.html#ae72dcd17255a7ea08d9afac1ef7ac011'' True ''HFTextView''],
     entry ''behavesastextfield'' ''behavesAsTextField'' [link ''../interface_h_f_text_representer.html#a87a0e97b488cc308ceca0630f8f6e64a'' True ''HFTextRepresenter''],
     entry ''bordercolor'' ''borderColor'' [link ''../interface_h_f_line_counting_representer.html#a08051178f23c25c80d1dd0e7034930a8'' True ''HFLineCountingRepresenter''],
     entry ''bordered'' ''bordered'' [link ''../interface_h_f_text_view.html#a0cb285a81aa81b206b05ba8d3264ff28'' True ''HFTextView''],
     entry ''borderededges'' ''borderedEdges'' [link ''../interface_h_f_line_counting_representer.html#a3598bdd028eaea3c377171b0870dde91'' True ''HFLineCountingRepresenter''],
     entry ''bytearray'' ''byteArray'' [link ''../interface_h_f_controller.html#a8e3c9ca47f754544fef36de9d7e0f56e'' True ''HFController::byteArray()'', link ''../interface_h_f_text_view.html#aea80bb47bbffaa395493c5237db4b578'' True ''HFTextView::byteArray()''],
     entry ''bytespercolumn'' ''bytesPerColumn'' [link ''../interface_h_f_controller.html#a669a1b434286d5a7a7f2d43db782317b'' True ''HFController''],
     entry ''bytesperline'' ''bytesPerLine'' [link ''../interface_h_f_line_counting_view.html#ad237d4ffeb03834233baa7c55897963c'' True ''HFLineCountingView'']]"

lemma index_properties_0_ok: "page_ok 98 index_properties_0"
  unfolding index_properties_0_def by (simp add: page_check ascii_lower_def)

lemma index_properties_0_ids: "distinct (map entry_id index_properties_0)"
  unfolding index_properties_0_def by (simp add: entry_ids)

definition index_properties_1 :: "search_entry list" where
  "index_properties_1 = [
     entry ''controller'' ''controller'' [link ''../interface_h_f_text_view.html#a9d04a8ac893159d65498c1c0b0533d31'' True ''HFTextView'']]"

lemma index_properties_1_ok: "page_ok 99 index_properties_1"
  unfolding index_properties_1_def by (simp add: page_check ascii_lower_def)

lemma index_properties_1_ids: "distinct (map entry_id index_properties_1)"
  unfolding index_properties_1_def by (simp add: entry_ids)

definition index_properties_2 :: "search_entry list" where
  "index_properties_2 = [
     entry ''data'' ''data'' [link ''../interface_h_f_text_view.html#a546bfc05654c23960a5b5ded1e35d447'' True ''HFTextView''],
     entry ''delegate'' ''delegate'' [link ''../interface_h_f_progress_tracker.html#a2f4408dead46aae1142535b312ac381c'' True ''HFProgressTracker::delegate()'', link ''../interface_h_f_text_view.html#a08baf8fb71edae71ab86675e5cef3173'' True ''HFTextView::delegate()''],
     entry ''digitcount'' ''digitCount'' [link ''../interface_h_f_line_counting_representer.html#a0623bcf451815efb7424fed845986821'' True ''HFLineCountingRepresenter''],
     entry ''displayedlinerange'' ''displayedLineRange'' [link ''../interface_h_f_controller.html#afc8537436d0b38a6763563296bd23a66'' True ''HFController'']]"

lemma index_properties_2_ok: "page_ok 100 index_properties_2"
  unfolding index_properties_2_def by (simp add: page_check ascii_lower_def)

lemma index_properties_2_ids: "distinct (map entry_id index_properties_2)"
  unfolding index_properties_2_def by (simp add: entry_ids)

definition index_properties_3 :: "search_entry list" where
  "index_properties_3 = [
     entry ''editable'' ''editable'' [link ''../interface_h_f_controller.html#a0ccaf58ac06e6510b2f40fc1f07c5211'' True ''HFController::editable()'', link ''../interface_h_f_text_field.html#a0e3ed11ff50eb483b680bf2a546d4fb7'' True ''HFTextField::editable()''],
     entry ''editmode'' ''editMode'' [link ''../interface_h_f_controller.html#ace0cc93e891e8b31c4320040702a6f0f'' True ''HFController''],
     entry ''encoding'' ''encoding'' [link ''../interface_h_f_string_encoding_text_representer.html#ab0dcff2820771cd6ab1b6d5d99ae8cc4'' True ''HFStringEncodingTextRepresenter'']]"

lemma index_properties_3_ok: "page_ok 101 index_properties_3"
  unfolding index_properties_3_def by (simp add: page_check ascii_lower_def)

lemma index_properties_3_ids: "distinct (map entry_id index_properties_3)"
  unfolding index_properties_3_def by (simp add: entry_ids)

definition index_properties_4 :: "search_entry list" where
  "index_properties_4 = [
     entry ''font'' ''font'' [link ''../interface_h_f_controller.html#ac564096554a861c9f44367124db70b4b'' True ''HFController::font()'', link ''../interface_h_f_line_counting_view.html#a6af132ef7eb7177c529a54bd4073f12b'' True ''HFLineCountingView::font()'']]"

lemma index_properties_4_ok: "page_ok 102 index_properties_4"
  unfolding index_properties_4_def by (simp add: page_check ascii_lower_def)

lemma index_properties_4_ids: "distinct (map entry_id index_properties_4)"
  unfolding index_properties_4_def by (simp add: entry_ids)

definition index_properties_5 :: "search_entry list" where
  "index_properties_5 = [
     entry ''interiorshadowedge'' ''interiorShadowEdge'' [link ''../interface_h_f_line_counting_representer.html#a5907cfd3693a641493d11241e606890f'' True ''HFLineCountingRepresenter''],
     entry ''isfixedlength'' ''isFixedLength'' [link ''../interface_h_f_file_reference.html#a96407283d05981a38b695a188872f619'' True ''HFFileReference''],
     entry ''isprivileged'' ''isPrivileged'' [link ''../interface_h_f_file_reference.html#a5920cc8cc72ffeeb64d1392af4b35eea'' True ''HFFileReference'']]"

lemma index_properties_5_ok: "page_ok 105 index_properties_5"
  unfolding index_properties_5_def by (simp add: page_check ascii_lower_def)

lemma index_properties_5_ids: "distinct (map entry_id index_properties_5)"
  unfolding index_properties_5_def by (simp add: entry_ids)

definition index_properties_6 :: "search_entry list" where
  "index_properties_6 = [
     entry ''layoutposition'' ''layoutPosition'' [link ''../interface_h_f_representer.html#a05cf33df8751ca00d2b08ac2cbe62067'' True ''HFRepresenter''],
     entry ''layoutrepresenter'' ''layoutRepresenter'' [link ''../interface_h_f_text_view.html#a1844eea104774e5f1840b7d663345b58'' True ''HFTextView''],
     entry ''lineheight'' ''lineHeight'' [link ''../interface_h_f_line_counting_view.html#abb9c87c891219af75203ce4c327c23a2'' True ''HFLineCountingView''],
     entry ''linenumberformat'' ''lineNumberFormat'' [link ''../interface_h_f_line_counting_representer.html#a67a5ca9652246b4e0fbad8aaf6398751'' True ''HFLineCountingRepresenter::lineNumberFormat()'', link ''../interface_h_f_line_counting_view.html#ab3ba766f8daafe3199b17cb2dea5ae7d'' True ''HFLineCountingView::lineNumberFormat()''],
     entry ''linerangetodraw'' ''lineRangeToDraw'' [link ''../interface_h_f_line_counting_view.html#a5230ff16a480254b84ce364d9396909f'' True ''HFLineCountingView'']]"

lemma index_properties_6_ok: "page_ok 108 index_properties_6"
  unfolding index_properties_6_def by (simp add: page_check ascii_lower_def)

lemma index_properties_6_ids: "distinct (map entry_id index_properties_6)"
  unfolding index_properties_6_def by (simp add: entry_ids)

definition index_properties_7 :: "search_entry list" where
  "index_properties_7 = [
     entry ''maximizesbytesperline'' ''maximizesBytesPerLine'' [link ''../interface_h_f_layout_representer.html#a88bae352e0a85af02dfef594b2c75bb9'' True ''HFLayoutRepresenter''],
     entry ''maxprogress'' ''maxProgress'' [link ''../interface_h_f_progress_tracker.html#acf443cae934971a56fbf2934f6a3eee2'' True ''HFProgressTracker''],
     entry ''minimumdigitcount'' ''minimumDigitCount'' [link ''../interface_h_f_line_counting_representer.html#a917c1d5435fd0208bbfd09c9fba10eec'' True ''HFLineCountingRepresenter'']]"

lemma index_properties_7_ok: "page_ok 109 index_properties_7"
  unfolding index_properties_7_def by (simp add: page_check ascii_lower_def)

lemma index_properties_7_ids: "distinct (map entry_id index_properties_7)"
  unfolding index_properties_7_def by (simp add: entry_ids)

definition index_properties_8 :: "search_entry list" where
  "index_properties_8 = [
     entry ''preferredwidth'' ''preferredWidth'' [link ''../interface_h_f_line_counting_representer.html#ae4f9efe156f6d144487c8c7cbf43f679'' True ''HFLineCountingRepresenter''],
     entry ''progressindicator'' ''progressIndicator'' [link ''../interface_h_f_progress_tracker.html#a33e655d87e0a1fa8a3412c615415ba90'' True ''HFProgressTracker'']]"

lemma index_properties_8_ok: "page_ok 112 index_properties_8"
  unfolding index_properties_8_def by (simp add: page_check ascii_lower_def)

lemma index_properties_8_ids: "distinct (map entry_id index_properties_8)"
  unfolding index_properties_8_def by (simp add: entry_ids)

definition index_properties_9 :: "search_entry list" where
  "index_properties_9 = [
     entry ''representer'' ''representer'' [link ''../interface_h_f_line_counting_view.html#a3ce930dee3ecb47d20e254c66c83632d'' True ''HFLineCountingView''],
     entry ''representers'' ''representers'' [link ''../interface_h_f_controller.html#a165dbb3c3e4c7f8154b2349b0d132147'' True ''HFController::representers()'', link ''../interface_h_f_layout_representer.html#a6c8494accd0fd1ef12bb6bf5f24860f9'' True ''HFLayoutRepresenter::representers()''],
     entry ''rowbackgroundcolors'' ''rowBackgroundColors'' [link ''../interface_h_f_text_representer.html#a0b4cd25fe610f2cac726eb8556e30686'' True ''HFTextRepresenter'']]"

lemma index_properties_9_ok: "page_ok 114 index_properties_9"
  unfolding index_properties_9_def by (simp add: page_check ascii_lower_def)

lemma index_properties_9_ids: "distinct (map entry_id index_properties_9)"
  unfolding index_properties_9_def by (simp add: entry_ids)

definition index_properties_a :: "search_entry list" where
  "index_properties_a = [
     entry ''selectedcontentsranges'' ''selectedContentsRanges'' [link ''../interface_h_f_controller.html#a756334ab2576fda6191f396424eb032a'' True ''HFController''],
     entry ''shouldantialias'' ''shouldAntialias'' [link ''../interface_h_f_controller.html#a84544b8696b23b09c57d4109b66aff32'' True ''HFController''],
     entry ''shouldcolorbytes'' ''shouldColorBytes'' [link ''../interface_h_f_controller.html#a6b5134d1f69168837f03bebaa9cba8a8'' True ''HFController''],
     entry ''shouldhidenullbytes'' ''shouldHideNullBytes'' [link ''../interface_h_f_controller.html#abb13ce4a51b7bf13e0c801ef7efc5714'' True ''HFController''],
     entry ''shouldlivereload'' ''shouldLiveReload'' [link ''../interface_h_f_controller.html#aa7a2e2b3a4e90c3c56ba3129cfecf8b6'' True ''HFController''],
     entry ''shouldshowcallouts'' ''shouldShowCallouts'' [link ''../interface_h_f_controller.html#aea515702f7baa6ee15205e02522bd6d6'' True ''HFController''],
     entry ''statusmode'' ''statusMode'' [link ''../interface_h_f_status_bar_representer.html#a8e8fa3b07004884410fac6fbae29df83'' True ''HFStatusBarRepresenter''],
     entry ''stringencoding'' ''stringEncoding'' [link ''../interface_h_f_text_field.html#a97178ae56f842d12baf2809f766c09cd'' True ''HFTextField'']]"

lemma index_properties_a_ok: "page_ok 115 index_properties_a"
  unfolding index_properties_a_def by (simp add: page_check ascii_lower_def)

lemma index_properties_a_ids: "distinct (map entry_id index_properties_a)"
  unfolding index_properties_a_def by (simp add: entry_ids)

definition index_properties_b :: "search_entry list" where
  "index_properties_b = [
     entry ''undomanager'' ''undoManager'' [link ''../interface_h_f_controller.html#a6de9ee37b5cd96782914f3eeebc90b16'' True ''HFController''],
     entry ''userinfo'' ''userInfo'' [link ''../interface_h_f_progress_tracker.html#a170fc0d588dc427ffd63a2a33f599315'' True ''HFProgressTracker''],
     entry ''useshexarea'' ''usesHexArea'' [link ''../interface_h_f_text_field.html#a68a7e08a9d0e45e5c1c4d892a3b8ef3e'' True ''HFTextField''],
     entry ''usestextarea'' ''usesTextArea'' [link ''../interface_h_f_text_field.html#a1b7eaa7ea5924fcd379a68a2e8cffd4f'' True ''HFTextField'']]"

lemma index_properties_b_ok: "page_ok 117 index_properties_b"
  unfolding index_properties_b_def by (simp add: page_check ascii_lower_def)

lemma index_properties_b_ids: "distinct (map entry_id index_properties_b)"
  unfolding index_properties_b_def by (simp add: entry_ids)

end
