(* ===== verification/IndexKinds.thy ===== *)
theory IndexKinds
  imports IndexFormat
begin

text \<open>
  The index pages of the sections classes, files, types, enumerations, macros, modules and pages (\<open>docs/docs/search/classes_*.js\<close> and so on): the entries of each
  file, in its order, and the check that the page is well formed.
\<close>

definition index_classes_0 :: "search_entry list" where
  "index_classes_0 = [
     entry ''hfattributedbytearray'' ''HFAttributedByteArray'' [link ''../interface_h_f_attributed_byte_array.html'' True ''''],
     entry ''hfbtreebytearray'' ''HFBTreeByteArray'' [link ''../interface_h_f_b_tree_byte_array.html'' True ''''],
     entry ''hfbytearray'' ''HFByteArray'' [link ''../interface_h_f_byte_array.html'' True ''''],
     entry ''hfbytearray_28hfattributes_29'' ''HFByteArray(HFAttributes)'' [link ''../category_h_f_byte_array_07_h_f_attributes_08.html'' True ''''],
     entry ''hfbytearray_28hffilewriting_29'' ''HFByteArray(HFFileWriting)'' [link ''../category_h_f_byte_array_07_h_f_file_writing_08.html'' True ''''],
     entry ''hfbytearrayeditscript'' ''HFByteArrayEditScript'' [link ''../interface_h_f_byte_array_edit_script.html'' True ''''],
     entry ''hfbyterangeattributearray'' ''HFByteRangeAttributeArray'' [link ''../interface_h_f_byte_range_attribute_array.html'' True ''''],
     entry ''hfbyteslice'' ''HFByteSlice'' [link ''../interface_h_f_byte_slice.html'' True ''''],
     entry ''hfbyteslice_28hfattributes_29'' ''HFByteSlice(HFAttributes)'' [link ''../category_h_f_byte_slice_07_h_f_attributes_08.html'' True ''''],
     entry ''hfcancelbutton'' ''HFCancelButton'' [link ''../interface_h_f_cancel_button.html'' True ''''],
     entry ''hfconcretefilereference'' ''HFConcreteFileReference'' [link ''../interface_h_f_concrete_file_reference.html'' True ''''],
     entry ''hfcontroller'' ''HFController'' [link ''../interface_h_f_controller.html'' True ''''],
     entry ''hfeditinstruction_5ft'' ''HFEditInstruction_t'' [link ''../struct_h_f_edit_instruction__t.html'' True ''''],
     entry ''hffilebyteslice'' ''HFFileByteSlice'' [link ''../interface_h_f_file_byte_slice.html'' True ''''],
     entry ''hffilereference'' ''HFFileReference'' [link ''../interface_h_f_file_reference.html'' True ''''],
     entry ''hffprange'' ''HFFPRange'' [link ''../struct_h_f_f_p_range.html'' True ''''],
     entry ''hffullmemorybytearray'' ''HFFullMemoryByteArray'' [link ''../interface_h_f_full_memory_byte_array.html'' True ''''],
     entry ''hffullmemorybyteslice'' ''HFFullMemoryByteSlice'' [link ''../interface_h_f_full_memory_byte_slice.html'' True ''''],
     entry ''hfhextextrepresenter'' ''HFHexTextRepresenter'' [link ''../interface_h_f_hex_text_representer.html'' True ''''],
     entry ''hfindexset'' ''HFIndexSet'' [link ''../interface_h_f_index_set.html'' True ''''],
     entry ''hflayoutrepresenter'' ''HFLayoutRepresenter'' [link ''../interface_h_f_layout_representer.html'' True ''''],
     entry ''hflinecountingrepresenter'' ''HFLineCountingRepresenter'' [link ''../interface_h_f_line_counting_representer.html'' True ''''],
     entry ''hflinecountingview'' ''HFLineCountingView'' [link ''../interface_h_f_line_counting_view.html'' True ''''],
     entry ''hfmutableindexset'' ''HFMutableIndexSet'' [link ''../interface_h_f_mutable_index_set.html'' True ''''],
     entry ''hfprogresstracker'' ''HFProgressTracker'' [link ''../interface_h_f_progress_tracker.html'' True ''''],
     entry ''hfprogresstrackerdelegate_20_2dp'' ''HFProgressTrackerDelegate -p'' [link ''../protocol_h_f_progress_tracker_delegate_01-p.html'' True ''''],
     entry ''hfprogresstrackerdelegate_2dp'' ''HFProgressTrackerDelegate-p'' [link ''../protocol_h_f_progress_tracker_delegate-p.html'' True ''''],
     entry ''hfrange'' ''HFRange'' [link ''../struct_h_f_range.html'' True ''''],
     entry ''hfrangeset'' ''HFRangeSet'' [link ''../interface_h_f_range_set.html'' True ''''],
     entry ''hfrangewrapper'' ''HFRangeWrapper'' [link ''../interface_h_f_range_wrapper.html'' True ''''],
     entry ''hfrepresenter'' ''HFRepresenter'' [link ''../interface_h_f_representer.html'' True ''''],
     entry ''hfsharedmemorybyteslice'' ''HFSharedMemoryByteSlice'' [link ''../interface_h_f_shared_memory_byte_slice.html'' True ''''],
     entry ''hfstatusbarrepresenter'' ''HFStatusBarRepresenter'' [link ''../interface_h_f_status_bar_representer.html'' True ''''],
     entry ''hfstringencodingtextrepresenter'' ''HFStringEncodingTextRepresenter'' [link ''../interface_h_f_string_encoding_text_representer.html'' True ''''],
     entry ''hftextfield'' ''HFTextField'' [link ''../interface_h_f_text_field.html'' True ''''],
     entry ''hftextrepresenter'' ''HFTextRepresenter'' [link ''../interface_h_f_text_representer.html'' True ''''],
     entry ''hftextview'' ''HFTextView'' [link ''../interface_h_f_text_view.html'' True ''''],
     entry ''hftextviewdelegate_20_2dp'' ''HFTextViewDelegate -p'' [link ''../protocol_h_f_text_view_delegate_01-p.html'' True ''''],
     entry ''hftextviewdelegate_2dp'' ''HFTextViewDelegate-p'' [link ''../protocol_h_f_text_view_delegate-p.html'' True ''''],
     entry ''hfverticalscrollerrepresenter'' ''HFVerticalScrollerRepresenter'' [link ''../interface_h_f_vertical_scroller_representer.html'' True '''']]"

lemma index_classes_0_ok: "page_ok 104 index_classes_0"
  unfolding index_classes_0_def by (simp add: page_check ascii_lower_def)

lemma index_classes_0_ids: "distinct (map entry_id index_classes_0)"
  unfolding index_classes_0_def by (simp add: entry_ids)

definition index_files_0 :: "search_entry list" where
  "index_files_0 = [
     entry ''hexfiend_2eh'' ''HexFiend.h'' [link ''../_hex_fiend_8h.html'' True ''''],
     entry ''hfattributedbytearray_2eh'' ''HFAttributedByteArray.h'' [link ''../_h_f_attributed_byte_array_8h.html'' True ''''],
     entry ''hfbtreebytearray_2eh'' ''HFBTreeByteArray.h'' [link ''../_h_f_b_tree_byte_array_8h.html'' True ''''],
     entry ''hfbytearray_2eh'' ''HFByteArray.h'' [link ''../_h_f_byte_array_8h.html'' True ''''],
     entry ''hfbytearrayeditscript_2eh'' ''HFByteArrayEditScript.h'' [link ''../_h_f_byte_array_edit_script_8h.html'' True ''''],
     entry ''hfbyterangeattribute_2eh'' ''HFByteRangeAttribute.h'' [link ''../_h_f_byte_range_attribute_8h.html'' True ''''],
     entry ''hfbyterangeattributearray_2eh'' ''HFByteRangeAttributeArray.h'' [link ''../_h_f_byte_range_attribute_array_8h.html'' True ''''],
     entry ''hfbyteslice_2eh'' ''HFByteSlice.h'' [link ''../_h_f_byte_slice_8h.html'' True ''''],
     entry ''hfcancelbutton_2eh'' ''HFCancelButton.h'' [link ''../_h_f_cancel_button_8h.html'' True ''''],
     entry ''hfcontroller_2eh'' ''HFController.h'' [link ''../_h_f_controller_8h.html'' True ''''],
     entry ''hffilebyteslice_2eh'' ''HFFileByteSlice.h'' [link ''../_h_f_file_byte_slice_8h.html'' True ''''],
     entry ''hffilereference_2eh'' ''HFFileReference.h'' [link ''../_h_f_file_reference_8h.html'' True ''''],
     entry ''hffullmemorybytearray_2eh'' ''HFFullMemoryByteArray.h'' [link ''../_h_f_full_memory_byte_array_8h.html'' True ''''],
     entry ''hffullmemorybyteslice_2eh'' ''HFFullMemoryByteSlice.h'' [link ''../_h_f_full_memory_byte_slice_8h.html'' True ''''],
     entry ''hffunctions_2eh'' ''HFFunctions.h'' [link ''../_h_f_functions_8h.html'' True ''''],
     entry ''hfhextextrepresenter_2eh'' ''HFHexTextRepresenter.h'' [link ''../_h_f_hex_text_representer_8h.html'' True ''''],
     entry ''hfindexset_2eh'' ''HFIndexSet.h'' [link ''../_h_f_index_set_8h.html'' True ''''],
     entry ''hflayoutrepresenter_2eh'' ''HFLayoutRepresenter.h'' [link ''../_h_f_layout_representer_8h.html'' True ''''],
     entry ''hflinecountingrepresenter_2eh'' ''HFLineCountingRepresenter.h'' [link ''../_h_f_line_counting_representer_8h.html'' True ''''],
     entry ''hflinecountingview_2eh'' ''HFLineCountingView.h'' [link ''../_h_f_line_counting_view_8h.html'' True ''''],
     entry ''hfprogresstracker_2eh'' ''HFProgressTracker.h'' [link ''../_h_f_progress_tracker_8h.html'' True ''''],
     entry ''hfrepresenter_2eh'' ''HFRepresenter.h'' [link ''../_h_f_representer_8h.html'' True ''''],
     entry ''hfsharedmemorybyteslice_2eh'' ''HFSharedMemoryByteSlice.h'' [link ''../_h_f_shared_memory_byte_slice_8h.html'' True ''''],
     entry ''hfstatusbarrepresenter_2eh'' ''HFStatusBarRepresenter.h'' [link ''../_h_f_status_bar_representer_8h.html'' True ''''],
     entry ''hfstringencodingtextrepresenter_2eh'' ''HFStringEncodingTextRepresenter.h'' [link ''../_h_f_string_encoding_text_representer_8h.html'' True ''''],
     entry ''hftextfield_2eh'' ''HFTextField.h'' [link ''../_h_f_text_field_8h.html'' True ''''],
     entry ''hftextrepresenter_2eh'' ''HFTextRepresenter.h'' [link ''../_h_f_text_representer_8h.html'' True ''''],
     entry ''hftextview_2eh'' ''HFTextView.h'' [link ''../_h_f_text_view_8h.html'' True ''''],
     entry ''hftypes_2eh'' ''HFTypes.h'' [link ''../_h_f_types_8h.html'' True ''''],
     entry ''hfverticalscrollerrepresenter_2eh'' ''HFVerticalScrollerRepresenter.h'' [link ''../_h_f_vertical_scroller_representer_8h.html'' True '''']]"

lemma index_files_0_ok: "page_ok 104 index_files_0"
  unfolding index_files_0_def by (simp add: page_check ascii_lower_def)

lemma index_files_0_ids: "distinct (map entry_id index_files_0)"
  unfolding index_files_0_def by (simp add: entry_ids)

definition index_typedefs_0 :: "search_entry list" where
  "index_typedefs_0 = [
     entry ''hfbytearraydatastringtype'' ''HFByteArrayDataStringType'' [link ''../_h_f_byte_array_8h.html#a2cd0cb024d2d0921ce5b5969370668e9'' True ''HFByteArray.h''],
     entry ''hfcontrollermovementdirection'' ''HFControllerMovementDirection'' [link ''../_h_f_controller_8h.html#a00d4d8e43f4905fcf60d08f366bb712d'' True ''HFController.h''],
     entry ''hfcontrollermovementgranularity'' ''HFControllerMovementGranularity'' [link ''../_h_f_controller_8h.html#a85567732295808b437a449000cb99aa4'' True ''HFController.h''],
     entry ''hfcontrollerpropertybits'' ''HFControllerPropertyBits'' [link ''../_h_f_controller_8h.html#ae473352f77f187f538750e531d32be11'' True ''HFController.h''],
     entry ''hfcontrollerselectiontransformation'' ''HFControllerSelectionTransformation'' [link ''../_h_f_controller_8h.html#ad0384e8e2f0210f793c5486e053a1d20'' True ''HFController.h''],
     entry ''hfeditmode'' ''HFEditMode'' [link ''../_h_f_controller_8h.html#ad13ffd272edcee009bd94cac69614ff7'' True ''HFController.h''],
     entry ''hflinenumberformat'' ''HFLineNumberFormat'' [link ''../_h_f_line_counting_representer_8h.html#a8fce276601dd1b62bdb59eba373f56e5'' True ''HFLineCountingRepresenter.h''],
     entry ''hfstatusbarmode'' ''HFStatusBarMode'' [link ''../_h_f_status_bar_representer_8h.html#a0c4a61ddaf9e04b472ea096efe44566e'' True ''HFStatusBarRepresenter.h'']]"

lemma index_typedefs_0_ok: "page_ok 104 index_typedefs_0"
  unfolding index_typedefs_0_def by (simp add: page_check ascii_lower_def)

lemma index_typedefs_0_ids: "distinct (map entry_id index_typedefs_0)"
  unfolding index_typedefs_0_def by (simp add: entry_ids)

definition index_enums_0 :: "search_entry list" where
  "index_enums_0 = [
     entry ''hfbytearraydatastringtype'' ''HFByteArrayDataStringType'' [link ''../_h_f_byte_array_8h.html#a1af2563dbaa452271bb8d8967f2443be'' True ''HFByteArray.h''],
     entry ''hfcontrollermovementdirection'' ''HFControllerMovementDirection'' [link ''../_h_f_controller_8h.html#a375dde7ced2bf775954f9e950eec3add'' True ''HFController.h''],
     entry ''hfcontrollermovementgranularity'' ''HFControllerMovementGranularity'' [link ''../_h_f_controller_8h.html#af7604c610ec5c06d5e9f65ae96fb6aa4'' True ''HFController.h''],
     entry ''hfcontrollerpropertybits'' ''HFControllerPropertyBits'' [link ''../_h_f_controller_8h.html#adfb5b0d9c70a4b65379361b34ba1aea5'' True ''HFController.h''],
     entry ''hfcontrollerselectiontransformation'' ''HFControllerSelectionTransformation'' [link ''../_h_f_controller_8h.html#a5439328d873d33dd7baf4622c28a513f'' True ''HFController.h''],
     entry ''hfeditmode'' ''HFEditMode'' [link ''../_h_f_controller_8h.html#a699a6c9cf2166c36da490e29d6ed2473'' True ''HFController.h''],
     entry ''hflinenumberformat'' ''HFLineNumberFormat'' [link ''../_h_f_line_counting_representer_8h.html#ab910967284ab6c817dbd44531c4a3a2e'' True ''HFLineCountingRepresenter.h''],
     entry ''hfstatusbarmode'' ''HFStatusBarMode'' [link ''../_h_f_status_bar_representer_8h.html#a448ec6194653637a96cae094314c667a'' True ''HFStatusBarRepresenter.h'']]"

lemma index_enums_0_ok: "page_ok 104 index_enums_0"
  unfolding index_enums_0_def by (simp add: page_check ascii_lower_def)

lemma index_enums_0_ids: "distinct (map entry_id index_enums_0)"
  unfolding index_enums_0_def by (simp add: entry_ids)

definition index_enumvalues_0 :: "search_entry list" where
  "index_enumvalues_0 = [
     entry ''hfasciidatastringtype'' ''HFASCIIDataStringType'' [link ''../_h_f_byte_array_8h.html#a1af2563dbaa452271bb8d8967f2443beaac306eadcbdc57022d9280aa1a808d81'' True ''HFByteArray.h''],
     entry ''hfcontrollerantialias'' ''HFControllerAntialias'' [link ''../_h_f_controller_8h.html#adfb5b0d9c70a4b65379361b34ba1aea5af8dd38d02092c208ed2b1131e14a17d3'' True ''HFController.h''],
     entry ''hfcontrollerbookmarks'' ''HFControllerBookmarks'' [link ''../_h_f_controller_8h.html#adfb5b0d9c70a4b65379361b34ba1aea5aa577bf1aab652c8e7c10a6474539209c'' True ''HFController.h''],
     entry ''hfcontrollerbytegranularity'' ''HFControllerByteGranularity'' [link ''../_h_f_controller_8h.html#adfb5b0d9c70a4b65379361b34ba1aea5a1485006beedc3e7f130b8728076d8deb'' True ''HFController.h''],
     entry ''hfcontrollerbyterangeattributes'' ''HFControllerByteRangeAttributes'' [link ''../_h_f_controller_8h.html#adfb5b0d9c70a4b65379361b34ba1aea5a131ccd5f4c7910f45c3eb65211dc0d77'' True ''HFController.h''],
     entry ''hfcontrollerbytespercolumn'' ''HFControllerBytesPerColumn'' [link ''../_h_f_controller_8h.html#adfb5b0d9c70a4b65379361b34ba1aea5a1e162c7c8f5e5524f1c2af1b44c1319e'' True ''HFController.h''],
     entry ''hfcontrollerbytesperline'' ''HFControllerBytesPerLine'' [link ''../_h_f_controller_8h.html#adfb5b0d9c70a4b65379361b34ba1aea5ac6a933c42707198ae12cdf7fb34663e5'' True ''HFController.h''],
     entry ''hfcontrollercolorbytes'' ''HFControllerColorBytes'' [link ''../_h_f_controller_8h.html#adfb5b0d9c70a4b65379361b34ba1aea5a34679cdab27e96e3624ef98ef13c1f55'' True ''HFController.h''],
     entry ''hfcontrollercontentlength'' ''HFControllerContentLength'' [link ''../_h_f_controller_8h.html#adfb5b0d9c70a4b65379361b34ba1aea5a2be2b9e1f36c438e34bbfe14e91f82df'' True ''HFController.h''],
     entry ''hfcontrollercontentvalue'' ''HFControllerContentValue'' [link ''../_h_f_controller_8h.html#adfb5b0d9c70a4b65379361b34ba1aea5a3676fd54c466a746e9ffe4519df7b21c'' True ''HFController.h''],
     entry ''hfcontrollerdirectionleft'' ''HFControllerDirectionLeft'' [link ''../_h_f_controller_8h.html#a375dde7ced2bf775954f9e950eec3addaf3e7675621117f7794874179cf1f96e3'' True ''HFController.h''],
     entry ''hfcontrollerdirectionright'' ''HFControllerDirectionRight'' [link ''../_h_f_controller_8h.html#a375dde7ced2bf775954f9e950eec3adda27c6d9161296830b1bbcd144d701f3c8'' True ''HFController.h''],
     entry ''hfcontrollerdiscardselection'' ''HFControllerDiscardSelection'' [link ''../_h_f_controller_8h.html#a5439328d873d33dd7baf4622c28a513fa51e9f20729849cbebe8fea0aed2beb48'' True ''HFController.h''],
     entry ''hfcontrollerdisplayedlinerange'' ''HFControllerDisplayedLineRange'' [link ''../_h_f_controller_8h.html#adfb5b0d9c70a4b65379361b34ba1aea5ad03763452ac1b2798e2c80578ebff10d'' True ''HFController.h''],
     entry ''hfcontrollereditable'' ''HFControllerEditable'' [link ''../_h_f_controller_8h.html#adfb5b0d9c70a4b65379361b34ba1aea5a509b03acdc13db215f98c87a8b1af1bd'' True ''HFController.h''],
     entry ''hfcontrollerextendselection'' ''HFControllerExtendSelection'' [link ''../_h_f_controller_8h.html#a5439328d873d33dd7baf4622c28a513fa435bd452118e8dcebb19832e00c48482'' True ''HFController.h''],
     entry ''hfcontrollerfont'' ''HFControllerFont'' [link ''../_h_f_controller_8h.html#adfb5b0d9c70a4b65379361b34ba1aea5a407c21e32cc8c4d865c50aadb84c6c0c'' True ''HFController.h''],
     entry ''hfcontrollerhidenullbytes'' ''HFControllerHideNullBytes'' [link ''../_h_f_controller_8h.html#adfb5b0d9c70a4b65379361b34ba1aea5a6302fbb9baa3c333f167fb05d4500960'' True ''HFController.h''],
     entry ''hfcontrollerlineheight'' ''HFControllerLineHeight'' [link ''../_h_f_controller_8h.html#adfb5b0d9c70a4b65379361b34ba1aea5a68bafa34a750cd43ba9b9ab0a5d9a4b8'' True ''HFController.h''],
     entry ''hfcontrollermovementbyte'' ''HFControllerMovementByte'' [link ''../_h_f_controller_8h.html#af7604c610ec5c06d5e9f65ae96fb6aa4ab8e3972c4da6d2e0a520cecf386ee537'' True ''HFController.h''],
     entry ''hfcontrollermovementcolumn'' ''HFControllerMovementColumn'' [link ''../_h_f_controller_8h.html#af7604c610ec5c06d5e9f65ae96fb6aa4a76724b4804de19986983f675d1f6df89'' True ''HFController.h''],
     entry ''hfcontrollermovementdocument'' ''HFControllerMovementDocument'' [link ''../_h_f_controller_8h.html#af7604c610ec5c06d5e9f65ae96fb6aa4a615c20d42ac369282c7d995613b91536'' True ''HFController.h''],
     entry ''hfcontrollermovementline'' ''HFControllerMovementLine'' [link ''../_h_f_controller_8h.html#af7604c610ec5c06d5e9f65ae96fb6aa4adb40ee0fea8b00d86257e1a7681ec02f'' True ''HFController.h''],
     entry ''hfcontrollermovementpage'' ''HFControllerMovementPage'' [link ''../_h_f_controller_8h.html#af7604c610ec5c06d5e9f65ae96fb6aa4af1d01fcf2b0d6b71c6c402a94745c6fe'' True ''HFController.h''],
     entry ''hfcontrollerselectedranges'' ''HFControllerSelectedRanges'' [link ''../_h_f_controller_8h.html#adfb5b0d9c70a4b65379361b34ba1aea5a3c11357390226e8afd1d25f4205f7da0'' True ''HFController.h''],
     entry ''hfcontrollerselectionpulseamount'' ''HFControllerSelectionPulseAmount'' [link ''../_h_f_controller_8h.html#adfb5b0d9c70a4b65379361b34ba1aea5af9018582c51e2b8473f61c0d67a25170'' True ''HFController.h''],
     entry ''hfcontrollershiftselection'' ''HFControllerShiftSelection'' [link ''../_h_f_controller_8h.html#a5439328d873d33dd7baf4622c28a513fa2d1a96664f11e58da108f6d1f8daef50'' True ''HFController.h''],
     entry ''hfcontrollershowcallouts'' ''HFControllerShowCallouts'' [link ''../_h_f_controller_8h.html#adfb5b0d9c70a4b65379361b34ba1aea5ab0997589f8558b3e912fb66dd5adcb59'' True ''HFController.h''],
     entry ''hfcontrollerviewsizeratios'' ''HFControllerViewSizeRatios'' [link ''../_h_f_controller_8h.html#adfb5b0d9c70a4b65379361b34ba1aea5a694100c5b77fec8f1184d19f7ede7d2f'' True ''HFController.h''],
     entry ''hfhexdatastringtype'' ''HFHexDataStringType'' [link ''../_h_f_byte_array_8h.html#a1af2563dbaa452271bb8d8967f2443bea19cf011438457f5556468df6a8c40721'' True ''HFByteArray.h''],
     entry ''hfinsertmode'' ''HFInsertMode'' [link ''../_h_f_controller_8h.html#a699a6c9cf2166c36da490e29d6ed2473a6d9fcceef66f969985489a83bcd7bd5a'' True ''HFController.h''],
     entry ''hflinenumberformatdecimal'' ''HFLineNumberFormatDecimal'' [link ''../_h_f_line_counting_representer_8h.html#ab910967284ab6c817dbd44531c4a3a2eae551fea869219d6fb297f904492f5ccc'' True ''HFLineCountingRepresenter.h''],
     entry ''hflinenumberformathexadecimal'' ''HFLineNumberFormatHexadecimal'' [link ''../_h_f_line_counting_representer_8h.html#ab910967284ab6c817dbd44531c4a3a2ea8acffc17c8abb8fac3f2327c2e5ffe66'' True ''HFLineCountingRepresenter.h''],
     entry ''hflinenumberformatmaximum'' ''HFLineNumberFormatMAXIMUM'' [link ''../_h_f_line_counting_representer_8h.html#ab910967284ab6c817dbd44531c4a3a2ea672bd987a849e3d8b138cd1ad23c1eca'' True ''HFLineCountingRepresenter.h''],
     entry ''hfoverwritemode'' ''HFOverwriteMode'' [link ''../_h_f_controller_8h.html#a699a6c9cf2166c36da490e29d6ed2473a57713c6a4e1414210225d06760baf53e'' True ''HFController.h''],
     entry ''hfreadonlymode'' ''HFReadOnlyMode'' [link ''../_h_f_controller_8h.html#a699a6c9cf2166c36da490e29d6ed2473a05a305e1472ec85755556a80e9a40c41'' True ''HFController.h''],
     entry ''hfstatusmodeapproximate'' ''HFStatusModeApproximate'' [link ''../_h_f_status_bar_representer_8h.html#a448ec6194653637a96cae094314c667aabea18f11b0b648b190131165f83c0da3'' True ''HFStatusBarRepresenter.h''],
     entry ''hfstatusmodecount'' ''HFSTATUSMODECOUNT'' [link ''../_h_f_status_bar_representer_8h.html#a448ec6194653637a96cae094314c667aaf1e355655982e6df77b73e57cf9fb74a'' True ''HFStatusBarRepresenter.h''],
     entry ''hfstatusmodedecimal'' ''HFStatusModeDecimal'' [link ''../_h_f_status_bar_representer_8h.html#a448ec6194653637a96cae094314c667aa19189020cf2c7e3073eddaa7be844a9b'' True ''HFStatusBarRepresenter.h''],
     entry ''hfstatusmodehexadecimal'' ''HFStatusModeHexadecimal'' [link ''../_h_f_status_bar_representer_8h.html#a448ec6194653637a96cae094314c667aa2b25df5bf07e63e2459c61e19752c38a'' True ''HFStatusBarRepresenter.h'']]"

lemma index_enumvalues_0_ok: "page_ok 104 index_enumvalues_0"
  unfolding index_enumvalues_0_def by (simp add: page_check ascii_lower_def)

lemma index_enumvalues_0_ids: "distinct (map entry_id index_enumvalues_0)"
  unfolding index_enumvalues_0_def by (simp add: entry_ids)

definition index_defines_0 :: "search_entry list" where
  "index_defines_0 = [
     entry ''hfdefault_5ffont'' ''HFDEFAULT_FONT'' [link ''../_h_f_functions_8h.html#ab08435c6a01cfe5cd77158388f22167f'' True ''HFFunctions.h''],
     entry ''hfdefault_5ffontsize'' ''HFDEFAULT_FONTSIZE'' [link ''../_h_f_functions_8h.html#afe1c300d17bd4eee18b785b5a57296ac'' True ''HFFunctions.h''],
     entry ''hfzerorange'' ''HFZeroRange'' [link ''../_h_f_functions_8h.html#aae371535050d473bf449536855db6af4'' True ''HFFunctions.h'']]"

lemma index_defines_0_ok: "page_ok 104 index_defines_0"
  unfolding index_defines_0_def by (simp add: page_check ascii_lower_def)

lemma index_defines_0_ids: "distinct (map entry_id index_defines_0)"
  unfolding index_defines_0_def by (simp add: entry_ids)

definition index_groups_0 :: "search_entry list" where
  "index_groups_0 = [
     entry ''controller'' ''Controller'' [link ''../group__controller.html'' True '''']]"

lemma index_groups_0_ok: "page_ok 99 index_groups_0"
  unfolding index_groups_0_def by (simp add: page_check ascii_lower_def)

lemma index_groups_0_ids: "distinct (map entry_id index_groups_0)"
  unfolding index_groups_0_def by (simp add: entry_ids)

definition index_groups_1 :: "search_entry list" where
  "index_groups_1 = [
     entry ''high_20level'' ''High Level'' [link ''../group__highlevel.html'' True '''']]"

lemma index_groups_1_ok: "page_ok 104 index_groups_1"
  unfolding index_groups_1_def by (simp add: page_check ascii_lower_def)

lemma index_groups_1_ids: "distinct (map entry_id index_groups_1)"
  unfolding index_groups_1_def by (simp add: entry_ids)

definition index_groups_2 :: "search_entry list" where
  "index_groups_2 = [
     entry ''model'' ''Model'' [link ''../group__model.html'' True '''']]"

lemma index_groups_2_ok: "page_ok 109 index_groups_2"
  unfolding index_groups_2_def by (simp add: page_check ascii_lower_def)

lemma index_groups_2_ids: "distinct (map entry_id index_groups_2)"
  unfolding index_groups_2_def by (simp add: entry_ids)

definition index_groups_3 :: "search_entry list" where
  "index_groups_3 = [
     entry ''view'' ''View'' [link ''../group__view.html'' True '''']]"

lemma index_groups_3_ok: "page_ok 118 index_groups_3"
  unfolding index_groups_3_def by (simp add: page_check ascii_lower_def)

lemma index_groups_3_ids: "distinct (map entry_id index_groups_3)"
  unfolding index_groups_3_def by (simp add: entry_ids)

definition index_pages_0 :: "search_entry list" where
  "index_pages_0 = [
     entry ''hexfiend_2eframework'' ''HexFiend.framework'' [link ''../index.html'' True '''']]"

lemma index_pages_0_ok: "page_ok 104 index_pages_0"
  unfolding index_pages_0_def by (simp add: page_check ascii_lower_def)

lemma index_pages_0_ids: "distinct (map entry_id index_pages_0)"
  unfolding index_pages_0_def by (simp add: entry_ids)

end
