(* ===== verification/SearchIndex.thy ===== *)
theory SearchIndex
  imports JsString
begin

text \<open>
  The tables of \<open>docs/docs/search/searchdata.js\<close>: for each section of the documentation the
  first characters that have an index page, the name of its index files and its label in the
  filter menu. A table is an object with the keys 0 to 11; reading another key gives
  \<open>undefined\<close>, here \<open>None\<close>.
\<close>

definition indexSectionsWithContent :: "jsstring list" where
  "indexSectionsWithContent =
     [js ''_abcdefghiklmnoprstuvw'', js ''h'', js ''h'', js ''abcdefghilmnoprstvw'',
      js ''_dhkls'', js ''h'', js ''h'', js ''h'', js ''bcdefilmprsu'', js ''h'', js ''chmv'',
      js ''h'']"

definition indexSectionNames :: "jsstring list" where
  "indexSectionNames =
     [js ''all'', js ''classes'', js ''files'', js ''functions'', js ''variables'',
      js ''typedefs'', js ''enums'', js ''enumvalues'', js ''properties'', js ''defines'',
      js ''groups'', js ''pages'']"

definition indexSectionLabels :: "jsstring list" where
  "indexSectionLabels =
     [js ''All'', js ''Classes'', js ''Files'', js ''Functions'', js ''Variables'',
      js ''Typedefs'', js ''Enumerations'', js ''Enumerator'', js ''Properties'',
      js ''Macros'', js ''Modules'', js ''Pages'']"

definition lookup_key :: "jsstring list \<Rightarrow> nat \<Rightarrow> jsstring option" where
  "lookup_key table key = (if key < length table then Some (table ! key) else None)"

lemma index_tables_length [simp]:
  "length indexSectionsWithContent = 12" "length indexSectionNames = 12"
  "length indexSectionLabels = 12"
  by (simp_all add: indexSectionsWithContent_def indexSectionNames_def indexSectionLabels_def)

lemma lookup_key_tables:
  "lookup_key indexSectionsWithContent s = (if s < 12 then Some (indexSectionsWithContent ! s) else None)"
  "lookup_key indexSectionNames s = (if s < 12 then Some (indexSectionNames ! s) else None)"
  by (simp_all add: lookup_key_def)

text \<open>Each section lists a character once, so a character names one page of the section.\<close>

lemma sections_distinct: "list_all distinct indexSectionsWithContent"
  by (simp add: indexSectionsWithContent_def js_def)

lemma sections_ascii: "list_all ascii indexSectionsWithContent" "list_all ascii indexSectionNames"
  by (simp_all add: indexSectionsWithContent_def indexSectionNames_def js_def)

lemma section_names_plain:
  "list_all (\<lambda>s. 63 \<notin> set s \<and> 35 \<notin> set s) indexSectionNames"
  by (simp add: indexSectionNames_def js_def)

lemma section_names_distinct: "distinct indexSectionNames"
  by (simp add: indexSectionNames_def)

end
