(* ===== verification/SearchBox.thy ===== *)
theory SearchBox
  imports SearchIndex ResultsNav
begin

text \<open>
  The class \<open>SearchBox\<close> of \<open>docs/docs/search/search.js\<close>: the search field of every
  documentation page, the menu that selects a section, and the frame in which the results page
  opens. The state is the object, the few elements of the page it writes, and the timers of
  the window. A handler takes the state to the state it leaves and the error that stopped it,
  if any.

  Two things come from the browser and are parameters: \<open>U\<close>, the Unicode lower-case mapping
  (see \<open>JsString\<close>), and \<open>L\<close>, the layout of the page, which gives the offset chain of an
  element in a page state.
\<close>

subsection \<open>Positions on the page\<close>

text \<open>
  An element as the position functions see it: its size, and for any element but
  \<open>document.body\<close> its offset from the element it is positioned in.
\<close>

datatype offset_elem =
    Body (offsetWidth: int) (offsetHeight: int)
  | Offset (offsetWidth: int) (offsetHeight: int) (offsetLeft: int) (offsetTop: int)
      (offsetParent: "offset_elem option")

fun x_loop :: "offset_elem option \<Rightarrow> int \<Rightarrow> int" where
  "x_loop None x = x"
| "x_loop (Some (Body w h)) x = x"
| "x_loop (Some (Offset w h l t p)) x = x_loop p (x + l)"

fun y_loop :: "offset_elem option \<Rightarrow> int \<Rightarrow> int" where
  "y_loop None y = y"
| "y_loop (Some (Body w h)) y = y"
| "y_loop (Some (Offset w h l t p)) y = y_loop p (y + t)"

definition getXPos :: "offset_elem \<Rightarrow> int" where
  "getXPos item = (if offsetWidth item \<noteq> 0 then x_loop (Some item) 0 else 0)"

definition getYPos :: "offset_elem \<Rightarrow> int" where
  "getYPos item = (if offsetWidth item \<noteq> 0 then y_loop (Some item) 0 else 0)"

subsection \<open>State\<close>

datatype callback = CallSearch | CallCloseSelection

record style =
  css_display :: string
  css_position :: string
  css_left :: "int option"
  css_top :: "int option"
  css_width :: "int option"

definition no_style :: style where
  "no_style = \<lparr>css_display = [], css_position = [], css_left = None, css_top = None, css_width = None\<rparr>"

text \<open>
  A child node of the filter menu: its class, the key that its \<open>onclick\<close> passes to
  \<open>OnSelectItem\<close>, and the text of its selection mark and label.
\<close>

record select_node =
  sel_class :: string
  sel_onclick :: nat
  sel_mark :: string
  sel_label :: jsstring

record box_state =
  resultsPath :: jsstring
  insideFrame :: bool
  searchLabel :: jsstring
  keyTimeout :: nat
  keyTimeoutLength :: nat
  closeSelectionTimeout :: nat
  lastSearchValue :: jsstring
  lastResultsPage :: jsstring
  hideTimeout :: nat
  searchIndex :: nat
  searchActive :: bool
  field_value :: jsstring
  field_focused :: bool
  close_display :: string
  box_class :: string
  select_nodes :: "select_node list"
  select_style :: style
  popup_style :: style
  frame_width :: "int option"
  frame_location :: jsstring
  frame_results :: "results_state option"
  next_timer :: nat
  timers :: "(nat \<times> callback \<times> nat) list"

datatype box_elem = MSearchSelect | MSearchSelectWindow | MSearchBox | MSearchResults

record layout =
  lay_elem :: "box_state \<Rightarrow> box_elem \<Rightarrow> offset_elem"
  lay_width :: "box_state \<Rightarrow> int"

type_synonym outcome = "js_error option \<times> box_state"

text \<open>The constructor; the elements are those of a freshly loaded page (\<open>initMenu\<close>).\<close>

definition new_SearchBox :: "jsstring \<Rightarrow> bool \<Rightarrow> jsstring \<Rightarrow> box_state" where
  "new_SearchBox path inFrame label =
     \<lparr>resultsPath = path, insideFrame = inFrame, searchLabel = label,
      keyTimeout = 0, keyTimeoutLength = 500, closeSelectionTimeout = 300,
      lastSearchValue = [], lastResultsPage = [], hideTimeout = 0, searchIndex = 0,
      searchActive = False, field_value = label, field_focused = False, close_display = [],
      box_class = ''MSearchBoxInactive'', select_nodes = [\<lparr>sel_class = [], sel_onclick = 0, sel_mark = [], sel_label = []\<rparr>],
      select_style = no_style, popup_style = no_style, frame_width = None, frame_location = [],
      frame_results = None, next_timer = 1, timers = []\<rparr>"

subsection \<open>Timers of the window\<close>

text \<open>\<open>setTimeout\<close> gives a fresh positive handle; \<open>clearTimeout\<close> forgets a pending one.\<close>

definition setTimeout :: "callback \<Rightarrow> nat \<Rightarrow> box_state \<Rightarrow> nat \<times> box_state" where
  "setTimeout cb ms st =
     (next_timer st, st\<lparr>next_timer := Suc (next_timer st), timers := timers st @ [(next_timer st, cb, ms)]\<rparr>)"

definition clearTimeout :: "nat \<Rightarrow> box_state \<Rightarrow> box_state" where
  "clearTimeout h st = st\<lparr>timers := filter (\<lambda>t. fst t \<noteq> h) (timers st)\<rparr>"

subsection \<open>Activation\<close>

definition Activate :: "bool \<Rightarrow> box_state \<Rightarrow> box_state" where
  "Activate isActive st =
     (if isActive \<or> css_display (popup_style st) = ''block'' then
        (let st = st\<lparr>box_class := ''MSearchBoxActive''\<rparr> in
         if field_value st = searchLabel st then st\<lparr>field_value := [], searchActive := True\<rparr>
         else st)
      else
        st\<lparr>box_class := ''MSearchBoxInactive'', field_value := searchLabel st,
           searchActive := False, lastSearchValue := [], lastResultsPage := []\<rparr>)"

definition OnSearchFieldFocus :: "bool \<Rightarrow> box_state \<Rightarrow> box_state" where
  "OnSearchFieldFocus isActive st = Activate isActive st"

text \<open>
  \<open>focus()\<close> and \<open>blur()\<close> of the search field run its focus handlers at once when the focus
  changes; focusing any other element takes the focus from the field.
\<close>

definition focus_field :: "box_state \<Rightarrow> box_state" where
  "focus_field st =
     (if field_focused st then st else OnSearchFieldFocus True (st\<lparr>field_focused := True\<rparr>))"

definition blur_field :: "box_state \<Rightarrow> box_state" where
  "blur_field st =
     (if field_focused st then OnSearchFieldFocus False (st\<lparr>field_focused := False\<rparr>) else st)"

definition hide_results :: "box_state \<Rightarrow> box_state" where
  "hide_results st =
     st\<lparr>popup_style := (popup_style st)\<lparr>css_display := ''none''\<rparr>, close_display := ''none''\<rparr>"

definition CloseResultsWindow :: "box_state \<Rightarrow> box_state" where
  "CloseResultsWindow st = Activate False (hide_results st)"

definition CloseSelectionWindow :: "box_state \<Rightarrow> box_state" where
  "CloseSelectionWindow st = st\<lparr>select_style := (select_style st)\<lparr>css_display := ''none''\<rparr>\<rparr>"

subsection \<open>The filter menu\<close>

definition place_menu :: "layout \<Rightarrow> box_state \<Rightarrow> box_state" where
  "place_menu L st =
     (let searchField = lay_elem L st MSearchSelect;
          x = getXPos searchField; y = getYPos searchField;
          shown = st\<lparr>select_style := (select_style st)\<lparr>css_display := ''block''\<rparr>\<rparr>;
          left = (if insideFrame st
                  then x + (offsetWidth searchField + 6) -
                       offsetWidth (lay_elem L shown MSearchSelectWindow)
                  else x);
          top = y + offsetHeight searchField
      in shown\<lparr>select_style := (select_style shown)\<lparr>css_left := Some left, css_top := Some top\<rparr>\<rparr>)"

text \<open>The end of \<open>OnSearchSelectShow\<close>: the menu stays open, whatever was planned.\<close>

definition stop_hide_timer :: "box_state \<Rightarrow> box_state" where
  "stop_hide_timer st =
     (if hideTimeout st \<noteq> 0 then (clearTimeout (hideTimeout st) st)\<lparr>hideTimeout := 0\<rparr> else st)"

definition OnSearchSelectShow :: "layout \<Rightarrow> box_state \<Rightarrow> box_state" where
  "OnSearchSelectShow L st = stop_hide_timer (place_menu L st)"

definition OnSearchSelectHide :: "box_state \<Rightarrow> box_state" where
  "OnSearchSelectHide st =
     (let (h, st1) = setTimeout CallCloseSelection (closeSelectionTimeout st) st
      in st1\<lparr>hideTimeout := h\<rparr>)"

definition is_select_item :: "select_node \<Rightarrow> bool" where
  "is_select_item n \<longleftrightarrow> sel_class n = ''SelectItem''"

fun count_items :: "nat \<Rightarrow> select_node list \<Rightarrow> nat" where
  "count_items count [] = count"
| "count_items count (n # ns) = count_items (if is_select_item n then count + 1 else count) ns"

definition SelectItemCount :: "box_state \<Rightarrow> nat" where
  "SelectItemCount st = count_items 0 (select_nodes st)"

fun set_marks :: "nat \<Rightarrow> nat \<Rightarrow> select_node list \<Rightarrow> select_node list" where
  "set_marks j sel [] = []"
| "set_marks j sel (n # ns) =
     (if is_select_item n
      then n\<lparr>sel_mark := (if j = sel then ''&#8226;'' else ''&#160;'')\<rparr> # set_marks (j + 1) sel ns
      else n # set_marks j sel ns)"

definition SelectItemSet :: "nat \<Rightarrow> box_state \<Rightarrow> box_state" where
  "SelectItemSet sel st = st\<lparr>select_nodes := set_marks 0 sel (select_nodes st)\<rparr>"

subsection \<open>Searching\<close>

text \<open>The character whose page is searched: \<open>code\<close> and \<open>idxChar\<close> of the source.\<close>

definition index_char :: "unicode_lower \<Rightarrow> jsstring \<Rightarrow> jsstring" where
  "index_char U searchValue =
     (let lower = toLowerCase U searchValue in
      if lower \<noteq> [] \<and> 0xD800 \<le> hd lower \<and> hd lower \<le> 0xDBFF \<and> string_greater_one searchValue
      then take 2 searchValue
      else toLowerCase U (take 1 searchValue))"

text \<open>
  \<open>resultsPage\<close> and \<open>resultsPageWithSearch\<close>; \<open>None\<close> when the section does not exist and the
  call of \<open>indexOf\<close> on \<open>undefined\<close> raises.
\<close>

definition results_page_for :: "unicode_lower \<Rightarrow> box_state \<Rightarrow> jsstring \<Rightarrow> (jsstring \<times> jsstring) option" where
  "results_page_for U st searchValue =
     (case lookup_key indexSectionsWithContent (searchIndex st) of
        None \<Rightarrow> None
      | Some content \<Rightarrow>
          (case indexOf content (index_char U searchValue) of
             Some idx \<Rightarrow>
               (let sectionName = (case lookup_key indexSectionNames (searchIndex st) of
                      Some n \<Rightarrow> n | None \<Rightarrow> js ''undefined'');
                    page = resultsPath st @ js ''/'' @ sectionName @ js ''_'' @ toString16 idx @
                      js ''.html''
                in Some (page, page @ js ''?'' @ escape searchValue))
           | None \<Rightarrow>
               (let page = resultsPath st @ js ''/nomatches.html'' in Some (page, page))))"

text \<open>Placing and showing the results window, the first time it is opened.\<close>

definition show_popup :: "layout \<Rightarrow> box_state \<Rightarrow> box_state" where
  "show_popup L st =
     (if css_display (popup_style st) = ''block'' then st
      else
        let st = st\<lparr>close_display := ''inline''\<rparr> in
        if insideFrame st then
          (let st1 = st\<lparr>popup_style := (popup_style st)\<lparr>css_position := ''relative'', css_display := ''block''\<rparr>\<rparr>;
               width = lay_width L st1 - 8
           in st1\<lparr>popup_style := (popup_style st1)\<lparr>css_width := Some width\<rparr>, frame_width := Some width\<rparr>)
        else
          (let left = getXPos (lay_elem L st MSearchBox) + 150;
               top = getYPos (lay_elem L st MSearchBox) + 20;
               st1 = st\<lparr>popup_style := (popup_style st)\<lparr>css_display := ''block''\<rparr>\<rparr>;
               w = offsetWidth (lay_elem L st1 MSearchResults)
           in st1\<lparr>popup_style := (popup_style st1)\<lparr>css_top := Some top, css_left := Some (left - w)\<rparr>\<rparr>))"

definition Search :: "layout \<Rightarrow> unicode_lower \<Rightarrow> box_state \<Rightarrow> outcome" where
  "Search L U st =
     (let st = st\<lparr>keyTimeout := 0\<rparr>;
          searchValue = strip_leading (field_value st)
      in case results_page_for U st searchValue of
           None \<Rightarrow> (Some TypeError, st)
         | Some (resultsPage, resultsPageWithSearch) \<Rightarrow>
             (None, (show_popup L (st\<lparr>frame_location := resultsPageWithSearch\<rparr>))
                      \<lparr>lastSearchValue := searchValue, lastResultsPage := resultsPage\<rparr>))"

definition OnSelectItem :: "layout \<Rightarrow> unicode_lower \<Rightarrow> nat \<Rightarrow> box_state \<Rightarrow> outcome" where
  "OnSelectItem L U sel st =
     (let st = SelectItemSet sel (st\<lparr>searchIndex := sel\<rparr>);
          searchValue = strip_spaces (field_value st)
      in if searchValue \<noteq> [] \<and> searchActive st then Search L U st else (None, st))"

definition OnSearchSelectKey :: "layout \<Rightarrow> unicode_lower \<Rightarrow> key_event \<Rightarrow> box_state \<Rightarrow> outcome" where
  "OnSearchSelectKey L U e st =
     (if keyCode e = 40 \<and> searchIndex st < SelectItemCount st then
        OnSelectItem L U (searchIndex st + 1) (st\<lparr>searchIndex := searchIndex st + 1\<rparr>)
      else if keyCode e = 38 \<and> searchIndex st > 0 then
        OnSelectItem L U (searchIndex st - 1) (st\<lparr>searchIndex := searchIndex st - 1\<rparr>)
      else if keyCode e = 13 \<or> keyCode e = 27 then
        (case OnSelectItem L U (searchIndex st) st of
           (Some err, st1) \<Rightarrow> (Some err, st1)
         | (None, st1) \<Rightarrow> (None, focus_field (CloseSelectionWindow st1)))
      else (None, st))"

text \<open>The last part of \<open>OnSearchFieldChange\<close>: has the value changed?\<close>

definition field_changed :: "box_state \<Rightarrow> box_state" where
  "field_changed st =
     (let searchValue = strip_spaces (field_value st) in
      if searchValue \<noteq> lastSearchValue st then
        (if searchValue \<noteq> [] then
           (let (h, st1) = setTimeout CallSearch (keyTimeoutLength st) st in st1\<lparr>keyTimeout := h\<rparr>)
         else (hide_results st)\<lparr>lastSearchValue := []\<rparr>)
      else st)"

text \<open>The first part: a running search timer is stopped.\<close>

definition stop_key_timer :: "box_state \<Rightarrow> box_state" where
  "stop_key_timer st =
     (if keyTimeout st \<noteq> 0 then (clearTimeout (keyTimeout st) st)\<lparr>keyTimeout := 0\<rparr> else st)"

text \<open>
  \<open>elem.focus()\<close> on the first result takes the focus from the field only while the results
  window is on display: the browser ignores \<open>focus()\<close> in a frame that is not.
\<close>

definition OnSearchFieldChange :: "layout \<Rightarrow> key_event \<Rightarrow> box_state \<Rightarrow> outcome" where
  "OnSearchFieldChange L e st =
     (let st = stop_key_timer st
      in if keyCode e = 40 \<or> keyCode e = 13 then
           (if shiftKey e then
              (let st1 = OnSearchSelectShow L st in
               (None, if list_ex is_select_item (select_nodes st1) then blur_field st1 else st1))
            else
              (case frame_results st of
                 None \<Rightarrow> (None, field_changed st)
               | Some r \<Rightarrow>
                   (case NavNext (doc r) 0 of
                      None \<Rightarrow> (None, field_changed st)
                    | Some elem \<Rightarrow>
                        (None, field_changed
                           (if css_display (popup_style st) = ''block'' then blur_field st else st)))))
         else if keyCode e = 27 then
           (None, Activate False ((hide_results (blur_field st))\<lparr>lastSearchValue := []\<rparr>))
         else (None, field_changed st))"

subsection \<open>Filling the filter menu\<close>

text \<open>\<open>init_search\<close>: one item for each section, in key order, and section 0 selected.\<close>

definition select_link :: "nat \<Rightarrow> jsstring \<Rightarrow> select_node" where
  "select_link key label =
     \<lparr>sel_class = ''SelectItem'', sel_onclick = key, sel_mark = ''&#160;'', sel_label = label\<rparr>"

fun append_links :: "nat \<Rightarrow> jsstring list \<Rightarrow> box_state \<Rightarrow> box_state" where
  "append_links key [] st = st"
| "append_links key (l # ls) st =
     append_links (Suc key) ls (st\<lparr>select_nodes := select_nodes st @ [select_link key l]\<rparr>)"

definition init_search :: "layout \<Rightarrow> unicode_lower \<Rightarrow> box_state \<Rightarrow> outcome" where
  "init_search L U st = OnSelectItem L U 0 (append_links 0 indexSectionLabels st)"

subsection \<open>Events\<close>

text \<open>
  What can happen on the page: the user focuses, leaves and types in the field, moves over the
  filter menu, picks a section by mouse or key, closes the results; a timer of the window runs
  out; the frame finishes loading a page.
\<close>

datatype box_event =
    FieldFocus
  | FieldBlur
  | Typed jsstring
  | KeyUp key_event
  | MenuShow
  | MenuHide
  | MenuKey key_event
  | MenuClick select_node
  | CloseClick
  | TimerFires nat
  | FrameLoaded "results_state option"

definition run_callback :: "layout \<Rightarrow> unicode_lower \<Rightarrow> callback \<Rightarrow> box_state \<Rightarrow> outcome" where
  "run_callback L U cb st =
     (case cb of CallSearch \<Rightarrow> Search L U st | CallCloseSelection \<Rightarrow> (None, CloseSelectionWindow st))"

definition timer_fires :: "layout \<Rightarrow> unicode_lower \<Rightarrow> nat \<Rightarrow> box_state \<Rightarrow> outcome" where
  "timer_fires L U h st =
     (case List.find (\<lambda>t. fst t = h) (timers st) of
        None \<Rightarrow> (None, st)
      | Some (h', cb, ms) \<Rightarrow> run_callback L U cb (clearTimeout h st))"

fun handle :: "layout \<Rightarrow> unicode_lower \<Rightarrow> box_event \<Rightarrow> box_state \<Rightarrow> outcome" where
  "handle L U FieldFocus st = (None, focus_field st)"
| "handle L U FieldBlur st = (None, blur_field st)"
| "handle L U (Typed v) st = (None, st\<lparr>field_value := v\<rparr>)"
| "handle L U (KeyUp e) st = OnSearchFieldChange L e st"
| "handle L U MenuShow st = (None, OnSearchSelectShow L st)"
| "handle L U MenuHide st = (None, OnSearchSelectHide st)"
| "handle L U (MenuKey e) st = OnSearchSelectKey L U e st"
| "handle L U (MenuClick n) st = OnSelectItem L U (sel_onclick n) st"
| "handle L U CloseClick st = (None, CloseResultsWindow st)"
| "handle L U (TimerFires h) st = timer_fires L U h st"
| "handle L U (FrameLoaded r) st = (None, st\<lparr>frame_results := r\<rparr>)"

fun enabled :: "box_event \<Rightarrow> box_state \<Rightarrow> bool" where
  "enabled (Typed v) st = field_focused st"
| "enabled (KeyUp e) st = field_focused st"
| "enabled (MenuClick n) st = (n \<in> set (select_nodes st) \<and> is_select_item n)"
| "enabled (TimerFires h) st = (h \<in> fst ` set (timers st))"
| "enabled ev st = True"

text \<open>An error stops its handler only; the page goes on with the state it left.\<close>

fun run_box :: "layout \<Rightarrow> unicode_lower \<Rightarrow> box_event list \<Rightarrow> box_state \<Rightarrow> box_state" where
  "run_box L U [] st = st"
| "run_box L U (e # es) st = run_box L U es (snd (handle L U e st))"

text \<open>Every event of a sequence can happen when its turn comes.\<close>

fun all_enabled :: "layout \<Rightarrow> unicode_lower \<Rightarrow> box_event list \<Rightarrow> box_state \<Rightarrow> bool" where
  "all_enabled L U [] st = True"
| "all_enabled L U (e # es) st = (enabled e st \<and> all_enabled L U es (snd (handle L U e st)))"

inductive box_reachable :: "layout \<Rightarrow> unicode_lower \<Rightarrow> box_state \<Rightarrow> bool" for L U where
  page_loaded: "box_reachable L U (snd (init_search L U (new_SearchBox path inFrame label)))"
| event: "box_reachable L U st \<Longrightarrow> enabled e st \<Longrightarrow> box_reachable L U (snd (handle L U e st))"

lemma run_box_reachable:
  "box_reachable L U st \<Longrightarrow> all_enabled L U es st \<Longrightarrow> box_reachable L U (run_box L U es st)"
  by (induction es arbitrary: st) (auto intro: box_reachable.event)

end
