(* ===== verification/BoxInvariant.thy ===== *)
theory BoxInvariant
  imports SearchBox
begin

text \<open>
  The invariant of the search box: the timers of the window, the filter menu and the activation
  of the panel, kept by every event of the page and so true in every reachable state. The
  timers are an interface (\<open>timer_service\<close>): the box relies on fresh handles and on exact
  cancellation; what these laws give for the waiting timers of one kind is proved there once.
\<close>

subsection \<open>Timers as an interface\<close>

locale timer_service =
  fixes set_timer :: "'cb \<Rightarrow> nat \<Rightarrow> 's \<Rightarrow> nat \<times> 's"
    and clear :: "nat \<Rightarrow> 's \<Rightarrow> 's"
    and pending :: "'s \<Rightarrow> (nat \<times> 'cb \<times> nat) list"
    and wf :: "'s \<Rightarrow> bool"
  assumes set_wf: "wf s \<Longrightarrow> wf (snd (set_timer cb ms s))"
    and set_pending: "wf s \<Longrightarrow>
      pending (snd (set_timer cb ms s)) = pending s @ [(fst (set_timer cb ms s), cb, ms)]"
    and set_fresh: "wf s \<Longrightarrow> fst (set_timer cb ms s) \<noteq> 0 \<and> fst (set_timer cb ms s) \<notin> fst ` set (pending s)"
    and clear_wf: "wf s \<Longrightarrow> wf (clear h s)"
    and clear_pending: "wf s \<Longrightarrow> pending (clear h s) = filter (\<lambda>t. fst t \<noteq> h) (pending s)"
begin

text \<open>What setting and clearing a timer do to the waiting timers of one kind.\<close>

lemma kind_clear:
  "wf s \<Longrightarrow> filter (\<lambda>t. fst (snd t) = cb) (pending (clear h s)) =
     filter (\<lambda>t. fst t \<noteq> h) (filter (\<lambda>t. fst (snd t) = cb) (pending s))"
  by (simp add: clear_pending conj_commute)

lemma kind_set:
  "wf s \<Longrightarrow> filter (\<lambda>t. fst (snd t) = cb) (pending (snd (set_timer cb ms s))) =
     filter (\<lambda>t. fst (snd t) = cb) (pending s) @ [(fst (set_timer cb ms s), cb, ms)]"
  by (simp add: set_pending)

lemma clear_only_one:
  assumes "wf s" "\<And>t. t \<in> set (pending s) \<Longrightarrow> fst (snd t) = cb \<Longrightarrow> fst t = h"
  shows "filter (\<lambda>t. fst (snd t) = cb) (pending (clear h s)) = []"
  using assms by (auto simp: kind_clear filter_empty_conv)

end

definition timers_wf :: "box_state \<Rightarrow> bool" where
  "timers_wf st \<longleftrightarrow> 0 < next_timer st \<and> list_all (\<lambda>t. 0 < fst t \<and> fst t < next_timer st) (timers st) \<and>
     distinct (map fst (timers st))"

interpretation window: timer_service setTimeout clearTimeout timers timers_wf
proof
  fix cb ms s h
  assume wf: "timers_wf s"
  then show "timers_wf (snd (setTimeout cb ms s))"
    by (auto simp: timers_wf_def setTimeout_def list_all_iff)
  show "timers (snd (setTimeout cb ms s)) = timers s @ [(fst (setTimeout cb ms s), cb, ms)]"
    by (simp add: setTimeout_def)
  show "fst (setTimeout cb ms s) \<noteq> 0 \<and> fst (setTimeout cb ms s) \<notin> fst ` set (timers s)"
    using wf by (auto simp: timers_wf_def setTimeout_def list_all_iff)
  show "timers_wf (clearTimeout h s)"
    using wf by (auto simp: timers_wf_def clearTimeout_def list_all_iff distinct_map_filter)
  show "timers (clearTimeout h s) = filter (\<lambda>t. fst t \<noteq> h) (timers s)"
    by (simp add: clearTimeout_def)
qed

subsection \<open>The invariant\<close>

definition marks :: "box_state \<Rightarrow> string list" where
  "marks st = map sel_mark (filter is_select_item (select_nodes st))"

definition mark_list :: "nat \<Rightarrow> nat \<Rightarrow> string list" where
  "mark_list sel n = map (\<lambda>j. if j = sel then ''&#8226;'' else ''&#160;'') [0..<n]"

definition key_timer_pending :: "box_state \<Rightarrow> bool" where
  "key_timer_pending st \<longleftrightarrow>
     keyTimeout st \<noteq> 0 \<longrightarrow> (\<exists>ms. (keyTimeout st, CallSearch, ms) \<in> set (timers st))"

definition menu_ok :: "box_state \<Rightarrow> bool" where
  "menu_ok st \<longleftrightarrow> map sel_onclick (filter is_select_item (select_nodes st)) = [0..<12] \<and>
     searchIndex st \<le> 12 \<and> marks st = mark_list (searchIndex st) 12"

definition panel_ok :: "box_state \<Rightarrow> bool" where
  "panel_ok st \<longleftrightarrow> (searchActive st \<longrightarrow> box_class st = ''MSearchBoxActive'') \<and>
     strip_leading (lastSearchValue st) = lastSearchValue st"

text \<open>The timer remembered for closing the menu is never the one of a search.\<close>

definition hide_timer_ok :: "box_state \<Rightarrow> bool" where
  "hide_timer_ok st \<longleftrightarrow> hideTimeout st < next_timer st \<and>
     list_all (\<lambda>t. fst t = hideTimeout st \<longrightarrow> fst (snd t) = CallCloseSelection) (timers st)"

definition clock_ok :: "box_state \<Rightarrow> bool" where
  "clock_ok st \<longleftrightarrow> timers_wf st \<and> key_timer_pending st \<and> hide_timer_ok st"

definition box_inv :: "box_state \<Rightarrow> bool" where
  "box_inv st \<longleftrightarrow> clock_ok st \<and> menu_ok st \<and> panel_ok st"

text \<open>Which fields decide each part.\<close>

lemma clock_ok_cong:
  "timers st' = timers st \<Longrightarrow> next_timer st' = next_timer st \<Longrightarrow> keyTimeout st' = keyTimeout st \<Longrightarrow>
     hideTimeout st' = hideTimeout st \<Longrightarrow> clock_ok st' = clock_ok st"
  by (simp add: clock_ok_def timers_wf_def key_timer_pending_def hide_timer_ok_def)

lemma menu_ok_cong:
  "select_nodes st' = select_nodes st \<Longrightarrow> searchIndex st' = searchIndex st \<Longrightarrow> menu_ok st' = menu_ok st"
  by (simp add: menu_ok_def marks_def)

subsection \<open>What the pieces of the handlers leave alone\<close>

lemma Activate_simps [box_simps]:
  "timers (Activate b st) = timers st" "next_timer (Activate b st) = next_timer st"
  "keyTimeout (Activate b st) = keyTimeout st" "select_nodes (Activate b st) = select_nodes st"
  "searchIndex (Activate b st) = searchIndex st" "popup_style (Activate b st) = popup_style st"
  "frame_location (Activate b st) = frame_location st" "searchLabel (Activate b st) = searchLabel st"
  "resultsPath (Activate b st) = resultsPath st" "hideTimeout (Activate b st) = hideTimeout st"
  "field_focused (Activate b st) = field_focused st"
  by (simp_all add: Activate_def Let_def)

lemma hide_results_simps [box_simps]:
  "timers (hide_results st) = timers st" "next_timer (hide_results st) = next_timer st"
  "keyTimeout (hide_results st) = keyTimeout st" "hideTimeout (hide_results st) = hideTimeout st" "select_nodes (hide_results st) = select_nodes st"
  "searchIndex (hide_results st) = searchIndex st" "box_class (hide_results st) = box_class st"
  "searchActive (hide_results st) = searchActive st" "lastSearchValue (hide_results st) = lastSearchValue st"
  by (simp_all add: hide_results_def)

lemma focus_simps [box_simps]:
  "timers (focus_field st) = timers st" "next_timer (focus_field st) = next_timer st"
  "keyTimeout (focus_field st) = keyTimeout st" "hideTimeout (focus_field st) = hideTimeout st" "select_nodes (focus_field st) = select_nodes st"
  "searchIndex (focus_field st) = searchIndex st"
  "timers (blur_field st) = timers st" "next_timer (blur_field st) = next_timer st"
  "keyTimeout (blur_field st) = keyTimeout st" "hideTimeout (blur_field st) = hideTimeout st" "select_nodes (blur_field st) = select_nodes st"
  "searchIndex (blur_field st) = searchIndex st"
  by (simp_all add: focus_field_def blur_field_def OnSearchFieldFocus_def box_simps)

lemma CloseSelectionWindow_simps [box_simps]:
  "timers (CloseSelectionWindow st) = timers st" "next_timer (CloseSelectionWindow st) = next_timer st"
  "keyTimeout (CloseSelectionWindow st) = keyTimeout st" "hideTimeout (CloseSelectionWindow st) = hideTimeout st"
  "select_nodes (CloseSelectionWindow st) = select_nodes st"
  "searchIndex (CloseSelectionWindow st) = searchIndex st"
  "box_class (CloseSelectionWindow st) = box_class st"
  "searchActive (CloseSelectionWindow st) = searchActive st"
  "lastSearchValue (CloseSelectionWindow st) = lastSearchValue st"
  by (simp_all add: CloseSelectionWindow_def)

lemma show_popup_simps [box_simps]:
  "timers (show_popup L st) = timers st" "next_timer (show_popup L st) = next_timer st"
  "keyTimeout (show_popup L st) = keyTimeout st" "hideTimeout (show_popup L st) = hideTimeout st" "select_nodes (show_popup L st) = select_nodes st"
  "searchIndex (show_popup L st) = searchIndex st" "box_class (show_popup L st) = box_class st"
  "searchActive (show_popup L st) = searchActive st"
  "frame_location (show_popup L st) = frame_location st"
  "field_value (show_popup L st) = field_value st"
  "css_display (popup_style (show_popup L st)) = ''block''"
  by (simp_all add: show_popup_def Let_def)

lemma Search_fields [box_simps]:
  "timers (snd (Search L U st)) = timers st" "next_timer (snd (Search L U st)) = next_timer st"
  "keyTimeout (snd (Search L U st)) = 0" "hideTimeout (snd (Search L U st)) = hideTimeout st" "select_nodes (snd (Search L U st)) = select_nodes st"
  "searchIndex (snd (Search L U st)) = searchIndex st" "box_class (snd (Search L U st)) = box_class st"
  "searchActive (snd (Search L U st)) = searchActive st"
  "field_value (snd (Search L U st)) = field_value st"
  by (simp_all add: Search_def Let_def box_simps split: option.split prod.split)

lemma Search_lastSearchValue: "lastSearchValue (snd (Search L U st)) =
    (if fst (Search L U st) = None then strip_leading (field_value st) else lastSearchValue st)"
  by (simp add: Search_def Let_def split: option.split prod.split)

lemma panel_ok_Activate [simp]: "panel_ok st \<Longrightarrow> panel_ok (Activate b st)"
  by (auto simp: panel_ok_def Activate_def Let_def strip_leading_def)

lemma panel_ok_fields [simp]:
  "panel_ok (st\<lparr>field_focused := b\<rparr>) = panel_ok st" "panel_ok (st\<lparr>field_value := v\<rparr>) = panel_ok st"
  "panel_ok (st\<lparr>keyTimeout := h\<rparr>) = panel_ok st" "panel_ok (st\<lparr>hideTimeout := h\<rparr>) = panel_ok st"
  "panel_ok (st\<lparr>frame_results := r\<rparr>) = panel_ok st" "panel_ok (st\<lparr>lastSearchValue := []\<rparr>) = (searchActive st \<longrightarrow> box_class st = ''MSearchBoxActive'')"
  "panel_ok (clearTimeout h st) = panel_ok st" "panel_ok (snd (setTimeout cb ms st)) = panel_ok st"
  "panel_ok (CloseSelectionWindow st) = panel_ok st" "panel_ok (hide_results st) = panel_ok st"
  "panel_ok (SelectItemSet k st) = panel_ok st" "panel_ok (st\<lparr>searchIndex := k\<rparr>) = panel_ok st"
  "panel_ok (OnSearchSelectShow L st) = panel_ok st"
  by (simp_all add: panel_ok_def box_simps clearTimeout_def setTimeout_def SelectItemSet_def
      OnSearchSelectShow_def stop_hide_timer_def place_menu_def Let_def strip_leading_def)

lemma panel_ok_focus [simp]: "panel_ok st \<Longrightarrow> panel_ok (focus_field st)" "panel_ok st \<Longrightarrow> panel_ok (blur_field st)"
  by (simp_all add: focus_field_def blur_field_def OnSearchFieldFocus_def)

lemma panel_ok_Search [simp]: "panel_ok st \<Longrightarrow> panel_ok (snd (Search L U st))"
  by (simp add: panel_ok_def box_simps Search_lastSearchValue)

subsection \<open>The clock\<close>

lemma clock_ok_stopped: "clock_ok st \<Longrightarrow> clock_ok (st\<lparr>keyTimeout := 0\<rparr>)"
  by (simp add: clock_ok_def timers_wf_def key_timer_pending_def hide_timer_ok_def)

lemma clock_ok_Search: "clock_ok st \<Longrightarrow> clock_ok (snd (Search L U st))"
  using clock_ok_stopped [of st]
  by (subst clock_ok_cong [of _ "st\<lparr>keyTimeout := 0\<rparr>"]) (simp_all add: box_simps)

lemma clock_ok_clear_other:
  "clock_ok st \<Longrightarrow> h \<noteq> keyTimeout st \<or> keyTimeout st = 0 \<Longrightarrow> clock_ok (clearTimeout h st)"
  using window.clear_wf [of st h]
  by (auto simp: clock_ok_def key_timer_pending_def hide_timer_ok_def clearTimeout_def list_all_iff)

lemma clock_ok_clear_key: "clock_ok st \<Longrightarrow> clock_ok ((clearTimeout h st)\<lparr>keyTimeout := 0\<rparr>)"
  using clock_ok_clear_other [of "st\<lparr>keyTimeout := 0\<rparr>" h] clock_ok_stopped [of st]
  by (subst clock_ok_cong [of _ "clearTimeout h (st\<lparr>keyTimeout := 0\<rparr>)"]) (simp_all add: clearTimeout_def)

lemma clock_ok_stop_key: "clock_ok st \<Longrightarrow> clock_ok (stop_key_timer st)"
  by (simp add: stop_key_timer_def clock_ok_clear_key)

lemma hide_not_key: "clock_ok st \<Longrightarrow> keyTimeout st \<noteq> 0 \<Longrightarrow> hideTimeout st \<noteq> keyTimeout st"
  by (auto simp: clock_ok_def key_timer_pending_def hide_timer_ok_def list_all_iff)

lemma clock_ok_no_hide:
  "clock_ok st \<Longrightarrow> clock_ok (st\<lparr>hideTimeout := 0\<rparr>)"
  by (auto simp: clock_ok_def timers_wf_def key_timer_pending_def hide_timer_ok_def list_all_iff)

lemma clock_ok_stop_hide: "clock_ok st \<Longrightarrow> clock_ok (stop_hide_timer st)"
proof -
  assume ok: "clock_ok st"
  have "hideTimeout st \<noteq> keyTimeout st \<or> keyTimeout st = 0" using hide_not_key [OF ok] by blast
  from clock_ok_no_hide [OF clock_ok_clear_other [OF ok this]] show ?thesis
    using ok by (simp add: stop_hide_timer_def)
qed

lemma clock_ok_new_key:
  "clock_ok st \<Longrightarrow> clock_ok ((snd (setTimeout CallSearch ms st))\<lparr>keyTimeout := fst (setTimeout CallSearch ms st)\<rparr>)"
  using window.set_wf [of st CallSearch ms]
  by (auto simp: clock_ok_def timers_wf_def key_timer_pending_def hide_timer_ok_def setTimeout_def list_all_iff)

lemma clock_ok_new_hide:
  "clock_ok st \<Longrightarrow> clock_ok ((snd (setTimeout CallCloseSelection ms st))
     \<lparr>hideTimeout := fst (setTimeout CallCloseSelection ms st)\<rparr>)"
  using window.set_wf [of st CallCloseSelection ms]
  by (auto simp: clock_ok_def timers_wf_def key_timer_pending_def hide_timer_ok_def setTimeout_def list_all_iff)

lemma clock_ok_fields [simp]:
  "clock_ok (st\<lparr>field_focused := b\<rparr>) = clock_ok st" "clock_ok (st\<lparr>field_value := v\<rparr>) = clock_ok st"
  "clock_ok (st\<lparr>frame_results := r\<rparr>) = clock_ok st" "clock_ok (st\<lparr>lastSearchValue := v\<rparr>) = clock_ok st"
  "clock_ok (st\<lparr>searchIndex := k\<rparr>) = clock_ok st" "clock_ok (SelectItemSet k st) = clock_ok st"
  "clock_ok (Activate b st) = clock_ok st" "clock_ok (focus_field st) = clock_ok st"
  "clock_ok (blur_field st) = clock_ok st" "clock_ok (hide_results st) = clock_ok st"
  "clock_ok (CloseSelectionWindow st) = clock_ok st" "clock_ok (st\<lparr>select_style := y\<rparr>) = clock_ok st"
  by (rule clock_ok_cong; simp add: box_simps SelectItemSet_def)+

lemma menu_ok_fields [simp]:
  "menu_ok (st\<lparr>field_focused := b\<rparr>) = menu_ok st" "menu_ok (st\<lparr>field_value := v\<rparr>) = menu_ok st"
  "menu_ok (st\<lparr>frame_results := r\<rparr>) = menu_ok st" "menu_ok (st\<lparr>lastSearchValue := v\<rparr>) = menu_ok st"
  "menu_ok (st\<lparr>keyTimeout := h\<rparr>) = menu_ok st" "menu_ok (st\<lparr>hideTimeout := h\<rparr>) = menu_ok st"
  "menu_ok (clearTimeout h st) = menu_ok st" "menu_ok (snd (setTimeout cb ms st)) = menu_ok st"
  "menu_ok (Activate b st) = menu_ok st" "menu_ok (focus_field st) = menu_ok st"
  "menu_ok (blur_field st) = menu_ok st" "menu_ok (hide_results st) = menu_ok st"
  "menu_ok (CloseSelectionWindow st) = menu_ok st" "menu_ok (snd (Search L U st)) = menu_ok st"
  "menu_ok (st\<lparr>select_style := y\<rparr>) = menu_ok st"
  by (rule menu_ok_cong; simp add: box_simps clearTimeout_def setTimeout_def)+

subsection \<open>Every handler keeps the invariant\<close>

lemma box_inv_simple [simp]:
  "box_inv (st\<lparr>field_value := v\<rparr>) = box_inv st" "box_inv (st\<lparr>frame_results := r\<rparr>) = box_inv st"
  "box_inv (CloseSelectionWindow st) = box_inv st" "box_inv (hide_results st) = box_inv st"
  by (simp_all add: box_inv_def)

lemma box_inv_Activate: "box_inv st \<Longrightarrow> box_inv (Activate b st)"
  by (simp add: box_inv_def)

lemma box_inv_focus: "box_inv st \<Longrightarrow> box_inv (focus_field st)" "box_inv st \<Longrightarrow> box_inv (blur_field st)"
  by (simp_all add: box_inv_def)

lemma box_inv_Search: "box_inv st \<Longrightarrow> box_inv (snd (Search L U st))"
  by (simp add: box_inv_def clock_ok_Search)

lemma place_menu_simps [box_simps]:
  "timers (place_menu L st) = timers st" "next_timer (place_menu L st) = next_timer st"
  "keyTimeout (place_menu L st) = keyTimeout st" "hideTimeout (place_menu L st) = hideTimeout st"
  "select_nodes (place_menu L st) = select_nodes st" "searchIndex (place_menu L st) = searchIndex st"
  by (simp_all add: place_menu_def Let_def)

lemma stop_hide_timer_simps [box_simps]:
  "select_nodes (stop_hide_timer st) = select_nodes st" "searchIndex (stop_hide_timer st) = searchIndex st"
  by (simp_all add: stop_hide_timer_def clearTimeout_def)

lemma box_inv_select_show: "box_inv st \<Longrightarrow> box_inv (OnSearchSelectShow L st)"
proof -
  assume inv: "box_inv st"
  then have "clock_ok (place_menu L st)"
    by (subst clock_ok_cong [of _ st]) (simp_all add: box_simps box_inv_def)
  then have "clock_ok (OnSearchSelectShow L st)" by (simp add: OnSearchSelectShow_def clock_ok_stop_hide)
  moreover have "menu_ok (OnSearchSelectShow L st) = menu_ok st"
    by (rule menu_ok_cong) (simp_all add: OnSearchSelectShow_def box_simps)
  ultimately show ?thesis using inv by (simp add: box_inv_def)
qed

lemma box_inv_select_hide: "box_inv st \<Longrightarrow> box_inv (OnSearchSelectHide st)"
  using clock_ok_new_hide [of st "closeSelectionTimeout st"]
  by (simp add: box_inv_def OnSearchSelectHide_def split_def Let_def)

lemma count_items_filter: "count_items n ns = n + length (filter is_select_item ns)"
  by (induction ns arbitrary: n) auto

lemma set_marks_items:
  "map sel_mark (filter is_select_item (set_marks j sel ns)) =
     map (\<lambda>i. if i = sel then ''&#8226;'' else ''&#160;'') [j..<j + length (filter is_select_item ns)]"
proof (induction ns arbitrary: j)
  case (Cons n ns)
  show ?case
  proof (cases "is_select_item n")
    case True
    then have item: "is_select_item (n\<lparr>sel_mark := m\<rparr>)" for m by (simp add: is_select_item_def)
    have "[j..<j + Suc (length (filter is_select_item ns))] = j # [Suc j..<Suc j + length (filter is_select_item ns)]"
      by (subst upt_conv_Cons) simp_all
    then show ?thesis using True Cons [of "Suc j"] item by simp
  qed (simp add: Cons)
qed simp

lemma set_marks_keys:
  "map sel_onclick (filter is_select_item (set_marks j sel ns)) = map sel_onclick (filter is_select_item ns)"
  by (induction ns arbitrary: j) (simp_all add: is_select_item_def)

lemma menu_ok_count: "menu_ok st \<Longrightarrow> SelectItemCount st = 12"
proof -
  assume "menu_ok st"
  then have "length (map sel_onclick (filter is_select_item (select_nodes st))) = 12"
    by (simp add: menu_ok_def)
  then show ?thesis by (simp add: SelectItemCount_def count_items_filter)
qed

lemma menu_ok_select:
  assumes keys: "map sel_onclick (filter is_select_item (select_nodes st)) = [0..<12]" and "k \<le> 12"
  shows "menu_ok (SelectItemSet k (st\<lparr>searchIndex := k\<rparr>))"
proof -
  have "length (filter is_select_item (select_nodes st)) = 12"
    using arg_cong [OF keys, of length] by simp
  then show ?thesis
    using assms set_marks_items [of 0 k "select_nodes st"]
    by (simp add: menu_ok_def SelectItemSet_def marks_def set_marks_keys mark_list_def)
qed

lemma box_inv_OnSelectItem:
  assumes "box_inv st" "k \<le> 12"
  shows "box_inv (snd (OnSelectItem L U k st))"
proof -
  have "map sel_onclick (filter is_select_item (select_nodes st)) = [0..<12]"
    using assms(1) by (simp add: box_inv_def menu_ok_def)
  from menu_ok_select [OF this assms(2)] have "box_inv (SelectItemSet k (st\<lparr>searchIndex := k\<rparr>))"
    using assms by (simp add: box_inv_def)
  then show ?thesis by (simp add: OnSelectItem_def Let_def box_inv_Search)
qed

lemma OnSelectItem_index: "OnSelectItem L U k (st\<lparr>searchIndex := j\<rparr>) = OnSelectItem L U k st"
  by (simp add: OnSelectItem_def)

lemma box_inv_select_key: "box_inv st \<Longrightarrow> box_inv (snd (OnSearchSelectKey L U e st))"
proof -
  assume inv: "box_inv st"
  then have "SelectItemCount st = 12" "searchIndex st \<le> 12"
    by (simp_all add: box_inv_def menu_ok_count) (simp add: menu_ok_def)
  then show ?thesis
    using inv box_inv_OnSelectItem [OF inv, of "searchIndex st + 1" L U]
      box_inv_OnSelectItem [OF inv, of "searchIndex st - 1" L U]
      box_inv_OnSelectItem [OF inv, of "searchIndex st" L U]
    by (auto simp: OnSearchSelectKey_def OnSelectItem_index box_inv_focus split: prod.split option.split)
qed

lemma box_inv_field_changed: "box_inv st \<Longrightarrow> box_inv (field_changed st)"
  using clock_ok_new_key [of st "keyTimeoutLength st"]
  by (simp add: field_changed_def box_inv_def split_def Let_def panel_ok_def box_simps)
    (simp add: strip_leading_def setTimeout_def)

lemma box_inv_stop_key: "box_inv st \<Longrightarrow> box_inv (stop_key_timer st)"
  by (simp add: box_inv_def clock_ok_stop_key) (simp add: stop_key_timer_def)

lemma box_inv_field_change: "box_inv st \<Longrightarrow> box_inv (snd (OnSearchFieldChange L e st))"
proof -
  assume "box_inv st"
  then have inv: "box_inv (stop_key_timer st)" by (rule box_inv_stop_key)
  have "box_inv (Activate False ((hide_results (blur_field (stop_key_timer st)))\<lparr>lastSearchValue := []\<rparr>))"
    using box_inv_focus(2) [OF inv]
    by (intro box_inv_Activate) (simp add: box_inv_def, simp add: panel_ok_def box_simps)
  then show ?thesis
    using inv by (simp add: OnSearchFieldChange_def Let_def box_inv_focus box_inv_select_show
        box_inv_field_changed split: option.split)
qed

lemma box_inv_timer: "box_inv st \<Longrightarrow> box_inv (snd (timer_fires L U h st))"
proof (cases "List.find (\<lambda>t. fst t = h) (timers st)")
  case (Some t)
  assume inv: "box_inv st"
  obtain cb ms where t: "t = (h, cb, ms)" and mem: "(h, cb, ms) \<in> set (timers st)"
    using find_SomeD [OF Some] by (cases t) auto
  show ?thesis
  proof (cases cb)
    case CallSearch
    have "snd (Search L U (clearTimeout h st)) = snd (Search L U ((clearTimeout h st)\<lparr>keyTimeout := 0\<rparr>))"
      by (simp add: Search_def)
    moreover have "box_inv ((clearTimeout h st)\<lparr>keyTimeout := 0\<rparr>)"
      using inv clock_ok_clear_key [of st h] by (simp add: box_inv_def)
    ultimately show ?thesis
      using Some t CallSearch by (simp add: timer_fires_def run_callback_def box_inv_Search)
  next
    case CallCloseSelection
    have "h \<noteq> keyTimeout st \<or> keyTimeout st = 0"
    proof (rule ccontr)
      assume "\<not> (h \<noteq> keyTimeout st \<or> keyTimeout st = 0)"
      then obtain ms' where "(h, CallSearch, ms') \<in> set (timers st)"
        using inv by (auto simp: box_inv_def clock_ok_def key_timer_pending_def)
      then show False
        using inv mem CallCloseSelection
        by (auto simp: box_inv_def clock_ok_def timers_wf_def dest: eq_key_imp_eq_value)
    qed
    then have "box_inv (clearTimeout h st)"
      using inv clock_ok_clear_other [of st h] by (simp add: box_inv_def)
    then show ?thesis using Some t CallCloseSelection by (simp add: timer_fires_def run_callback_def)
  qed
qed (simp add: timer_fires_def)

lemma menu_ok_key: "menu_ok st \<Longrightarrow> n \<in> set (select_nodes st) \<Longrightarrow> is_select_item n \<Longrightarrow> sel_onclick n < 12"
proof -
  assume "menu_ok st" "n \<in> set (select_nodes st)" "is_select_item n"
  then have "sel_onclick n \<in> set (map sel_onclick (filter is_select_item (select_nodes st)))" by simp
  then show ?thesis using \<open>menu_ok st\<close> by (simp add: menu_ok_def del: set_map)
qed

lemma box_inv_handle: "box_inv st \<Longrightarrow> enabled e st \<Longrightarrow> box_inv (snd (handle L U e st))"
proof (cases e)
  case (MenuClick n)
  assume "box_inv st" "enabled e st"
  then have "sel_onclick n \<le> 12" using MenuClick menu_ok_key [of st n] by (simp add: box_inv_def)
  then show ?thesis using \<open>box_inv st\<close> MenuClick by (simp add: box_inv_OnSelectItem)
qed (simp_all add: box_inv_focus box_inv_select_show box_inv_select_hide box_inv_select_key
      box_inv_field_change box_inv_timer CloseResultsWindow_def box_inv_Activate)

lemma append_links_nodes:
  "select_nodes (append_links k ls st) = select_nodes st @ map (case_prod select_link) (enumerate k ls)"
  by (induction ls arbitrary: k st) simp_all

lemma clock_ok_append_links: "clock_ok (append_links k ls st) = clock_ok st"
proof (induction ls arbitrary: k st)
  case (Cons l ls)
  have "clock_ok (st\<lparr>select_nodes := ns\<rparr>) = clock_ok st" for ns by (rule clock_ok_cong) simp_all
  then show ?case using Cons by simp
qed simp

lemma panel_ok_append_links: "panel_ok (append_links k ls st) = panel_ok st"
  by (induction ls arbitrary: k st) (simp_all add: panel_ok_def)

lemmas append_links_fields = append_links_nodes clock_ok_append_links panel_ok_append_links

lemma append_links_keys:
  "map sel_onclick (filter is_select_item (map (case_prod select_link) (enumerate k ls))) = [k..<k + length ls]"
proof (induction ls arbitrary: k)
  case (Cons l ls)
  have "[k..<k + length (l # ls)] = k # [Suc k..<Suc k + length ls]"
    by (subst upt_conv_Cons) simp_all
  then show ?case using Cons by (simp add: select_link_def is_select_item_def)
qed simp

lemma box_inv_init: "box_inv (snd (init_search L U (new_SearchBox path inFrame label)))"
proof -
  let ?st = "append_links 0 indexSectionLabels (new_SearchBox path inFrame label)"
  have clock: "clock_ok (new_SearchBox path inFrame label)" and "panel_ok (new_SearchBox path inFrame label)"
    by (simp_all add: new_SearchBox_def clock_ok_def timers_wf_def key_timer_pending_def
        hide_timer_ok_def panel_ok_def strip_leading_def)
  moreover have "map sel_onclick (filter is_select_item (select_nodes ?st)) = [0..<12]"
    using append_links_keys [of 0 indexSectionLabels]
    by (simp add: append_links_fields new_SearchBox_def is_select_item_def)
  then have "menu_ok (SelectItemSet 0 (?st\<lparr>searchIndex := 0\<rparr>))" by (intro menu_ok_select) simp_all
  ultimately have "box_inv (SelectItemSet 0 (?st\<lparr>searchIndex := 0\<rparr>))"
    by (simp add: box_inv_def append_links_fields)
  then show ?thesis by (simp add: init_search_def OnSelectItem_def Let_def box_inv_Search)
qed

lemma reachable_inv: "box_reachable L U st \<Longrightarrow> box_inv st"
proof (induction rule: box_reachable.induct)
  case (page_loaded path inFrame label)
  show ?case by (rule box_inv_init)
next
  case (event st e)
  then show ?case by (blast intro: box_inv_handle)
qed

text \<open>
  C5. In every state the page can reach, by any sequence of focus, typing, key, mouse, timer and
  loading events and whatever the layout and the lower-casing: timer handles are distinct,
  positive and older than the next one; a remembered search timer is pending as a search; the
  menu has the twelve sections in order and its marks are a bullet at the selected one and a
  blank at every other; the panel is active whenever the search is; the remembered search text
  has no leading blank.
\<close>

theorem box_reachable_invariant:
  assumes "box_reachable L U st"
  shows "distinct (map fst (timers st)) \<and>
    list_all (\<lambda>t. 0 < fst t \<and> fst t < next_timer st) (timers st) \<and>
    (keyTimeout st \<noteq> 0 \<longrightarrow> (\<exists>ms. (keyTimeout st, CallSearch, ms) \<in> set (timers st))) \<and>
    map sel_onclick (filter is_select_item (select_nodes st)) = [0..<12] \<and>
    searchIndex st \<le> 12 \<and> marks st = mark_list (searchIndex st) 12 \<and>
    (searchActive st \<longrightarrow> box_class st = ''MSearchBoxActive'') \<and>
    strip_leading (lastSearchValue st) = lastSearchValue st"
  using reachable_inv [OF assms]
  by (simp add: box_inv_def clock_ok_def timers_wf_def key_timer_pending_def menu_ok_def panel_ok_def)

end
