(* ===== verification/BoxCorrect.thy ===== *)
theory BoxCorrect
  imports BoxInvariant
begin

text \<open>
  What the search box does: the page a search opens, the timer that delays it, and what goes
  wrong at its edges. The statements about timers rest on the interface \<open>timer_service\<close> of
  \<open>BoxInvariant\<close>.
\<close>

subsection \<open>The page of a search\<close>

lemma indexOf_single_None: "indexOf s [c] = None \<longleftrightarrow> c \<notin> set s"
  by (induction s) (auto simp: prefix_def)

lemma section_distinct: "s < 12 \<Longrightarrow> distinct (indexSectionsWithContent ! s)"
  using sections_distinct by (simp add: list_all_length)

lemma results_page_hit:
  assumes "searchIndex st < 12" "i < length (indexSectionsWithContent ! searchIndex st)"
    "index_char U v = [indexSectionsWithContent ! searchIndex st ! i]"
  shows "results_page_for U st v =
    (let page = resultsPath st @ js ''/'' @ indexSectionNames ! searchIndex st @ js ''_'' @
        toString16 i @ js ''.html'' in Some (page, page @ js ''?'' @ escape v))"
  using assms section_distinct [OF assms(1)]
  by (simp add: results_page_for_def lookup_key_tables indexOf_nth Let_def)

lemma results_page_miss:
  assumes "searchIndex st < 12" "index_char U v = [c]"
    "c \<notin> set (indexSectionsWithContent ! searchIndex st)"
  shows "results_page_for U st v =
    Some (resultsPath st @ js ''/nomatches.html'', resultsPath st @ js ''/nomatches.html'')"
  using assms indexOf_single_None [of "indexSectionsWithContent ! searchIndex st" c]
  by (simp add: results_page_for_def lookup_key_tables Let_def)

lemma Search_page:
  assumes "results_page_for U st (strip_leading (field_value st)) = Some (page, loc)"
  shows "fst (Search L U st) = None" "frame_location (snd (Search L U st)) = loc"
    "lastResultsPage (snd (Search L U st)) = page"
    "css_display (popup_style (snd (Search L U st))) = ''block''"
    "lastSearchValue (snd (Search L U st)) = strip_leading (field_value st)"
proof -
  have "results_page_for U (st\<lparr>keyTimeout := 0\<rparr>) v = results_page_for U st v" for v
    by (simp add: results_page_for_def Let_def cong: option.case_cong)
  then show "fst (Search L U st) = None" "frame_location (snd (Search L U st)) = loc"
    "lastResultsPage (snd (Search L U st)) = page"
    "css_display (popup_style (snd (Search L U st))) = ''block''"
    "lastSearchValue (snd (Search L U st)) = strip_leading (field_value st)"
    using assms by (simp_all add: Search_def Let_def box_simps cong: option.case_cong)
qed

text \<open>
  C13. A search in an existing section opens, in the results frame, the page of the search
  text's first character: if this is character \<open>i\<close> of the section's list, the page is
  \<open>path/section_hex.html\<close> with \<open>i\<close> in hexadecimal and the escaped text as query; if the section
  has no such character, it is \<open>path/nomatches.html\<close>. The results window is shown and the
  text (without leading blanks) remembered.
\<close>

theorem Search_opens_page:
  assumes "searchIndex st < 12" "v = strip_leading (field_value st)" "index_char U v = [c]"
  shows "fst (Search L U st) = None \<and>
    css_display (popup_style (snd (Search L U st))) = ''block'' \<and>
    lastSearchValue (snd (Search L U st)) = v \<and>
    (\<forall>i < length (indexSectionsWithContent ! searchIndex st).
       indexSectionsWithContent ! searchIndex st ! i = c \<longrightarrow>
       frame_location (snd (Search L U st)) =
         resultsPath st @ js ''/'' @ indexSectionNames ! searchIndex st @ js ''_'' @ toString16 i @
           js ''.html?'' @ escape v) \<and>
    (c \<notin> set (indexSectionsWithContent ! searchIndex st) \<longrightarrow>
       frame_location (snd (Search L U st)) = resultsPath st @ js ''/nomatches.html'')"
proof -
  have html: "js ''.html?'' = js ''.html'' @ js ''?''" by (simp add: js_def)
  obtain page loc where r: "results_page_for U st v = Some (page, loc)"
    using results_page_miss [OF assms(1,3)] results_page_hit [OF assms(1), of _ U v] assms(3)
    by (cases "c \<in> set (indexSectionsWithContent ! searchIndex st)") (auto simp: in_set_conv_nth Let_def)
  note page = Search_page [OF r [unfolded assms(2)], of L]
  have "loc = resultsPath st @ js ''/'' @ indexSectionNames ! searchIndex st @ js ''_'' @ toString16 i @
      js ''.html?'' @ escape v"
    if "i < length (indexSectionsWithContent ! searchIndex st)"
      "indexSectionsWithContent ! searchIndex st ! i = c" for i
    using results_page_hit [OF assms(1) that(1), of U v] that(2) assms(3) r html by (simp add: Let_def)
  moreover have "loc = resultsPath st @ js ''/nomatches.html''"
    if "c \<notin> set (indexSectionsWithContent ! searchIndex st)"
    using results_page_miss [OF assms(1,3) that] r by simp
  ultimately show ?thesis using page assms(2) by simp
qed

definition high_surrogate :: "jschar \<Rightarrow> bool" where
  "high_surrogate c \<longleftrightarrow> 0xD800 \<le> c \<and> c \<le> 0xDBFF"

lemma high_surrogate_not_number: "high_surrogate c \<Longrightarrow> \<not> str_white c \<and> \<not> starts_number c"
  by (auto simp: high_surrogate_def str_white_def starts_number_def is_digit_def word_le_nat_alt
      word_unat_eq_iff Let_def)

text \<open>
  C35. The branch for surrogate pairs is dead: when lower-casing keeps a string that starts
  with no high surrogate free of one at its start, the index character is always the
  lower-cased first unit of the text. The test \<open>searchValue > 1\<close> compares the text as a number,
  and a text that starts with a surrogate is not a number.
\<close>

theorem surrogate_branch_dead:
  assumes "\<And>s. toLowerCase U s \<noteq> [] \<Longrightarrow> high_surrogate (hd (toLowerCase U s)) \<Longrightarrow>
    s \<noteq> [] \<and> high_surrogate (hd s)"
  shows "index_char U v = toLowerCase U (take 1 v)"
proof (rule ccontr)
  assume "index_char U v \<noteq> toLowerCase U (take 1 v)"
  then have "toLowerCase U v \<noteq> []" "high_surrogate (hd (toLowerCase U v))" "string_greater_one v"
    by (auto simp: index_char_def high_surrogate_def Let_def split: if_splits)
  moreover from this obtain c s where "v = c # s" "high_surrogate c"
    using assms [of v] by (cases v) auto
  ultimately show False using high_surrogate_not_number string_greater_one_starts by blast
qed

subsection \<open>Errors\<close>

lemma Search_error: "fst (Search L U st) \<noteq> None \<longleftrightarrow> 12 \<le> searchIndex st"
proof (cases "searchIndex st < 12")
  case True
  have "results_page_for U (st\<lparr>keyTimeout := 0\<rparr>) v \<noteq> None" for v
    using True by (auto simp: results_page_for_def lookup_key_tables Let_def split: option.split)
  with True show ?thesis by (simp add: Search_def Let_def split: option.splits prod.split)
qed (simp add: Search_def results_page_for_def lookup_key_tables Let_def)

lemma OnSelectItem_error:
  "fst (OnSelectItem L U k st) \<noteq> None \<longleftrightarrow>
     strip_spaces (field_value st) \<noteq> [] \<and> searchActive st \<and> 12 \<le> k"
  using Search_error [of L U "SelectItemSet k (st\<lparr>searchIndex := k\<rparr>)"]
  by (simp add: OnSelectItem_def SelectItemSet_def Let_def)

lemma OnSelectItem_index_result: "searchIndex (snd (OnSelectItem L U k st)) = k"
  by (simp add: OnSelectItem_def SelectItemSet_def box_simps Let_def)

lemma select_key_error:
  assumes "menu_ok st" "fst (OnSearchSelectKey L U e st) \<noteq> None"
  shows "searchIndex (snd (OnSearchSelectKey L U e st)) = 12"
proof -
  have count: "SelectItemCount st = 12" "searchIndex st \<le> 12"
    using assms(1) by (simp_all add: menu_ok_count) (simp add: menu_ok_def)
  have "keyCode e = 40 \<and> searchIndex st < 12 \<or> keyCode e = 38 \<and> searchIndex st > 0 \<or>
      keyCode e = 13 \<or> keyCode e = 27"
    using assms(2) by (simp add: OnSearchSelectKey_def count split: if_splits)
  then consider "keyCode e = 40 \<and> searchIndex st < 12" | "keyCode e = 38 \<and> searchIndex st > 0"
    | "keyCode e = 13 \<or> keyCode e = 27" by blast
  then show ?thesis
  proof cases
    case 3
    then have key: "OnSearchSelectKey L U e st = (case OnSelectItem L U (searchIndex st) st of
           (Some err, st1) \<Rightarrow> (Some err, st1)
         | (None, st1) \<Rightarrow> (None, focus_field (CloseSelectionWindow st1)))"
      by (auto simp: OnSearchSelectKey_def)
    with assms(2) have "fst (OnSelectItem L U (searchIndex st) st) \<noteq> None"
      by (auto split: prod.splits option.splits)
    then have "12 \<le> searchIndex st"
      and "snd (OnSearchSelectKey L U e st) = snd (OnSelectItem L U (searchIndex st) st)"
      using OnSelectItem_error [of L U "searchIndex st" st] key
      by (blast, auto split: prod.splits option.splits)
    then show ?thesis using count by (simp add: OnSelectItem_index_result)
  next
    case 1
    then have "OnSearchSelectKey L U e st = OnSelectItem L U (searchIndex st + 1) st"
      by (simp add: OnSearchSelectKey_def count OnSelectItem_index)
    then show ?thesis
      using 1 assms(2) OnSelectItem_error [of L U "searchIndex st + 1" st]
      by (simp add: OnSelectItem_index_result)
  next
    case 2
    then have "OnSearchSelectKey L U e st = OnSelectItem L U (searchIndex st - 1) st"
      by (simp add: OnSearchSelectKey_def count OnSelectItem_index)
    moreover have "\<not> 12 \<le> searchIndex st - 1" using 2 count by linarith
    ultimately show ?thesis
      using assms(2) OnSelectItem_error [of L U "searchIndex st - 1" st] by simp
  qed
qed

lemma handle_error:
  assumes "box_inv st" "enabled ev st" "fst (handle L U ev st) \<noteq> None"
  shows "searchIndex (snd (handle L U ev st)) = 12"
proof (cases ev)
  case (KeyUp e)
  have "fst (OnSearchFieldChange L e st) = None"
    by (simp add: OnSearchFieldChange_def Let_def split: option.split)
  then show ?thesis using assms(3) KeyUp by simp
next
  case (MenuKey e)
  then show ?thesis using assms select_key_error [of st L U e] by (simp add: box_inv_def)
next
  case (MenuClick n)
  then have "sel_onclick n < 12" using assms(1,2) menu_ok_key [of st n] by (simp add: box_inv_def)
  then show ?thesis using MenuClick assms(3) OnSelectItem_error [of L U "sel_onclick n" st] by simp
next
  case (TimerFires h)
  have "fst (run_callback L U cb (clearTimeout h st)) \<noteq> None \<Longrightarrow>
      searchIndex (snd (run_callback L U cb (clearTimeout h st))) = 12" for cb
    using assms(1) Search_error [of L U "clearTimeout h st"]
    by (cases cb) (simp_all add: run_callback_def box_simps clearTimeout_def box_inv_def menu_ok_def)
  then show ?thesis using TimerFires assms(3)
    by (simp add: timer_fires_def split: option.splits prod.splits)
qed (use assms(3) in simp_all)

text \<open>
  C16. The only error a handler of the search box can raise on a reachable page is the
  \<open>TypeError\<close> of a search in section 12, which does not exist: whenever an enabled event fails,
  the section it leaves selected is 12.
\<close>

theorem handler_error_section:
  assumes "box_reachable L U st" "enabled ev st" "fst (handle L U ev st) \<noteq> None"
  shows "fst (handle L U ev st) = Some TypeError \<and> searchIndex (snd (handle L U ev st)) = 12"
proof -
  have inv: "box_inv st" using assms(1) by (rule reachable_inv)
  obtain err where "fst (handle L U ev st) = Some err" using assms(3) by blast
  then show ?thesis using handle_error [OF inv assms(2,3)] by (cases err) simp
qed

text \<open>
  C33. The filter menu can be left on a section that does not exist. The Down key is bounded by
  the number of sections, not by the last index, so from the last section (11) it selects
  section 12: no item of the menu carries the mark any more, and if a search is active its text
  cannot be searched - the handler stops with a \<open>TypeError\<close>.
\<close>

theorem down_key_past_last:
  assumes "box_reachable L U st" "searchIndex st = 11" "keyCode e = 40"
  shows "searchIndex (snd (OnSearchSelectKey L U e st)) = 12 \<and>
    set (marks (snd (OnSearchSelectKey L U e st))) = {''&#160;''} \<and>
    (fst (OnSearchSelectKey L U e st) = Some TypeError \<longleftrightarrow>
       searchActive st \<and> strip_spaces (field_value st) \<noteq> [])"
proof -
  have inv: "box_inv st" using assms(1) by (rule reachable_inv)
  then have "SelectItemCount st = 12" by (simp add: box_inv_def menu_ok_count)
  then have key: "OnSearchSelectKey L U e st = OnSelectItem L U 12 st"
    using assms(2,3) by (simp add: OnSearchSelectKey_def OnSelectItem_index)
  have "marks (snd (OnSelectItem L U 12 st)) = mark_list 12 12"
    using box_inv_OnSelectItem [OF inv, of 12 L U]
    by (simp add: box_inv_def menu_ok_def OnSelectItem_index_result)
  moreover have "set (mark_list 12 12) = {''&#160;''}" by code_simp
  moreover have "fst (OnSelectItem L U 12 st) = Some TypeError \<longleftrightarrow> fst (OnSelectItem L U 12 st) \<noteq> None"
    by (metis js_error.exhaust option.exhaust option.distinct(1))
  ultimately show ?thesis
    using key OnSelectItem_error [of L U 12 st] OnSelectItem_index_result [of L U 12 st] by auto
qed

subsection \<open>Waiting for the next key\<close>

text \<open>
  The searches that wait for their timer, and the state in which the only one is the one the
  object remembers.
\<close>

definition searches :: "box_state \<Rightarrow> (nat \<times> callback \<times> nat) list" where
  "searches st = filter (\<lambda>t. fst (snd t) = CallSearch) (timers st)"



lemma searches_cong: "timers st' = timers st \<Longrightarrow> searches st' = searches st"
  by (simp add: searches_def)




lemma blur_searches [box_simps]: "searches (blur_field st) = searches st"
  "searches (Activate b st) = searches st" "searches (hide_results st) = searches st"
  "keyTimeoutLength (blur_field st) = keyTimeoutLength st"
  by (simp_all add: searches_def box_simps)
    (simp add: blur_field_def OnSearchFieldFocus_def Activate_def Let_def)










lemma OnSelectItem_searches [box_simps]:
  "searches (snd (OnSelectItem L U k st)) = searches st"
  by (simp add: OnSelectItem_def SelectItemSet_def searches_def box_simps Let_def)














subsection \<open>From typing to searching\<close>

definition plain_key :: "key_event \<Rightarrow> bool" where
  "plain_key e \<longleftrightarrow> keyCode e \<noteq> 40 \<and> keyCode e \<noteq> 13 \<and> keyCode e \<noteq> 27"

lemma plain_key_change: "plain_key e \<Longrightarrow> OnSearchFieldChange L e st = (None, field_changed (stop_key_timer st))"
  by (simp add: plain_key_def OnSearchFieldChange_def)

lemma field_changed_starts:
  assumes "strip_spaces (field_value st) \<notin> {[], lastSearchValue st}"
  shows "searches (field_changed st) = searches st @ [(next_timer st, CallSearch, keyTimeoutLength st)]"
    "keyTimeout (field_changed st) = next_timer st"
  using assms by (simp_all add: field_changed_def setTimeout_def searches_def)



lemma results_page_for_cong:
  "searchIndex st' = searchIndex st \<Longrightarrow> resultsPath st' = resultsPath st \<Longrightarrow>
     results_page_for U st' v = results_page_for U st v"
  by (simp add: results_page_for_def Let_def cong: option.case_cong)

lemma field_changed_new:
  assumes "strip_spaces (field_value st) \<notin> {[], lastSearchValue st}"
  shows "field_changed st = st\<lparr>keyTimeout := next_timer st, next_timer := Suc (next_timer st),
    timers := timers st @ [(next_timer st, CallSearch, keyTimeoutLength st)]\<rparr>"
  using assms by (simp add: field_changed_def setTimeout_def)

lemma find_new_timer:
  "h \<notin> fst ` set ts \<Longrightarrow> List.find (\<lambda>t. fst t = h) (ts @ [(h, cb, ms)]) = Some (h, cb, ms)"
  by (induction ts) auto

text \<open>
  C6. Typing leads to a search. On a reachable page with the field in focus and an existing
  section selected, if the user changes the text to one that is neither blank nor the text
  searched last, and then leaves the keyboard alone, the timer that the key started can fire,
  and when it does the search runs without error: the frame has the address that belongs to the
  text, the results window is shown and the text is remembered.
\<close>

theorem typing_leads_to_search:
  assumes "box_reachable L U st" "field_focused st" "searchIndex st < 12" "plain_key e"
    "strip_spaces v \<notin> {[], lastSearchValue st}"
    and events: "events = [Typed v, KeyUp e, TimerFires (next_timer st)]"
  shows "all_enabled L U events st \<and>
    lastSearchValue (run_box L U events st) = strip_leading v \<and>
    css_display (popup_style (run_box L U events st)) = ''block'' \<and>
    keyTimeout (run_box L U events st) = 0 \<and>
    (\<exists>page loc. results_page_for U st (strip_leading v) = Some (page, loc) \<and>
       frame_location (run_box L U events st) = loc)"
proof -
  define st1 where "st1 = stop_key_timer (st\<lparr>field_value := v\<rparr>)"
  define st2 where "st2 = field_changed st1"
  define st3 where "st3 = clearTimeout (next_timer st) st2"
  have stop: "next_timer st1 = next_timer st" "field_value st1 = v" "lastSearchValue st1 = lastSearchValue st"
    "set (timers st1) \<subseteq> set (timers st)" "searchIndex st1 = searchIndex st" "resultsPath st1 = resultsPath st"
    by (auto simp: st1_def stop_key_timer_def clearTimeout_def)
  have st2: "st2 = st1\<lparr>keyTimeout := next_timer st, next_timer := Suc (next_timer st),
      timers := timers st1 @ [(next_timer st, CallSearch, keyTimeoutLength st1)]\<rparr>"
    using field_changed_new [of st1] assms(5) stop by (simp add: st2_def)
  have "list_all (\<lambda>t. fst t < next_timer st) (timers st)"
    using reachable_inv [OF assms(1)]
    by (auto simp: box_inv_def clock_ok_def timers_wf_def list_all_iff)
  then have "next_timer st \<notin> fst ` set (timers st1)" using stop(4) by (fastforce simp: list_all_iff)
  from find_new_timer [OF this] have fires: "timer_fires L U (next_timer st) st2 = Search L U st3"
    by (simp add: timer_fires_def st2 run_callback_def st3_def)
  have key: "OnSearchFieldChange L e (st\<lparr>field_value := v\<rparr>) = (None, st2)"
    using plain_key_change [OF assms(4)] by (simp add: st1_def st2_def)
  have st3: "field_value st3 = v" "searchIndex st3 = searchIndex st" "resultsPath st3 = resultsPath st"
    using stop by (simp_all add: st3_def clearTimeout_def st2)
  have "results_page_for U st (strip_leading v) \<noteq> None"
    using assms(3) by (auto simp: results_page_for_def lookup_key_tables Let_def split: option.split)
  then obtain page loc where r: "results_page_for U st (strip_leading v) = Some (page, loc)" by auto
  then have "results_page_for U st3 (strip_leading (field_value st3)) = Some (page, loc)"
    using results_page_for_cong [OF st3(2,3)] st3(1) by simp
  from Search_page [OF this, of L] have "lastSearchValue (snd (Search L U st3)) = strip_leading v"
    "css_display (popup_style (snd (Search L U st3))) = ''block''"
    "frame_location (snd (Search L U st3)) = loc"
    using st3(1) by simp_all
  moreover have "run_box L U events st = snd (Search L U st3)"
    by (simp add: events key fires)
  moreover have "all_enabled L U events st"
    using assms(2) by (simp add: events key) (simp add: st2)
  ultimately show ?thesis using r by (simp add: box_simps)
qed

subsection \<open>Where the timers go wrong\<close>

text \<open>
  C31. Changing the section while a search waits orphans that search: \<open>Search\<close> forgets the timer
  without stopping it, so the box remembers none while one still waits, and the next key that
  changes the text adds another instead of restarting it.
\<close>

theorem section_change_orphans_search:
  assumes "box_reachable L U st" "keyTimeout st \<noteq> 0" "searchActive st"
    "strip_spaces (field_value st) \<noteq> []" "k < 12" "plain_key e"
    "strip_spaces v \<notin> {[], strip_leading (field_value st)}"
  shows "let st1 = snd (OnSelectItem L U k st);
      st2 = snd (OnSearchFieldChange L e (st1\<lparr>field_value := v\<rparr>)) in
    fst (OnSelectItem L U k st) = None \<and> keyTimeout st1 = 0 \<and> searches st1 = searches st \<and>
    searches st1 \<noteq> [] \<and> length (searches st2) = Suc (length (searches st1))"
proof -
  define st1 where "st1 = snd (OnSelectItem L U k st)"
  have inv: "box_inv st" using assms(1) by (rule reachable_inv)
  obtain ms where "(keyTimeout st, CallSearch, ms) \<in> set (timers st)"
    using inv assms(2) by (auto simp: box_inv_def clock_ok_def key_timer_pending_def)
  then have waiting: "searches st \<noteq> []" by (force simp: searches_def filter_empty_conv)
  have item: "OnSelectItem L U k st = Search L U (SelectItemSet k (st\<lparr>searchIndex := k\<rparr>))"
    using assms(3,4) by (simp add: OnSelectItem_def SelectItemSet_def Let_def)
  have none: "fst (OnSelectItem L U k st) = None"
    using OnSelectItem_error [of L U k st] assms(5) by auto
  then have st1: "keyTimeout st1 = 0" "lastSearchValue st1 = strip_leading (field_value st)"
    "searches st1 = searches st"
    using OnSelectItem_searches [of L U k st]
    by (simp_all add: st1_def item box_simps Search_lastSearchValue) (simp add: SelectItemSet_def)
  have stop: "stop_key_timer (st1\<lparr>field_value := v\<rparr>) = st1\<lparr>field_value := v\<rparr>"
    using st1(1) by (simp add: stop_key_timer_def)
  have "searches (field_changed (st1\<lparr>field_value := v\<rparr>)) =
      searches (st1\<lparr>field_value := v\<rparr>) @ [(next_timer st1, CallSearch, keyTimeoutLength st1)]"
    using field_changed_starts(1) [of "st1\<lparr>field_value := v\<rparr>"] assms(7) st1(2) by simp
  then have "length (searches (snd (OnSearchFieldChange L e (st1\<lparr>field_value := v\<rparr>)))) =
      Suc (length (searches st1))"
    using plain_key_change [OF assms(6)] stop searches_cong [of "st1\<lparr>field_value := v\<rparr>" st1] by simp
  then show ?thesis using none st1 waiting by (simp add: Let_def st1_def)
qed

text \<open>
  C32. Leaving the field does not stop a waiting search. The field falls back to its label, and
  when the timer runs out the box searches for the label and opens the results window of a
  panel that is no longer active.
\<close>

theorem blur_then_search_label:
  assumes "box_reachable L U st" "field_focused st" "css_display (popup_style st) \<noteq> ''block''"
    "(h, CallSearch, ms) \<in> set (timers st)" "searchIndex st < 12"
  shows "let st' = run_box L U [FieldBlur, TimerFires h] st in
    field_value st' = searchLabel st \<and> lastSearchValue st' = strip_leading (searchLabel st) \<and>
    css_display (popup_style st') = ''block'' \<and> box_class st' = ''MSearchBoxInactive'' \<and>
    \<not> searchActive st'"
proof -
  have inv: "box_inv st" using assms(1) by (rule reachable_inv)
  define st1 where "st1 = clearTimeout h (blur_field st)"
  have wf: "distinct (map fst (timers st))" using inv by (simp add: box_inv_def clock_ok_def timers_wf_def)
  obtain t where t: "List.find (\<lambda>t. fst t = h) (timers st) = Some t"
    using assms(4) find_None_iff [of "\<lambda>t. fst t = h" "timers st"]
    by (cases "List.find (\<lambda>t. fst t = h) (timers st)") auto
  then have "t = (h, CallSearch, ms)"
    using find_SomeD [OF t] wf assms(4) by (cases t) (auto dest: eq_key_imp_eq_value)
  then have fires: "timer_fires L U h (blur_field st) = Search L U st1"
    using t by (simp add: timer_fires_def run_callback_def box_simps st1_def)
  have blur: "field_value st1 = searchLabel st" "box_class st1 = ''MSearchBoxInactive''"
    "\<not> searchActive st1" "searchIndex st1 < 12"
    using assms(2,3,5)
    by (simp_all add: st1_def clearTimeout_def blur_field_def OnSearchFieldFocus_def Activate_def)
  then have "fst (Search L U st1) = None" using Search_error [of L U st1] by auto
  moreover from this have "css_display (popup_style (snd (Search L U st1))) = ''block''"
    by (simp add: Search_def Let_def box_simps split: option.splits prod.splits)
  ultimately show ?thesis
    using blur fires by (simp add: Let_def box_simps Search_lastSearchValue)
qed

lemma strip_spaces_leading: "strip_spaces v \<noteq> [] \<and> strip_spaces v \<noteq> strip_leading v \<longleftrightarrow> 32 \<in> set (strip_leading v)"
proof -
  have eq: "strip_spaces v = strip_spaces (strip_leading v)"
    unfolding strip_spaces_def strip_leading_def by (induction v) auto
  have "strip_spaces w = w \<longleftrightarrow> 32 \<notin> set w" for w
    unfolding strip_spaces_def by (simp add: filter_id_conv) metis
  then show ?thesis using eq strip_leading_eq_Nil [of v] by (metis empty_iff list.set(1))
qed

text \<open>
  C30. A finished search is repeated for ever while its text holds a blank after its first
  word: a key that does not change the text starts a new timer exactly when the searched text
  (leading blanks stripped) still contains a blank, because the text is compared with all its
  blanks removed but remembered with only the leading ones removed.
\<close>

theorem unchanged_text_searched_again:
  assumes "box_reachable L U st" "searchIndex st < 12" "plain_key e"
  shows "keyTimeout (snd (OnSearchFieldChange L e (snd (Search L U st)))) \<noteq> 0 \<longleftrightarrow>
    32 \<in> set (strip_leading (field_value st))"
proof -
  define st1 where "st1 = snd (Search L U st)"
  have "fst (Search L U st) = None" using Search_error [of L U st] assms(2) by auto
  then have st1: "keyTimeout st1 = 0" "lastSearchValue st1 = strip_leading (field_value st)"
    "field_value st1 = field_value st"
    by (simp_all add: st1_def box_simps Search_lastSearchValue)
  have "0 < next_timer st1"
    using reachable_inv [OF assms(1)]
    by (simp add: st1_def box_simps box_inv_def clock_ok_def timers_wf_def)
  then have "keyTimeout (field_changed st1) \<noteq> 0 \<longleftrightarrow>
      strip_spaces (field_value st) \<noteq> [] \<and> strip_spaces (field_value st) \<noteq> strip_leading (field_value st)"
    using st1 field_changed_starts(2) [of st1]
    by (auto simp: field_changed_def setTimeout_def hide_results_def Let_def)
  moreover have "stop_key_timer st1 = st1" using st1(1) by (simp add: stop_key_timer_def)
  ultimately show ?thesis
    using plain_key_change [OF assms(3), of L st1] strip_spaces_leading [of "field_value st"]
    by (simp add: st1_def)
qed

end
