(* ===== verification/SearchFlow.thy ===== *)
theory SearchFlow
  imports SearchCorrect BoxCorrect
begin

text \<open>
  The search as a whole: the box opens a page of the index at an address that carries the text,
  the page reads the text back from its address and shows its matching rows.
\<close>

subsection \<open>Loading a results page\<close>

lemma search_text_location:
  assumes "63 \<notin> set page" "35 \<notin> set page"
  shows "search_text U (page @ js ''?'' @ escape v) None = toLowerCase U (strip_trailing (strip_leading v))"
  using location_search_escape [OF assms, of v] by (simp add: search_text_def js_Cons)

lemma load_results_rows:
  assumes ok: "index_ok data" and t: "t = search_text U loc None"
  shows "\<exists>r. load_results U data loc = Inr r \<and> results_page data (doc r) \<and>
    (\<forall>e < length data. display_at (doc r) (row_path e) =
        (if selected t (data ! e) then ''block'' else ''none'')) \<and>
    lastMatchCount r = length (filter (selected t) data) \<and>
    display_at (doc r) [0, 3] = (if list_ex (selected t) data then ''none'' else ''block'')"
proof -
  define d where "d = results_doc (rows_from 0 data)"
  define d2 where "d2 = set_display (set_display d [0, 0] ''none'') [0, 3] ''none''"
  have page: "results_page data d" "results_page data (set_display d [0, 0] ''none'')" "results_page data d2"
    by (simp_all add: results_page_def d_def d2_def)
  obtain st' where "SearchResults.Search U loc None (new_results d2) = Inr (True, st')" and st': "results_page data (doc st')"
    "\<forall>e < length data. display_at (doc st') (row_path e) =
        (if selected t (data ! e) then ''block'' else ''none'')"
    "lastMatchCount st' = length (filter (selected t) data)"
    "display_at (doc st') [0, 3] = (if list_ex (selected t) data then ''none'' else ''block'')"
    using search_rows [of data "new_results d2", OF _ ok t] page(3) by (auto simp: new_results_def)
  moreover have "set_display_id d (js ''Loading'') ''none'' = Inr (set_display d [0, 0] ''none'')"
    "set_display_id (set_display d [0, 0] ''none'') (js ''NoMatches'') ''none'' = Inr d2"
    using doc_lookup_status [OF page(1)] doc_lookup_status [OF page(2)]
    by (simp_all add: set_display_id_def d2_def)
  ultimately have "load_results U data loc = Inr st'"
    by (simp add: load_results_def createResults_doc d_def [symmetric])
  then show ?thesis using st' by blast
qed

subsection \<open>The page of an ASCII text\<close>

lemma index_char_ascii:
  assumes "ascii (c # r)"
  shows "index_char U (c # r) = [ascii_lower c]"
proof -
  have "ascii_lower c < 128" using assms by simp
  then have "\<not> 0xD800 \<le> ascii_lower c" by (simp add: word_less_nat_alt word_le_nat_alt)
  then show ?thesis using assms by (simp add: index_char_def toLowerCase_ascii)
qed

lemma page_name_plain:
  assumes "s < 12" "x \<in> {63, 35}"
  shows "x \<notin> set (js ''/'' @ indexSectionNames ! s @ js ''_'' @ toString16 i @ js ''.html'')"
proof -
  have "x \<notin> set (indexSectionNames ! s)"
    using section_names_plain assms by (auto simp: list_all_length)
  moreover have "x \<notin> set (toString16 i)"
  proof
    assume "x \<in> set (toString16 i)"
    then obtain d where "d < 16" "x = digit_unit d"
      using toString_base_digits [of 16 x i] by (auto simp: toString16_def)
    then show False using assms(2) by (auto simp: word_unat_eq_iff unat_digit_unit split: if_splits)
  qed
  ultimately show ?thesis using assms(2) by (auto simp: js_def)
qed

text \<open>The address a search gives to the frame.\<close>

definition page_name :: "box_state \<Rightarrow> nat \<Rightarrow> jsstring" where
  "page_name st i = resultsPath st @ js ''/'' @ indexSectionNames ! searchIndex st @ js ''_'' @
     toString16 i @ js ''.html''"

lemma search_address:
  assumes "searchIndex st < 12" "i < length (indexSectionsWithContent ! searchIndex st)"
    and typed: "ascii (field_value st)" "strip_leading (field_value st) = c # r"
    and first: "indexSectionsWithContent ! searchIndex st ! i = ascii_lower c"
  shows "frame_location (snd (SearchBox.Search L U st)) = page_name st i @ js ''?'' @ escape (c # r)"
proof -
  have ascii: "ascii (c # r)" using ascii_strip_leading [OF typed(1)] typed(2) by simp
  have "results_page_for U st (c # r) = Some (page_name st i, page_name st i @ js ''?'' @ escape (c # r))"
    using results_page_hit [OF assms(1,2), of U "c # r"] index_char_ascii [OF ascii] first
    by (simp add: page_name_def Let_def)
  then show ?thesis using Search_page(2) typed(2) by simp
qed

lemma page_name_no_delim:
  assumes "searchIndex st < 12" "63 \<notin> set (resultsPath st)" "35 \<notin> set (resultsPath st)"
  shows "63 \<notin> set (page_name st i)" "35 \<notin> set (page_name st i)"
  using assms page_name_plain [OF assms(1), of 63 i] page_name_plain [OF assms(1), of 35 i]
  by (simp_all add: page_name_def)

subsection \<open>The frame as an interface\<close>

text \<open>
  What the box relies on when it hands an address to the frame: whatever page opens there reads
  the text of the query and shows and counts the rows whose name starts with it. The box's side
  of the search is proved from this contract; the results page of \<open>search.js\<close> provides it.
\<close>

locale results_frame =
  fixes load :: "search_entry list \<Rightarrow> jsstring \<Rightarrow> js_error + 'page"
    and row_display :: "'page \<Rightarrow> nat \<Rightarrow> string"
    and match_count :: "'page \<Rightarrow> nat"
  assumes load_query: "index_ok data \<Longrightarrow> 63 \<notin> set page \<Longrightarrow> 35 \<notin> set page \<Longrightarrow> ascii v \<Longrightarrow>
    t = map ascii_lower (strip_trailing (strip_leading v)) \<Longrightarrow>
    \<exists>res. load data (page @ js ''?'' @ escape v) = Inr res \<and>
      (\<forall>e < length data. row_display res e =
         (if prefix t (map ascii_lower (entry_name (data ! e))) then ''block'' else ''none'')) \<and>
      match_count res = length (filter (\<lambda>x. prefix t (map ascii_lower (entry_name x))) data)"
begin

lemma box_search:
  assumes "searchIndex st < 12" "i < length (indexSectionsWithContent ! searchIndex st)"
    and typed: "ascii (field_value st)" "strip_leading (field_value st) = c # r"
    and first: "indexSectionsWithContent ! searchIndex st ! i = ascii_lower c"
    and path: "63 \<notin> set (resultsPath st)" "35 \<notin> set (resultsPath st)"
    and ok: "index_ok data" and t: "t = map ascii_lower (strip_trailing (c # r))"
  shows "prefix (page_name st i) (frame_location (snd (SearchBox.Search L U st))) \<and>
    (\<exists>res. load data (frame_location (snd (SearchBox.Search L U st))) = Inr res \<and>
      (\<forall>e < length data. row_display res e =
         (if prefix t (map ascii_lower (entry_name (data ! e))) then ''block'' else ''none'')) \<and>
      match_count res = length (filter (\<lambda>x. prefix t (map ascii_lower (entry_name x))) data))"
proof -
  have "ascii (c # r)" using ascii_strip_leading [OF typed(1)] typed(2) by simp
  moreover have "strip_leading (c # r) = c # r" using typed(2) by (metis strip_leading_idem)
  ultimately show ?thesis
    using load_query [OF ok page_name_no_delim [OF assms(1) path], of "c # r" t i] t
    unfolding search_address [OF assms(1,2) typed first] by simp
qed

end

interpretation page_frame: results_frame "load_results U" "\<lambda>res e. display_at (doc res) (row_path e)" lastMatchCount
  for U
proof
  fix data and page v t :: jsstring
  assume ok: "index_ok data" and page: "63 \<notin> set page" "35 \<notin> set page" and v: "ascii v"
    and t: "t = map ascii_lower (strip_trailing (strip_leading v))"
  have "t = search_text U (page @ js ''?'' @ escape v) None"
    using search_text_location [OF page, of U v] v t by (simp add: toLowerCase_ascii)
  from load_results_rows [OF ok this]
  show "\<exists>res. load_results U data (page @ js ''?'' @ escape v) = Inr res \<and>
      (\<forall>e < length data. display_at (doc res) (row_path e) =
         (if prefix t (map ascii_lower (entry_name (data ! e))) then ''block'' else ''none'')) \<and>
      lastMatchCount res = length (filter (\<lambda>x. prefix t (map ascii_lower (entry_name x))) data)"
    unfolding selected_def by blast
qed

lemmas search_flow = page_frame.box_search [unfolded page_name_def]

text \<open>
  C2. From the box to the page: when the user searches for an ASCII text whose first character
  (leading blanks stripped, in either case) is character \<open>i\<close> of the section, the frame gets the
  address of index page \<open>i\<close> of the section, and loading that page with any well-formed index
  shows exactly the rows whose name starts with the text, in either case and without its outer
  blanks, and counts them.
\<close>

theorem typed_text_shows_matches:
  assumes "searchIndex st < 12" "i < length (indexSectionsWithContent ! searchIndex st)"
    and typed: "ascii (field_value st)" "strip_leading (field_value st) = c # r"
    and first: "indexSectionsWithContent ! searchIndex st ! i = ascii_lower c"
    and path: "63 \<notin> set (resultsPath st)" "35 \<notin> set (resultsPath st)"
    and ok: "index_ok data" and t: "t = map ascii_lower (strip_trailing (c # r))"
  shows "prefix (resultsPath st @ js ''/'' @ indexSectionNames ! searchIndex st @ js ''_'' @
      toString16 i @ js ''.html'') (frame_location (snd (SearchBox.Search L U st))) \<and>
    (\<exists>res. load_results U data (frame_location (snd (SearchBox.Search L U st))) = Inr res \<and>
      (\<forall>e < length data. display_at (doc res) (row_path e) =
         (if prefix t (map ascii_lower (entry_name (data ! e))) then ''block'' else ''none'')) \<and>
      lastMatchCount res = length (filter (\<lambda>x. prefix t (map ascii_lower (entry_name x))) data))"
  using assms by (rule search_flow)

end
