(* ===== verification/NavCorrect.thy ===== *)
theory NavCorrect
  imports SearchCorrect
begin

text \<open>
  Keyboard navigation on the page of an index: the scans find the nearest visible row, the key
  state separates key presses from repeats, no handler raises on an element of the page, and
  each arrow key moves the focus or shows and hides children as stated here.
\<close>

definition row_shown :: "dom \<Rightarrow> nat \<Rightarrow> bool" where
  "row_shown d e \<longleftrightarrow> display_at d (row_path e) = ''block''"

definition item_path :: "nat \<Rightarrow> path" where
  "item_path e = row_path e @ [0, 0]"

definition children_path :: "nat \<Rightarrow> path" where
  "children_path e = row_path e @ [0, 1]"

lemma page_item:
  "results_page data d \<Longrightarrow> getElementById d (item_id j) =
     (if 0 \<le> j \<and> j < int (length data) then Some (item_path (nat j)) else None)"
  by (simp add: doc_lookup_item item_path_def row_path_def)

lemma row_of_item [simp]: "row_of (item_path e) = row_path e"
  by (simp add: row_of_def item_path_def row_path_def)

lemma row_visible_item [simp]: "row_visible d (item_path e) = row_shown d e"
  by (simp add: row_visible_def row_shown_def) (simp add: item_path_def row_path_def)

subsection \<open>The scans\<close>

lemma NavNext_unfold:
  "results_page data d \<Longrightarrow> NavNext d (int i) =
     (if i < length data then if row_shown d i then Some (item_path i) else NavNext d (int (Suc i))
      else None)"
  by (subst NavNext.simps) (simp add: page_item add.commute)

lemma NavPrev_unfold:
  "results_page data d \<Longrightarrow> i \<le> length data \<Longrightarrow> NavPrev d (int i - 1) =
     (case i of 0 \<Rightarrow> None
      | Suc j \<Rightarrow> if row_shown d j then Some (item_path j) else NavPrev d (int j - 1))"
  by (subst NavPrev.simps) (auto simp: page_item split: nat.splits)

lemma NavNext_find:
  assumes "results_page data d"
  shows "NavNext d (int i) = map_option item_path (List.find (row_shown d) [i..<length data])"
proof (induction "length data - i" arbitrary: i)
  case 0
  then show ?case using NavNext_unfold [OF assms, of i] by simp
next
  case (Suc n)
  then have "n = length data - Suc i" by arith
  then have "NavNext d (int (Suc i)) =
      map_option item_path (List.find (row_shown d) [Suc i..<length data])" by (rule Suc(1))
  moreover have "i < length data" using Suc(2) by arith
  ultimately show ?case using NavNext_unfold [OF assms, of i] by (simp add: upt_conv_Cons)
qed

lemma NavPrev_find:
  assumes "results_page data d" "i \<le> length data"
  shows "NavPrev d (int i - 1) = map_option item_path (List.find (row_shown d) (rev [0..<i]))"
  using assms(2)
proof (induction i)
  case 0
  then show ?case using NavPrev_unfold [OF assms(1), of 0] by simp
next
  case (Suc i)
  then show ?case using NavPrev_unfold [OF assms(1), of "Suc i"] by simp
qed

text \<open>
  C19. The scans of the results page stop and find the nearest visible row: \<open>NavNext\<close> from row
  \<open>i\<close> gives the item of the first visible row at or after \<open>i\<close>, \<open>NavPrev\<close> from the row before
  \<open>i\<close> the item of the last visible row before \<open>i\<close>, and both give nothing when there is no
  such row.
\<close>

theorem scans_find_visible_row:
  assumes "results_page data d" "i \<le> length data"
  shows "NavNext d (int i) = map_option item_path (List.find (row_shown d) [i..<length data]) \<and>
    NavPrev d (int i - 1) = map_option item_path (List.find (row_shown d) (rev [0..<i]))"
  using NavNext_find [OF assms(1)] NavPrev_find [OF assms] by simp

subsection \<open>Key presses and repeats\<close>

fun run_keys :: "key_event list \<Rightarrow> results_state \<Rightarrow> bool list \<times> results_state" where
  "run_keys [] st = ([], st)"
| "run_keys (e # es) st =
     (let (b, st') = ProcessKeys e st; (bs, st'') = run_keys es st' in (b # bs, st''))"

definition key :: "string \<Rightarrow> nat \<Rightarrow> key_event" where
  "key t k = \<lparr>event_type = t, keyCode = k, shiftKey = False\<rparr>"

lemma run_keys_append:
  "run_keys (xs @ ys) st =
     (fst (run_keys xs st) @ fst (run_keys ys (snd (run_keys xs st))),
      snd (run_keys ys (snd (run_keys xs st))))"
  by (induction xs arbitrary: st) (simp_all add: split_def Let_def)

lemma keydown_step [simp]:
  "ProcessKeys (key ''keydown'' k) st = (k \<noteq> 0, st\<lparr>repeatOn := False, lastKey := k\<rparr>)"
  by (simp add: ProcessKeys_def key_def)

lemma keyup_step [simp]:
  "ProcessKeys (key ''keyup'' k) st = (False, st\<lparr>lastKey := 0, repeatOn := False\<rparr>)"
  by (simp add: ProcessKeys_def key_def)

lemma repeats:
  "lastKey st \<noteq> 0 \<Longrightarrow> repeatOn st \<Longrightarrow>
     run_keys (replicate n (key ''keypress'' k)) st = (replicate n True, st)"
  by (induction n) (simp_all add: ProcessKeys_def key_def)

text \<open>
  C29. Holding a key down: the handler acts on the key press itself, ignores the first
  \<open>keypress\<close> event the browser sends with it, acts on every later one (the repeats), and
  does nothing on release; after the release the key state is the initial one.
\<close>

theorem key_cycle:
  assumes "k \<noteq> 0"
  shows "run_keys (key ''keydown'' k # replicate n (key ''keypress'' k) @ [key ''keyup'' k]) st =
    (True # (if n = 0 then [] else False # replicate (n - 1) True) @ [False],
     st\<lparr>lastKey := 0, repeatOn := False\<rparr>)"
proof (cases n)
  case (Suc m)
  let ?down = "st\<lparr>repeatOn := False, lastKey := k\<rparr>"
  have first: "ProcessKeys (key ''keypress'' k) ?down = (False, ?down\<lparr>repeatOn := True\<rparr>)"
    using assms by (simp add: ProcessKeys_def key_def)
  show ?thesis
    using assms first repeats [of "?down\<lparr>repeatOn := True\<rparr>" m k]
    by (simp add: Suc run_keys_append)
qed (use assms in simp)

subsection \<open>The children of a row\<close>

lemma is_children_div_erase [simp]: "is_children_div (erase n) = is_children_div n"
  by (simp add: is_children_div_def is_div_def)

lemma is_div_erase [simp]: "is_div (erase n) = is_div n"
  by (simp add: is_div_def)

lemma first_child_list_erase:
  "(\<And>k. k \<in> set ks \<Longrightarrow> first_child_node (erase k) = first_child_node k) \<Longrightarrow>
     first_child_list i (map erase ks) = first_child_list i ks"
  by (induction ks arbitrary: i) (auto split: option.split)

lemma first_child_node_erase: "first_child_node (erase n) = first_child_node n"
proof (induction n)
  case (Node d ks)
  then show ?case
    using first_child_list_erase [of ks 0] is_children_div_erase [of "Node d ks"]
      is_div_erase [of "Node d ks"]
    by (simp del: is_children_div_erase is_div_erase)
qed

lemma row_first_child:
  "first_child_list 0 (childNodes (create_row e x)) =
     (if length (entry_links x) = 1 then None else Some [0, 1])"
proof -
  have extra: "first_child_node (row_extra e x) = (if length (entry_links x) = 1 then None else Some [])"
    using row_extra_single [of x e] row_extra_many [of x e]
    by (cases "length (entry_links x) = 1") (auto simp: is_children_div_def is_div_def)
  then show ?thesis
    using create_row_shape [of e x] by (auto simp: is_children_div_def is_div_def)
qed

lemma child_no_row: "getElementById (create_child e c l) (js ''SR_'' @ s) = None"
  by (subst child_lookup) (auto simp: js_def child_id_def)

lemma children_no_row: "by_id_list i (create_children e c ls) (js ''SR_'' @ s) = None"
  by (induction ls arbitrary: i c) (simp_all add: child_no_row)

lemma row_lookup_row:
  "getElementById (create_row e x) (js ''SR_'' @ s) = (if entry_id x = s then Some [] else None)"
proof -
  have "getElementById (row_extra e x) (js ''SR_'' @ s) = None"
    using row_extra_single [of x e] row_extra_many [of x e]
    by (cases "length (entry_links x) = 1") (auto simp: children_no_row)
  moreover have "item_id (int e) \<noteq> js ''SR_'' @ s" by (simp add: item_id_def js_def)
  ultimately show ?thesis using create_row_shape [of e x] by auto
qed

lemma rows_lookup_row:
  "distinct (map entry_id xs) \<Longrightarrow> i < length xs \<Longrightarrow>
     by_id_list k (rows_from e xs) (js ''SR_'' @ entry_id (xs ! i)) = Some [k + i]"
proof (induction xs arbitrary: i k e)
  case (Cons x xs)
  show ?case
  proof (cases i)
    case 0
    then show ?thesis by (simp add: row_lookup_row)
  next
    case (Suc j)
    with Cons.prems have "entry_id x \<noteq> entry_id (xs ! j)" by auto
    then show ?thesis using Suc Cons by (simp add: row_lookup_row)
  qed
qed simp

lemma page_row:
  assumes "results_page data d" "distinct (map entry_id data)" "e < length data"
  shows "getElementById d (js ''SR_'' @ entry_id (data ! e)) = Some (row_path e)"
  unfolding same_erase_getElementById [OF assms(1) [unfolded results_page_def]]
  using assms(2,3)
  by (simp add: results_doc_def new_node_def status_div_id rows_lookup_row row_path_def)
    (simp add: js_def)

text \<open>The walk over a row of the page finds its block of children, when the entry has one.\<close>

lemma page_children:
  assumes "results_page data d" "distinct (map entry_id data)" "e < length data"
  shows "FindChildElement d (js ''SR_'' @ entry_id (data ! e)) =
     Inr (if length (entry_links (data ! e)) = 1 then None else Some (children_path e))"
    and "row_children d (item_path e) =
     Inr (if length (entry_links (data ! e)) = 1 then None else Some (children_path e))"
proof -
  obtain n where n: "dom_at d (row_path e) = Some n" and er: "erase n = erase (create_row e (data ! e))"
    using same_erase_dom_at [OF assms(1) [unfolded results_page_def], of "row_path e"] assms(3)
    by (cases "dom_at d (row_path e)") (auto simp: results_doc_def row_path_def nth_rows_from)
  have "first_child_list 0 (childNodes n) = first_child_list 0 (childNodes (create_row e (data ! e)))"
    using first_child_list_erase [OF first_child_node_erase] er by (metis childNodes_erase)
  then show *: "FindChildElement d (js ''SR_'' @ entry_id (data ! e)) =
     Inr (if length (entry_links (data ! e)) = 1 then None else Some (children_path e))"
    using page_row [OF assms] n
    by (simp add: FindChildElement_def find_loop_first_child row_first_child children_path_def)
  have "id_at d (row_path e) = Some (js ''SR_'' @ entry_id (data ! e))"
    using row_data [OF assms(1,3)] by (auto simp: id_at_def)
  then show "row_children d (item_path e) =
     Inr (if length (entry_links (data ! e)) = 1 then None else Some (children_path e))"
    using * by (simp add: row_children_def)
qed

subsection \<open>The arrow keys\<close>

definition has_children :: "search_entry \<Rightarrow> bool" where
  "has_children x \<longleftrightarrow> length (entry_links x) \<noteq> 1"

definition children_shown :: "dom \<Rightarrow> search_entry list \<Rightarrow> nat \<Rightarrow> bool" where
  "children_shown d data e \<longleftrightarrow>
     has_children (data ! e) \<and> display_at d (children_path e) = ''block''"

lemma page_child:
  "results_page data d \<Longrightarrow> getElementById d (child_id (int e) n) =
     (if e < length data \<and> has_children (data ! e) \<and> n < length (entry_links (data ! e))
      then Some (children_path e @ [n]) else None)"
  by (simp add: doc_lookup_child has_children_def children_path_def row_path_def)

lemma last_child_page:
  assumes "results_page data d" "e < length data" "has_children (data ! e)"
  shows "last_child d (int e) n p =
     (if n < length (entry_links (data ! e))
      then children_path e @ [length (entry_links (data ! e)) - 1] else p)"
proof (induction "length (entry_links (data ! e)) - n" arbitrary: n p)
  case 0
  then show ?case using assms by (subst last_child.simps) (simp add: page_child)
next
  case (Suc m)
  have n: "n < length (entry_links (data ! e))" using Suc(2) by arith
  have "last_child d (int e) n p = last_child d (int e) (Suc n) (children_path e @ [n])"
    using assms n by (subst last_child.simps) (simp add: page_child)
  also have "\<dots> = children_path e @ [length (entry_links (data ! e)) - 1]"
    using Suc(1) [of "Suc n" "children_path e @ [n]"] Suc(2) n
    by (cases "Suc n < length (entry_links (data ! e))") (auto dest!: le_antisym simp: not_less_eq)
  finally show ?case using n by simp
qed

lemma last_child_none:
  "results_page data d \<Longrightarrow> \<not> has_children (data ! e) \<Longrightarrow> last_child d (int e) n p = p"
  by (subst last_child.simps) (simp add: page_child)

lemma down_focus:
  assumes page: "results_page data (doc st)" "distinct (map entry_id data)" "e < length data"
  shows "nav_down (int e) st = Inr (False, st, focus_option
    (if children_shown (doc st) data e \<and> entry_links (data ! e) \<noteq> []
     then Some (children_path e @ [0])
     else map_option item_path (List.find (row_shown (doc st)) [Suc e..<length data])))"
proof -
  have next': "NavNext (doc st) (int e + 1) =
      map_option item_path (List.find (row_shown (doc st)) [Suc e..<length data])"
    using NavNext_find [OF page(1), of "Suc e"] by (simp add: add.commute)
  have "getElementById (doc st) (item_id (int e)) = Some (item_path e)"
    using page_item [OF page(1), of "int e"] page(3) by simp
  then show ?thesis
    using page_children(2) [OF page] next' page(3)
    by (auto simp: nav_down_def Let_def page_child [OF page(1)] children_shown_def has_children_def)
qed

text \<open>
  C20. The down arrow on a row of the page moves the focus to the first child of the row when
  its children are shown, and otherwise to the next visible row below it, if there is one; it
  changes nothing on the page.
\<close>

theorem nav_down_focus:
  assumes page: "results_page data (doc st)" "distinct (map entry_id data)" "e < length data"
  shows "nav_down (int e) st = Inr (False, st, focus_option
    (if children_shown (doc st) data e \<and> entry_links (data ! e) \<noteq> []
     then Some (children_path e @ [0])
     else map_option item_path (List.find (row_shown (doc st)) [Suc e..<length data])))"
  using assms by (rule down_focus)

lemma up_focus:
  assumes page: "results_page data (doc st)" "distinct (map entry_id data)" "e < length data"
  shows "nav_up (int e) st = Inr (False, st,
    case List.find (row_shown (doc st)) (rev [0..<e]) of
      None \<Rightarrow> [FocusSearchField]
    | Some k \<Rightarrow>
        [FocusElement (if children_shown (doc st) data k \<and> has_children (data ! (e - 1)) \<and>
                          entry_links (data ! (e - 1)) \<noteq> []
                       then children_path (e - 1) @ [length (entry_links (data ! (e - 1))) - 1]
                       else item_path k)])"
proof (cases "List.find (row_shown (doc st)) (rev [0..<e])")
  case None
  then show ?thesis using NavPrev_find [OF page(1), of e] page(3) by (simp add: nav_up_def)
next
  case (Some k)
  then have "k < e" by (auto dest: find_SomeD)
  then obtain h where h: "e = Suc h" and k: "k < length data"
    using page(3) by (cases e) auto
  have prev: "NavPrev (doc st) (int h) = Some (item_path k)"
    using NavPrev_find [OF page(1), of e] page(3) Some h by simp
  have last: "last_child (doc st) (int h) 0 (item_path k) =
      (if has_children (data ! h) \<and> entry_links (data ! h) \<noteq> []
       then children_path h @ [length (entry_links (data ! h)) - 1] else item_path k)"
    using last_child_page [OF page(1), of h 0 "item_path k"] page(3) h
      last_child_none [OF page(1), of h 0 "item_path k"]
    by (cases "has_children (data ! h)") simp_all
  have "int e - 1 = int h" "e - 1 = h" using h by simp_all
  then show ?thesis
    using prev Some page_children(2) [OF page(1,2) k] last
    by (auto simp: nav_up_def Let_def children_shown_def has_children_def)
qed

text \<open>
  C21. The up arrow moves the focus to the search field when no row above is visible. Otherwise,
  if the nearest visible row above shows its children, it looks for them under the number of
  the row directly above - the same row when no hidden row lies between - and moves the focus
  to the last of these; if there are none, or the row found shows no children, the focus moves
  to the row found. Nothing changes on the page.
\<close>

theorem nav_up_focus:
  assumes page: "results_page data (doc st)" "distinct (map entry_id data)" "e < length data"
  shows "nav_up (int e) st = Inr (False, st,
    case List.find (row_shown (doc st)) (rev [0..<e]) of
      None \<Rightarrow> [FocusSearchField]
    | Some k \<Rightarrow>
        [FocusElement (if children_shown (doc st) data k \<and> has_children (data ! (e - 1)) \<and>
                          entry_links (data ! (e - 1)) \<noteq> []
                       then children_path (e - 1) @ [length (entry_links (data ! (e - 1))) - 1]
                       else item_path k)])"
  using page by (rule up_focus)

text \<open>
  C34. When the nearest visible row above shows its children but hidden rows lie between, the
  up arrow looks the children up under the number of the hidden row directly above: if that
  row has children, its last child gets the focus although the row is not on display.
\<close>

theorem nav_up_into_hidden_row:
  assumes page: "results_page data (doc st)" "distinct (map entry_id data)" "Suc h < length data"
    and above: "List.find (row_shown (doc st)) (rev [0..<Suc h]) = Some k" "k \<noteq> h"
    and shown: "children_shown (doc st) data k"
    and hidden: "has_children (data ! h)" "entry_links (data ! h) \<noteq> []"
  shows "\<not> row_shown (doc st) h \<and> nav_up (int (Suc h)) st =
    Inr (False, st, [FocusElement (children_path h @ [length (entry_links (data ! h)) - 1])])"
proof -
  have "k < Suc h" using find_SomeD [OF above(1)] by auto
  then have k: "k < length data" using page(3) by simp
  have prev: "NavPrev (doc st) (int h) = Some (item_path k)"
    using NavPrev_find [OF page(1), of "Suc h"] page(3) above(1) by simp
  have "\<not> row_shown (doc st) h" using above by auto
  moreover have "nav_up (int (Suc h)) st =
    Inr (False, st, [FocusElement (children_path h @ [length (entry_links (data ! h)) - 1])])"
    using prev shown hidden page_children(2) [OF page(1,2) k]
      last_child_page [OF page(1) _ hidden(1), of 0 "item_path k"] page(3)
    by (simp add: nav_up_def Let_def children_shown_def has_children_def)
  ultimately show ?thesis ..
qed

lemma children_valid:
  assumes "results_page data d" "e < length data" "has_children (data ! e)"
  shows "dom_at d (children_path e) \<noteq> None"
proof -
  have "dom_at (results_doc (rows_from 0 data)) (row_path e) = Some (create_row e (data ! e))"
    using assms(2) by (simp add: results_doc_def row_path_def nth_rows_from)
  then have "dom_at (results_doc (rows_from 0 data)) (children_path e) \<noteq> None"
    using create_row_shape [of e "data ! e"] by (auto simp: children_path_def dom_at_append)
  then show ?thesis
    using same_erase_valid [OF assms(1) [unfolded results_page_def], of "children_path e"] by simp
qed

subsection \<open>No handler raises on the page\<close>

lemma results_page_handler_cong: "doc st' = doc st \<Longrightarrow> results_page data (doc st') = results_page data (doc st)"
  by simp

lemma ProcessKeys_doc [simp]: "doc (snd (ProcessKeys e st)) = doc st"
  by (simp add: ProcessKeys_def Let_def)

definition safe_outcome :: "search_entry list \<Rightarrow> handler_result \<Rightarrow> bool" where
  "safe_outcome data r \<longleftrightarrow>
     (case r of Inl e \<Rightarrow> False
      | Inr (b, st', fx) \<Rightarrow> results_page data (doc st') \<and>
          (\<forall>p. FocusElement p \<in> set fx \<longrightarrow> dom_at (doc st') p \<noteq> None))"

lemma lookup_valid: "getElementById d x = Some p \<Longrightarrow> \<exists>n. dom_at d p = Some n"
  using getElementById_Some by blast

lemma scan_valid:
  "NavNext d i = Some p \<Longrightarrow> \<exists>n. dom_at d p = Some n"
proof (induction d i rule: NavNext.induct)
  case (1 d i)
  then show ?case
    by (subst (asm) (2) NavNext.simps)
      (auto split: option.splits if_splits dest: lookup_valid)
qed

lemma scan_back_valid: "NavPrev d i = Some p \<Longrightarrow> \<exists>n. dom_at d p = Some n"
proof (induction d i rule: NavPrev.induct)
  case (1 d i)
  then show ?case
    by (subst (asm) (2) NavPrev.simps)
      (auto split: option.splits if_splits dest: lookup_valid)
qed

lemma last_child_valid:
  "\<exists>m. dom_at d p = Some m \<Longrightarrow> \<exists>m. dom_at d (last_child d i n p) = Some m"
proof (induction d i n p rule: last_child.induct)
  case (1 d i n p)
  show ?case
    using 1 lookup_valid [of d "child_id i n"]
    by (subst last_child.simps) (auto split: option.splits)
qed

lemmas reference_valid = lookup_valid lookup_valid [OF sym] scan_valid scan_valid [OF sym]

lemma safe_show:
  assumes "results_page data (doc st)" "distinct (map entry_id data)" "e < length data"
  shows "safe_outcome data (nav_show (int e) v st)"
  using assms page_item [OF assms(1), of "int e"] page_children(2) [OF assms]
  by (simp add: nav_show_def safe_outcome_def)

lemma safe_down:
  assumes "results_page data (doc st)" "distinct (map entry_id data)" "e < length data"
  shows "safe_outcome data (nav_down (int e) st)"
  using assms page_item [OF assms(1), of "int e"] page_children(2) [OF assms]
  by (auto simp: nav_down_def Let_def safe_outcome_def focus_option_def
      dest: reference_valid split: option.splits if_splits)

lemma safe_up:
  assumes "results_page data (doc st)" "distinct (map entry_id data)" "e < length data"
  shows "safe_outcome data (nav_up (int e) st)"
proof (cases "NavPrev (doc st) (int e - 1)")
  case None
  then show ?thesis using assms by (simp add: nav_up_def safe_outcome_def)
next
  case (Some p)
  have "NavPrev (doc st) (int e - 1) = map_option item_path (List.find (row_shown (doc st)) (rev [0..<e]))"
    by (rule NavPrev_find) (use assms in auto)
  with Some obtain k where k: "List.find (row_shown (doc st)) (rev [0..<e]) = Some k" and p: "p = item_path k"
    by auto
  then have "k < length data" using assms(3) by (auto dest: find_SomeD)
  then show ?thesis
    using Some assms(1) page_children(2) [OF assms(1,2) \<open>k < length data\<close>] scan_back_valid [OF Some]
      last_child_valid [of "doc st" p "int e - 1" 0]
    by (auto simp: nav_up_def Let_def safe_outcome_def p split: option.splits if_splits)
qed

text \<open>
  C11. On the page of an index with distinct ids, no key event on a row or on a child raises:
  every handler returns, keeps the elements of the page, and focuses only elements that are in
  the document.
\<close>

theorem Nav_safe:
  assumes page: "results_page data (doc st)" "distinct (map entry_id data)" "e < length data"
  shows "safe_outcome data (Nav ev (int e) st) \<and>
    (\<forall>c < length (entry_links (data ! e)). has_children (data ! e) \<longrightarrow>
       safe_outcome data (NavChild ev (int e) c st))"
proof (intro conjI allI impI)
  obtain b st1 where keys: "ProcessKeys ev st = (b, st1)" by (cases "ProcessKeys ev st")
  then have doc1: "doc st1 = doc st" using ProcessKeys_doc [of ev st] by simp
  then have page1: "results_page data (doc st1)" using page by simp
  have plain: "safe_outcome data (Inr (r, st2, fx))"
    if "results_page data (doc st2)" "\<And>p. FocusElement p \<notin> set fx" for r st2 fx
    using that by (simp add: safe_outcome_def)
  show "safe_outcome data (Nav ev (int e) st)"
    using page page1 safe_up [OF page1 page(2,3)] safe_down [OF page1 page(2,3)]
      safe_show [OF page1 page(2,3)]
    by (simp add: Nav_def keys plain)
  fix c assume c: "c < length (entry_links (data ! e))" "has_children (data ! e)"
  have up: "\<exists>q. (if c > 0 then getElementById (doc st1) (child_id (int e) (c - 1))
      else getElementById (doc st1) (item_id (int e))) = Some q \<and> dom_at (doc st1) q \<noteq> None"
    using c page(3) page_child [OF page1, of e "c - 1"] page_item [OF page1, of "int e"] lookup_valid
    by (cases "c > 0") auto
  show "safe_outcome data (NavChild ev (int e) c st)"
    using page page1 up
    by (auto simp: NavChild_def keys plain safe_outcome_def focus_option_def Let_def
        dest: reference_valid split: option.splits)
qed

subsection \<open>Toggling the children\<close>

text \<open>
  C27. Clicking the link of a row whose entry has several results flips its block of children
  between shown and hidden and changes the display of no other element; on a row with a single
  result the function does nothing. Either way the page keeps its elements, and two clicks on a
  row whose children are shown restore every display.
\<close>

theorem Toggle_flips_children:
  assumes page: "results_page data (doc st)" "distinct (map entry_id data)" "e < length data"
  shows "\<exists>st'. Toggle (js ''SR_'' @ entry_id (data ! e)) st = Inr st' \<and> results_page data (doc st') \<and>
    (\<forall>p. display_at (doc st') p =
       (if has_children (data ! e) \<and> p = children_path e
        then (if display_at (doc st) p = ''block'' then ''none'' else ''block'')
        else display_at (doc st) p)) \<and>
    (children_shown (doc st) data e \<longrightarrow>
       (\<exists>st''. Toggle (js ''SR_'' @ entry_id (data ! e)) st' = Inr st'' \<and>
          (\<forall>p. display_at (doc st'') p = display_at (doc st) p)))"
proof (cases "has_children (data ! e)")
  case False
  then show ?thesis
    using page page_children(1) [OF page] by (simp add: Toggle_def has_children_def children_shown_def)
next
  case True
  let ?c = "children_path e"
  have toggle: "Toggle (js ''SR_'' @ entry_id (data ! e)) s =
      Inr (s\<lparr>doc := set_display (doc s) ?c (if display_at (doc s) ?c = ''block'' then ''none'' else ''block'')\<rparr>)"
    if "results_page data (doc s)" for s
    using page_children(1) [OF that page(2,3)] True by (simp add: Toggle_def has_children_def)
  have valid: "dom_at (doc st) ?c \<noteq> None" using children_valid [OF page(1,3) True] .
  have page': "results_page data (set_display (doc st) ?c v)" for v
    using page(1) by (simp add: results_page_def)
  show ?thesis
    using toggle [OF page(1)] toggle [of "st\<lparr>doc := set_display (doc st) ?c ''none''\<rparr>"] page' valid True
    by (auto simp: set_display_at set_display_valid children_shown_def)
qed

subsection \<open>Moving through the page\<close>

text \<open>The arrow keys on a child of a row, and the rows that the down arrow reaches one by one.\<close>

lemma keydown_handled: "k \<noteq> 0 \<Longrightarrow> ProcessKeys (key ''keydown'' k) st = (True, st\<lparr>repeatOn := False, lastKey := k\<rparr>)"
  by (simp add: ProcessKeys_def key_def)

text \<open>
  C22. On a child of a row the up arrow focuses the child before it, or the row's own link from
  the first child; the down arrow focuses the child after it, or the next visible row from the
  last child. Nothing on the page changes but the key state.
\<close>

theorem NavChild_moves:
  assumes page: "results_page data (doc st)" "e < length data" "has_children (data ! e)"
    "c < length (entry_links (data ! e))"
  shows "NavChild (key ''keydown'' 38) (int e) c st =
      Inr (False, st\<lparr>repeatOn := False, lastKey := 38\<rparr>,
        [FocusElement (if c = 0 then item_path e else children_path e @ [c - 1])]) \<and>
    NavChild (key ''keydown'' 40) (int e) c st =
      Inr (False, st\<lparr>repeatOn := False, lastKey := 40\<rparr>, focus_option
        (if Suc c < length (entry_links (data ! e)) then Some (children_path e @ [Suc c])
         else map_option item_path (List.find (row_shown (doc st)) [Suc e..<length data])))"
proof -
  have code: "keyCode (key t k) = k" for t k by (simp add: key_def)
  have next': "NavNext (doc st) (int e + 1) =
      map_option item_path (List.find (row_shown (doc st)) [Suc e..<length data])"
    using NavNext_find [OF page(1), of "Suc e"] by (simp add: add.commute)
  have "c - 1 < length (entry_links (data ! e))" using page(4) by linarith
  then show ?thesis
    using page page_child [OF page(1), of e "c - 1"] page_child [OF page(1), of e "Suc c"]
      page_item [OF page(1), of "int e"] next'
    by (simp add: NavChild_def keydown_handled code split: option.split)
qed

definition next_row :: "results_state \<Rightarrow> nat \<Rightarrow> nat option" where
  "next_row st e =
     (case nav_down (int e) st of
        Inr (b, st', [FocusElement p]) \<Rightarrow> if p = item_path (p ! 2) then Some (p ! 2) else None
      | _ \<Rightarrow> None)"

fun walk_down :: "nat \<Rightarrow> results_state \<Rightarrow> nat option \<Rightarrow> nat list" where
  "walk_down n st None = []"
| "walk_down 0 st (Some e) = []"
| "walk_down (Suc n) st (Some e) = e # walk_down n st (next_row st e)"

definition no_children_shown :: "search_entry list \<Rightarrow> dom \<Rightarrow> bool" where
  "no_children_shown data d \<longleftrightarrow> (\<forall>e < length data. \<not> children_shown d data e)"

lemma down_closed:
  assumes page: "results_page data (doc st)" "distinct (map entry_id data)" "e < length data"
    and closed: "no_children_shown data (doc st)"
  shows "nav_down (int e) st = Inr (False, st, focus_option
    (map_option item_path (List.find (row_shown (doc st)) [Suc e..<length data])))"
proof -
  have "\<not> children_shown (doc st) data e" using closed page(3) by (simp add: no_children_shown_def)
  then show ?thesis using down_focus [OF page] by simp
qed

lemma next_row_find:
  assumes "results_page data (doc st)" "distinct (map entry_id data)" "e < length data"
    "no_children_shown data (doc st)"
  shows "next_row st e = List.find (row_shown (doc st)) [Suc e..<length data]"
proof -
  have "item_path k ! 2 = k" for k by (simp add: item_path_def row_path_def)
  then show ?thesis
    by (simp add: next_row_def down_closed [OF assms] focus_option_def split: option.split)
qed

lemma find_append_Some: "List.find P xs = Some x \<Longrightarrow> List.find P (xs @ ys) = Some x"
  by (induction xs) auto

lemma find_rev_last:
  assumes "e < k" "P e" "\<And>j. e < j \<Longrightarrow> j < k \<Longrightarrow> \<not> P j"
  shows "List.find P (rev [0..<k]) = Some (e::nat)"
  using assms
proof (induction k)
  case (Suc k)
  then show ?case by (cases "k = e") auto
qed simp

lemma up_closed:
  assumes page: "results_page data (doc st)" "distinct (map entry_id data)" "e < length data"
    and closed: "no_children_shown data (doc st)"
    and prev: "List.find (row_shown (doc st)) (rev [0..<e]) = Some k"
  shows "nav_up (int e) st = Inr (False, st, [FocusElement (item_path k)])"
proof -
  have "k < length data" using find_SomeD [OF prev] page(3) by auto
  then have "\<not> children_shown (doc st) data k" using closed by (simp add: no_children_shown_def)
  then show ?thesis using up_focus [OF page] prev by simp
qed

lemma find_filter_upt:
  "(case List.find P [i..<n] of None \<Rightarrow> filter P [i..<n] = []
    | Some k \<Rightarrow> i \<le> k \<and> k < n \<and> P k \<and> filter P [i..<n] = k # filter P [Suc k..<n])"
proof (induction "n - i" arbitrary: i)
  case (Suc m)
  then have u: "[i..<n] = i # [Suc i..<n]" by (simp add: upt_conv_Cons)
  show ?case
  proof (cases "P i")
    case False
    have "m = n - Suc i" using Suc(2) by arith
    from Suc(1) [OF this] show ?thesis
      using False u by (cases "List.find P [Suc i..<n]") simp_all
  qed (use u Suc(2) in auto)
qed simp

text \<open>
  C12. Pressing the down arrow again and again visits every visible row once, in the order of
  the page, and then stays: when no children are shown, the rows reached from the first visible
  row are exactly the visible rows.
\<close>

theorem down_arrow_visits_rows:
  assumes "results_page data (doc st)" "distinct (map entry_id data)" "no_children_shown data (doc st)"
  shows "walk_down (length data) st (List.find (row_shown (doc st)) [0..<length data]) =
    filter (row_shown (doc st)) [0..<length data]"
proof -
  have "walk_down n st (List.find (row_shown (doc st)) [i..<length data]) =
      filter (row_shown (doc st)) [i..<length data]" if "length data \<le> n + i" for n i
    using that
  proof (induction n arbitrary: i)
    case 0
    then show ?case by simp
  next
    case (Suc n)
    show ?case
    proof (cases "List.find (row_shown (doc st)) [i..<length data]")
      case None
      then show ?thesis using find_filter_upt [of "row_shown (doc st)" i "length data"] by simp
    next
      case (Some k)
      then have k: "i \<le> k" "k < length data" "filter (row_shown (doc st)) [i..<length data] =
          k # filter (row_shown (doc st)) [Suc k..<length data]"
        using find_filter_upt [of "row_shown (doc st)" i "length data"] by simp_all
      then show ?thesis
        using Some Suc.IH [of "Suc k"] Suc.prems next_row_find [OF assms(1,2) k(2) assms(3)] by simp
    qed
  qed
  from this [of "length data" 0] show ?thesis by simp
qed

text \<open>
  C23. The up arrow undoes the down arrow: when no children are shown and the down arrow moves
  the focus from a visible row to another, the up arrow there moves it back.
\<close>

theorem up_undoes_down:
  assumes page: "results_page data (doc st)" "distinct (map entry_id data)" "no_children_shown data (doc st)"
    and e: "e < length data" "row_shown (doc st) e" and next': "next_row st e = Some k"
  shows "nav_down (int e) st = Inr (False, st, [FocusElement (item_path k)]) \<and>
    nav_up (int k) st = Inr (False, st, [FocusElement (item_path e)])"
proof -
  have find: "List.find (row_shown (doc st)) [Suc e..<length data] = Some k"
    using next_row_find [OF page(1,2) e(1) page(3)] next' by simp
  then have k: "e < k" "k < length data"
    using find_filter_upt [of "row_shown (doc st)" "Suc e" "length data"] by auto
  have hidden: "\<not> row_shown (doc st) j" if "e < j" "j < k" for j
  proof
    assume shown: "row_shown (doc st) j"
    have "[Suc e..<length data] = [Suc e..<k] @ [k..<length data]"
      using k upt_add_eq_append [of "Suc e" k "length data - k"] by simp
    moreover have "List.find (row_shown (doc st)) [Suc e..<k] \<noteq> None"
      using that shown by (auto simp: find_None_iff intro!: exI [of _ j])
    then obtain l where l: "List.find (row_shown (doc st)) [Suc e..<k] = Some l" by blast
    ultimately have "l = k" using find find_append_Some [OF l] by simp
    then have "List.find (row_shown (doc st)) [Suc e..<k] = Some k" using l by simp
    then show False by (auto dest: find_SomeD)
  qed
  have "List.find (row_shown (doc st)) (rev [0..<k]) = Some e"
    using k(1) e(2) hidden by (rule find_rev_last)
  then show ?thesis
    using up_closed [OF page(1,2) k(2) page(3)] down_closed [OF page(1,2) e(1) page(3)] find
    by (simp add: focus_option_def)
qed

end
