(* ===== verification/SearchSite.thy ===== *)
theory SearchSite
  imports IndexAll IndexMembers IndexKinds SearchFlow NavCorrect
begin

text \<open>
  The index of the documentation as a whole: the page behind each character of each section,
  and what the search does on these pages.
\<close>

text \<open>
  Page \<open>i\<close> of section \<open>s\<close> is the file \<open>name_hex.js\<close> with the section's name and \<open>i\<close> in
  hexadecimal, which is the script that the page \<open>name_hex.html\<close> loads.
\<close>

definition index_pages :: "search_entry list list list" where
  "index_pages =
     [[index_all_0, index_all_1, index_all_2, index_all_3, index_all_4, index_all_5, index_all_6, index_all_7, index_all_8, index_all_9, index_all_a, index_all_b, index_all_c, index_all_d, index_all_e, index_all_f, index_all_10, index_all_11, index_all_12, index_all_13, index_all_14, index_all_15],
      [index_classes_0],
      [index_files_0],
      [index_functions_0, index_functions_1, index_functions_2, index_functions_3, index_functions_4, index_functions_5, index_functions_6, index_functions_7, index_functions_8, index_functions_9, index_functions_a, index_functions_b, index_functions_c, index_functions_d, index_functions_e, index_functions_f, index_functions_10, index_functions_11, index_functions_12],
      [index_variables_0, index_variables_1, index_variables_2, index_variables_3, index_variables_4, index_variables_5],
      [index_typedefs_0],
      [index_enums_0],
      [index_enumvalues_0],
      [index_properties_0, index_properties_1, index_properties_2, index_properties_3, index_properties_4, index_properties_5, index_properties_6, index_properties_7, index_properties_8, index_properties_9, index_properties_a, index_properties_b],
      [index_defines_0],
      [index_groups_0, index_groups_1, index_groups_2, index_groups_3],
      [index_pages_0]]"

lemmas index_pages_ok =
  index_all_0_ok index_all_1_ok index_all_2_ok index_all_3_ok
  index_all_4_ok index_all_5_ok index_all_6_ok index_all_7_ok
  index_all_8_ok index_all_9_ok index_all_a_ok index_all_b_ok
  index_all_c_ok index_all_d_ok index_all_e_ok index_all_f_ok
  index_all_10_ok index_all_11_ok index_all_12_ok index_all_13_ok
  index_all_14_ok index_all_15_ok index_functions_0_ok index_functions_1_ok
  index_functions_2_ok index_functions_3_ok index_functions_4_ok index_functions_5_ok
  index_functions_6_ok index_functions_7_ok index_functions_8_ok index_functions_9_ok
  index_functions_a_ok index_functions_b_ok index_functions_c_ok index_functions_d_ok
  index_functions_e_ok index_functions_f_ok index_functions_10_ok index_functions_11_ok
  index_functions_12_ok index_variables_0_ok index_variables_1_ok index_variables_2_ok
  index_variables_3_ok index_variables_4_ok index_variables_5_ok index_properties_0_ok
  index_properties_1_ok index_properties_2_ok index_properties_3_ok index_properties_4_ok
  index_properties_5_ok index_properties_6_ok index_properties_7_ok index_properties_8_ok
  index_properties_9_ok index_properties_a_ok index_properties_b_ok index_classes_0_ok
  index_files_0_ok index_typedefs_0_ok index_enums_0_ok index_enumvalues_0_ok
  index_defines_0_ok index_groups_0_ok index_groups_1_ok index_groups_2_ok
  index_groups_3_ok index_pages_0_ok

lemmas index_pages_ids =
  index_all_0_ids index_all_1_ids index_all_2_ids index_all_3_ids
  index_all_4_ids index_all_5_ids index_all_6_ids index_all_7_ids
  index_all_8_ids index_all_9_ids index_all_a_ids index_all_b_ids
  index_all_c_ids index_all_d_ids index_all_e_ids index_all_f_ids
  index_all_10_ids index_all_11_ids index_all_12_ids index_all_13_ids
  index_all_14_ids index_all_15_ids index_functions_0_ids index_functions_1_ids
  index_functions_2_ids index_functions_3_ids index_functions_4_ids index_functions_5_ids
  index_functions_6_ids index_functions_7_ids index_functions_8_ids index_functions_9_ids
  index_functions_a_ids index_functions_b_ids index_functions_c_ids index_functions_d_ids
  index_functions_e_ids index_functions_f_ids index_functions_10_ids index_functions_11_ids
  index_functions_12_ids index_variables_0_ids index_variables_1_ids index_variables_2_ids
  index_variables_3_ids index_variables_4_ids index_variables_5_ids index_properties_0_ids
  index_properties_1_ids index_properties_2_ids index_properties_3_ids index_properties_4_ids
  index_properties_5_ids index_properties_6_ids index_properties_7_ids index_properties_8_ids
  index_properties_9_ids index_properties_a_ids index_properties_b_ids index_classes_0_ids
  index_files_0_ids index_typedefs_0_ids index_enums_0_ids index_enumvalues_0_ids
  index_defines_0_ids index_groups_0_ids index_groups_1_ids index_groups_2_ids
  index_groups_3_ids index_pages_0_ids

definition page_at :: "nat \<Rightarrow> nat \<Rightarrow> search_entry list" where
  "page_at s i = index_pages ! s ! i"

lemma index_pages_checked:
  "list_all2 (list_all2 page_ok) indexSectionsWithContent index_pages"
  unfolding indexSectionsWithContent_def index_pages_def by (simp add: js_def index_pages_ok)

lemma index_pages_distinct: "list_all (list_all (\<lambda>data. distinct (map entry_id data))) index_pages"
  unfolding index_pages_def by (simp add: index_pages_ids)

lemma page_at_ok:
  assumes "s < 12" "i < length (indexSectionsWithContent ! s)"
  shows "page_ok (indexSectionsWithContent ! s ! i) (page_at s i)"
    "distinct (map entry_id (page_at s i))" "i < length (index_pages ! s)"
proof -
  have len: "length index_pages = 12"
    using list_all2_lengthD [OF index_pages_checked] by simp
  have sec: "list_all2 page_ok (indexSectionsWithContent ! s) (index_pages ! s)"
    using list_all2_nthD [OF index_pages_checked] assms(1) by simp
  show "page_ok (indexSectionsWithContent ! s ! i) (page_at s i)"
    using list_all2_nthD [OF sec assms(2)] by (simp add: page_at_def)
  show i: "i < length (index_pages ! s)" using list_all2_lengthD [OF sec] assms(2) by simp
  show "distinct (map entry_id (page_at s i))"
    using index_pages_distinct assms(1) i len by (simp add: list_all_length page_at_def)
qed

text \<open>
  C10. The index files of the repository fit the tables and the code: every section has a file
  for each of its characters and no other, every id in a file is the identifier of the
  lower-cased name, no file has an id twice, and every name in a file starts with the file's
  character in either case.
\<close>

theorem index_files_well_formed:
  "length index_pages = length indexSectionsWithContent \<and>
   (\<forall>s < length index_pages. length (index_pages ! s) = length (indexSectionsWithContent ! s) \<and>
      (\<forall>i < length (index_pages ! s).
         distinct (map entry_id (index_pages ! s ! i)) \<and>
         (\<forall>x \<in> set (index_pages ! s ! i).
            entry_id x = convertToId (map ascii_lower (entry_name x)) \<and>
            entry_name x \<noteq> [] \<and> ascii_lower (hd (entry_name x)) = indexSectionsWithContent ! s ! i)))"
proof -
  have len: "length index_pages = 12"
    using list_all2_lengthD [OF index_pages_checked] by simp
  have "length (index_pages ! s) = length (indexSectionsWithContent ! s)" if "s < 12" for s
    using list_all2_lengthD [OF list_all2_nthD [OF index_pages_checked, of s]] that by simp
  moreover have "distinct (map entry_id (index_pages ! s ! i)) \<and>
      (\<forall>x \<in> set (index_pages ! s ! i). entry_id x = convertToId (map ascii_lower (entry_name x)) \<and>
        entry_name x \<noteq> [] \<and> ascii_lower (hd (entry_name x)) = indexSectionsWithContent ! s ! i)"
    if "s < 12" "i < length (indexSectionsWithContent ! s)" for s i
    using page_at_ok [OF that]
    by (simp add: page_at_def page_ok_def index_ok_def under_char_def list_all_iff)
  ultimately show ?thesis using len by simp
qed

subsection \<open>Finding an entry\<close>

lemma strip_trailing_Cons:
  assumes "c \<noteq> 32"
  shows "\<exists>w. strip_trailing (c # r) = c # w"
proof -
  have "dropWhile (\<lambda>c. c = 32) (rev (c # r)) = dropWhile (\<lambda>c. c = 32) (rev r) @ [c]"
    using assms dropWhile_append3 [of "\<lambda>c. c = 32" c "rev r" "[]"] by simp
  then show ?thesis by (simp add: strip_trailing_def)
qed

lemma strip_leading_hd: "strip_leading v = c # r \<Longrightarrow> c \<noteq> 32"
  using hd_dropWhile [of "\<lambda>c. c = 32" v] by (simp add: strip_leading_def)

text \<open>
  C1. Every entry of the documentation's index can be found. Let the box have section \<open>s\<close>
  selected and an entry be on page \<open>i\<close> of the section. If the user types any nonempty prefix
  of its name, in any mixture of upper and lower case and with blanks around it, the search
  opens page \<open>i\<close>, and the page, when loaded at that address, has the entry's row on display.
\<close>

theorem every_entry_found:
  assumes "searchIndex st < 12" "i < length (indexSectionsWithContent ! searchIndex st)"
    "e < length (page_at (searchIndex st) i)"
    and typed: "ascii (field_value st)"
      "t = map ascii_lower (strip_trailing (strip_leading (field_value st)))" "t \<noteq> []"
      "prefix t (map ascii_lower (entry_name (page_at (searchIndex st) i ! e)))"
    and path: "63 \<notin> set (resultsPath st)" "35 \<notin> set (resultsPath st)"
  shows "prefix (resultsPath st @ js ''/'' @ indexSectionNames ! searchIndex st @ js ''_'' @
      toString16 i @ js ''.html'') (frame_location (snd (SearchBox.Search L U st))) \<and>
    (\<exists>res. load_results U (page_at (searchIndex st) i) (frame_location (snd (SearchBox.Search L U st))) = Inr res \<and>
      display_at (doc res) (row_path e) = ''block'')"
proof -
  let ?data = "page_at (searchIndex st) i"
  have page: "page_ok (indexSectionsWithContent ! searchIndex st ! i) ?data"
    by (rule page_at_ok(1) [OF assms(1,2)])
  obtain c r where v: "strip_leading (field_value st) = c # r"
    using typed(2,3) by (cases "strip_leading (field_value st)") (auto simp: strip_trailing_def)
  obtain w where "strip_trailing (c # r) = c # w" using strip_trailing_Cons strip_leading_hd [OF v] by blast
  then have t: "t = map ascii_lower (strip_trailing (c # r))" "hd t = ascii_lower c"
    using typed(2) v by simp_all
  have "entry_name (?data ! e) \<noteq> []"
    "ascii_lower (hd (entry_name (?data ! e))) = indexSectionsWithContent ! searchIndex st ! i"
    using page assms(3) by (simp_all add: page_ok_def under_char_def list_all_length)
  moreover have "hd t = hd (map ascii_lower (entry_name (?data ! e)))"
    using typed(3,4) by (cases t) (auto simp: prefix_def)
  ultimately have first: "indexSectionsWithContent ! searchIndex st ! i = ascii_lower c"
    using t(2) by (simp add: hd_map)
  have ok: "index_ok ?data" using page by (simp add: page_ok_def)
  note flow = search_flow [OF assms(1,2) typed(1) v first path ok t(1)]
  obtain res where "load_results U ?data (frame_location (snd (SearchBox.Search L U st))) = Inr res"
    "\<forall>e < length ?data. display_at (doc res) (row_path e) =
       (if prefix t (map ascii_lower (entry_name (?data ! e))) then ''block'' else ''none'')"
    using conjunct2 [OF flow] by blast
  then have "\<exists>res. load_results U ?data (frame_location (snd (SearchBox.Search L U st))) = Inr res \<and>
      display_at (doc res) (row_path e) = ''block''"
    using assms(3) typed(4) by simp
  then show ?thesis using conjunct1 [OF flow] by blast
qed

end
