(* ===== verification/BoxWitness.thy ===== *)
theory BoxWitness
  imports BoxCorrect
begin

text \<open>
  The properties of the search box on concrete runs: the documentation's page is loaded, the
  user clicks in the field and types. The layout is a flat page; the lower-casing is the
  identity outside ASCII, which does not matter for the text typed here.
\<close>

definition flat_layout :: layout where
  "flat_layout = \<lparr>lay_elem = (\<lambda>st x. Offset 100 20 5 7 (Some (Body 800 600))), lay_width = (\<lambda>st. 800)\<rparr>"

definition keep_lower :: unicode_lower where
  "keep_lower s = s"

definition start_page :: box_state where
  "start_page = snd (init_search flat_layout keep_lower (new_SearchBox (js ''search'') False (js ''Search'')))"

definition key_code :: "nat \<Rightarrow> key_event" where
  "key_code n = \<lparr>event_type = ''keyup'', keyCode = n, shiftKey = False\<rparr>"

definition typing :: "string \<Rightarrow> box_event list" where
  "typing s = [FieldFocus, Typed (js s), KeyUp (key_code 70)]"

definition typed_page :: "string \<Rightarrow> box_state" where
  "typed_page s = run_box flat_layout keep_lower (typing s) start_page"

lemma start_page_reachable: "box_reachable flat_layout keep_lower start_page"
  unfolding start_page_def by (rule box_reachable.page_loaded)

lemma start_page_fields:
  "field_value start_page = js ''Search''" "field_focused start_page = False"
  "searchLabel start_page = js ''Search''" "timers start_page = []" "next_timer start_page = 1"
  "keyTimeout start_page = 0" "keyTimeoutLength start_page = 500" "searchActive start_page = False"
  "frame_results start_page = None" "lastSearchValue start_page = []" "searchIndex start_page = 0"
  "popup_style start_page = no_style" "hideTimeout start_page = 0"
  by (simp_all add: start_page_def init_search_def OnSelectItem_def SelectItemSet_def new_SearchBox_def
      indexSectionLabels_def strip_spaces_def js_def Let_def)

lemma typed_page_eq:
  assumes "strip_spaces (js s) \<noteq> []"
  shows "typed_page s = start_page\<lparr>box_class := ''MSearchBoxActive'', searchActive := True,
    field_focused := True, field_value := js s, keyTimeout := 1, next_timer := 2,
    timers := [(1, CallSearch, 500)]\<rparr>"
  using assms
  by (simp add: typed_page_def typing_def start_page_fields focus_field_def OnSearchFieldFocus_def
      Activate_def OnSearchFieldChange_def key_code_def field_changed_def stop_key_timer_def
      setTimeout_def Let_def)

lemma typed_page_reachable: "box_reachable flat_layout keep_lower (typed_page s)"
  unfolding typed_page_def
  by (rule run_box_reachable [OF start_page_reachable])
    (simp add: typing_def start_page_fields focus_field_def OnSearchFieldFocus_def Activate_def Let_def)

lemma typed_hf: "strip_spaces (js ''hf'') \<noteq> []"
  by (simp add: strip_spaces_def js_def)

theorem box_reachable_invariant_witness:
  "distinct (map fst (timers (typed_page ''hf''))) \<and> marks (typed_page ''hf'') = mark_list 0 12 \<and>
   (keyTimeout (typed_page ''hf''), CallSearch, 500) \<in> set (timers (typed_page ''hf''))"
  using box_reachable_invariant [OF typed_page_reachable [of "''hf''"]]
  by (simp add: typed_page_eq [OF typed_hf] start_page_fields)

lemma index_char_hf: "index_char keep_lower (js ''hf'') = [104]"
  by (simp add: index_char_def toLowerCase_def js_def ascii_lower_def)

lemma toString16_8: "toString16 8 = js ''8''"
  by (simp add: toString16_def toString_base_small digit_unit_def js_def)

theorem Search_opens_page_witness:
  "frame_location (snd (Search flat_layout keep_lower (typed_page ''hf''))) = js ''search/all_8.html?hf''"
proof -
  have v: "strip_leading (field_value (typed_page ''hf'')) = js ''hf''"
    by (simp add: typed_page_eq [OF typed_hf] strip_leading_def js_def)
  have s: "searchIndex (typed_page ''hf'') = 0" "resultsPath (typed_page ''hf'') = js ''search''"
    by (simp_all add: typed_page_eq [OF typed_hf] start_page_fields)
      (simp add: start_page_def init_search_def OnSelectItem_def SelectItemSet_def new_SearchBox_def
        indexSectionLabels_def Let_def)
  have "8 < length (indexSectionsWithContent ! 0)" "indexSectionsWithContent ! 0 ! 8 = 104"
    by (simp_all add: indexSectionsWithContent_def js_def)
  then have "frame_location (snd (Search flat_layout keep_lower (typed_page ''hf''))) =
      js ''search'' @ js ''/'' @ indexSectionNames ! 0 @ js ''_'' @ toString16 8 @ js ''.html?'' @ escape (js ''hf'')"
    using Search_opens_page [of "typed_page ''hf''" "js ''hf''" keep_lower 104 flat_layout] v s index_char_hf
    by simp
  also have "\<dots> = js ''search/all_8.html?hf''"
    by (simp add: indexSectionNames_def toString16_8 escape_def escape_unit_def unreserved_def js_def)
  finally show ?thesis .
qed

theorem surrogate_branch_dead_witness:
  "index_char keep_lower [0xD83D, 0xDE00] = [0xD83D]"
proof -
  have "s \<noteq> [] \<and> high_surrogate (hd s)"
    if lower: "toLowerCase keep_lower s \<noteq> []" and high: "high_surrogate (hd (toLowerCase keep_lower s))" for s
  proof (cases "ascii s")
    case True
    then obtain c t where "s = c # t" "c < 128"
      using lower by (cases s) (auto simp: toLowerCase_def)
    then have "hd (toLowerCase keep_lower s) < 128"
      using True by (simp add: toLowerCase_ascii)
    then show ?thesis using high by (simp add: high_surrogate_def word_less_nat_alt word_le_nat_alt)
  qed (use lower high in \<open>simp add: toLowerCase_def keep_lower_def\<close>)
  then have "index_char keep_lower [0xD83D, 0xDE00] = toLowerCase keep_lower (take 1 [0xD83D, 0xDE00])"
    by (rule surrogate_branch_dead)
  then show ?thesis by (simp add: toLowerCase_def keep_lower_def)
qed

subsection \<open>Walking past the last section\<close>

lemma down_step:
  assumes "box_inv st" "\<not> searchActive st" "searchIndex st < 12"
  shows "OnSearchSelectKey L U (key_code 40) st =
    (None, SelectItemSet (Suc (searchIndex st)) (st\<lparr>searchIndex := Suc (searchIndex st)\<rparr>))"
proof -
  have "SelectItemCount st = 12" using assms(1) by (simp add: box_inv_def menu_ok_count)
  then show ?thesis
    using assms(2,3) by (simp add: OnSearchSelectKey_def key_code_def OnSelectItem_def SelectItemSet_def Let_def)
qed

definition walked :: "nat \<Rightarrow> box_state" where
  "walked n = run_box flat_layout keep_lower (replicate n (MenuKey (key_code 40))) start_page"

lemma run_box_append: "run_box L U (es @ fs) st = run_box L U fs (run_box L U es st)"
  by (induction es arbitrary: st) simp_all

lemma walked_fields:
  "n \<le> 12 \<Longrightarrow> box_reachable flat_layout keep_lower (walked n) \<and> \<not> searchActive (walked n) \<and>
     searchIndex (walked n) = n \<and> field_value (walked n) = js ''Search'' \<and>
     searchLabel (walked n) = js ''Search'' \<and> field_focused (walked n) = False"
proof (induction n)
  case 0
  show ?case by (simp add: walked_def start_page_fields start_page_reachable)
next
  case (Suc n)
  have step: "walked (Suc n) = snd (handle flat_layout keep_lower (MenuKey (key_code 40)) (walked n))"
    unfolding walked_def replicate_Suc replicate_append_same [symmetric] by (simp add: run_box_append)
  have IH: "box_reachable flat_layout keep_lower (walked n)" "\<not> searchActive (walked n)"
    "searchIndex (walked n) < 12" using Suc by simp_all
  have "OnSearchSelectKey flat_layout keep_lower (key_code 40) (walked n) =
      (None, SelectItemSet (Suc n) ((walked n)\<lparr>searchIndex := Suc n\<rparr>))"
    using down_step [OF reachable_inv [OF IH(1)] IH(2,3)] Suc by simp
  then have "walked (Suc n) = SelectItemSet (Suc n) ((walked n)\<lparr>searchIndex := Suc n\<rparr>)"
    using step by simp
  moreover have "box_reachable flat_layout keep_lower (walked (Suc n))"
    unfolding step by (rule box_reachable.event [OF IH(1)]) simp
  ultimately show ?case using Suc by (simp add: SelectItemSet_def)
qed

definition last_section :: box_state where
  "last_section = run_box flat_layout keep_lower [FieldFocus, Typed (js ''a'')] (walked 11)"

lemma last_section_reachable: "box_reachable flat_layout keep_lower last_section"
  unfolding last_section_def
  by (rule run_box_reachable) (simp_all add: walked_fields focus_field_def OnSearchFieldFocus_def Activate_def Let_def)

lemma last_section_fields:
  "searchIndex last_section = 11" "searchActive last_section" "field_value last_section = js ''a''"
  by (simp_all add: last_section_def walked_fields focus_field_def OnSearchFieldFocus_def Activate_def Let_def)

lemma typed_a: "strip_spaces (js ''a'') \<noteq> []"
  by (simp add: strip_spaces_def js_def)

theorem down_key_past_last_witness:
  "fst (OnSearchSelectKey flat_layout keep_lower (key_code 40) last_section) = Some TypeError \<and>
   searchIndex (snd (OnSearchSelectKey flat_layout keep_lower (key_code 40) last_section)) = 12"
  using down_key_past_last [OF last_section_reachable last_section_fields(1), of "key_code 40"]
    last_section_fields(2,3) typed_a
  by (simp add: key_code_def)

theorem handler_error_section_witness:
  "fst (handle flat_layout keep_lower (MenuKey (key_code 40)) last_section) = Some TypeError \<and>
   searchIndex (snd (handle flat_layout keep_lower (MenuKey (key_code 40)) last_section)) = 12"
proof (rule handler_error_section)
  have "SelectItemCount last_section = 12"
    using reachable_inv [OF last_section_reachable] by (simp add: box_inv_def menu_ok_count)
  then have "OnSearchSelectKey flat_layout keep_lower (key_code 40) last_section =
      OnSelectItem flat_layout keep_lower 12 last_section"
    by (simp add: OnSearchSelectKey_def key_code_def last_section_fields OnSelectItem_index)
  then show "fst (handle flat_layout keep_lower (MenuKey (key_code 40)) last_section) \<noteq> None"
    using OnSelectItem_error [of flat_layout keep_lower 12 last_section] last_section_fields typed_a by simp
qed (simp_all add: last_section_reachable)

subsection \<open>Timers\<close>





theorem section_change_orphans_search_witness:
  "let st1 = snd (OnSelectItem flat_layout keep_lower 3 (typed_page ''hf''));
       st2 = snd (OnSearchFieldChange flat_layout (key_code 70) (st1\<lparr>field_value := js ''hfr''\<rparr>)) in
   keyTimeout st1 = 0 \<and> searches st1 = [(1, CallSearch, 500)] \<and> length (searches st2) = 2"
proof -
  have "strip_spaces (js ''hfr'') \<notin> {[], strip_leading (js ''hf'')}"
    by (simp add: strip_spaces_def strip_leading_def js_def)
  then show ?thesis
    using section_change_orphans_search [OF typed_page_reachable [of "''hf''"], of 3 "key_code 70" "js ''hfr''"] typed_hf
    by (simp add: typed_page_eq [OF typed_hf] plain_key_def key_code_def Let_def searches_def)
qed

theorem blur_then_search_label_witness:
  "field_value (run_box flat_layout keep_lower [FieldBlur, TimerFires 1] (typed_page ''hf'')) = js ''Search'' \<and>
   lastSearchValue (run_box flat_layout keep_lower [FieldBlur, TimerFires 1] (typed_page ''hf'')) = js ''Search'' \<and>
   css_display (popup_style (run_box flat_layout keep_lower [FieldBlur, TimerFires 1] (typed_page ''hf''))) = ''block''"
proof -
  have "strip_leading (js ''Search'') = js ''Search''" by (simp add: strip_leading_def js_def)
  moreover have "field_focused (typed_page ''hf'')" "css_display (popup_style (typed_page ''hf'')) \<noteq> ''block''"
    "(1, CallSearch, 500) \<in> set (timers (typed_page ''hf''))" "searchIndex (typed_page ''hf'') < 12"
    "searchLabel (typed_page ''hf'') = js ''Search''"
    by (simp_all add: typed_page_eq [OF typed_hf] start_page_fields no_style_def)
  ultimately show ?thesis
    using blur_then_search_label [OF typed_page_reachable [of "''hf''"], of 1 500]
    by (simp add: Let_def)
qed

theorem unchanged_text_searched_again_witness:
  "keyTimeout (snd (OnSearchFieldChange flat_layout (key_code 37)
     (snd (Search flat_layout keep_lower (typed_page ''hex view''))))) \<noteq> 0"
proof -
  have nonempty: "strip_spaces (js ''hex view'') \<noteq> []" by (simp add: strip_spaces_def js_def)
  have "32 \<in> set (strip_leading (field_value (typed_page ''hex view'')))"
    by (simp add: typed_page_eq [OF nonempty] strip_leading_def js_def)
  moreover have "searchIndex (typed_page ''hex view'') < 12"
    by (simp add: typed_page_eq [OF nonempty] start_page_fields)
  ultimately show ?thesis
    using unchanged_text_searched_again [OF typed_page_reachable, of "''hex view''" "key_code 37"]
    by (simp add: plain_key_def key_code_def)
qed

theorem typing_leads_to_search_witness:
  "lastSearchValue (run_box flat_layout keep_lower
     [Typed (js ''hfr''), KeyUp (key_code 70), TimerFires 2] (typed_page ''hf'')) = js ''hfr''"
proof -
  have v: "strip_spaces (js ''hfr'') \<noteq> []" "strip_leading (js ''hfr'') = js ''hfr''"
    by (simp_all add: strip_spaces_def strip_leading_def js_def)
  have st: "field_focused (typed_page ''hf'')" "searchIndex (typed_page ''hf'') < 12"
    "lastSearchValue (typed_page ''hf'') = []" "next_timer (typed_page ''hf'') = 2"
    by (simp_all add: typed_page_eq [OF typed_hf] start_page_fields)
  have "strip_spaces (js ''hfr'') \<notin> {[], lastSearchValue (typed_page ''hf'')}" using v st by simp
  moreover have "plain_key (key_code 70)" by (simp add: plain_key_def key_code_def)
  ultimately show ?thesis
    using typing_leads_to_search [OF typed_page_reachable st(1,2) _ _ refl] v(2) unfolding st(4) by simp
qed

end
