(* ===== verification/ResultsWitness.thy ===== *)
theory ResultsWitness
  imports NavCorrect
begin

text \<open>
  The properties of the results page on a small index of three entries, two of them with
  children. In \<open>demo_doc\<close> the first and the last row are on display, as after a search for
  ``ab'', and the children of the first row are shown.
\<close>

definition demo_entry :: "string \<Rightarrow> (jsstring \<times> bool \<times> jsstring) list \<Rightarrow> search_entry" where
  "demo_entry nm links =
     \<lparr>entry_id = convertToId (map ascii_lower (js nm)), entry_name = js nm, entry_links = links\<rparr>"

definition demo_links :: "(jsstring \<times> bool \<times> jsstring) list" where
  "demo_links = [(js ''../x.html'', True, js ''X''), (js ''../y.html'', True, js ''Y'')]"

definition demo_index :: "search_entry list" where
  "demo_index = [demo_entry ''ABc'' demo_links, demo_entry ''b_1'' demo_links,
     demo_entry ''abd'' (take 1 demo_links)]"

definition demo_doc :: dom where
  "demo_doc = set_display (set_display (set_display (results_doc (rows_from 0 demo_index))
     (row_path 0) ''block'') (row_path 2) ''block'') (children_path 0) ''block''"

definition demo :: results_state where
  "demo = new_results demo_doc"

lemma demo_index_ok: "index_ok demo_index"
  by (simp add: index_ok_def demo_index_def demo_entry_def js_def)

lemma demo_length [simp]: "length demo_index = 3"
  by (simp add: demo_index_def)

lemma demo_distinct: "distinct (map entry_id demo_index)"
  by (simp add: demo_index_def demo_entry_def id_eq)
    (simp add: js_def ascii_lower_def)

lemma demo_page: "results_page demo_index (doc demo)"
  by (simp add: results_page_def demo_def demo_doc_def new_results_def)

lemma demo_nth: "demo_index ! 0 = demo_entry ''ABc'' demo_links"
  "demo_index ! Suc 0 = demo_entry ''b_1'' demo_links"
  "demo_index ! 2 = demo_entry ''abd'' (take 1 demo_links)"
  by (simp_all add: demo_index_def)

lemma demo_valid:
  "dom_at (results_doc (rows_from 0 demo_index)) (row_path 0) \<noteq> None"
  "dom_at (results_doc (rows_from 0 demo_index)) (row_path 2) \<noteq> None"
  "dom_at (results_doc (rows_from 0 demo_index)) (children_path 0) \<noteq> None"
proof -
  have page: "results_page demo_index (results_doc (rows_from 0 demo_index))" by (simp add: results_page_def)
  show "dom_at (results_doc (rows_from 0 demo_index)) (row_path 0) \<noteq> None"
    "dom_at (results_doc (rows_from 0 demo_index)) (row_path 2) \<noteq> None"
    using row_data [OF page, of 0] row_data [OF page, of 2] by auto
  show "dom_at (results_doc (rows_from 0 demo_index)) (children_path 0) \<noteq> None"
    by (rule children_valid [OF page]) (simp_all add: demo_nth demo_entry_def demo_links_def has_children_def)
qed

lemma set_display_three:
  assumes "dom_at d p \<noteq> None" "dom_at d q \<noteq> None" "dom_at d r \<noteq> None" "p \<noteq> q" "p \<noteq> r" "q \<noteq> r"
  shows "display_at (set_display (set_display (set_display d p x) q y) r z) p = x"
    "display_at (set_display (set_display (set_display d p x) q y) r z) q = y"
    "display_at (set_display (set_display (set_display d p x) q y) r z) r = z"
  using assms by (simp_all add: set_display_at set_display_valid)

lemma demo_display:
  "display_at (doc demo) (row_path 0) = ''block''" "display_at (doc demo) (row_path 2) = ''block''"
  "display_at (doc demo) (children_path 0) = ''block''"
proof -
  have "row_path 0 \<noteq> row_path 2" "row_path 0 \<noteq> children_path 0" "row_path 2 \<noteq> children_path 0"
    by (simp_all add: row_path_def children_path_def)
  note three = set_display_three [OF demo_valid this]
  show "display_at (doc demo) (row_path 0) = ''block''" "display_at (doc demo) (row_path 2) = ''block''"
    "display_at (doc demo) (children_path 0) = ''block''"
    by (simp_all add: demo_def new_results_def demo_doc_def three)
qed

lemma demo_row_hidden: "\<not> row_shown (doc demo) 1"
proof -
  have page: "results_page demo_index (results_doc (rows_from 0 demo_index))" by (simp add: results_page_def)
  have "dom_at (results_doc (rows_from 0 demo_index)) (row_path 1) = Some (create_row 1 (demo_index ! 1))"
    by (simp add: results_doc_def row_path_def nth_rows_from)
  then have "display_at (results_doc (rows_from 0 demo_index)) (row_path 1) = []"
    using create_row_shape [of 1 "demo_index ! 1"] by (auto simp: display_at_def)
  then show ?thesis
    by (simp add: row_shown_def demo_def new_results_def demo_doc_def set_display_at row_path_def
        children_path_def)
qed

lemma demo_shown: "row_shown (doc demo) 0" "row_shown (doc demo) 2" "\<not> row_shown (doc demo) (Suc 0)"
  "children_shown (doc demo) demo_index 0" "has_children (demo_index ! 0)" "has_children (demo_index ! Suc 0)"
  "\<not> has_children (demo_index ! 2)" "length (entry_links (demo_index ! 0)) = 2"
  "length (entry_links (demo_index ! Suc 0)) = 2"
  using demo_display demo_row_hidden
  by (simp_all add: row_shown_def children_shown_def demo_nth demo_entry_def demo_links_def has_children_def)

lemma upt_small: "[0..<2] = [0, Suc 0]" "[0..<3] = [0, Suc 0, 2]" "[Suc 0..<3] = [Suc 0, 2]" "[0..<Suc 0] = [0]"
  by (simp_all add: upt_rec)

lemma demo_search_text: "search_text id loc (Some (js '' AB '')) = js ''ab''"
  by (simp add: search_text_def strip_leading_def strip_trailing_def toLowerCase_def js_def ascii_lower_def)

lemma demo_selected: "selected (js ''ab'') (demo_index ! 0)" "\<not> selected (js ''ab'') (demo_index ! Suc 0)"
  "selected (js ''ab'') (demo_index ! 2)"
  by (simp_all add: selected_def demo_nth demo_entry_def js_def ascii_lower_def)

theorem Search_shows_matches_witness:
  "\<exists>st'. Search id [] (Some (js '' AB '')) demo = Inr (True, st') \<and> lastMatchCount st' = 2 \<and>
     display_at (doc st') (row_path 0) = ''block'' \<and> display_at (doc st') (row_path 1) = ''none'' \<and>
     display_at (doc st') (row_path 2) = ''block'' \<and> display_at (doc st') [0, 3] = ''none''"
proof -
  have "length (filter (selected (js ''ab'')) demo_index) = 2" "list_ex (selected (js ''ab'')) demo_index"
    using demo_selected by (simp_all add: demo_index_def)
  then show ?thesis
    using Search_shows_matches [OF demo_page demo_index_ok demo_search_text [symmetric], of "[]"] demo_selected
    by fastforce
qed

theorem query_roundtrip_witness:
  "search_text id (js ''all_8.html'' @ js ''?'' @ escape (js ''Hex View%41'')) None =
     search_text id [] (Some (js ''Hex View%41''))"
  by (rule query_roundtrip) (simp_all add: js_def)

theorem scans_find_visible_row_witness:
  "NavNext (doc demo) 1 = Some (item_path 2) \<and> NavPrev (doc demo) 0 = Some (item_path 0)"
  using scans_find_visible_row [OF demo_page, of 1] demo_shown by (simp add: upt_small)

theorem key_cycle_witness:
  "fst (run_keys [key ''keydown'' 40, key ''keypress'' 40, key ''keypress'' 40, key ''keyup'' 40] demo) =
     [True, False, True, False]"
  using key_cycle [of 40 2 demo] by (simp add: numeral_2_eq_2)

theorem nav_down_focus_witness:
  "nav_down 0 demo = Inr (False, demo, [FocusElement (children_path 0 @ [0])])"
proof -
  have "entry_links (demo_index ! 0) \<noteq> []" using demo_shown(8) by auto
  then show ?thesis
    using nav_down_focus [OF demo_page demo_distinct, of 0] demo_shown by (simp add: focus_option_def)
qed

theorem nav_up_focus_witness:
  "nav_up 1 demo = Inr (False, demo, [FocusElement (children_path 0 @ [1])])"
proof -
  have "entry_links (demo_index ! 0) \<noteq> []" using demo_shown(8) by auto
  moreover have "List.find (row_shown (doc demo)) (rev [0..<1]) = Some 0"
    using demo_shown(1) by (simp add: upt_small)
  ultimately show ?thesis
    using nav_up_focus [OF demo_page demo_distinct, of 1] demo_shown(4,8)
    by (simp add: children_shown_def)
qed

theorem nav_up_into_hidden_row_witness:
  "\<not> row_shown (doc demo) 1 \<and>
   nav_up 2 demo = Inr (False, demo, [FocusElement (children_path 1 @ [1])])"
proof -
  have "entry_links (demo_index ! Suc 0) \<noteq> []" using demo_shown(9) by auto
  then show ?thesis
    using nav_up_into_hidden_row [OF demo_page demo_distinct, of 1 0] demo_shown by (simp add: upt_rec)
qed

theorem Nav_safe_witness:
  "safe_outcome demo_index (Nav (key ''keydown'' 38) 2 demo) \<and>
   safe_outcome demo_index (NavChild (key ''keydown'' 40) 0 1 demo)"
  using Nav_safe [OF demo_page demo_distinct, of 2] Nav_safe [OF demo_page demo_distinct, of 0] demo_shown
  by simp

theorem Toggle_flips_children_witness:
  "\<exists>st'. Toggle (js ''SR_'' @ entry_id (demo_index ! 0)) demo = Inr st' \<and>
     display_at (doc st') (children_path 0) = ''none'' \<and> display_at (doc st') (row_path 0) = ''block''"
proof -
  have "row_path 0 \<noteq> children_path 0" by (simp add: row_path_def children_path_def)
  then show ?thesis
    using Toggle_flips_children [OF demo_page demo_distinct, of 0] demo_shown demo_display by auto
qed

subsection \<open>Moving through the page\<close>

text \<open>The same page with the children of the first row hidden again.\<close>

definition demo_closed :: results_state where
  "demo_closed = demo\<lparr>doc := set_display (doc demo) (children_path 0) ''none''\<rparr>"

lemma demo_closed_page: "results_page demo_index (doc demo_closed)"
  using demo_page by (simp add: demo_closed_def results_page_def)

lemma demo_closed_display:
  "display_at (doc demo_closed) p = (if p = children_path 0 then ''none'' else display_at (doc demo) p)"
proof -
  have "dom_at (doc demo) (children_path 0) \<noteq> None"
    by (rule children_valid [OF demo_page]) (simp_all add: demo_shown)
  then show ?thesis by (auto simp: demo_closed_def set_display_at)
qed

lemma demo_closed_children: "no_children_shown demo_index (doc demo_closed)"
proof -
  have "display_at (results_doc (rows_from 0 demo_index)) (children_path 1) \<noteq> ''block''"
  proof -
    have "dom_at (results_doc (rows_from 0 demo_index)) (row_path 1) = Some (create_row 1 (demo_index ! 1))"
      by (simp add: results_doc_def row_path_def nth_rows_from)
    moreover have "row_extra 1 (demo_index ! 1) = Node d ks \<Longrightarrow> display d \<noteq> ''block''" for d ks
      using row_extra_many [of "demo_index ! 1" 1] demo_shown(9) by auto
    ultimately show ?thesis
      using create_row_shape [of 1 "demo_index ! 1"]
      by (cases "row_extra 1 (demo_index ! 1)") (auto simp: display_at_def children_path_def dom_at_append)
  qed
  then have "display_at (doc demo) (children_path 1) \<noteq> ''block''"
    by (simp add: demo_def new_results_def demo_doc_def set_display_at children_path_def row_path_def)
  then have "\<not> children_shown (doc demo_closed) demo_index e" if "e < 3" for e
  proof -
    have "e = 0 \<or> e = Suc 0 \<or> e = 2" using that by linarith
    then show ?thesis
      using \<open>display_at (doc demo) (children_path 1) \<noteq> ''block''\<close> demo_shown(7)
      by (auto simp: children_shown_def demo_closed_display)
  qed
  then show ?thesis by (simp add: no_children_shown_def)
qed

lemma demo_closed_shown:
  "row_shown (doc demo_closed) 0" "\<not> row_shown (doc demo_closed) (Suc 0)" "row_shown (doc demo_closed) 2"
proof -
  have "row_path e \<noteq> children_path 0" for e by (simp add: row_path_def children_path_def)
  then show "row_shown (doc demo_closed) 0" "\<not> row_shown (doc demo_closed) (Suc 0)" "row_shown (doc demo_closed) 2"
    using demo_shown(1,2,3) by (simp_all add: row_shown_def demo_closed_display)
qed

theorem NavChild_moves_witness:
  "NavChild (key ''keydown'' 38) 0 1 demo =
     Inr (False, demo\<lparr>repeatOn := False, lastKey := 38\<rparr>, [FocusElement (children_path 0 @ [0])]) \<and>
   NavChild (key ''keydown'' 40) 0 1 demo =
     Inr (False, demo\<lparr>repeatOn := False, lastKey := 40\<rparr>, [FocusElement (item_path 2)])"
  using NavChild_moves [OF demo_page, of 0 1] demo_shown by (simp add: focus_option_def upt_small)

theorem down_arrow_visits_rows_witness:
  "walk_down 3 demo_closed (Some 0) = [0, 2]"
  using down_arrow_visits_rows [OF demo_closed_page demo_distinct demo_closed_children] demo_closed_shown
  by (simp add: upt_small)

theorem up_undoes_down_witness:
  "nav_down 0 demo_closed = Inr (False, demo_closed, [FocusElement (item_path 2)]) \<and>
   nav_up 2 demo_closed = Inr (False, demo_closed, [FocusElement (item_path 0)])"
proof -
  have "next_row demo_closed 0 = Some 2"
    using next_row_find [OF demo_closed_page demo_distinct _ demo_closed_children, of 0] demo_closed_shown
    by (simp add: upt_small)
  from up_undoes_down [OF demo_closed_page demo_distinct demo_closed_children _ _ this] show ?thesis
    using demo_closed_shown(1) by simp
qed

end
