(* ===== verification/FlowWitness.thy ===== *)
theory FlowWitness
  imports SearchSite BoxWitness ResultsWitness
begin

text \<open>
  A text typed in the box, from the field to the rows of the page it opens, on the small index
  and on the index of the repository.
\<close>

lemma start_page_path: "resultsPath start_page = js ''search''"
  by (simp add: start_page_def init_search_def OnSelectItem_def SelectItemSet_def new_SearchBox_def
      indexSectionLabels_def Let_def)

theorem typed_text_shows_matches_witness:
  "\<exists>res. load_results keep_lower demo_index
       (frame_location (snd (SearchBox.Search flat_layout keep_lower (typed_page '' AB '')))) = Inr res \<and>
     lastMatchCount res = 2 \<and> display_at (doc res) (row_path 0) = ''block'' \<and>
     display_at (doc res) (row_path 1) = ''none'' \<and> display_at (doc res) (row_path 2) = ''block''"
proof -
  have nonempty: "strip_spaces (js '' AB '') \<noteq> []" by (simp add: strip_spaces_def js_def)
  define st where "st = typed_page '' AB ''"
  have st: "searchIndex st = 0" "field_value st = js '' AB ''" "resultsPath st = js ''search''"
    by (simp_all add: st_def typed_page_eq [OF nonempty] start_page_fields start_page_path)
  have c: "1 < length (indexSectionsWithContent ! searchIndex st)"
    "indexSectionsWithContent ! searchIndex st ! 1 = ascii_lower 65"
    by (simp_all add: st indexSectionsWithContent_def js_def ascii_lower_def)
  have s: "strip_leading (field_value st) = 65 # [66, 32]" "ascii (field_value st)"
    "63 \<notin> set (resultsPath st)" "35 \<notin> set (resultsPath st)"
    by (simp_all add: st strip_leading_def js_def)
  have t: "js ''ab'' = map ascii_lower (strip_trailing (65 # [66, 32]))"
    by (simp add: strip_trailing_def ascii_lower_def js_def)
  have sel: "prefix (js ''ab'') (map ascii_lower (entry_name (demo_index ! 0)))"
    "\<not> prefix (js ''ab'') (map ascii_lower (entry_name (demo_index ! 1)))"
    "prefix (js ''ab'') (map ascii_lower (entry_name (demo_index ! 2)))"
    using demo_selected by (simp_all add: selected_def)
  moreover have "length (filter (\<lambda>x. prefix (js ''ab'') (map ascii_lower (entry_name x))) demo_index) = 2"
    using demo_selected by (simp add: demo_index_def selected_def)
  moreover have "searchIndex st < 12" by (simp add: st)
  ultimately show ?thesis
    using typed_text_shows_matches [OF _ c(1) s(2,1) c(2) s(3,4) demo_index_ok t, of flat_layout keep_lower]
    unfolding st_def [symmetric] by fastforce
qed

lemma page_at_all_h: "page_at 0 8 = index_all_8"
  by (simp add: page_at_def index_pages_def)

lemma all_h_141: "entry_name (index_all_8 ! 141) = js ''HexFiend.framework''" "141 < length index_all_8"
  by (simp_all add: index_all_8_def entry_def)

theorem every_entry_found_witness:
  "\<exists>res. load_results keep_lower index_all_8
       (frame_location (snd (SearchBox.Search flat_layout keep_lower (typed_page '' hexFIEND.fr '')))) = Inr res \<and>
     display_at (doc res) (row_path 141) = ''block''"
proof -
  have nonempty: "strip_spaces (js '' hexFIEND.fr '') \<noteq> []" by (simp add: strip_spaces_def js_def)
  define st where "st = typed_page '' hexFIEND.fr ''"
  have st: "searchIndex st = 0" "field_value st = js '' hexFIEND.fr ''" "resultsPath st = js ''search''"
    by (simp_all add: st_def typed_page_eq [OF nonempty] start_page_fields start_page_path)
  have page: "page_at (searchIndex st) 8 = index_all_8" by (simp add: st page_at_all_h)
  have i: "searchIndex st < 12" "8 < length (indexSectionsWithContent ! searchIndex st)"
    by (simp_all add: st indexSectionsWithContent_def js_def)
  have t: "js ''hexfiend.fr'' = map ascii_lower (strip_trailing (strip_leading (field_value st)))"
    by (simp add: st strip_trailing_def strip_leading_def ascii_lower_def js_def)
  have "prefix (js ''hexfiend.fr'') (map ascii_lower (js ''HexFiend.framework''))"
    by (simp add: js_def ascii_lower_def)
  then have pre: "prefix (js ''hexfiend.fr'') (map ascii_lower (entry_name (page_at (searchIndex st) 8 ! 141)))"
    by (simp only: page all_h_141)
  have e: "141 < length (page_at (searchIndex st) 8)" by (simp only: page all_h_141)
  have s: "ascii (field_value st)" "js ''hexfiend.fr'' \<noteq> []" "63 \<notin> set (resultsPath st)" "35 \<notin> set (resultsPath st)"
    by (simp_all add: st js_def)
  from every_entry_found [OF i e s(1) t s(2) pre s(3,4)] show ?thesis
    unfolding page st_def [symmetric] by blast
qed

theorem index_files_well_formed_witness:
  "entry_id (index_all_8 ! 141) = convertToId (js ''hexfiend.framework'') \<and>
   distinct (map entry_id index_all_8)"
proof -
  have page: "index_pages ! 0 ! 8 = index_all_8" using page_at_all_h by (simp add: page_at_def)
  have sizes: "0 < length index_pages" "8 < length (index_pages ! 0)"
    using page_at_ok(3) [of 0 8] by (simp_all add: index_pages_def indexSectionsWithContent_def js_def)
  have "index_all_8 ! 141 \<in> set (index_pages ! 0 ! 8)"
    unfolding page using all_h_141(2) by (rule nth_mem)
  moreover have "map ascii_lower (js ''HexFiend.framework'') = js ''hexfiend.framework''"
    by (simp add: js_def ascii_lower_def)
  ultimately show ?thesis
    using index_files_well_formed sizes all_h_141(1) unfolding page [symmetric] by (metis (no_types, lifting))
qed

end
