(* ===== verification/DynSections.thy ===== *)
theory DynSections
  imports JsString
begin

text \<open>
  \<open>docs/docs/dynsections.js\<close>: the collapsible parts of a documentation page. The rows of a
  directory table (\<open>hierarchy.html\<close>, \<open>files.html\<close>) are a list in document order; a row keeps
  its id, whether it is displayed, its stripe, the class of its folder icon and the direction
  of its arrow, when it has them. jQuery's selections are filters over the list; an element of
  the table is visible when its row is displayed. The sections that \<open>toggleVisibility\<close> and
  \<open>toggleInherit\<close> open and close are records of the elements they write.
\<close>

subsection \<open>The rows of a directory\<close>

datatype folder_icon = Iconfopen | Iconfclosed

datatype arrow = ArrowDown | ArrowRight

record dir_row =
  dr_id :: jsstring
  dr_shown :: bool
  dr_even :: bool
  dr_icon :: "folder_icon option"
  dr_arrow :: "arrow option"

text \<open>Removing both icon classes and adding one; replacing the text of the arrow.\<close>

definition mark_row :: "folder_icon \<Rightarrow> arrow \<Rightarrow> dir_row \<Rightarrow> dir_row" where
  "mark_row i a r =
     r\<lparr>dr_icon := map_option (\<lambda>_. i) (dr_icon r), dr_arrow := map_option (\<lambda>_. a) (dr_arrow r)\<rparr>"

text \<open>\<open>filter(':visible:even')\<close> numbers the visible rows from 0.\<close>

fun stripe :: "nat \<Rightarrow> dir_row list \<Rightarrow> dir_row list" where
  "stripe n [] = []"
| "stripe n (r # rs) =
     (if dr_shown r then r\<lparr>dr_even := even n\<rparr> # stripe (Suc n) rs
      else r\<lparr>dr_even := False\<rparr> # stripe n rs)"

definition updateStripes :: "dir_row list \<Rightarrow> dir_row list" where
  "updateStripes rows = stripe 0 rows"

definition toggle_level_row :: "nat \<Rightarrow> dir_row \<Rightarrow> dir_row" where
  "toggle_level_row level r =
     (let l = count_list (dr_id r) 95 in
      if l < level + 1 then (mark_row Iconfopen ArrowDown r)\<lparr>dr_shown := True\<rparr>
      else if l = level + 1 then (mark_row Iconfclosed ArrowRight r)\<lparr>dr_shown := True\<rparr>
      else r\<lparr>dr_shown := False\<rparr>)"

definition toggleLevel :: "nat \<Rightarrow> dir_row list \<Rightarrow> dir_row list" where
  "toggleLevel level rows = updateStripes (map (toggle_level_row level) rows)"

text \<open>
  \<open>id.match(new RegExp('^row_'+id+'\\d+_$', "i"))\<close> for an id without regular expression
  operators: the prefix in any case, at least one digit, one underscore, the end.
\<close>

definition matches_child :: "jsstring \<Rightarrow> jsstring \<Rightarrow> bool" where
  "matches_child i rid =
     (let p = js ''row_'' @ i; r = drop (length p) rid; ds = takeWhile is_digit r in
      prefix (map ascii_lower p) (map ascii_lower rid) \<and> ds \<noteq> [] \<and> drop (length ds) r = [95])"

text \<open>
  The span of a row with class \<open>iconfopen\<close> becomes \<open>iconfclosed\<close> (or the reverse), and its
  span with class \<open>arrow\<close> gets the other arrow.
\<close>

definition close_row :: "dir_row \<Rightarrow> dir_row" where
  "close_row r =
     r\<lparr>dr_icon := (if dr_icon r = Some Iconfopen then Some Iconfclosed else dr_icon r),
       dr_arrow := map_option (\<lambda>_. ArrowRight) (dr_arrow r)\<rparr>"

definition open_row :: "dir_row \<Rightarrow> dir_row" where
  "open_row r =
     r\<lparr>dr_icon := (if dr_icon r = Some Iconfclosed then Some Iconfopen else dr_icon r),
       dr_arrow := map_option (\<lambda>_. ArrowDown) (dr_arrow r)\<rparr>"

definition hide_below :: "jsstring \<Rightarrow> dir_row \<Rightarrow> dir_row" where
  "hide_below i r = (if prefix (js ''row_'' @ i) (dr_id r) then r\<lparr>dr_shown := False\<rparr> else r)"

definition show_child :: "jsstring \<Rightarrow> dir_row \<Rightarrow> dir_row" where
  "show_child i r = (if matches_child i (dr_id r) then (close_row r)\<lparr>dr_shown := True\<rparr> else r)"

text \<open>
  \<open>toggle_row\<close> is the body of \<open>toggleFolder\<close> on the clicked row and the rows after it;
  without a row of the id every selection is empty.
\<close>

definition toggle_row :: "jsstring \<Rightarrow> dir_row \<Rightarrow> dir_row list \<Rightarrow> dir_row list" where
  "toggle_row i currentRow rows =
     (let childRows = filter (\<lambda>r. matches_child i (dr_id r)) rows in
      if childRows \<noteq> [] \<and> dr_shown (hd childRows)
      then close_row currentRow # map (hide_below i) rows
      else open_row currentRow # map (show_child i) rows)"

fun toggle_at :: "jsstring \<Rightarrow> dir_row list \<Rightarrow> dir_row list" where
  "toggle_at i [] = []"
| "toggle_at i (r # rs) =
     (if dr_id r = js ''row_'' @ i then toggle_row i r rs else r # toggle_at i rs)"

definition toggleFolder :: "jsstring \<Rightarrow> dir_row list \<Rightarrow> dir_row list" where
  "toggleFolder i rows = updateStripes (toggle_at i rows)"

subsection \<open>Sections\<close>

text \<open>
  A collapsible section: the class of its header link, whether its summary and its content are
  displayed, and the address of its trigger image. \<open>substring\<close> clamps its end at 0.
\<close>

record section_state =
  link_class :: string
  summary_shown :: bool
  content_shown :: bool
  trigger_src :: jsstring

definition cut_end :: "nat \<Rightarrow> jsstring \<Rightarrow> jsstring" where
  "cut_end n s = take (length s - n) s"

definition toggleVisibility :: "section_state \<Rightarrow> section_state" where
  "toggleVisibility s =
     (if content_shown s then
        s\<lparr>content_shown := False, summary_shown := True, link_class := ''closed'',
          trigger_src := cut_end 8 (trigger_src s) @ js ''closed.png''\<rparr>
      else
        s\<lparr>content_shown := True, summary_shown := False, link_class := ''opened'',
          trigger_src := cut_end 10 (trigger_src s) @ js ''open.png''\<rparr>)"

text \<open>The inherited members of a class: the display of each row, and the image of the header.\<close>

record inherit_state =
  inherit_rows :: "bool list"
  inherit_src :: jsstring

definition toggleInherit :: "inherit_state \<Rightarrow> inherit_state" where
  "toggleInherit s =
     (if inherit_rows s \<noteq> [] \<and> hd (inherit_rows s) then
        s\<lparr>inherit_rows := map (\<lambda>_. False) (inherit_rows s),
          inherit_src := cut_end 8 (inherit_src s) @ js ''closed.png''\<rparr>
      else
        s\<lparr>inherit_rows := map (\<lambda>_. True) (inherit_rows s),
          inherit_src := cut_end 10 (inherit_src s) @ js ''open.png''\<rparr>)"

end
