(* ===== verification/DirTree.thy ===== *)
theory DirTree
  imports DynSections
begin

text \<open>
  The rows of a directory as a tree. The id of a row spells the path of its node, so the id
  tests of \<open>dynsections.js\<close> are tests on paths (again a prefix code); a table is well formed
  when every node has its parent above it, and consistent when a row is displayed exactly when
  its parent is displayed and open.
\<close>

subsection \<open>Ids as paths\<close>

definition step_key :: "nat \<Rightarrow> jsstring" where
  "step_key n = js_int (int n) @ [95]"

definition row_key :: "nat list \<Rightarrow> jsstring" where
  "row_key p = concat (map step_key p)"

lemma row_key_simps [simp]:
  "row_key [] = []" "row_key (n # p) = step_key n @ row_key p" "row_key (p @ q) = row_key p @ row_key q"
  by (simp_all add: row_key_def)

interpretation step_code: prefix_code step_key
proof
  fix m n :: nat
  show "step_key m \<noteq> []" by (simp add: step_key_def)
  assume "prefix (step_key m) (step_key n)"
  then obtain r where "js_int (int n) @ 95 # [] = js_int (int m) @ 95 # r"
    by (auto simp: step_key_def prefix_def)
  then have "int n = int m \<and> [] = r" by (simp only: js_int_underscore_split)
  then show "m = n" by simp
qed

lemma row_key_prefix: "prefix (row_key p) (row_key q) \<longleftrightarrow> prefix p q"
  unfolding row_key_def by (rule step_code.encode_prefix_iff)

lemma row_key_inj: "row_key p = row_key q \<longleftrightarrow> p = q"
  unfolding row_key_def by (rule step_code.encode_inj)

lemma js_int_digits: "c \<in> set (js_int (int n)) \<Longrightarrow> is_digit c"
proof -
  assume "c \<in> set (js_int (int n))"
  then obtain d where "d < 10" "c = digit_unit d"
    using toString_base_digits [of 10 c n] by (auto simp: js_int_def)
  then show ?thesis by (auto simp: is_digit_def word_le_nat_alt unat_digit_unit)
qed

lemma digit_small: "is_digit c \<Longrightarrow> ascii_lower c = c"
  by (simp add: is_digit_def ascii_lower_def word_le_nat_alt)

lemma row_key_lower: "map ascii_lower (row_key p) = row_key p"
proof (induction p)
  case (Cons n p)
  have "map ascii_lower (js_int (int n)) = js_int (int n)"
    using js_int_digits digit_small by (intro map_idI) blast
  moreover have "ascii_lower 95 = 95" by (simp add: ascii_lower_def)
  ultimately show ?case using Cons by (simp add: step_key_def)
qed simp

lemma row_key_count: "count_list (row_key p) 95 = length p"
proof (induction p)
  case (Cons n p)
  have "count_list (js_int (int n)) 95 = 0"
    using js_int_no_underscore [of "int n"] by (simp add: count_list_0_iff)
  then show ?case using Cons by (simp add: step_key_def)
qed simp

definition row_name :: "nat list \<Rightarrow> jsstring" where
  "row_name p = js ''row_'' @ row_key p"

lemma row_name_inj [simp]: "row_name p = row_name q \<longleftrightarrow> p = q"
  by (simp add: row_name_def row_key_inj)

lemma row_name_count: "count_list (row_name p) 95 = Suc (length p)"
  by (simp add: row_name_def row_key_count js_def)

lemma row_name_below: "prefix (js ''row_'' @ row_key p) (row_name q) \<longleftrightarrow> prefix p q"
  by (simp add: row_name_def row_key_prefix)

lemma row_key_digits:
  "takeWhile is_digit (row_key r) = (case r of [] \<Rightarrow> [] | n # r' \<Rightarrow> js_int (int n))"
proof (cases r)
  case (Cons n r')
  have "takeWhile is_digit (js_int (int n) @ 95 # row_key r') = js_int (int n)"
    using js_int_digits by (rule takeWhile_append_stop) (simp_all add: is_digit_def)
  then show ?thesis by (simp add: Cons step_key_def)
qed simp

text \<open>The regular expression of \<open>toggleFolder\<close> finds the children.\<close>

lemma matches_child_row: "matches_child (row_key p) (row_name q) \<longleftrightarrow> (\<exists>n. q = p @ [n])"
proof -
  have lower: "prefix (map ascii_lower (js ''row_'' @ row_key p)) (map ascii_lower (row_name q)) \<longleftrightarrow> prefix p q"
    by (simp add: row_name_def row_key_lower row_key_prefix)
  show ?thesis
  proof (cases "prefix p q")
    case True
    then obtain r where q: "q = p @ r" by (auto simp: prefix_def)
    have d: "drop (length (js ''row_'' @ row_key p)) (row_name q) = row_key r"
      by (simp add: row_name_def q)
    then have "matches_child (row_key p) (row_name q) \<longleftrightarrow>
        takeWhile is_digit (row_key r) \<noteq> [] \<and>
        drop (length (takeWhile is_digit (row_key r))) (row_key r) = [95]"
      by (simp only: matches_child_def Let_def d lower True simp_thms)
    also have "\<dots> \<longleftrightarrow> (\<exists>n. r = [n])"
    proof (cases r)
      case (Cons n t)
      have "row_key t = [] \<longleftrightarrow> t = []" using row_key_inj [of t "[]"] by simp
      moreover have "js_int (int n) \<noteq> []" by (simp add: js_int_def)
      moreover have "drop (length (js_int (int n))) (row_key r) = 95 # row_key t"
        by (simp add: Cons step_key_def)
      ultimately show ?thesis unfolding row_key_digits Cons by simp
    qed simp
    finally show ?thesis by (simp add: q)
  next
    case False
    then have "\<not> matches_child (row_key p) (row_name q)"
      using lower by (simp add: matches_child_def Let_def)
    then show ?thesis using False by auto
  qed
qed

subsection \<open>Well-formed and consistent tables\<close>

definition tree_order :: "nat list list \<Rightarrow> bool" where
  "tree_order ps \<longleftrightarrow> distinct ps \<and> [] \<notin> set ps \<and>
     (\<forall>i < length ps. 1 < length (ps ! i) \<longrightarrow> butlast (ps ! i) \<in> set (take i ps))"

definition is_parent :: "nat list list \<Rightarrow> nat \<Rightarrow> nat \<Rightarrow> bool" where
  "is_parent ps j i \<longleftrightarrow> j < length ps \<and> i < length ps \<and> (\<exists>n. ps ! i = ps ! j @ [n])"

text \<open>The rows are those of the tree, and every row with children has an arrow.\<close>

definition dir_table :: "nat list list \<Rightarrow> dir_row list \<Rightarrow> bool" where
  "dir_table ps rows \<longleftrightarrow> tree_order ps \<and> map dr_id rows = map row_name ps \<and>
     (\<forall>j i. is_parent ps j i \<longrightarrow> dr_arrow (rows ! j) \<noteq> None)"

definition row_open :: "dir_row \<Rightarrow> bool" where
  "row_open r \<longleftrightarrow> dr_shown r \<and> dr_arrow r = Some ArrowDown"

definition dir_consistent :: "nat list list \<Rightarrow> dir_row list \<Rightarrow> bool" where
  "dir_consistent ps rows \<longleftrightarrow>
     (\<forall>i < length ps. length (ps ! i) = 1 \<longrightarrow> dr_shown (rows ! i)) \<and>
     (\<forall>j i. is_parent ps j i \<longrightarrow> (dr_shown (rows ! i) \<longleftrightarrow> row_open (rows ! j)))"

lemma dir_table_nth:
  assumes "dir_table ps rows"
  shows "length rows = length ps" "i < length ps \<Longrightarrow> dr_id (rows ! i) = row_name (ps ! i)"
    "distinct ps" "i < length ps \<Longrightarrow> ps ! i \<noteq> []"
proof -
  have m: "map dr_id rows = map row_name ps" using assms by (simp add: dir_table_def)
  then show len: "length rows = length ps" by (metis length_map)
  show "i < length ps \<Longrightarrow> dr_id (rows ! i) = row_name (ps ! i)" using m len by (metis nth_map)
  show "distinct ps" "i < length ps \<Longrightarrow> ps ! i \<noteq> []"
    using assms by (auto simp: dir_table_def tree_order_def) (metis nth_mem)
qed

lemma parent_unique: "distinct ps \<Longrightarrow> is_parent ps j i \<Longrightarrow> is_parent ps k i \<Longrightarrow> j = k"
  by (auto simp: is_parent_def nth_eq_iff_index_eq)

lemma has_parent:
  assumes "tree_order ps" "i < length ps" "1 < length (ps ! i)"
  obtains j where "is_parent ps j i" "j < i"
proof -
  have "butlast (ps ! i) \<in> set (take i ps)" using assms by (simp add: tree_order_def)
  then obtain j where "j < i" "ps ! j = butlast (ps ! i)" using assms(2) by (auto simp: in_set_conv_nth)
  moreover have "ps ! i \<noteq> []" using assms(3) by auto
  ultimately have "is_parent ps j i"
    using assms(2) by (auto simp: is_parent_def intro!: exI [of _ "last (ps ! i)"])
  then show thesis using \<open>j < i\<close> by (rule that)
qed

lemma below_after:
  assumes "tree_order ps" "k < length ps" "i < length ps" "strict_prefix (ps ! k) (ps ! i)"
  shows "k < i"
  using assms(3,4)
proof (induction "length (ps ! i)" arbitrary: i rule: less_induct)
  case less
  have "ps ! k \<noteq> []" using assms(1,2) by (auto simp: tree_order_def) (metis nth_mem)
  then have "1 < length (ps ! i)"
    using prefix_length_less [OF less.prems(2)] by (cases "ps ! k") auto
  then obtain j where j: "is_parent ps j i" "j < i" using has_parent [OF assms(1) less.prems(1)] by blast
  then obtain n where n: "ps ! i = ps ! j @ [n]" "j < length ps" by (auto simp: is_parent_def)
  have "prefix (ps ! k) (ps ! j)" using less.prems(2) n(1) by (auto simp: strict_prefix_def)
  then consider "ps ! k = ps ! j" | "strict_prefix (ps ! k) (ps ! j)" by (auto simp: strict_prefix_def)
  then show ?case
  proof cases
    case 1
    then have "k = j" using assms(1,2) n(2) by (simp add: tree_order_def nth_eq_iff_index_eq)
    then show ?thesis using j(2) by simp
  next
    case 2
    then have "k < j" using less.hyps [of j] n by simp
    then show ?thesis using j(2) by simp
  qed
qed

subsection \<open>Stripes\<close>

lemma stripe_length [simp]: "length (stripe n rows) = length rows"
  by (induction n rows rule: stripe.induct) simp_all

lemma stripe_nth:
  "i < length rows \<Longrightarrow> \<exists>b. stripe n rows ! i = (rows ! i)\<lparr>dr_even := b\<rparr>"
  by (induction n rows arbitrary: i rule: stripe.induct) (auto simp: nth_Cons split: nat.split)

lemma stripe_fields:
  "i < length rows \<Longrightarrow> dr_shown (stripe n rows ! i) = dr_shown (rows ! i)"
  "i < length rows \<Longrightarrow> dr_arrow (stripe n rows ! i) = dr_arrow (rows ! i)"
  "i < length rows \<Longrightarrow> row_open (stripe n rows ! i) = row_open (rows ! i)"
  "map dr_id (stripe n rows) = map dr_id rows"
proof -
  show "map dr_id (stripe n rows) = map dr_id rows"
    by (induction n rows rule: stripe.induct) simp_all
qed (use stripe_nth [of i rows n] in \<open>auto simp: row_open_def\<close>)

lemma stripe_even:
  "map dr_even (filter dr_shown (stripe n rows)) = map even [n..<n + length (filter dr_shown rows)]"
proof (induction n rows rule: stripe.induct)
  case (2 n r rs)
  show ?case
  proof (cases "dr_shown r")
    case True
    then have "[n..<n + length (filter dr_shown (r # rs))] =
        n # [Suc n..<Suc n + length (filter dr_shown rs)]" by (subst upt_conv_Cons) simp_all
    then show ?thesis using True 2(1) by simp
  qed (simp add: 2)
qed simp

end
