(* ===== verification/DirCorrect.thy ===== *)
theory DirCorrect
  imports DirTree
begin

text \<open>
  What the directory tables do: a row is displayed exactly when all rows above it in the tree
  are open, in every state the page can reach; the stripes alternate over the displayed rows;
  sections return to their state after two clicks.
\<close>

subsection \<open>Folders\<close>

lemma toggle_at_split:
  "map dr_id rows = map row_name ps \<Longrightarrow> distinct ps \<Longrightarrow> k < length ps \<Longrightarrow>
     toggle_at (row_key (ps ! k)) rows =
       take k rows @ toggle_row (row_key (ps ! k)) (rows ! k) (drop (Suc k) rows)"
proof (induction rows arbitrary: ps k)
  case (Cons r rows)
  then obtain q qs where ps: "ps = q # qs" by (cases ps) auto
  show ?case
  proof (cases k)
    case 0
    then show ?thesis using Cons.prems(1) ps by (simp add: row_name_def)
  next
    case (Suc m)
    with Cons.prems ps have "q \<noteq> ps ! k" by auto
    then have "row_name q \<noteq> row_name (ps ! k)" by simp
    then have "dr_id r \<noteq> js ''row_'' @ row_key (ps ! k)"
      using Cons.prems(1) ps by (simp add: row_name_def)
    then show ?thesis using Cons Suc ps by simp
  qed
qed simp

definition first_child_shown :: "nat list list \<Rightarrow> dir_row list \<Rightarrow> nat \<Rightarrow> bool" where
  "first_child_shown ps rows k \<longleftrightarrow>
     (let cs = filter (\<lambda>r. matches_child (row_key (ps ! k)) (dr_id r)) (drop (Suc k) rows)
      in cs \<noteq> [] \<and> dr_shown (hd cs))"

lemma toggle_at_nth:
  assumes "dir_table ps rows" "k < length ps" "i < length ps"
  shows "toggle_at (row_key (ps ! k)) rows ! i =
    (if first_child_shown ps rows k
     then if i = k then close_row (rows ! k)
          else if prefix (ps ! k) (ps ! i) then (rows ! i)\<lparr>dr_shown := False\<rparr> else rows ! i
     else if i = k then open_row (rows ! k)
          else if is_parent ps k i then (close_row (rows ! i))\<lparr>dr_shown := True\<rparr> else rows ! i)"
proof -
  note t = dir_table_nth [OF assms(1)]
  have order: "tree_order ps" using assms(1) by (simp add: dir_table_def)
  have split: "toggle_at (row_key (ps ! k)) rows =
      take k rows @ toggle_row (row_key (ps ! k)) (rows ! k) (drop (Suc k) rows)"
    using assms(1,2) t(3) by (intro toggle_at_split) (simp_all add: dir_table_def)
  have child: "is_parent ps k i \<longleftrightarrow> (\<exists>n. ps ! i = ps ! k @ [n])"
    using assms(2,3) by (simp add: is_parent_def)
  consider "i < k" | "i = k" | "k < i" by linarith
  then show ?thesis
  proof cases
    case 1
    have "\<not> strict_prefix (ps ! k) (ps ! i)" using below_after [OF order assms(2,3)] 1 by auto
    moreover have "ps ! k \<noteq> ps ! i" using 1 t(3) assms by (simp add: nth_eq_iff_index_eq)
    ultimately have "\<not> prefix (ps ! k) (ps ! i)" by (auto simp: strict_prefix_def)
    then show ?thesis using 1 t(1) assms(2) child split by (auto simp: nth_append)
  next
    case 2
    then show ?thesis using t(1) assms(2) split
      by (simp add: nth_append toggle_row_def first_child_shown_def Let_def)
  next
    case 3
    then have "Suc (k + (i - Suc k)) = i" by simp
    then have row: "drop (Suc k) rows ! (i - Suc k) = rows ! i" "i - Suc k < length (drop (Suc k) rows)"
      using t(1) assms(2,3) 3 by simp_all
    have "toggle_at (row_key (ps ! k)) rows ! i =
        (toggle_row (row_key (ps ! k)) (rows ! k) (drop (Suc k) rows)) ! Suc (i - Suc k)"
      using split t(1) assms(2) 3 by (simp add: nth_append Suc_diff_Suc)
    also have "\<dots> = (if first_child_shown ps rows k then hide_below (row_key (ps ! k)) (rows ! i)
        else show_child (row_key (ps ! k)) (rows ! i))"
      using row by (simp add: toggle_row_def first_child_shown_def Let_def)
    finally show ?thesis
      using 3 t(2) [OF assms(3)] child
      by (simp add: hide_below_def show_child_def row_name_below matches_child_row)
  qed
qed

lemma first_child_shown_open:
  assumes "dir_table ps rows" "dir_consistent ps rows" "k < length ps"
  shows "first_child_shown ps rows k \<longleftrightarrow> (\<exists>i. is_parent ps k i) \<and> row_open (rows ! k)"
proof -
  note t = dir_table_nth [OF assms(1)]
  have order: "tree_order ps" using assms(1) by (simp add: dir_table_def)
  define cs where "cs = filter (\<lambda>r. matches_child (row_key (ps ! k)) (dr_id r)) (drop (Suc k) rows)"
  have child: "\<exists>i. is_parent ps k i \<and> r = rows ! i" if "r \<in> set cs" for r
  proof -
    obtain m where m: "m < length (drop (Suc k) rows)" "r = drop (Suc k) rows ! m"
      and match: "matches_child (row_key (ps ! k)) (dr_id r)"
      using \<open>r \<in> set cs\<close> by (auto simp: cs_def in_set_conv_nth)
    then have "Suc k + m < length ps" "r = rows ! (Suc k + m)" using t(1) by simp_all
    then show ?thesis
      using match t(2) [of "Suc k + m"] assms(3) by (auto simp: matches_child_row is_parent_def)
  qed
  have mem: "rows ! i \<in> set cs" if "is_parent ps k i" for i
  proof -
    have i: "i < length ps" and strict: "strict_prefix (ps ! k) (ps ! i)"
      using that by (auto simp: is_parent_def strict_prefix_def)
    then have "k < i" using below_after [OF order assms(3)] by blast
    then have "drop (Suc k) rows ! (i - Suc k) = rows ! i" "i - Suc k < length (drop (Suc k) rows)"
      using t(1) i assms(3) by simp_all
    then have "rows ! i \<in> set (drop (Suc k) rows)" by (metis nth_mem)
    then show ?thesis using that t(2) [OF i] by (simp add: cs_def matches_child_row is_parent_def)
  qed
  have shown: "dr_shown r \<longleftrightarrow> row_open (rows ! k)" if "r \<in> set cs" for r
    using child [OF that] assms(2) by (auto simp: dir_consistent_def)
  have "cs \<noteq> [] \<longleftrightarrow> (\<exists>i. is_parent ps k i)"
    using child mem by (metis hd_in_set list.set_cases empty_iff list.set(1))
  moreover have "cs \<noteq> [] \<Longrightarrow> dr_shown (hd cs) \<longleftrightarrow> row_open (rows ! k)" using shown hd_in_set by blast
  ultimately show ?thesis by (auto simp: first_child_shown_def cs_def [symmetric] Let_def)
qed

lemma toggle_at_ids:
  assumes "dir_table ps rows" "k < length ps"
  shows "map dr_id (toggle_at (row_key (ps ! k)) rows) = map dr_id rows"
proof -
  have "map dr_id (toggle_row i r rs) = dr_id r # map dr_id rs" for i r rs
    by (simp add: toggle_row_def close_row_def open_row_def hide_below_def show_child_def Let_def o_def
        if_distrib cong: map_cong)
  then have "map dr_id (toggle_at i rows) = map dr_id rows" for i
    by (induction rows) simp_all
  then show ?thesis .
qed

text \<open>What a click on a displayed row that has children does to the rows, before the stripes.\<close>

definition toggled_shown :: "nat list list \<Rightarrow> dir_row list \<Rightarrow> nat \<Rightarrow> nat \<Rightarrow> bool" where
  "toggled_shown ps rows k i \<longleftrightarrow>
     (if row_open (rows ! k) then dr_shown (rows ! i) \<and> \<not> strict_prefix (ps ! k) (ps ! i)
      else dr_shown (rows ! i) \<or> is_parent ps k i)"

definition toggled_arrow :: "nat list list \<Rightarrow> dir_row list \<Rightarrow> nat \<Rightarrow> nat \<Rightarrow> arrow option" where
  "toggled_arrow ps rows k i =
     (if i = k then Some (if row_open (rows ! k) then ArrowRight else ArrowDown)
      else if \<not> row_open (rows ! k) \<and> is_parent ps k i
      then map_option (\<lambda>_. ArrowRight) (dr_arrow (rows ! i)) else dr_arrow (rows ! i))"

lemma toggle_at_fields:
  assumes "dir_table ps rows" "dir_consistent ps rows" "is_parent ps k c" "dr_shown (rows ! k)"
    and i: "i < length ps"
  shows "dr_shown (toggle_at (row_key (ps ! k)) rows ! i) = toggled_shown ps rows k i"
    "dr_arrow (toggle_at (row_key (ps ! k)) rows ! i) = toggled_arrow ps rows k i"
proof -
  note t = dir_table_nth [OF assms(1)]
  have k: "k < length ps" using assms(3) by (simp add: is_parent_def)
  have first: "first_child_shown ps rows k \<longleftrightarrow> row_open (rows ! k)"
    using first_child_shown_open [OF assms(1,2) k] assms(3) by blast
  have arrow: "dr_arrow (rows ! k) \<noteq> None" using assms(1,3) by (auto simp: dir_table_def)
  have strict: "strict_prefix (ps ! k) (ps ! i) \<longleftrightarrow> prefix (ps ! k) (ps ! i) \<and> i \<noteq> k"
    using t(3) k i by (auto simp: strict_prefix_def nth_eq_iff_index_eq)
  have self: "\<not> is_parent ps k k" by (auto simp: is_parent_def)
  show "dr_shown (toggle_at (row_key (ps ! k)) rows ! i) = toggled_shown ps rows k i"
    using assms(4) strict self
    by (auto simp: toggle_at_nth [OF assms(1) k i] first toggled_shown_def close_row_def open_row_def)
  show "dr_arrow (toggle_at (row_key (ps ! k)) rows ! i) = toggled_arrow ps rows k i"
    using arrow
    by (auto simp: toggle_at_nth [OF assms(1) k i] first toggled_arrow_def close_row_def open_row_def)
qed

lemma toggled_open:
  assumes "dir_table ps rows" "dir_consistent ps rows" "is_parent ps k c" "dr_shown (rows ! k)"
    "is_parent ps j i"
  shows "toggled_shown ps rows k i \<longleftrightarrow>
    toggled_shown ps rows k j \<and> toggled_arrow ps rows k j = Some ArrowDown"
proof -
  have t: "distinct ps" using dir_table_nth(3) [OF assms(1)] .
  have old: "dr_shown (rows ! i) \<longleftrightarrow> row_open (rows ! j)"
    using assms(2,5) by (simp add: dir_consistent_def)
  obtain n where n: "ps ! i = ps ! j @ [n]" "j < length ps" "i < length ps"
    using assms(5) by (auto simp: is_parent_def)
  have k: "k < length ps" using assms(3) by (simp add: is_parent_def)
  have below: "strict_prefix (ps ! k) (ps ! i) \<longleftrightarrow> j = k \<or> strict_prefix (ps ! k) (ps ! j)"
    using n k t by (auto simp: strict_prefix_def nth_eq_iff_index_eq)
  have self: "\<not> strict_prefix (ps ! k) (ps ! k)" by simp
  have one: "is_parent ps k i \<longleftrightarrow> j = k" using parent_unique [OF t] assms(5) by blast
  have par: "is_parent ps k j \<Longrightarrow> dr_shown (rows ! j) \<longleftrightarrow> row_open (rows ! k)" for j
    using assms(2) by (simp add: dir_consistent_def)
  show ?thesis
  proof (cases "j = k")
    case True
    then show ?thesis
      using assms(4) below one self old by (auto simp: toggled_shown_def toggled_arrow_def)
  next
    case False
    then show ?thesis
      using below one self old par [of j]
      by (auto simp: toggled_shown_def toggled_arrow_def row_open_def)
  qed
qed

lemma toggle_folder_ok:
  assumes "dir_table ps rows" "dir_consistent ps rows" "is_parent ps k c" "dr_shown (rows ! k)"
  shows "dir_table ps (toggleFolder (row_key (ps ! k)) rows)"
    "dir_consistent ps (toggleFolder (row_key (ps ! k)) rows)"
    "i < length ps \<Longrightarrow> dr_shown (toggleFolder (row_key (ps ! k)) rows ! i) = toggled_shown ps rows k i"
    "i < length ps \<Longrightarrow> dr_arrow (toggleFolder (row_key (ps ! k)) rows ! i) = toggled_arrow ps rows k i"
proof -
  have k: "k < length ps" using assms(3) by (simp add: is_parent_def)
  let ?new = "toggleFolder (row_key (ps ! k)) rows"
  have ids: "map dr_id ?new = map dr_id rows"
    using toggle_at_ids [OF assms(1) k] by (simp add: toggleFolder_def updateStripes_def stripe_fields)
  have len: "length (toggle_at (row_key (ps ! k)) rows) = length ps"
    using toggle_at_ids [OF assms(1) k] dir_table_nth(1) [OF assms(1)] by (metis length_map)
  have shown: "dr_shown (?new ! i) = toggled_shown ps rows k i"
    and arrow: "dr_arrow (?new ! i) = toggled_arrow ps rows k i" if "i < length ps" for i
    using toggle_at_fields [OF assms that] that len
    by (simp_all add: toggleFolder_def updateStripes_def stripe_fields)
  have "dr_arrow (rows ! j) \<noteq> None" if "is_parent ps j i" for j i
    using assms(1) that by (auto simp: dir_table_def)
  then have "dr_arrow (?new ! j) \<noteq> None" if "is_parent ps j i" for j i
    using that arrow [of j] by (auto simp: toggled_arrow_def is_parent_def)
  then show "dir_table ps ?new" using ids assms(1) by (simp add: dir_table_def)
  have "toggled_shown ps rows k i" if "i < length ps" "length (ps ! i) = 1" for i
  proof -
    have "ps ! k \<noteq> []" by (rule dir_table_nth(4) [OF assms(1) k])
    then have "\<not> strict_prefix (ps ! k) (ps ! i)"
      using prefix_length_less [of "ps ! k" "ps ! i"] that(2) by (cases "ps ! k") auto
    then show ?thesis using assms(2) that by (simp add: toggled_shown_def dir_consistent_def)
  qed
  moreover have "toggled_shown ps rows k i \<longleftrightarrow> row_open (?new ! j)" if "is_parent ps j i" for i j
    using toggled_open [OF assms that] shown [of j] arrow [of j] that by (simp add: row_open_def is_parent_def)
  ultimately show "dir_consistent ps ?new"
    using shown by (simp add: dir_consistent_def is_parent_def)
  show "i < length ps \<Longrightarrow> dr_shown (?new ! i) = toggled_shown ps rows k i"
    "i < length ps \<Longrightarrow> dr_arrow (?new ! i) = toggled_arrow ps rows k i" by (rule shown, simp, rule arrow)
qed

text \<open>
  C14. Clicking the arrow of a displayed row with children: if the row is open, its arrow turns
  right and everything below it in the tree disappears, however deep; if it is closed, its
  arrow turns down and its children appear, with closed arrows and nothing below them. No other
  row changes, and the table stays consistent.
\<close>

theorem toggleFolder_opens_and_closes:
  assumes "dir_table ps rows" "dir_consistent ps rows" "is_parent ps k c" "dr_shown (rows ! k)"
    and new: "rows' = toggleFolder (row_key (ps ! k)) rows"
  shows "dir_table ps rows' \<and> dir_consistent ps rows' \<and>
    dr_arrow (rows' ! k) = Some (if row_open (rows ! k) then ArrowRight else ArrowDown) \<and>
    (\<forall>i < length ps. dr_shown (rows' ! i) \<longleftrightarrow>
       (if row_open (rows ! k) then dr_shown (rows ! i) \<and> \<not> strict_prefix (ps ! k) (ps ! i)
        else dr_shown (rows ! i) \<or> is_parent ps k i)) \<and>
    (\<forall>i < length ps. i \<noteq> k \<longrightarrow> is_parent ps k i \<and> \<not> row_open (rows ! k) \<or>
       dr_arrow (rows' ! i) = dr_arrow (rows ! i))"
  using toggle_folder_ok [OF assms(1-4)] assms(3) unfolding new
  by (simp add: toggled_shown_def toggled_arrow_def is_parent_def)

subsection \<open>Levels\<close>

lemma toggle_level_fields:
  assumes "dir_table ps rows" "i < length ps" "rows' = toggleLevel level rows"
  shows "dr_shown (rows' ! i) \<longleftrightarrow> length (ps ! i) \<le> level"
    "dr_arrow (rows' ! i) = (if length (ps ! i) < level then map_option (\<lambda>_. ArrowDown) (dr_arrow (rows ! i))
       else if length (ps ! i) = level then map_option (\<lambda>_. ArrowRight) (dr_arrow (rows ! i))
       else dr_arrow (rows ! i))"
proof -
  note t = dir_table_nth [OF assms(1)]
  have l: "count_list (dr_id (rows ! i)) 95 = Suc (length (ps ! i))"
    using t(2) [OF assms(2)] by (simp add: row_name_count)
  show "dr_shown (rows' ! i) \<longleftrightarrow> length (ps ! i) \<le> level"
    "dr_arrow (rows' ! i) = (if length (ps ! i) < level then map_option (\<lambda>_. ArrowDown) (dr_arrow (rows ! i))
       else if length (ps ! i) = level then map_option (\<lambda>_. ArrowRight) (dr_arrow (rows ! i))
       else dr_arrow (rows ! i))"
    using assms(2) t(1) unfolding assms(3)
    by (simp_all add: toggleLevel_def updateStripes_def stripe_fields toggle_level_row_def l mark_row_def Let_def)
qed

lemma toggle_level_ok:
  assumes "dir_table ps rows" "1 \<le> level" "rows' = toggleLevel level rows"
  shows "dir_table ps rows' \<and> dir_consistent ps rows' \<and>
    (\<forall>i < length ps. (dr_shown (rows' ! i) \<longleftrightarrow> length (ps ! i) \<le> level) \<and>
       (dr_arrow (rows ! i) \<noteq> None \<longrightarrow> (row_open (rows' ! i) \<longleftrightarrow> length (ps ! i) < level)))"
proof -
  note f = toggle_level_fields [OF assms(1) _ assms(3)]
  have ids: "map dr_id rows' = map dr_id rows"
    by (simp add: assms(3) toggleLevel_def updateStripes_def stripe_fields toggle_level_row_def
        mark_row_def Let_def o_def if_distrib cong: map_cong)
  have arrow: "dr_arrow (rows ! j) \<noteq> None" if "is_parent ps j i" for i j
    using assms(1) that by (auto simp: dir_table_def)
  have opened: "row_open (rows' ! i) \<longleftrightarrow> length (ps ! i) < level"
    if "i < length ps" "dr_arrow (rows ! i) \<noteq> None" for i
    using f [OF that(1)] that(2) by (auto simp: row_open_def)
  have "dir_table ps rows'"
    using assms(1) ids f(2) arrow by (auto simp: dir_table_def is_parent_def)
  moreover have "dr_shown (rows' ! i) \<longleftrightarrow> row_open (rows' ! j)" if "is_parent ps j i" for i j
    using that f(1) [of i] opened [of j] arrow [OF that] by (auto simp: is_parent_def)
  ultimately show ?thesis
    using f(1) opened assms(2) by (simp add: dir_consistent_def)
qed

text \<open>
  C26. \<open>toggleLevel\<close> displays exactly the rows down to the given depth, whatever was open
  before; it opens the rows above that depth, closes those at it, and leaves a consistent table.
\<close>

theorem toggleLevel_shows_depth:
  assumes "dir_table ps rows" "1 \<le> level" "rows' = toggleLevel level rows"
  shows "dir_table ps rows' \<and> dir_consistent ps rows' \<and>
    (\<forall>i < length ps. (dr_shown (rows' ! i) \<longleftrightarrow> length (ps ! i) \<le> level) \<and>
       (dr_arrow (rows ! i) \<noteq> None \<longrightarrow> (row_open (rows' ! i) \<longleftrightarrow> length (ps ! i) < level)))"
  by (rule toggle_level_ok [OF assms])

subsection \<open>Stripes\<close>

text \<open>
  C28. After every click the stripes alternate: of the displayed rows the first, third, fifth
  and so on are marked even, no hidden row is, and nothing else about a row changes.
\<close>

theorem updateStripes_alternate:
  "map dr_even (filter dr_shown (updateStripes rows)) = map even [0..<length (filter dr_shown rows)] \<and>
   (\<forall>r \<in> set (updateStripes rows). \<not> dr_shown r \<longrightarrow> \<not> dr_even r) \<and>
   map (dr_even_update (\<lambda>_. False)) (updateStripes rows) = map (dr_even_update (\<lambda>_. False)) rows"
proof -
  have "\<forall>r \<in> set (stripe n rows). \<not> dr_shown r \<longrightarrow> \<not> dr_even r" for n
    by (induction n rows rule: stripe.induct) simp_all
  moreover have "map (dr_even_update (\<lambda>_. False)) (stripe n rows) = map (dr_even_update (\<lambda>_. False)) rows" for n
    by (induction n rows rule: stripe.induct) simp_all
  ultimately show ?thesis using stripe_even [of 0 rows] by (simp add: updateStripes_def)
qed

subsection \<open>Every state of the page\<close>

text \<open>
  A directory page starts with a consistent table (all rows displayed and open in the generated
  pages) and changes by clicks on the level links and on arrows of displayed rows.
\<close>

inductive dir_reachable :: "nat list list \<Rightarrow> dir_row list \<Rightarrow> bool" for ps where
  loaded: "dir_table ps rows \<Longrightarrow> \<forall>r \<in> set rows. dr_shown r \<and> dr_arrow r \<noteq> Some ArrowRight \<Longrightarrow>
    dir_reachable ps rows"
| level: "dir_reachable ps rows \<Longrightarrow> 1 \<le> level \<Longrightarrow> dir_reachable ps (toggleLevel level rows)"
| folder: "dir_reachable ps rows \<Longrightarrow> is_parent ps k c \<Longrightarrow> dr_shown (rows ! k) \<Longrightarrow>
    dir_reachable ps (toggleFolder (row_key (ps ! k)) rows)"

lemma loaded_consistent:
  assumes "dir_table ps rows" "\<forall>r \<in> set rows. dr_shown r \<and> dr_arrow r \<noteq> Some ArrowRight"
  shows "dir_consistent ps rows"
proof -
  have row: "dr_shown (rows ! i)" "dr_arrow (rows ! i) \<noteq> Some ArrowRight" if "i < length ps" for i
    using assms(2) that dir_table_nth(1) [OF assms(1)] by auto
  have "row_open (rows ! j)" if par: "is_parent ps j i" for i j
  proof -
    have j: "j < length ps" using par by (simp add: is_parent_def)
    obtain a where a: "dr_arrow (rows ! j) = Some a" using assms(1) par by (auto simp: dir_table_def)
    then show ?thesis using row [OF j] by (cases a) (auto simp: row_open_def)
  qed
  then show ?thesis using row by (auto simp: dir_consistent_def is_parent_def)
qed

lemma dir_reachable_ok: "dir_reachable ps rows \<Longrightarrow> dir_table ps rows \<and> dir_consistent ps rows"
proof (induction rule: dir_reachable.induct)
  case (loaded rows)
  then show ?case using loaded_consistent by blast
next
  case (level rows lvl)
  then show ?case using toggle_level_ok by blast
next
  case (folder rows k c)
  then show ?case using toggle_folder_ok(1,2) by blast
qed

lemma shown_iff_open:
  assumes ok: "dir_table ps rows" "dir_consistent ps rows" and "i < length ps"
  shows "dr_shown (rows ! i) \<longleftrightarrow>
    (\<forall>j < length ps. strict_prefix (ps ! j) (ps ! i) \<longrightarrow> row_open (rows ! j))"
  using assms(3)
proof (induction "length (ps ! i)" arbitrary: i rule: less_induct)
  case less
  note t = dir_table_nth [OF ok(1)]
  show ?case
  proof (cases "1 < length (ps ! i)")
    case True
    then obtain j where j: "is_parent ps j i"
      using has_parent [of ps i] ok(1) less.prems by (auto simp: dir_table_def)
    then obtain n where n: "ps ! i = ps ! j @ [n]" "j < length ps" by (auto simp: is_parent_def)
    have below: "strict_prefix (ps ! l) (ps ! i) \<longleftrightarrow> l = j \<or> strict_prefix (ps ! l) (ps ! j)"
      if "l < length ps" for l
      using n that t(3) by (auto simp: strict_prefix_def nth_eq_iff_index_eq)
    have IH: "dr_shown (rows ! j) \<longleftrightarrow>
        (\<forall>l < length ps. strict_prefix (ps ! l) (ps ! j) \<longrightarrow> row_open (rows ! l))"
      using less.hyps [of j] n by simp
    have "dr_shown (rows ! i) \<longleftrightarrow> row_open (rows ! j)" using ok(2) j by (simp add: dir_consistent_def)
    then show ?thesis using IH below n(2) by (auto simp: row_open_def)
  next
    case False
    then have "length (ps ! i) = 1" using t(4) [OF less.prems] by (cases "ps ! i") auto
    moreover from this have "\<not> strict_prefix (ps ! j) (ps ! i)" if "j < length ps" for j
      using t(4) [OF that] prefix_length_less [of "ps ! j" "ps ! i"] by (cases "ps ! j") auto
    ultimately show ?thesis using ok(2) less.prems by (simp add: dir_consistent_def)
  qed
qed

text \<open>
  C7. In every state that level links and arrows can produce, a row is displayed exactly when
  each proper ancestor of it in the table is displayed and open: nothing is ever shown below a
  closed or a hidden row, and nothing is ever lost below an open one.
\<close>

theorem displayed_iff_ancestors_open:
  assumes "dir_reachable ps rows" "i < length ps"
  shows "dr_shown (rows ! i) \<longleftrightarrow>
    (\<forall>j < length ps. strict_prefix (ps ! j) (ps ! i) \<longrightarrow> row_open (rows ! j))"
  using dir_reachable_ok [OF assms(1)] assms(2) by (intro shown_iff_open) simp_all

subsection \<open>The directory as a set of open nodes\<close>

text \<open>
  The specification of a directory: its state is the set of nodes that are displayed and open.
  A node is displayed when all nodes above it are in the set; toggling a node outside the set
  adds it, toggling one inside removes it and everything below it; a level link opens the nodes
  with an arrow above the level.
\<close>

definition open_set :: "nat list list \<Rightarrow> dir_row list \<Rightarrow> nat list set" where
  "open_set ps rows = {ps ! i | i. i < length ps \<and> row_open (rows ! i)}"

definition displayed :: "nat list list \<Rightarrow> dir_row list \<Rightarrow> nat list set" where
  "displayed ps rows = {ps ! i | i. i < length ps \<and> dr_shown (rows ! i)}"

definition spec_displayed :: "nat list list \<Rightarrow> nat list set \<Rightarrow> nat list set" where
  "spec_displayed ps S = {p \<in> set ps. \<forall>q \<in> set ps. strict_prefix q p \<longrightarrow> q \<in> S}"

definition spec_toggle :: "nat list \<Rightarrow> nat list set \<Rightarrow> nat list set" where
  "spec_toggle p S = (if p \<in> S then {q \<in> S. \<not> prefix p q} else insert p S)"

definition spec_level :: "nat list list \<Rightarrow> dir_row list \<Rightarrow> nat \<Rightarrow> nat list set" where
  "spec_level ps rows level =
     {ps ! i | i. i < length ps \<and> dr_arrow (rows ! i) \<noteq> None \<and> length (ps ! i) < level}"

lemma open_set_nth: "distinct ps \<Longrightarrow> i < length ps \<Longrightarrow> ps ! i \<in> open_set ps rows \<longleftrightarrow> row_open (rows ! i)"
  by (auto simp: open_set_def nth_eq_iff_index_eq)

lemma displayed_nth: "distinct ps \<Longrightarrow> i < length ps \<Longrightarrow> ps ! i \<in> displayed ps rows \<longleftrightarrow> dr_shown (rows ! i)"
  by (auto simp: displayed_def nth_eq_iff_index_eq)

lemma nodes_eqI:
  assumes "A \<subseteq> set ps" "B \<subseteq> set ps" "\<And>i. i < length ps \<Longrightarrow> ps ! i \<in> A \<longleftrightarrow> ps ! i \<in> B"
  shows "A = B"
  using assms by (metis in_set_conv_nth subset_eq subset_antisym)

lemma open_set_nodes: "open_set ps rows \<subseteq> set ps" "displayed ps rows \<subseteq> set ps" "spec_level ps rows n \<subseteq> set ps"
  by (auto simp: open_set_def displayed_def spec_level_def)

lemma toggle_refines:
  assumes "dir_table ps rows" "dir_consistent ps rows" "is_parent ps k c" "dr_shown (rows ! k)"
  shows "open_set ps (toggleFolder (row_key (ps ! k)) rows) = spec_toggle (ps ! k) (open_set ps rows)"
proof (rule nodes_eqI)
  have dist: "distinct ps" and k: "k < length ps"
    using dir_table_nth(3) [OF assms(1)] assms(3) by (simp_all add: is_parent_def)
  show "spec_toggle (ps ! k) (open_set ps rows) \<subseteq> set ps"
    using open_set_nodes(1) [of ps rows] k by (auto simp: spec_toggle_def)
  fix i assume i: "i < length ps"
  have par: "is_parent ps k i \<Longrightarrow> row_open (rows ! i) \<Longrightarrow> row_open (rows ! k)"
    using assms(2) by (auto simp: dir_consistent_def row_open_def)
  have pre: "prefix (ps ! k) (ps ! i) \<longleftrightarrow> strict_prefix (ps ! k) (ps ! i) \<or> i = k"
    using dist k i by (auto simp: strict_prefix_def nth_eq_iff_index_eq)
  have "row_open (toggleFolder (row_key (ps ! k)) rows ! i) \<longleftrightarrow>
      toggled_shown ps rows k i \<and> toggled_arrow ps rows k i = Some ArrowDown"
    using toggle_folder_ok(3,4) [OF assms i] by (simp add: row_open_def)
  also have "\<dots> \<longleftrightarrow> (if row_open (rows ! k) then row_open (rows ! i) \<and> \<not> prefix (ps ! k) (ps ! i)
      else i = k \<or> row_open (rows ! i))"
    using pre par assms(4) by (auto simp: toggled_shown_def toggled_arrow_def row_open_def)
  finally show "ps ! i \<in> open_set ps (toggleFolder (row_key (ps ! k)) rows) \<longleftrightarrow>
      ps ! i \<in> spec_toggle (ps ! k) (open_set ps rows)"
    using dist k i by (simp add: open_set_nth spec_toggle_def nth_eq_iff_index_eq)
qed (rule open_set_nodes)

lemma level_refines:
  assumes "dir_table ps rows" "1 \<le> level"
  shows "open_set ps (toggleLevel level rows) = spec_level ps rows level"
proof (rule nodes_eqI)
  have dist: "distinct ps" using dir_table_nth(3) [OF assms(1)] .
  fix i assume i: "i < length ps"
  have "row_open (toggleLevel level rows ! i) \<longleftrightarrow> dr_arrow (rows ! i) \<noteq> None \<and> length (ps ! i) < level"
    using toggle_level_fields [OF assms(1) i refl, of level] by (auto simp: row_open_def)
  then show "ps ! i \<in> open_set ps (toggleLevel level rows) \<longleftrightarrow> ps ! i \<in> spec_level ps rows level"
    using dist i by (auto simp: open_set_nth) (auto simp: spec_level_def nth_eq_iff_index_eq)
qed (rule open_set_nodes)+

text \<open>
  C8. The table implements the specification: what it displays is what the set of open nodes
  prescribes, and a click on an arrow or on a level link changes this set as specified,
  whatever the classes, arrows and displays of the hidden rows are.
\<close>

theorem directory_refines_open_set:
  assumes "dir_reachable ps rows"
  shows "displayed ps rows = spec_displayed ps (open_set ps rows) \<and>
    (\<forall>k c. is_parent ps k c \<and> ps ! k \<in> displayed ps rows \<longrightarrow>
       open_set ps (toggleFolder (row_key (ps ! k)) rows) = spec_toggle (ps ! k) (open_set ps rows)) \<and>
    (\<forall>level \<ge> 1. open_set ps (toggleLevel level rows) = spec_level ps rows level)"
proof -
  have ok: "dir_table ps rows" "dir_consistent ps rows" using dir_reachable_ok [OF assms] by simp_all
  have dist: "distinct ps" using dir_table_nth(3) [OF ok(1)] .
  have "displayed ps rows = spec_displayed ps (open_set ps rows)"
  proof (rule nodes_eqI)
    fix i assume i: "i < length ps"
    have "ps ! i \<in> spec_displayed ps (open_set ps rows) \<longleftrightarrow>
        (\<forall>j < length ps. strict_prefix (ps ! j) (ps ! i) \<longrightarrow> row_open (rows ! j))"
      using i dist by (simp add: spec_displayed_def all_set_conv_all_nth open_set_nth)
    then show "ps ! i \<in> displayed ps rows \<longleftrightarrow> ps ! i \<in> spec_displayed ps (open_set ps rows)"
      using i dist shown_iff_open [OF ok i] by (simp add: displayed_nth)
  qed (auto simp: displayed_def spec_displayed_def)
  moreover have "open_set ps (toggleFolder (row_key (ps ! k)) rows) = spec_toggle (ps ! k) (open_set ps rows)"
    if "is_parent ps k c" "ps ! k \<in> displayed ps rows" for k c
    using toggle_refines [OF ok that(1)] that dist by (simp add: displayed_nth is_parent_def)
  ultimately show ?thesis using level_refines [OF ok(1)] by blast
qed

subsection \<open>Sections\<close>

definition section_ok :: "section_state \<Rightarrow> bool" where
  "section_ok s \<longleftrightarrow> summary_shown s = (\<not> content_shown s) \<and>
     link_class s = (if content_shown s then ''opened'' else ''closed'') \<and>
     (\<exists>base. trigger_src s = base @ js (if content_shown s then ''open.png'' else ''closed.png''))"

lemma cut_end_append: "length t = n \<Longrightarrow> cut_end n (s @ t) = s"
  by (simp add: cut_end_def)

text \<open>
  C36. A section shows either its summary or its content, its link class and its image say
  which, a click swaps them, and a second click restores the section; the image keeps the
  directory it is loaded from.
\<close>

theorem toggleVisibility_involution:
  assumes "section_ok s"
  shows "section_ok (toggleVisibility s) \<and> content_shown (toggleVisibility s) = (\<not> content_shown s) \<and>
    toggleVisibility (toggleVisibility s) = s"
proof -
  obtain base where "trigger_src s = base @ js (if content_shown s then ''open.png'' else ''closed.png'')"
    using assms by (auto simp: section_ok_def)
  then show ?thesis
    using assms by (cases s) (auto simp: section_ok_def toggleVisibility_def cut_end_append)
qed

definition inherit_ok :: "inherit_state \<Rightarrow> bool" where
  "inherit_ok s \<longleftrightarrow> (\<exists>base n b. inherit_rows s = replicate (Suc n) b \<and>
     inherit_src s = base @ js (if b then ''open.png'' else ''closed.png''))"

text \<open>
  C37. The inherited members of a class are shown or hidden together: when all rows have the
  same display and the header image says which, a click changes all of them and the image, and
  a second click restores them.
\<close>

theorem toggleInherit_involution:
  assumes "inherit_ok s"
  shows "inherit_ok (toggleInherit s) \<and> inherit_rows (toggleInherit s) = map Not (inherit_rows s) \<and>
    toggleInherit (toggleInherit s) = s"
proof -
  obtain base n b where s: "inherit_rows s = replicate (Suc n) b"
    "inherit_src s = base @ js (if b then ''open.png'' else ''closed.png'')"
    using assms by (auto simp: inherit_ok_def)
  have "inherit_ok (toggleInherit s)"
    unfolding inherit_ok_def
    by (rule exI [of _ base], rule exI [of _ n], rule exI [of _ "\<not> b"])
      (simp add: toggleInherit_def s cut_end_append map_replicate_const)
  then show ?thesis
    using s by (cases s) (auto simp: toggleInherit_def cut_end_append map_replicate_const)
qed

end
