(* ===== verification/DirWitness.thy ===== *)
theory DirWitness
  imports DirCorrect
begin

text \<open>
  The directory properties on a part of the class hierarchy page: a root without children and a
  root with a child that has a child of its own.
\<close>

definition demo_paths :: "nat list list" where
  "demo_paths = [[0], [1], [1, 0], [1, 0, 0], [1, 1]]"

definition demo_row :: "nat list \<Rightarrow> arrow option \<Rightarrow> dir_row" where
  "demo_row p a = \<lparr>dr_id = row_name p, dr_shown = True, dr_even = False, dr_icon = None, dr_arrow = a\<rparr>"

definition demo_rows :: "dir_row list" where
  "demo_rows = [demo_row [0] None, demo_row [1] (Some ArrowDown), demo_row [1, 0] (Some ArrowDown),
     demo_row [1, 0, 0] None, demo_row [1, 1] None]"

lemma all_below_5: "(\<forall>i < (5::nat). P i) \<longleftrightarrow> P 0 \<and> P 1 \<and> P 2 \<and> P 3 \<and> P 4"
  by (simp add: eval_nat_numeral All_less_Suc) blast

lemma demo_order: "tree_order demo_paths"
  unfolding tree_order_def
  by (simp add: demo_paths_def All_less_Suc)

lemma demo_parent: "is_parent demo_paths j i \<longleftrightarrow> (j, i) \<in> {(1, 2), (2, 3), (1, 4)}"
proof -
  have "(\<forall>j < 5. \<forall>i < 5. is_parent demo_paths j i \<longleftrightarrow> (j, i) \<in> {(1, 2), (2, 3), (1, 4)})"
    unfolding all_below_5 by (simp add: is_parent_def demo_paths_def)
  moreover have "is_parent demo_paths j i \<Longrightarrow> j < 5 \<and> i < 5"
    by (simp add: is_parent_def demo_paths_def)
  moreover have "(j, i) \<in> {(1, 2), (2, 3), (1, 4)} \<Longrightarrow> j < 5 \<and> i < 5" by auto
  ultimately show ?thesis by blast
qed

lemma demo_table: "dir_table demo_paths demo_rows"
  using demo_order
  by (auto simp: dir_table_def demo_parent) (simp_all add: demo_rows_def demo_paths_def demo_row_def)

lemma demo_reachable: "dir_reachable demo_paths demo_rows"
  using demo_table by (rule dir_reachable.loaded) (simp add: demo_rows_def demo_row_def)

lemma demo_consistent: "dir_consistent demo_paths demo_rows"
  using dir_reachable_ok [OF demo_reachable] by simp

lemma demo_nths: "demo_rows ! Suc 0 = demo_row [1] (Some ArrowDown)" "demo_rows ! 2 = demo_row [1, 0] (Some ArrowDown)"
  "demo_rows ! 3 = demo_row [1, 0, 0] None" "demo_rows ! 0 = demo_row [0] None"
  "demo_paths ! Suc 0 = [1]" "demo_paths ! 3 = [1, 0, 0]" "demo_paths ! 0 = [0]" "length demo_paths = 5"
  by (simp_all add: demo_rows_def demo_paths_def)

theorem toggleFolder_opens_and_closes_witness:
  "dr_arrow (toggleFolder (row_key [1]) demo_rows ! 1) = Some ArrowRight \<and>
   \<not> dr_shown (toggleFolder (row_key [1]) demo_rows ! 3) \<and> dr_shown (toggleFolder (row_key [1]) demo_rows ! 0)"
proof -
  have "is_parent demo_paths 1 2" "dr_shown (demo_rows ! 1)" by (simp_all add: demo_parent demo_nths demo_row_def)
  from toggleFolder_opens_and_closes [OF demo_table demo_consistent this refl] show ?thesis
    by (simp add: demo_nths demo_row_def row_open_def all_below_5)
qed

theorem toggleLevel_shows_depth_witness:
  "dr_shown (toggleLevel 2 demo_rows ! 2) \<and> \<not> dr_shown (toggleLevel 2 demo_rows ! 3)"
  using toggleLevel_shows_depth [OF demo_table, of 2, OF _ refl]
  by (simp add: demo_nths all_below_5) (simp add: demo_paths_def)

theorem displayed_iff_ancestors_open_witness:
  "dr_shown (demo_rows ! 3) \<and> row_open (demo_rows ! 2)"
  using displayed_iff_ancestors_open [OF demo_reachable, of 3]
  by (simp add: demo_nths all_below_5 row_open_def demo_row_def)

theorem updateStripes_alternate_witness:
  "map dr_even (updateStripes demo_rows) = [True, False, True, False, True]"
  using updateStripes_alternate [of demo_rows]
  by (simp add: demo_rows_def demo_row_def updateStripes_def)

theorem directory_refines_open_set_witness:
  "open_set demo_paths (toggleFolder (row_key [1]) demo_rows) = spec_toggle [1] (open_set demo_paths demo_rows)"
proof -
  have "is_parent demo_paths 1 2" by (simp add: demo_parent)
  moreover have "demo_paths ! 1 \<in> displayed demo_paths demo_rows"
    by (auto simp: displayed_def demo_nths demo_row_def intro!: exI [of _ "Suc 0"])
  ultimately show ?thesis
    using directory_refines_open_set [OF demo_reachable] by (metis One_nat_def demo_nths(5))
qed

definition demo_section :: section_state where
  "demo_section = \<lparr>link_class = ''opened'', summary_shown = False, content_shown = True,
     trigger_src = js ''../open.png''\<rparr>"

theorem toggleVisibility_involution_witness:
  "toggleVisibility (toggleVisibility demo_section) = demo_section \<and>
   trigger_src (toggleVisibility demo_section) = js ''../closed.png''"
proof -
  have "section_ok demo_section"
    by (auto simp: section_ok_def demo_section_def js_def intro!: exI [of _ "js ''../''"])
  from toggleVisibility_involution [OF this] show ?thesis
    by (simp add: toggleVisibility_def demo_section_def cut_end_def js_def)
qed

definition demo_inherit :: inherit_state where
  "demo_inherit = \<lparr>inherit_rows = [False, False], inherit_src = js ''closed.png''\<rparr>"

theorem toggleInherit_involution_witness:
  "inherit_rows (toggleInherit demo_inherit) = [True, True] \<and>
   toggleInherit (toggleInherit demo_inherit) = demo_inherit"
proof -
  have "inherit_ok demo_inherit"
    unfolding inherit_ok_def
    by (rule exI [of _ "[]"], rule exI [of _ 1], rule exI [of _ False]) (simp add: demo_inherit_def)
  from toggleInherit_involution [OF this] show ?thesis by (simp add: demo_inherit_def)
qed

end
