(* ===== verification/Menu.thy ===== *)
theory Menu
  imports JsString
begin

text \<open>
  The navigation menu: the tree of \<open>docs/docs/menudata.js\<close> and \<open>initMenu\<close> of
  \<open>docs/docs/menu.js\<close>, which writes it as nested lists and appends the search box. An object
  of the data is an \<open>Item\<close>; its \<open>children\<close> are \<open>None\<close> when the object has no such property.
  The result is the text that jQuery turns into elements; the plugin \<open>smartmenus\<close>, which
  animates the list afterwards, is not part of the repository's own code.
\<close>

subsection \<open>The tree and its markup\<close>

datatype menu_item = Item (menu_text: jsstring) (menu_url: jsstring) (menu_children: "menu_item list option")

fun makeTree :: "jsstring \<Rightarrow> menu_item list option \<Rightarrow> jsstring"
  and make_item :: "jsstring \<Rightarrow> menu_item \<Rightarrow> jsstring"
  and make_items :: "jsstring \<Rightarrow> menu_item list \<Rightarrow> jsstring" where
  "makeTree relPath None = []"
| "makeTree relPath (Some children) = js ''<ul>'' @ make_items relPath children @ js ''</ul>''"
| "make_item relPath (Item t url children) =
     js ''<li><a href=\"'' @ relPath @ url @ js ''\">'' @ t @ js ''</a>'' @
       makeTree relPath children @ js ''</li>''"
| "make_items relPath [] = []"
| "make_items relPath (i # is) = make_item relPath i @ make_items relPath is"

subsection \<open>The menu of a page\<close>

definition server_search_item :: "jsstring \<Rightarrow> jsstring \<Rightarrow> jsstring \<Rightarrow> jsstring" where
  "server_search_item relPath searchPage search =
     js ''<li style=\"float:right\"><div id=\"MSearchBox\" class=\"MSearchBoxInactive\"><div class=\"left\"><form id=\"FSearchBox\" action=\"'' @
     searchPage @
     js ''\" method=\"get\"><img id=\"MSearchSelect\" src=\"'' @
     relPath @
     js ''search/mag.png\" alt=\"\"/><input type=\"text\" id=\"MSearchField\" name=\"query\" value=\"'' @
     search @
     js ''\" size=\"20\" accesskey=\"S\" onfocus=\"searchBox.OnSearchFieldFocus(true)\" onblur=\"searchBox.OnSearchFieldFocus(false)\"></form></div><div class=\"right\"></div></div></li>''"

definition client_search_item :: "jsstring \<Rightarrow> jsstring \<Rightarrow> jsstring" where
  "client_search_item relPath search =
     js ''<li style=\"float:right\"><div id=\"MSearchBox\" class=\"MSearchBoxInactive\"><span class=\"left\"><img id=\"MSearchSelect\" src=\"'' @
     relPath @
     js ''search/mag_sel.png\" onmouseover=\"return searchBox.OnSearchSelectShow()\" onmouseout=\"return searchBox.OnSearchSelectHide()\" alt=\"\"/><input type=\"text\" id=\"MSearchField\" value=\"'' @
     search @
     js ''\" accesskey=\"S\" onfocus=\"searchBox.OnSearchFieldFocus(true)\" onblur=\"searchBox.OnSearchFieldFocus(false)\" onkeyup=\"searchBox.OnSearchFieldChange(event)\"/></span><span class=\"right\"><a id=\"MSearchClose\" href=\"javascript:searchBox.CloseResultsWindow()\"><img id=\"MSearchCloseImg\" border=\"0\" src=\"'' @
     relPath @
     js ''search/close.png\" alt=\"\"/></a></span></div></li>''"

text \<open>
  The list that \<open>initMenu\<close> leaves in the empty navigation bar: its class, its id, the markup it
  was made of and the items appended to it. Without markup there is no first child to become
  the main menu, and the later selections find nothing.
\<close>

record main_menu =
  menu_class :: string
  menu_id :: string
  menu_markup :: jsstring
  menu_appended :: "jsstring list"

definition initMenu :: "menu_item list option \<Rightarrow> jsstring \<Rightarrow> bool \<Rightarrow> bool \<Rightarrow> jsstring \<Rightarrow> jsstring \<Rightarrow>
    main_menu option" where
  "initMenu menu relPath searchEnabled serverSide searchPage search =
     (if makeTree relPath menu = [] then None
      else Some \<lparr>menu_class = ''sm sm-dox'', menu_id = ''main-menu'', menu_markup = makeTree relPath menu,
        menu_appended =
          (if searchEnabled
           then if serverSide then [server_search_item relPath searchPage search]
                else [client_search_item relPath search]
           else [])\<rparr>)"

subsection \<open>The menu of the documentation\<close>

definition menudata :: "menu_item list option" where
  "menudata =
     Some [
    Item (js ''Main Page'') (js ''index.html'') None,
    Item (js ''Modules'') (js ''modules.html'') None,
    Item (js ''Classes'') (js ''annotated.html'') (Some [
      Item (js ''Class List'') (js ''annotated.html'') None,
      Item (js ''Class Hierarchy'') (js ''hierarchy.html'') None,
      Item (js ''Class Members'') (js ''functions.html'') (Some [
        Item (js ''All'') (js ''functions.html'') (Some [
          Item (js ''_'') (js ''functions.html#index__'') None,
          Item (js ''a'') (js ''functions_a.html#index_a'') None,
          Item (js ''b'') (js ''functions_b.html#index_b'') None,
          Item (js ''c'') (js ''functions_c.html#index_c'') None,
          Item (js ''d'') (js ''functions_d.html#index_d'') None,
          Item (js ''e'') (js ''functions_e.html#index_e'') None,
          Item (js ''f'') (js ''functions_f.html#index_f'') None,
          Item (js ''g'') (js ''functions_g.html#index_g'') None,
          Item (js ''h'') (js ''functions_h.html#index_h'') None,
          Item (js ''i'') (js ''functions_i.html#index_i'') None,
          Item (js ''l'') (js ''functions_l.html#index_l'') None,
          Item (js ''m'') (js ''functions_m.html#index_m'') None,
          Item (js ''n'') (js ''functions_n.html#index_n'') None,
          Item (js ''o'') (js ''functions_o.html#index_o'') None,
          Item (js ''p'') (js ''functions_p.html#index_p'') None,
          Item (js ''r'') (js ''functions_r.html#index_r'') None,
          Item (js ''s'') (js ''functions_s.html#index_s'') None,
          Item (js ''t'') (js ''functions_t.html#index_t'') None,
          Item (js ''u'') (js ''functions_u.html#index_u'') None,
          Item (js ''v'') (js ''functions_v.html#index_v'') None,
          Item (js ''w'') (js ''functions_w.html#index_w'') None]),
        Item (js ''Functions'') (js ''functions_func.html'') (Some [
          Item (js ''a'') (js ''functions_func.html#index_a'') None,
          Item (js ''b'') (js ''functions_func.html#index_b'') None,
          Item (js ''c'') (js ''functions_func.html#index_c'') None,
          Item (js ''d'') (js ''functions_func.html#index_d'') None,
          Item (js ''e'') (js ''functions_func.html#index_e'') None,
          Item (js ''f'') (js ''functions_func.html#index_f'') None,
          Item (js ''g'') (js ''functions_func.html#index_g'') None,
          Item (js ''h'') (js ''functions_func.html#index_h'') None,
          Item (js ''i'') (js ''functions_func.html#index_i'') None,
          Item (js ''l'') (js ''functions_func.html#index_l'') None,
          Item (js ''m'') (js ''functions_func.html#index_m'') None,
          Item (js ''n'') (js ''functions_func.html#index_n'') None,
          Item (js ''o'') (js ''functions_func.html#index_o'') None,
          Item (js ''p'') (js ''functions_func.html#index_p'') None,
          Item (js ''r'') (js ''functions_func.html#index_r'') None,
          Item (js ''s'') (js ''functions_func.html#index_s'') None,
          Item (js ''t'') (js ''functions_func.html#index_t'') None,
          Item (js ''v'') (js ''functions_func.html#index_v'') None,
          Item (js ''w'') (js ''functions_func.html#index_w'') None]),
        Item (js ''Variables'') (js ''functions_vars.html'') None,
        Item (js ''Properties'') (js ''functions_prop.html'') (Some [
          Item (js ''b'') (js ''functions_prop.html#index_b'') None,
          Item (js ''c'') (js ''functions_prop.html#index_c'') None,
          Item (js ''d'') (js ''functions_prop.html#index_d'') None,
          Item (js ''e'') (js ''functions_prop.html#index_e'') None,
          Item (js ''f'') (js ''functions_prop.html#index_f'') None,
          Item (js ''i'') (js ''functions_prop.html#index_i'') None,
          Item (js ''l'') (js ''functions_prop.html#index_l'') None,
          Item (js ''m'') (js ''functions_prop.html#index_m'') None,
          Item (js ''p'') (js ''functions_prop.html#index_p'') None,
          Item (js ''r'') (js ''functions_prop.html#index_r'') None,
          Item (js ''s'') (js ''functions_prop.html#index_s'') None,
          Item (js ''u'') (js ''functions_prop.html#index_u'') None])])]),
    Item (js ''Files'') (js ''files.html'') (Some [
      Item (js ''File List'') (js ''files.html'') None,
      Item (js ''File Members'') (js ''globals.html'') (Some [
        Item (js ''All'') (js ''globals.html'') (Some [
          Item (js ''h'') (js ''globals.html#index_h'') None,
          Item (js ''k'') (js ''globals.html#index_k'') None]),
        Item (js ''Functions'') (js ''globals_func.html'') None,
        Item (js ''Variables'') (js ''globals_vars.html'') None,
        Item (js ''Typedefs'') (js ''globals_type.html'') None,
        Item (js ''Enumerations'') (js ''globals_enum.html'') None,
        Item (js ''Enumerator'') (js ''globals_eval.html'') (Some [
          Item (js ''h'') (js ''globals_eval.html#index_h'') None]),
        Item (js ''Macros'') (js ''globals_defs.html'') None])])]"

end
