(* ===== verification/MenuCorrect.thy ===== *)
theory MenuCorrect
  imports Menu
begin

text \<open>
  The markup of the navigation menu can be read back: a reader of nested lists recovers the
  tree that \<open>makeTree\<close> wrote, with every address prefixed by the relative path. The reader takes
  a bound on the number of its calls; the length of the text is always enough.
\<close>

subsection \<open>Reading the markup\<close>

definition strip_lit :: "jsstring \<Rightarrow> jsstring \<Rightarrow> jsstring option" where
  "strip_lit p s = (if prefix p s then Some (drop (length p) s) else None)"

lemma strip_lit_append [simp]: "strip_lit p (p @ s) = Some s"
  by (simp add: strip_lit_def)

fun read_tree :: "nat \<Rightarrow> jsstring \<Rightarrow> (menu_item list option \<times> jsstring) option"
  and read_items :: "nat \<Rightarrow> jsstring \<Rightarrow> (menu_item list \<times> jsstring) option" where
  "read_tree 0 s = None"
| "read_tree (Suc n) s =
     (case strip_lit (js ''<ul>'') s of
        None \<Rightarrow> Some (None, s)
      | Some s1 \<Rightarrow>
          (case read_items n s1 of
             None \<Rightarrow> None
           | Some (is, s2) \<Rightarrow> map_option (Pair (Some is)) (strip_lit (js ''</ul>'') s2)))"
| "read_items 0 s = None"
| "read_items (Suc n) s =
     (case strip_lit (js ''<li><a href=\"'') s of
        None \<Rightarrow> Some ([], s)
      | Some s1 \<Rightarrow>
          (let url = takeWhile (\<lambda>c. c \<noteq> 34) s1; s2 = dropWhile (\<lambda>c. c \<noteq> 34) s1 in
           case strip_lit (js ''\">'') s2 of
             None \<Rightarrow> None
           | Some s3 \<Rightarrow>
               (let t = takeWhile (\<lambda>c. c \<noteq> 60) s3; s4 = dropWhile (\<lambda>c. c \<noteq> 60) s3 in
                case strip_lit (js ''</a>'') s4 of
                  None \<Rightarrow> None
                | Some s5 \<Rightarrow>
                    (case read_tree n s5 of
                       None \<Rightarrow> None
                     | Some (c, s6) \<Rightarrow>
                         (case strip_lit (js ''</li>'') s6 of
                            None \<Rightarrow> None
                          | Some s7 \<Rightarrow>
                              (case read_items n s7 of
                                 None \<Rightarrow> None
                               | Some (is, s8) \<Rightarrow> Some (Item t url c # is, s8)))))))"

definition read_menu :: "jsstring \<Rightarrow> menu_item list option option" where
  "read_menu s = (case read_tree (Suc (length s)) s of Some (m, []) \<Rightarrow> Some m | _ \<Rightarrow> None)"

subsection \<open>What is read\<close>

fun rebase :: "jsstring \<Rightarrow> menu_item \<Rightarrow> menu_item" where
  "rebase rel (Item t u c) = Item t (rel @ u) (map_option (map (rebase rel)) c)"

text \<open>No text holds a \<open><\<close> and no address a quote.\<close>

fun plain_item :: "menu_item \<Rightarrow> bool" where
  "plain_item (Item t u c) \<longleftrightarrow> 60 \<notin> set t \<and> 34 \<notin> set u \<and>
     (case c of None \<Rightarrow> True | Some is \<Rightarrow> list_all plain_item is)"

definition plain_menu :: "menu_item list option \<Rightarrow> bool" where
  "plain_menu m \<longleftrightarrow> (case m of None \<Rightarrow> True | Some is \<Rightarrow> list_all plain_item is)"

lemma read_until:
  assumes "d \<notin> set s" "p = d # p'"
  shows "takeWhile (\<lambda>c. c \<noteq> d) (s @ p @ r) = s" "dropWhile (\<lambda>c. c \<noteq> d) (s @ p @ r) = p @ r"
proof -
  have s: "\<And>c. c \<in> set s \<Longrightarrow> c \<noteq> d" using assms(1) by auto
  show "takeWhile (\<lambda>c. c \<noteq> d) (s @ p @ r) = s" "dropWhile (\<lambda>c. c \<noteq> d) (s @ p @ r) = p @ r"
    using takeWhile_append_stop [of s "\<lambda>c. c \<noteq> d" d "p' @ r"] s
      dropWhile_append_stop [of s "\<lambda>c. c \<noteq> d" d "p' @ r"]
    by (simp_all add: assms(2))
qed

lemma lit_heads: "js ''\">'' = 34 # js ''>''" "js ''</a>'' = 60 # js ''/a>''"
  by (simp_all add: js_def)

lemma lit_stops:
  "strip_lit (js ''<ul>'') (js ''</li>'' @ r) = None"
  "strip_lit (js ''<li><a href=\"'') (js ''</ul>'' @ r) = None"
  by (simp_all add: strip_lit_def js_def)

lemma read_tree_make:
  "plain_menu m \<Longrightarrow> 34 \<notin> set rel \<Longrightarrow> strip_lit (js ''<ul>'') rest = None \<Longrightarrow>
     length (makeTree rel m) < n \<Longrightarrow>
     read_tree n (makeTree rel m @ rest) = Some (map_option (map (rebase rel)) m, rest)"
  and "plain_item i \<Longrightarrow> 34 \<notin> set rel \<Longrightarrow> length (make_item rel i) < n \<Longrightarrow>
     read_items n (make_item rel i @ rest) =
       map_option (\<lambda>(is, s). (rebase rel i # is, s)) (read_items (n - 1) rest)"
  and "list_all plain_item is \<Longrightarrow> 34 \<notin> set rel \<Longrightarrow> strip_lit (js ''<li><a href=\"'') rest = None \<Longrightarrow>
     length (make_items rel is) < n \<Longrightarrow>
     read_items n (make_items rel is @ rest) = Some (map (rebase rel) is, rest)"
proof (induction rel m and rel i and rel "is" arbitrary: n rest and n rest and n rest
    rule: makeTree_make_item_make_items.induct)
  case (1 rel)
  then show ?case by (cases n) simp_all
next
  case (2 rel "is")
  then obtain k where n: "n = Suc k" by (cases n) simp_all
  have "read_items k (make_items rel is @ (js ''</ul>'' @ rest)) = Some (map (rebase rel) is, js ''</ul>'' @ rest)"
    using 2 n by (intro "2.IH") (simp_all add: plain_menu_def lit_stops)
  then show ?case by (simp add: n)
next
  case (3 rel t u c)
  then obtain k where n: "n = Suc k" by (cases n) simp_all
  have tree: "read_tree k (makeTree rel c @ (js ''</li>'' @ rest)) =
      Some (map_option (map (rebase rel)) c, js ''</li>'' @ rest)"
    using 3 n by (intro "3.IH") (simp_all add: plain_menu_def lit_stops)
  have url: "34 \<notin> set (rel @ u)" "60 \<notin> set t" using "3.prems" by simp_all
  note until = read_until [OF url(1) lit_heads(1)] read_until [OF url(2) lit_heads(2)]
  show ?case
    using tree until by (simp add: n Let_def split: option.split prod.split)
next
  case (4 rel)
  then show ?case by (cases n) simp_all
next
  case (5 rel i "is")
  have "read_items n (make_item rel i @ (make_items rel is @ rest)) =
      map_option (\<lambda>(is, s). (rebase rel i # is, s)) (read_items (n - 1) (make_items rel is @ rest))"
    using 5 by (intro "5.IH"(1)) simp_all
  moreover have "read_items (n - 1) (make_items rel is @ rest) = Some (map (rebase rel) is, rest)"
  proof (rule "5.IH"(2))
    have "0 < length (make_item rel i)" by (cases i) (simp add: js_def)
    moreover have "length (make_item rel i) + length (make_items rel is) < n" using "5.prems" by simp
    ultimately show "length (make_items rel is) < n - 1" by linarith
  qed (use "5.prems" in simp_all)
  ultimately show ?case by simp
qed

text \<open>
  C18. The markup of a menu determines the menu: for every tree whose texts hold no \<open><\<close> and
  whose addresses hold no quote, reading the text that \<open>makeTree\<close> writes gives the tree back,
  order, nesting and empty lists included, with every address prefixed by the relative path.
\<close>

theorem read_makeTree:
  assumes "plain_menu m" "34 \<notin> set relPath"
  shows "read_menu (makeTree relPath m) = Some (map_option (map (rebase relPath)) m)"
proof -
  have "strip_lit (js ''<ul>'') [] = None" by (simp add: strip_lit_def js_def)
  from read_tree_make(1) [OF assms this, of "Suc (length (makeTree relPath m))"] show ?thesis
    by (simp add: read_menu_def)
qed

subsection \<open>The menu of the documentation\<close>

lemma in_js: "of_char c \<in> set (js s) \<longleftrightarrow> c \<in> set s"
proof -
  have "of_char c = (of_char d :: jschar) \<Longrightarrow> c = d" for d
    using inj_js [of "[c]" "[d]"] by (simp only: js_def list.map) blast
  then show ?thesis by (force simp: js_def)
qed

lemma menudata_plain: "plain_menu menudata"
proof -
  have "60 = (of_char CHR ''<'' :: jschar)" "34 = (of_char (CHR 0x22) :: jschar)" by simp_all
  then have "60 \<in> set (js s) \<longleftrightarrow> CHR ''<'' \<in> set s" "34 \<in> set (js s) \<longleftrightarrow> CHR 0x22 \<in> set s" for s
    using in_js by metis+
  then show ?thesis by (simp add: plain_menu_def menudata_def)
qed

theorem read_makeTree_witness:
  "read_menu (makeTree (js ''../'') menudata) = Some (map_option (map (rebase (js ''../''))) menudata)"
  by (rule read_makeTree [OF menudata_plain]) (simp add: js_def)

end
