(* ===== verification/Spec2Isabelle.thy ===== *)
theory Spec2Isabelle
  imports FlowWitness DirWitness MenuCorrect
begin

text \<open>
  Verification of the JavaScript of Hex Fiend's repository: the search, the collapsible sections
  and the navigation menu of the class documentation under \<open>docs/docs/\<close>.

  The program. Every page of the documentation has a search box (\<open>SearchBox\<close> in
  \<open>docs/docs/search/search.js\<close>). The user types in its field or picks a section in
  its filter menu; after half a second without a key the box opens, in a frame, the index page
  of the text's first character, with the text in the query of the address. The index page
  (\<open>docs/docs/search/*.html\<close>, data in \<open>docs/docs/search/*_*.js\<close>)
  builds a row for each entry (\<open>createResults\<close>), reads the text back from its
  address, shows the rows whose name starts with it and moves the focus with the arrow keys
  (\<open>SearchResults\<close> in the same file). The tables
  \<open>docs/docs/search/searchdata.js\<close> say which sections and pages there are. On the
  other pages, \<open>docs/docs/dynsections.js\<close> opens and closes sections and the rows of
  the directory tables, and \<open>docs/docs/menu.js\<close> writes the navigation menu of
  \<open>docs/docs/menudata.js\<close> into the page.

  The theories, in the order of their imports.

  \<^item> \<open>Prelude\<close>: collections of simplification rules, list facts, and the
    interface \<open>prefix_code\<close> (codewords none of which is a prefix of another),
    interpreted twice: for the identifiers of \<open>convertToId\<close> and for the row ids of
    directory tables.
  \<^item> \<open>JsString\<close>: JavaScript strings as lists of 16-bit units and the library
    functions the code uses: \<open>toLowerCase\<close>, the three blank-stripping expressions,
    \<open>toString\<close>, \<open>indexOf\<close>, \<open>escape\<close>,
    \<open>unescape\<close>, the query of an address, and the comparison of a string with 1.
  \<^item> \<open>SearchId\<close>: \<open>convertToId\<close>; it preserves and reflects
    prefixes (C4) and is injective (C25).
  \<^item> \<open>Dom\<close>, \<open>FindChild\<close>: document trees, element references as
    paths, lookup by id, display; the pointer walk of \<open>FindChildElement\<close>, its
    termination, and its equivalence with a structural search (C15).
  \<^item> \<open>SearchResults\<close>, \<open>ResultsNav\<close>:
    \<open>createResults\<close>, the page around it, the \<open>Search\<close> of the class
    \<open>SearchResults\<close>, the scans, the key state, \<open>Nav\<close>,
    \<open>NavChild\<close>, \<open>Toggle\<close>.
  \<^item> \<open>SearchPage\<close>, \<open>SearchCorrect\<close>, \<open>NavCorrect\<close>,
    \<open>ResultsWitness\<close>: the page invariant (\<open>results_page\<close>: the document
    is the built page up to displays), the rows a search shows (C3), the query round trip (C24),
    the scans (C19), press and repeat of keys (C29), the arrow keys (C20, C21, C34, C22),
    absence of errors (C11), walking down and back up (C12, C23), toggling (C27), and concrete
    instances.
  \<^item> \<open>SearchIndex\<close>, \<open>SearchBox\<close>: the tables and the class
    \<open>SearchBox\<close> with the timers of the window and the events of the page.
  \<^item> \<open>BoxInvariant\<close>, \<open>BoxCorrect\<close>, \<open>BoxWitness\<close>:
    the interface \<open>timer_service\<close> and its interpretation on the model's timers; the
    invariant of every reachable state (C5); the page a search opens (C13, C35), and that typing
    leads to it (C6); the only error (C16, C33); debouncing, key by key (C17) and over all runs
    from the loading of the page that change the section only while no search waits
    (\<open>calm_reachable\<close>, C9), and the ways it fails (C31, C32, C30).
  \<^item> \<open>SearchFlow\<close>: box and page together (C2), for any well-formed index,
    over the interface \<open>results_frame\<close> (what the box relies on when it hands an
    address to the frame), which the results page provides.
  \<^item> \<open>IndexFormat\<close>, \<open>IndexAll\<close>, \<open>IndexMembers\<close>,
    \<open>IndexKinds\<close>: the 70 index files of the repository with their 716 entries, each
    checked against its page (C10 collects the checks).
  \<^item> \<open>SearchSite\<close>, \<open>FlowWitness\<close>: the table of all pages, and
    the contract of the whole search: every entry of the documentation is found by any prefix of
    its name (C1).
  \<^item> \<open>DynSections\<close>, \<open>DirTree\<close>, \<open>DirCorrect\<close>,
    \<open>DirWitness\<close>: the collapsible parts of a page; row ids as tree paths; folders
    (C14), levels (C26), stripes (C28), the invariant of every reachable table (C7), the
    refinement of an abstract set of open nodes (C8), sections and inherited members (C36, C37).
  \<^item> \<open>Menu\<close>, \<open>MenuCorrect\<close>: the menu tree, its markup, the data
    of the documentation, and a reader that recovers the tree from the markup (C18).

  Correspondence. A string is a list of 16-bit words, so that \<open>charCodeAt\<close>,
  \<open>length\<close> and \<open>substr\<close> count units as the language does. An object is
  a record, a method a function from the object's state to the state it leaves; a method that
  can raise returns the error as a value (\<open>TypeError\<close> for a property or call on
  \<open>undefined\<close> or \<open>null\<close>). Statements are translated in their order,
  every early return is a branch. The browser calls that the code makes (\<open>focus\<close>,
  \<open>blur\<close>, timers, the frame's location) act on the state of the box; focusing an
  element of a results page is returned as an effect, which records the call of
  \<open>focus\<close> and its target (whether a browser moves the focus to a target inside a
  hidden row is its own affair). From the search field, the call reaches the frame only while
  the results window is on display. Loops over lists are recursive functions; the \<open>while
  (1)\<close> scans and the pointer walk are total functions with a termination proof, without
  fuel. The only fuel is that of the reader of menus, which is a specification; the length of
  its input is proved to be enough.

  Parameters. The Unicode lower-case mapping \<open>U\<close> outside ASCII and the layout
  \<open>L\<close> of the page (element sizes and positions) come from the browser; theorems
  hold for all of them unless a hypothesis says otherwise.

  What the proofs showed. Six places where the code does not do what it means to: the Down key
  of the filter menu passes the last section (C33); the test for surrogate pairs compares a text
  with a number (C35); a search started by a change of section forgets a waiting timer (C31); a
  timer survives the deactivation of the panel and searches for the label (C32); a text with an
  inner blank is searched again after every key (C30); the up arrow can enter a hidden row
  (C34). These are stated as theorems about what the code does.

  Not modelled: the value \<open>false\<close> with which \<open>toggleVisibility\<close> stops
  the link; the case of ids outside ASCII in the row ids of directory tables, which are ASCII;
  the alert of the \<open>SearchBox\<close> constructor for missing parameters; the vendored
  \<open>docs/docs/jquery.js\<close> (its selections are written out where
  \<open>dynsections.js\<close> and \<open>menu.js\<close> use them), the parsing of markup into
  elements by the browser, and the programs in other languages: the Objective-C engine under
  \<open>framework\<close>, the Linux user interface \<open>ui/linux\<close>, the macOS
  application under \<open>app\<close>.
\<close>

end
